(* ===== verification/Prelude.thy ===== *)
theory Prelude imports Main "HOL-Library.Word" "HOL-Library.List_Lexorder" "HOL-Library.Char_ord" "HOL-Library.Code_Target_Nat" begin

text \<open>
  What every component shares: machine integers and times, Go errors and \<open>errors.Is\<close>,
  gRPC status codes, the parts of package \<open>strings\<close> and \<open>strconv\<close> the sources use
  (on byte strings, so \<open>len\<close> counts bytes), the public HTTP response contract of
  \<open>internal/dto/response\<close>, and the way a call to PostgreSQL or Redis can fail.
\<close>

section \<open>Numbers and times\<close>

type_synonym uint64 = "64 word"
type_synonym uint32 = "32 word"

text \<open>A point in time in nanoseconds; a \<open>*time.Time\<close> is a \<open>time option\<close>.\<close>

type_synonym time = int

text \<open>Go strings and byte slices are byte sequences; \<open>char\<close> is a byte.\<close>

type_synonym bytes = string

text \<open>The bound \<open>1<<63-1\<close> of the sources: the largest BIGINT key.\<close>

definition max_bigint :: uint64 where
  "max_bigint = 2 ^ 63 - 1"

lemma max_bigint_code [code]: "max_bigint = 9223372036854775807"
  by (simp add: max_bigint_def)

section \<open>gRPC codes and Go errors\<close>

datatype code =
    OK | Canceled | Unknown | InvalidArgument | DeadlineExceeded | NotFound | AlreadyExists
  | PermissionDenied | ResourceExhausted | FailedPrecondition | Aborted | OutOfRange
  | Unimplemented | Internal | Unavailable | DataLoss | Unauthenticated

text \<open>
  Package-level \<open>errors.New\<close> values are identities, hence constructors: \<open>ErrUserNotFound\<close>,
  \<open>ErrUserNotExists\<close> and \<open>ErrUserDisabled\<close> are those of package \<open>user\<close>, \<open>ErrInvalidRequest\<close> and
  \<open>ErrAuthUserDisabled\<close> those of \<open>auth\<close>, \<open>ErrInvalidExternalKey\<close> is the \<open>ErrInvalidRequest\<close> of
  \<open>external_apikey\<close>. \<open>Status\<close> is an
  error made by \<open>status.Error\<close>, \<open>Wrap\<close> one made by \<open>fmt.Errorf\<close> with the verb w, \<open>HTTPError\<close> the
  error type of the upstream server, \<open>RetrieveError\<close> that of \<open>oauth2\<close> with the error code and the
  status of the response if there was one, \<open>NetError\<close> an error with a \<open>Timeout()\<close> (\<open>net.Error\<close>),
  \<open>UrlError\<close> the one the HTTP client wraps every failure in, itself a \<open>net.Error\<close>, and \<open>Other\<close>
  any further error of a library or of \<open>fmt.Errorf\<close> without wrapping.
\<close>

datatype go_error =
    ErrInvalidAccounts | ErrApikeyNotFound | ErrInvalidApikey | ErrUnsupportedModel
  | ErrOauthForbidden | ErrCheckUnavailable | ErrCredentialUnavailable
  | ErrRefreshTokenNotFound | ErrInvalidOAuthState | ErrUnsupported
  | ErrInvalidDeviceFlow | ErrDeviceFlowRejected | ErrDeviceFlowFailed | ErrDeviceFlowTimeout
  | ErrInvalidRefresh | ErrRefreshRejected | ErrRefreshFailed | ErrRefreshTimeout
  | ErrInvalidExchange | ErrProviderUnavailable | ErrExchangeRejected | ErrUpstreamUnavailable
  | ErrExchangeTimeout | ErrExchangeFailed | ErrInvalidIDToken | ErrOAuthNotFound
  | ErrUserNotFound | ErrUserNotExists | ErrUserDisabled | ErrInvalidRequest | ErrInvalidRefreshToken
  | ErrUserExists | ErrAuthUserDisabled | ErrUnsupportedRole | ErrInvalidToken | ErrInvalidExternalKey
  | AuthenticationRequired
  | ErrRecordNotFound | ErrForeignKeyViolated | ErrDuplicatedKey
  | RedisNil | ContextCanceled | ContextDeadlineExceeded | ErrUnexpectedEOF | ErrTooLong
  | HTTPError nat | NetError bool | RetrieveError string "nat option"
  | Status code string
  | Wrap string go_error
  | UrlError bool go_error
  | Other string

text \<open>\<open>errors.Is\<close>: the error itself or one it wraps is the target.\<close>

fun errors_Is :: "go_error \<Rightarrow> go_error \<Rightarrow> bool" where
  "errors_Is (Wrap m e) t \<longleftrightarrow> Wrap m e = t \<or> errors_Is e t"
| "errors_Is (UrlError b e) t \<longleftrightarrow> UrlError b e = t \<or> errors_Is e t"
| "errors_Is e t \<longleftrightarrow> e = t"

text \<open>\<open>status.Code\<close> of a non-nil error: an error that carries no status is \<open>Unknown\<close>.\<close>

fun status_Code :: "go_error \<Rightarrow> code" where
  "status_Code (Status c m) = c"
| "status_Code (Wrap m e) = status_Code e"
| "status_Code (UrlError b e) = status_Code e"
| "status_Code e = Unknown"

text \<open>\<open>status.FromError\<close> finds a status in the error or one it wraps.\<close>

fun has_status :: "go_error \<Rightarrow> bool" where
  "has_status (Status c m) \<longleftrightarrow> True"
| "has_status (Wrap m e) \<longleftrightarrow> has_status e"
| "has_status (UrlError b e) \<longleftrightarrow> has_status e"
| "has_status e \<longleftrightarrow> False"

text \<open>\<open>errors.As\<close> for the three error types the sources look for. A \<open>net.Error\<close> gives its timeout.\<close>

fun as_HTTPError :: "go_error \<Rightarrow> nat option" where
  "as_HTTPError (HTTPError n) = Some n"
| "as_HTTPError (Wrap m e) = as_HTTPError e"
| "as_HTTPError (UrlError b e) = as_HTTPError e"
| "as_HTTPError e = None"

fun as_RetrieveError :: "go_error \<Rightarrow> (string \<times> nat option) option" where
  "as_RetrieveError (RetrieveError c st) = Some (c, st)"
| "as_RetrieveError (Wrap m e) = as_RetrieveError e"
| "as_RetrieveError (UrlError b e) = as_RetrieveError e"
| "as_RetrieveError e = None"

fun as_NetError :: "go_error \<Rightarrow> bool option" where
  "as_NetError (NetError b) = Some b"
| "as_NetError (UrlError b e) = Some b"
| "as_NetError ContextDeadlineExceeded = Some True"
| "as_NetError (Wrap m e) = as_NetError e"
| "as_NetError e = None"

text \<open>\<open>status.FromContextError(err).Code()\<close>; the message of such a status is left out where it is returned.\<close>

definition FromContextError :: "go_error \<Rightarrow> code" where
  "FromContextError e =
     (if errors_Is e ContextDeadlineExceeded then DeadlineExceeded
      else if errors_Is e ContextCanceled then Canceled else Unknown)"

lemma errors_Is_refl [simp]: "errors_Is e e"
  by (cases e) auto

lemma ne_if_member: "x \<in> set xs \<Longrightarrow> xs \<noteq> []"
  by auto

section \<open>Calls to a service that may fail\<close>

text \<open>
  PostgreSQL and Redis run elsewhere. A call has the effect of its statement, or fails: the
  request was \<open>Lost\<close> before it was executed, or it was executed and the reply was lost
  (\<open>Unacked\<close>). Which calls fail is a parameter of every operation, a map from the statement
  to its fault.
\<close>

datatype fault = Lost go_error | Unacked go_error

definition call ::
  "fault option \<Rightarrow> ('s \<Rightarrow> (go_error + 'a) \<times> 's) \<Rightarrow> 's \<Rightarrow> (go_error + 'a) \<times> 's" where
  "call f op s = (case f of
       None \<Rightarrow> op s
     | Some (Lost e) \<Rightarrow> (Inl e, s)
     | Some (Unacked e) \<Rightarrow> (Inl e, snd (op s)))"

text \<open>A read has no effect; either way of failing gives its error.\<close>

definition query :: "fault option \<Rightarrow> (go_error + 'a) \<Rightarrow> go_error + 'a" where
  "query f r = (case f of None \<Rightarrow> r | Some (Lost e) \<Rightarrow> Inl e | Some (Unacked e) \<Rightarrow> Inl e)"

text \<open>
  \<open>database.Transaction(fn)\<close>: an error of \<open>fn\<close> rolls back, otherwise the transaction commits;
  the commit is itself a call.
\<close>

definition transaction ::
  "fault option \<Rightarrow> ('s \<Rightarrow> (go_error + 'a) \<times> 's) \<Rightarrow> 's \<Rightarrow> (go_error + 'a) \<times> 's" where
  "transaction f body s = (case body s of
       (Inl e, _) \<Rightarrow> (Inl e, s)
     | (Inr x, s') \<Rightarrow> (case f of
         None \<Rightarrow> (Inr x, s')
       | Some (Lost e) \<Rightarrow> (Inl e, s)
       | Some (Unacked e) \<Rightarrow> (Inl e, s')))"

text \<open>The sequencing \<open>if err != nil { return err }\<close> of statements with an effect.\<close>

definition if_ok ::
  "(go_error + 'a) \<times> 's \<Rightarrow> ('a \<Rightarrow> 's \<Rightarrow> (go_error + 'b) \<times> 's) \<Rightarrow> (go_error + 'b) \<times> 's" where
  "if_ok r k = (case r of (Inl e, s) \<Rightarrow> (Inl e, s) | (Inr x, s) \<Rightarrow> k x s)"

named_theorems go_defs "definitions unfolded when an operation is run symbolically"
named_theorems keeps "operations that keep an invariant"

lemma if_ok_simps [simp]:
  "if_ok (Inl e, s) k = (Inl e, s)"
  "if_ok (Inr x, s) k = k x s"
  by (simp_all add: if_ok_def)

lemma if_ok_InrD:
  "if_ok r k = (Inr y, s') \<Longrightarrow> \<exists>x s. r = (Inr x, s) \<and> k x s = (Inr y, s')"
  by (auto simp: if_ok_def split: prod.splits sum.splits)

lemma call_None [simp]: "call None op s = op s"
  by (simp add: call_def)

lemma query_None [simp]: "query None r = r"
  by (simp add: query_def)

lemma query_InrD: "query f r = Inr x \<Longrightarrow> f = None \<and> r = Inr x"
  by (auto simp: query_def split: option.splits fault.splits)

lemma call_InrD: "call f op s = (Inr x, s') \<Longrightarrow> f = None \<and> op s = (Inr x, s')"
  by (auto simp: call_def split: option.splits fault.splits)

lemma call_snd: "snd (call f op s) = s \<or> snd (call f op s) = snd (op s)"
  by (auto simp: call_def split: option.splits fault.splits)

lemma transaction_InrD:
  "transaction f body s = (Inr x, s') \<Longrightarrow> f = None \<and> body s = (Inr x, s')"
  by (auto simp: transaction_def split: option.splits fault.splits sum.splits prod.splits)

lemma transaction_cases:
  "snd (transaction f body s) = s
    \<or> (\<exists>x. fst (body s) = Inr x \<and> snd (transaction f body s) = snd (body s))"
  by (auto simp: transaction_def split: option.splits fault.splits sum.splits prod.splits)

lemma if_ok_snd:
  "snd (if_ok r k) = snd r \<or> (\<exists>x. fst r = Inr x \<and> snd (if_ok r k) = snd (k x (snd r)))"
  by (auto simp: if_ok_def split: prod.splits sum.splits)

section \<open>Invariants of operations\<close>

text \<open>
  A predicate of the state that a composed operation keeps when its statements keep it: the
  rules for each way the sources compose statements, for one fixed predicate.
\<close>

locale kept =
  fixes inv :: "'s \<Rightarrow> bool"
begin

lemma pair: "inv s \<Longrightarrow> inv (snd (x, s))"
  by simp

lemma called: "inv s \<Longrightarrow> inv (snd (op s)) \<Longrightarrow> inv (snd (call f op s))"
  using call_snd [of f op s] by auto

lemma sequenced:
  assumes "inv (snd r)" and "\<And>x s. inv s \<Longrightarrow> inv (snd (k x s))"
  shows "inv (snd (if_ok r k))"
  using if_ok_snd [of r k] assms by auto

lemma sequenced_result:
  assumes "inv (snd r)" and "\<And>x s. r = (Inr x, s) \<Longrightarrow> inv s \<Longrightarrow> inv (snd (k x s))"
  shows "inv (snd (if_ok r k))"
  using assms by (cases r) (auto simp: if_ok_def split: sum.splits)

lemma committed: "inv s \<Longrightarrow> inv (snd (body s)) \<Longrightarrow> inv (snd (transaction f body s))"
  using transaction_cases [of f body s] by auto

lemma branched:
  assumes "c \<Longrightarrow> inv (snd a)" and "\<not> c \<Longrightarrow> inv (snd b)"
  shows "inv (snd (if c then a else b))"
  using assms by simp

lemma sum_cased:
  assumes "\<And>e. x = Inl e \<Longrightarrow> inv (snd (g e))" and "\<And>y. x = Inr y \<Longrightarrow> inv (snd (h y))"
  shows "inv (snd (case x of Inl e \<Rightarrow> g e | Inr y \<Rightarrow> h y))"
  using assms by (simp split: sum.splits)

lemma prod_cased:
  assumes "\<And>a b. x = (a, b) \<Longrightarrow> inv (snd (g a b))"
  shows "inv (snd (case x of (a, b) \<Rightarrow> g a b))"
  using assms by (simp split: prod.splits)

lemmas steps = pair called sequenced committed branched sum_cased prod_cased

end

section \<open>Registries\<close>

text \<open>
  What a client of a registry relies on: an entry is found under the key it was registered with,
  whatever else is registered elsewhere, and the latest entry of a key counts.
\<close>

locale registry =
  fixes find :: "'r \<Rightarrow> 'k \<Rightarrow> 'v option" and add :: "'k \<Rightarrow> 'v \<Rightarrow> 'r \<Rightarrow> 'r" and empty :: 'r
  assumes find_empty: "find empty k = None"
    and find_add: "find (add k v r) k' = (if k' = k then Some v else find r k')"
begin

text \<open>Registering a list of entries one after the other.\<close>

definition add_all :: "('k \<times> 'v) list \<Rightarrow> 'r \<Rightarrow> 'r" where
  "add_all es r = foldl (\<lambda>r (k, v). add k v r) r es"

lemma find_add_all:
  "find (add_all es r) k = (case map_of (rev es) k of None \<Rightarrow> find r k | Some v \<Rightarrow> Some v)"
proof (induction es rule: rev_induct)
  case Nil
  show ?case by (simp add: add_all_def)
next
  case (snoc e es)
  then show ?case by (cases e) (auto simp: add_all_def find_add)
qed

lemma find_registered:
  assumes "\<And>e. e \<in> set es \<Longrightarrow> snd e = v"
  shows "find (add_all es empty) k = (if k \<in> fst ` set es then Some v else None)"
proof -
  have "map_of (rev es) k = (if k \<in> fst ` set es then Some v else None)"
  proof (cases "map_of (rev es) k")
    case None
    then show ?thesis by (simp add: map_of_eq_None_iff)
  next
    case (Some w)
    then have "(k, w) \<in> set es" by (auto dest: map_of_SomeD)
    with assms [of "(k, w)"] have "w = v" and "k \<in> fst ` set es" by force+
    with Some show ?thesis by simp
  qed
  then show ?thesis by (simp add: find_add_all find_empty)
qed

end

end
