(* ===== verification/GoLib.thy ===== *)
theory GoLib imports Prelude begin

text \<open>
  The functions of Go's \<open>strings\<close>, \<open>strconv\<close>, \<open>encoding/hex\<close> and \<open>encoding/base64\<close> that the
  sources call, on byte strings, with the lemmas the components share.
\<close>

section \<open>Package strings\<close>

text \<open>
  The number of bytes of the white-space rune a byte string starts with, 0 if it does not
  start with one: \<open>unicode.IsSpace\<close> on the UTF-8 encodings. All these encodings start with a
  byte that is not a continuation byte, so a scan by bytes finds the same runes as the
  decoder, also in invalid UTF-8.
\<close>

definition space1 :: "char \<Rightarrow> bool" where
  "space1 a \<longleftrightarrow> a \<in> set [CHR 0x09, CHR 0x0A, CHR 0x0B, CHR 0x0C, CHR 0x0D, CHR 0x20]"

definition space2 :: "char \<Rightarrow> char \<Rightarrow> bool" where
  "space2 a b \<longleftrightarrow> a = CHR 0xC2 \<and> (b = CHR 0x85 \<or> b = CHR 0xA0)"

definition space3 :: "char \<Rightarrow> char \<Rightarrow> char \<Rightarrow> bool" where
  "space3 a b c \<longleftrightarrow>
     (a = CHR 0xE1 \<and> b = CHR 0x9A \<and> c = CHR 0x80)
   \<or> (a = CHR 0xE2 \<and> b = CHR 0x80 \<and>
       c \<in> set [CHR 0x80, CHR 0x81, CHR 0x82, CHR 0x83, CHR 0x84, CHR 0x85, CHR 0x86, CHR 0x87,
               CHR 0x88, CHR 0x89, CHR 0x8A, CHR 0xA8, CHR 0xA9, CHR 0xAF])
   \<or> (a = CHR 0xE2 \<and> b = CHR 0x81 \<and> c = CHR 0x9F)
   \<or> (a = CHR 0xE3 \<and> b = CHR 0x80 \<and> c = CHR 0x80)"

definition space_len :: "bytes \<Rightarrow> nat" where
  "space_len s = (case s of
       [] \<Rightarrow> 0
     | a # t \<Rightarrow> if space1 a then 1 else (case t of
         [] \<Rightarrow> 0
       | b # u \<Rightarrow> if space2 a b then 2 else (case u of
           [] \<Rightarrow> 0
         | c # _ \<Rightarrow> if space3 a b c then 3 else 0)))"

text \<open>The same for the rune a byte string ends with.\<close>

definition last_bytes :: "nat \<Rightarrow> bytes \<Rightarrow> bytes" where
  "last_bytes n s = drop (length s - n) s"

definition space_len_end :: "bytes \<Rightarrow> nat" where
  "space_len_end s =
     (if space_len (last_bytes 1 s) = 1 then 1
      else if space_len (last_bytes 2 s) = 2 then 2
      else if space_len (last_bytes 3 s) = 3 then 3 else 0)"

lemma space_len_Nil [simp]: "space_len [] = 0"
  by (simp add: space_len_def)

lemma space_len_le: "space_len s \<le> length s"
  by (auto simp: space_len_def split: list.splits)

lemma space_len_end_le: "space_len_end s \<le> length s"
  using space_len_le [of "last_bytes 1 s"] space_len_le [of "last_bytes 2 s"]
    space_len_le [of "last_bytes 3 s"]
  by (auto simp: space_len_end_def last_bytes_def)

lemma space_len_end_Nil [simp]: "space_len_end [] = 0"
  by (simp add: space_len_end_def last_bytes_def)

function TrimLeftSpace :: "bytes \<Rightarrow> bytes" where
  "TrimLeftSpace s =
     (if space_len s = 0 then s else TrimLeftSpace (drop (space_len s) s))"
  by pat_completeness auto
termination
proof (relation "measure length")
  fix s :: bytes
  assume "space_len s \<noteq> 0"
  then show "(drop (space_len s) s, s) \<in> measure length"
    using space_len_le [of s] by auto
qed simp

function TrimRightSpace :: "bytes \<Rightarrow> bytes" where
  "TrimRightSpace s =
     (if space_len_end s = 0 then s
      else TrimRightSpace (take (length s - space_len_end s) s))"
  by pat_completeness auto
termination
proof (relation "measure length")
  fix s :: bytes
  assume "space_len_end s \<noteq> 0"
  then show "(take (length s - space_len_end s) s, s) \<in> measure length"
    using space_len_end_le [of s] by auto
qed simp

declare TrimLeftSpace.simps [simp del] TrimRightSpace.simps [simp del]

text \<open>\<open>strings.TrimSpace\<close>\<close>

definition TrimSpace :: "bytes \<Rightarrow> bytes" where
  "TrimSpace s = TrimRightSpace (TrimLeftSpace s)"

text \<open>The test \<open>strings.TrimSpace(s) == ""\<close> the sources guard their inputs with.\<close>

abbreviation blank :: "bytes \<Rightarrow> bool" where
  "blank s \<equiv> TrimSpace s = []"

text \<open>\<open>strings.Fields\<close>: the maximal runs without white space.\<close>

function fields_from :: "bytes \<Rightarrow> bytes \<Rightarrow> bytes list" where
  "fields_from cur s =
     (case s of
        [] \<Rightarrow> if cur = [] then [] else [cur]
      | c # r \<Rightarrow>
          if space_len s = 0 then fields_from (cur @ [c]) r
          else (if cur = [] then [] else [cur]) @ fields_from [] (drop (space_len s) s))"
  by pat_completeness auto
termination
proof (relation "measure (\<lambda>(cur, s). length s)")
  fix cur s c r
  assume "s = c # r" and "space_len s \<noteq> 0"
  then show "(([], drop (space_len s) s), cur, s) \<in> measure (\<lambda>(cur, s). length s)"
    using space_len_le [of s] by auto
qed auto

declare fields_from.simps [simp del]

definition Fields :: "bytes \<Rightarrow> bytes list" where
  "Fields s = fields_from [] s"

definition HasPrefix :: "bytes \<Rightarrow> bytes \<Rightarrow> bool" where
  "HasPrefix s p \<longleftrightarrow> take (length p) s = p"

definition HasSuffix :: "bytes \<Rightarrow> bytes \<Rightarrow> bool" where
  "HasSuffix s p \<longleftrightarrow> length p \<le> length s \<and> drop (length s - length p) s = p"

definition TrimPrefix :: "bytes \<Rightarrow> bytes \<Rightarrow> bytes" where
  "TrimPrefix s p = (if HasPrefix s p then drop (length p) s else s)"

text \<open>\<open>strings.TrimRight\<close> and \<open>TrimLeft\<close> with a set of ASCII characters\<close>

definition TrimLeftSet :: "bytes \<Rightarrow> bytes \<Rightarrow> bytes" where
  "TrimLeftSet s cs = dropWhile (\<lambda>c. c \<in> set cs) s"

definition TrimRightSet :: "bytes \<Rightarrow> bytes \<Rightarrow> bytes" where
  "TrimRightSet s cs = rev (dropWhile (\<lambda>c. c \<in> set cs) (rev s))"

text \<open>
  \<open>strings.EqualFold(s, t)\<close> for a \<open>t\<close> of ASCII letters other than k and s (the only ones that
  fold with a non-ASCII rune): equal up to ASCII case.
\<close>

definition ascii_lower :: "char \<Rightarrow> char" where
  "ascii_lower c =
     (if c \<in> set ''ABCDEFGHIJKLMNOPQRSTUVWXYZ''
      then (case c of Char b0 b1 b2 b3 b4 b5 b6 b7 \<Rightarrow> Char b0 b1 b2 b3 b4 True b6 b7) else c)"

definition ascii_upper :: "char \<Rightarrow> char" where
  "ascii_upper c =
     (if c \<in> set ''abcdefghijklmnopqrstuvwxyz''
      then (case c of Char b0 b1 b2 b3 b4 b5 b6 b7 \<Rightarrow> Char b0 b1 b2 b3 b4 False b6 b7) else c)"

definition EqualFold :: "bytes \<Rightarrow> bytes \<Rightarrow> bool" where
  "EqualFold s t \<longleftrightarrow> map ascii_lower s = map ascii_lower t"

text \<open>\<open>strings.Join\<close>\<close>

fun Join :: "bytes list \<Rightarrow> bytes \<Rightarrow> bytes" where
  "Join [] sep = []"
| "Join [x] sep = x"
| "Join (x # y # ys) sep = x @ sep @ Join (y # ys) sep"

lemma HasPrefix_append [simp]: "HasPrefix (p @ s) p"
  by (simp add: HasPrefix_def)

lemma TrimPrefix_append [simp]: "TrimPrefix (p @ s) p = s"
  by (simp add: TrimPrefix_def HasPrefix_def)

lemma space_len_take: "space_len s = 0 \<Longrightarrow> space_len (take n s) = 0"
  by (auto simp: space_len_def take_Cons split: list.splits if_splits nat.splits)

lemma TrimLeftSpace_start: "space_len (TrimLeftSpace s) = 0"
proof (induction s rule: TrimLeftSpace.induct)
  case (1 s)
  then show ?case by (cases "space_len s = 0") (simp_all add: TrimLeftSpace.simps [of s])
qed

lemma TrimRightSpace_end: "space_len_end (TrimRightSpace s) = 0"
proof (induction s rule: TrimRightSpace.induct)
  case (1 s)
  then show ?case
    by (cases "space_len_end s = 0") (simp_all add: TrimRightSpace.simps [of s])
qed

lemma TrimRightSpace_take: "\<exists>n. TrimRightSpace s = take n s"
proof (induction s rule: TrimRightSpace.induct)
  case (1 s)
  show ?case
  proof (cases "space_len_end s = 0")
    case True
    then have "TrimRightSpace s = take (length s) s" by (simp add: TrimRightSpace.simps [of s])
    then show ?thesis ..
  next
    case False
    with 1 obtain n where
      "TrimRightSpace (take (length s - space_len_end s) s)
        = take n (take (length s - space_len_end s) s)" by auto
    with False show ?thesis by (auto simp: TrimRightSpace.simps [of s])
  qed
qed

lemma TrimSpace_start: "space_len (TrimSpace s) = 0"
  using TrimRightSpace_take [of "TrimLeftSpace s"] TrimLeftSpace_start [of s] space_len_take
  by (auto simp: TrimSpace_def)

lemma TrimSpace_end: "space_len_end (TrimSpace s) = 0"
  by (simp add: TrimSpace_def TrimRightSpace_end)

lemma TrimSpace_idem [simp]: "TrimSpace (TrimSpace s) = TrimSpace s"
proof -
  have "TrimLeftSpace (TrimSpace s) = TrimSpace s"
    by (subst TrimLeftSpace.simps) (simp add: TrimSpace_start)
  moreover have "TrimRightSpace (TrimSpace s) = TrimSpace s"
    by (subst TrimRightSpace.simps) (simp add: TrimSpace_end)
  ultimately show ?thesis by (simp add: TrimSpace_def [of "TrimSpace s"])
qed

lemma TrimLeftSpace_Nil [simp]: "TrimLeftSpace [] = []"
  by (simp add: TrimLeftSpace.simps)

lemma TrimRightSpace_Nil [simp]: "TrimRightSpace [] = []"
  by (simp add: TrimRightSpace.simps)

lemma TrimSpace_Nil [simp]: "TrimSpace [] = []"
  by (simp add: TrimSpace_def)

lemma not_blank_nonempty: "\<not> blank s \<Longrightarrow> s \<noteq> []"
  by auto

section \<open>Package strconv\<close>

definition is_digit :: "char \<Rightarrow> bool" where
  "is_digit c \<longleftrightarrow> c \<in> set ''0123456789''"

definition digit_value :: "char \<Rightarrow> nat" where
  "digit_value c = of_char c - 48"

definition decimal_value :: "bytes \<Rightarrow> nat" where
  "decimal_value s = foldl (\<lambda>n c. 10 * n + digit_value c) 0 s"

text \<open>
  \<open>strconv.ParseUint(s, 10, bits)\<close>; the sources only test whether it failed, so a syntax
  error and a range error are both \<open>None\<close>.
\<close>

definition ParseUint :: "bytes \<Rightarrow> nat \<Rightarrow> uint64 option" where
  "ParseUint s bits =
     (if s \<noteq> [] \<and> list_all is_digit s \<and> decimal_value s < 2 ^ bits
      then Some (of_nat (decimal_value s)) else None)"

text \<open>\<open>strconv.FormatUint(n, 10)\<close>\<close>

fun decimal :: "nat \<Rightarrow> bytes" where
  "decimal n = (if n < 10 then [char_of (48 + n)] else decimal (n div 10) @ [char_of (48 + n mod 10)])"

declare decimal.simps [simp del]

definition FormatUint :: "uint64 \<Rightarrow> bytes" where
  "FormatUint w = decimal (unat w)"

lemma digit_chars:
  "list_all (\<lambda>d. is_digit (char_of (48 + d)) \<and> digit_value (char_of (48 + d)) = d) [0..<10]"
  by code_simp

lemma digit_char:
  assumes "d < 10"
  shows "is_digit (char_of (48 + d))" and "digit_value (char_of (48 + d)) = d"
  using digit_chars assms by (auto simp: list_all_iff)

lemma decimal_value_snoc: "decimal_value (s @ [c]) = 10 * decimal_value s + digit_value c"
  by (simp add: decimal_value_def)

lemma decimal_parses: "decimal n \<noteq> [] \<and> list_all is_digit (decimal n) \<and> decimal_value (decimal n) = n"
proof (induction n rule: decimal.induct)
  case (1 n)
  show ?case
  proof (cases "n < 10")
    case True
    then show ?thesis
      using digit_char [of n] by (simp add: decimal.simps [of n] decimal_value_def)
  next
    case False
    then show ?thesis
      using 1 digit_char [of "n mod 10"]
      by (simp add: decimal.simps [of n] decimal_value_snoc)
  qed
qed

lemma ParseUint_FormatUint [simp]: "ParseUint (FormatUint w) 64 = Some w"
  using decimal_parses [of "unat w"] unsigned_less [of w]
  by (simp add: ParseUint_def FormatUint_def)

lemma ParseUint_bound:
  assumes "ParseUint s bits = Some w" and "bits \<le> 64"
  shows "unat w < 2 ^ bits"
proof -
  from assms(1) have w: "w = of_nat (decimal_value s)" and b: "decimal_value s < 2 ^ bits"
    by (auto simp: ParseUint_def split: if_splits)
  have "(2::nat) ^ bits \<le> 2 ^ 64" using assms(2) by (rule power_increasing) simp
  with b have "decimal_value s < 2 ^ 64" by linarith
  then have "unat w = decimal_value s" by (simp add: w unat_of_nat take_bit_nat_eq_self_iff)
  with b show ?thesis by simp
qed

section \<open>Packages encoding/hex and encoding/base64\<close>

definition hex_digit :: "nat \<Rightarrow> char" where
  "hex_digit n = (if n < 10 then char_of (48 + n) else char_of (87 + n))"

text \<open>\<open>hex.EncodeToString\<close>\<close>

definition hex_encode :: "bytes \<Rightarrow> bytes" where
  "hex_encode s = concat (map (\<lambda>c. [hex_digit (of_char c div 16), hex_digit (of_char c mod 16)]) s)"

text \<open>The 6-bit groups of a byte string, without padding.\<close>

fun sextets :: "nat list \<Rightarrow> nat list" where
  "sextets (a # b # c # r) =
     (a div 4) # ((a mod 4) * 16 + b div 16) # ((b mod 16) * 4 + c div 64) # (c mod 64)
       # sextets r"
| "sextets [a, b] = [a div 4, (a mod 4) * 16 + b div 16, (b mod 16) * 4]"
| "sextets [a] = [a div 4, (a mod 4) * 16]"
| "sextets [] = []"

text \<open>The URL alphabet\<close>

definition b64url_char :: "nat \<Rightarrow> char" where
  "b64url_char n =
     (if n < 26 then char_of (65 + n) else if n < 52 then char_of (71 + n)
      else if n < 62 then char_of (n - 4) else if n = 62 then CHR 0x2D else CHR 0x5F)"

text \<open>
  \<open>rand.Read\<close> into a buffer of \<open>n\<close> bytes fills it; the random source of the models is the bytes it
  has to give, read from the first on, and the buffer keeps its zeros where it has fewer.
\<close>

definition fill_bytes :: "nat \<Rightarrow> bytes \<Rightarrow> bytes" where
  "fill_bytes n bs = take n bs @ replicate (n - length bs) (CHR 0x00)"

lemma length_fill_bytes [simp]: "length (fill_bytes n bs) = n"
  by (simp add: fill_bytes_def)

lemma fill_bytes_full [simp]: "length bs = n \<Longrightarrow> fill_bytes n bs = bs"
  by (simp add: fill_bytes_def)

text \<open>\<open>base64.RawURLEncoding.EncodeToString\<close>\<close>

definition RawURLEncode :: "bytes \<Rightarrow> bytes" where
  "RawURLEncode s = map b64url_char (sextets (map of_char s))"

lemma length_hex_encode [simp]: "length (hex_encode s) = 2 * length s"
  by (induction s) (auto simp: hex_encode_def)

lemma length_sextets: "length (sextets s) = (4 * length s + 2) div 3"
proof (induction s rule: sextets.induct)
  case (1 a b c r)
  then show ?case by simp
qed simp_all

lemma length_RawURLEncode: "length (RawURLEncode s) = (4 * length s + 2) div 3"
  by (simp add: RawURLEncode_def length_sextets)

text \<open>Base64 without padding loses nothing: encodings of byte strings of one length differ.\<close>

lemma digits_eq:
  assumes "p * m + q = p' * m + q'" and "q < m" and "q' < (m::nat)"
  shows "p = p' \<and> q = q'"
proof -
  have "(p * m + q) div m = p" "(p' * m + q') div m = p'" using assms(2,3) by auto
  with assms(1) show ?thesis by simp
qed

lemma div_mod_eq: "x div m = y div m \<Longrightarrow> x mod m = y mod (m::nat) \<Longrightarrow> x = y"
  by (metis div_mult_mod_eq)

lemma sextets_inj:
  assumes "length s = length t" and "\<forall>x \<in> set s \<union> set t. x < 256" and "sextets s = sextets t"
  shows "s = t"
  using assms
proof (induction s arbitrary: t rule: sextets.induct)
  case (1 a b c r)
  then obtain x y z r' where t: "t = x # y # z # r'"
    by (metis (no_types, opaque_lifting) length_Suc_conv)
  with 1 have e: "a div 4 = x div 4" "(a mod 4) * 16 + b div 16 = (x mod 4) * 16 + y div 16"
    "(b mod 16) * 4 + c div 64 = (y mod 16) * 4 + z div 64" "c mod 64 = z mod 64"
    and r: "sextets r = sextets r'" by simp_all
  have lim: "b < 256" "y < 256" "c < 256" "z < 256" using 1 t by simp_all
  have "a mod 4 = x mod 4 \<and> b div 16 = y div 16" using digits_eq [OF e(2)] lim by simp
  moreover have "b mod 16 = y mod 16 \<and> c div 64 = z div 64" using digits_eq [OF e(3)] lim by simp
  ultimately have "a = x" "b = y" "c = z" using e(1,4) by (blast intro: div_mod_eq)+
  moreover have "r = r'" using 1 t r by simp
  ultimately show ?case by (simp add: t)
next
  case (2 a b)
  then obtain x y where t: "t = [x, y]"
    by (metis (no_types, opaque_lifting) length_Suc_conv length_0_conv)
  with 2 have e: "a div 4 = x div 4" "(a mod 4) * 16 + b div 16 = (x mod 4) * 16 + y div 16"
    "b mod 16 = y mod 16" by simp_all
  have "b < 256" "y < 256" using 2 t by simp_all
  then have "a mod 4 = x mod 4 \<and> b div 16 = y div 16" using digits_eq [OF e(2)] by simp
  with e show ?case unfolding t by (blast intro: div_mod_eq)
next
  case (3 a)
  then obtain x where t: "t = [x]"
    by (metis (no_types, opaque_lifting) length_Suc_conv length_0_conv)
  with 3 have "a div 4 = x div 4" "a mod 4 = x mod 4" by simp_all
  then show ?case unfolding t by (blast intro: div_mod_eq)
qed simp

lemma sextets_bound: "\<forall>x \<in> set s. x < 256 \<Longrightarrow> x \<in> set (sextets s) \<Longrightarrow> x < 64"
  by (induction s rule: sextets.induct) auto

definition url_alphabet :: string where
  "url_alphabet = map b64url_char [0..<64]"

lemma distinct_url_alphabet: "distinct url_alphabet"
  by code_simp

lemma b64url_char_inj: "inj_on b64url_char {..<64}"
  using distinct_url_alphabet by (simp add: url_alphabet_def distinct_map atLeast0LessThan)

lemma of_char_bound: "x \<in> set (map of_char (s :: bytes)) \<Longrightarrow> x < (256 :: nat)"
  by auto

lemma RawURLEncode_inj:
  assumes "length s = length t" and "RawURLEncode s = RawURLEncode t"
  shows "s = t"
proof -
  let ?s = "map of_char s :: nat list" and ?t = "map of_char t :: nat list"
  have "set (sextets ?s) \<union> set (sextets ?t) \<subseteq> {..<64}"
    using sextets_bound [of ?s] sextets_bound [of ?t] by auto
  then have "inj_on b64url_char (set (sextets ?s) \<union> set (sextets ?t))"
    by (rule inj_on_subset [OF b64url_char_inj])
  then have "sextets ?s = sextets ?t"
    using assms(2) unfolding RawURLEncode_def by (simp only: inj_on_map_eq_map)
  moreover have "\<forall>x \<in> set ?s \<union> set ?t. x < 256" using of_char_bound by blast
  ultimately have "?s = ?t" using assms(1) by (metis length_map sextets_inj)
  moreover have "inj (of_char :: char \<Rightarrow> nat)" by (rule injI) simp
  ultimately show ?thesis by (simp only: inj_map_eq_map)
qed

lemma RawURLEncode_alphabet: "set (RawURLEncode s) \<subseteq> set url_alphabet"
  using sextets_bound [of "map of_char s :: nat list"]
  by (fastforce simp: RawURLEncode_def url_alphabet_def)

end
