(* ===== verification/Tables.thy ===== *)
theory Tables imports GoLib begin

text \<open>
  The tables of \<open>backend/migrations\<close> with their constraints, and the SQL statements the
  repositories issue: selection by a condition, counting, insertion with identity columns,
  unique and foreign keys, update, and deletion with \<open>ON DELETE CASCADE\<close>. The rows are the
  GORM models of the modules. \<open>db_inv\<close> states every constraint of the schema; each statement
  keeps it.
\<close>

section \<open>Rows\<close>

record User =
  user_ID :: uint64
  user_Username :: bytes
  user_PasswordHash :: bytes
  user_RoleCode :: bytes
  user_IsActive :: bool
  user_CreatedAt :: time
  user_UpdatedAt :: time

record OAuthInfo =
  oa_ID :: uint64
  oa_UserID :: uint64
  oa_AccessToken :: bytes
  oa_AccountID :: bytes
  oa_Disabled :: bool
  oa_Email :: bytes
  oa_Expired :: "time option"
  oa_IDToken :: bytes
  oa_LastRefresh :: "time option"
  oa_RefreshToken :: bytes
  oa_Type :: bytes
  oa_CreatedAt :: time
  oa_UpdatedAt :: time

record ApikeyInfo =
  key_ID :: uint64
  key_UserID :: uint64
  key_KeyHash :: bytes
  key_KeyPrefix :: bytes
  key_Disabled :: bool
  key_ExpiresAt :: "time option"
  key_CreatedAt :: time
  key_UpdatedAt :: time

record Apikeyaccounts =
  aa_UserID :: uint64
  aa_ApiKeyID :: uint64
  aa_OAuthInfoID :: uint64
  aa_CreatedAt :: time

record ExternalApikeySuffix =
  ChatCompletions :: bytes
  Responses :: bytes
  Messages :: bytes

record ExternalApikey =
  ext_ID :: uint64
  ext_UserID :: uint64
  ext_KeyHash :: bytes
  ext_Ciphertext :: bytes
  ext_Endpoint :: bytes
  ext_Suffix :: ExternalApikeySuffix
  ext_CreatedAt :: time
  ext_UpdatedAt :: time

record ApikeyExternalKey =
  ek_UserID :: uint64
  ek_ApiKeyID :: uint64
  ek_ExternalApiKeyID :: uint64
  ek_CreatedAt :: time

text \<open>The database: the tables and the next value of each identity column.\<close>

record db =
  users :: "User list"
  oauth_infos :: "OAuthInfo list"
  api_keys :: "ApikeyInfo list"
  api_key_accounts :: "Apikeyaccounts list"
  external_api_keys :: "ExternalApikey list"
  api_key_external_keys :: "ApikeyExternalKey list"
  users_seq :: nat
  oauth_infos_seq :: nat
  api_keys_seq :: nat
  external_api_keys_seq :: nat

definition empty_db :: db where
  "empty_db = \<lparr>users = [], oauth_infos = [], api_keys = [], api_key_accounts = [],
     external_api_keys = [], api_key_external_keys = [],
     users_seq = 1, oauth_infos_seq = 1, api_keys_seq = 1, external_api_keys_seq = 1\<rparr>"

section \<open>Keys and constraints\<close>

abbreviation user_refs :: "db \<Rightarrow> uint64 list" where
  "user_refs d \<equiv> map user_ID (users d)"

abbreviation key_refs :: "db \<Rightarrow> (uint64 \<times> uint64) list" where
  "key_refs d \<equiv> map (\<lambda>k. (key_UserID k, key_ID k)) (api_keys d)"

abbreviation oauth_refs :: "db \<Rightarrow> (uint64 \<times> uint64) list" where
  "oauth_refs d \<equiv> map (\<lambda>a. (oa_UserID a, oa_ID a)) (oauth_infos d)"

abbreviation external_refs :: "db \<Rightarrow> (uint64 \<times> uint64) list" where
  "external_refs d \<equiv> map (\<lambda>k. (ext_UserID k, ext_ID k)) (external_api_keys d)"

definition account_pk :: "Apikeyaccounts \<Rightarrow> uint64 \<times> uint64" where
  "account_pk a = (aa_ApiKeyID a, aa_OAuthInfoID a)"

definition external_pk :: "ApikeyExternalKey \<Rightarrow> uint64 \<times> uint64" where
  "external_pk k = (ek_ApiKeyID k, ek_ExternalApiKeyID k)"

definition oauth_owner_account :: "OAuthInfo \<Rightarrow> uint64 \<times> bytes \<times> bytes" where
  "oauth_owner_account a = (oa_UserID a, oa_Type a, oa_AccountID a)"

text \<open>An identity column: its values are below the sequence, positive, and distinct.\<close>

definition identity_ok :: "uint64 list \<Rightarrow> nat \<Rightarrow> bool" where
  "identity_ok ids seq \<longleftrightarrow>
     distinct ids \<and> (\<forall>i \<in> set ids. 0 < unat i \<and> unat i < seq) \<and> 0 < seq \<and> seq \<le> 2 ^ 63"

definition users_ok :: "db \<Rightarrow> bool" where
  "users_ok d \<longleftrightarrow> identity_ok (user_refs d) (users_seq d) \<and> distinct (map user_Username (users d))"

definition oauth_ok :: "db \<Rightarrow> bool" where
  "oauth_ok d \<longleftrightarrow> identity_ok (map oa_ID (oauth_infos d)) (oauth_infos_seq d)
     \<and> distinct (map oauth_owner_account (oauth_infos d))
     \<and> (\<forall>a \<in> set (oauth_infos d). oa_UserID a \<in> set (user_refs d))"

definition keys_ok :: "db \<Rightarrow> bool" where
  "keys_ok d \<longleftrightarrow> identity_ok (map key_ID (api_keys d)) (api_keys_seq d)
     \<and> distinct (map key_KeyHash (api_keys d))
     \<and> (\<forall>k \<in> set (api_keys d). key_UserID k \<in> set (user_refs d))"

definition external_ok :: "db \<Rightarrow> bool" where
  "external_ok d \<longleftrightarrow> identity_ok (map ext_ID (external_api_keys d)) (external_api_keys_seq d)
     \<and> (\<forall>k \<in> set (external_api_keys d). ext_UserID k \<in> set (user_refs d))"

definition accounts_ok :: "db \<Rightarrow> bool" where
  "accounts_ok d \<longleftrightarrow> distinct (map account_pk (api_key_accounts d))
     \<and> (\<forall>a \<in> set (api_key_accounts d).
          (aa_UserID a, aa_ApiKeyID a) \<in> set (key_refs d)
        \<and> (aa_UserID a, aa_OAuthInfoID a) \<in> set (oauth_refs d))"

definition external_keys_ok :: "db \<Rightarrow> bool" where
  "external_keys_ok d \<longleftrightarrow> distinct (map external_pk (api_key_external_keys d))
     \<and> (\<forall>k \<in> set (api_key_external_keys d).
          (ek_UserID k, ek_ApiKeyID k) \<in> set (key_refs d)
        \<and> (ek_UserID k, ek_ExternalApiKeyID k) \<in> set (external_refs d))"

text \<open>Every constraint of the schema\<close>

definition db_inv :: "db \<Rightarrow> bool" where
  "db_inv d \<longleftrightarrow> users_ok d \<and> oauth_ok d \<and> keys_ok d \<and> external_ok d
     \<and> accounts_ok d \<and> external_keys_ok d"

lemmas table_defs = users_ok_def oauth_ok_def keys_ok_def external_ok_def accounts_ok_def
  external_keys_ok_def

lemma db_inv_empty [simp]: "db_inv empty_db"
  by (simp add: db_inv_def table_defs empty_db_def identity_ok_def)

section \<open>Selecting rows\<close>

text \<open>\<open>First\<close>: the row with the least primary key among those that satisfy the condition.\<close>

definition First :: "('r \<Rightarrow> uint64) \<Rightarrow> ('r \<Rightarrow> bool) \<Rightarrow> 'r list \<Rightarrow> go_error + 'r" where
  "First pk p rows = (case sort_key pk (filter p rows) of
       [] \<Rightarrow> Inl ErrRecordNotFound
     | r # _ \<Rightarrow> Inr r)"

text \<open>\<open>ORDER BY pk ASC\<close> and \<open>ORDER BY pk DESC\<close>\<close>

definition asc :: "('r \<Rightarrow> uint64) \<Rightarrow> 'r list \<Rightarrow> 'r list" where
  "asc pk rows = sort_key pk rows"

definition desc :: "('r \<Rightarrow> uint64) \<Rightarrow> 'r list \<Rightarrow> 'r list" where
  "desc pk rows = sort_key (\<lambda>r. - 1 - pk r) rows"

definition count_where :: "('r \<Rightarrow> bool) \<Rightarrow> 'r list \<Rightarrow> nat" where
  "count_where p rows = length (filter p rows)"

lemma First_InrD:
  assumes "First pk p rows = Inr r"
  shows "r \<in> set rows \<and> p r"
proof -
  from assms obtain rs where "sort_key pk (filter p rows) = r # rs"
    by (auto simp: First_def split: list.splits)
  then have "r \<in> set (sort_key pk (filter p rows))" by (metis list.set_intros(1))
  then show ?thesis by simp
qed

lemma First_Inl: "First pk p rows = Inl e \<longleftrightarrow> e = ErrRecordNotFound \<and> (\<forall>r \<in> set rows. \<not> p r)"
proof -
  have "sort_key pk (filter p rows) = [] \<longleftrightarrow> (\<forall>r \<in> set rows. \<not> p r)"
    by (metis filter_empty_conv length_0_conv length_sort)
  then show ?thesis by (auto simp: First_def split: list.splits)
qed

lemma First_unique:
  assumes "r \<in> set rows" and "p r" and "\<And>r'. r' \<in> set rows \<Longrightarrow> p r' \<Longrightarrow> r' = r"
  shows "First pk p rows = Inr r"
proof (cases "First pk p rows")
  case (Inl e)
  with assms(1,2) show ?thesis unfolding First_Inl by blast
next
  case (Inr r')
  then have "r' \<in> set rows" and "p r'" by (simp_all add: First_InrD)
  with assms(3) Inr show ?thesis by simp
qed

lemma set_asc [simp]: "set (asc pk rows) = set rows"
  by (simp add: asc_def)

lemma set_desc [simp]: "set (desc pk rows) = set rows"
  by (simp add: desc_def)

section \<open>Inserting rows\<close>

text \<open>
  An insertion takes the next value of the identity column; a sequence past BIGINT, a value
  too long for its column, a duplicate key and a missing referenced row are errors. With
  \<open>TranslateError\<close> GORM reports the last two as \<open>ErrDuplicatedKey\<close> and \<open>ErrForeignKeyViolated\<close>.
  GORM fills \<open>CreatedAt\<close> and \<open>UpdatedAt\<close>. (In PostgreSQL a failed insertion uses up a value of the
  sequence; here the sequence is part of what a rollback restores.)
\<close>

definition sequence_error :: go_error where
  "sequence_error = Other ''nextval: reached maximum value of sequence''"

definition length_error :: go_error where
  "length_error = Other ''value too long for type character varying''"

definition insert_oauth :: "time \<Rightarrow> OAuthInfo \<Rightarrow> db \<Rightarrow> (go_error + OAuthInfo) \<times> db" where
  "insert_oauth now r d =
     (if 2 ^ 63 \<le> oauth_infos_seq d then (Inl sequence_error, d)
      else if oauth_owner_account r \<in> set (map oauth_owner_account (oauth_infos d))
        then (Inl ErrDuplicatedKey, d)
      else if oa_UserID r \<notin> set (user_refs d) then (Inl ErrForeignKeyViolated, d)
      else let r' = r\<lparr>oa_ID := of_nat (oauth_infos_seq d), oa_CreatedAt := now, oa_UpdatedAt := now\<rparr>
           in (Inr r', d\<lparr>oauth_infos := oauth_infos d @ [r'],
                         oauth_infos_seq := Suc (oauth_infos_seq d)\<rparr>))"

definition insert_key :: "time \<Rightarrow> ApikeyInfo \<Rightarrow> db \<Rightarrow> (go_error + ApikeyInfo) \<times> db" where
  "insert_key now r d =
     (if 2 ^ 63 \<le> api_keys_seq d then (Inl sequence_error, d)
      else if 64 < length (key_KeyHash r) \<or> 20 < length (key_KeyPrefix r)
        then (Inl length_error, d)
      else if key_KeyHash r \<in> set (map key_KeyHash (api_keys d)) then (Inl ErrDuplicatedKey, d)
      else if key_UserID r \<notin> set (user_refs d) then (Inl ErrForeignKeyViolated, d)
      else let r' = r\<lparr>key_ID := of_nat (api_keys_seq d), key_CreatedAt := now, key_UpdatedAt := now\<rparr>
           in (Inr r', d\<lparr>api_keys := api_keys d @ [r'], api_keys_seq := Suc (api_keys_seq d)\<rparr>))"

definition insert_external ::
  "time \<Rightarrow> ExternalApikey \<Rightarrow> db \<Rightarrow> (go_error + ExternalApikey) \<times> db" where
  "insert_external now r d =
     (if 2 ^ 63 \<le> external_api_keys_seq d then (Inl sequence_error, d)
      else if 64 < length (ext_KeyHash r) then (Inl length_error, d)
      else if ext_UserID r \<notin> set (user_refs d) then (Inl ErrForeignKeyViolated, d)
      else let r' = r\<lparr>ext_ID := of_nat (external_api_keys_seq d), ext_CreatedAt := now,
                      ext_UpdatedAt := now\<rparr>
           in (Inr r', d\<lparr>external_api_keys := external_api_keys d @ [r'],
                         external_api_keys_seq := Suc (external_api_keys_seq d)\<rparr>))"

text \<open>One statement inserts all rows of a slice: unique keys first, then foreign keys.\<close>

definition insert_accounts ::
  "time \<Rightarrow> Apikeyaccounts list \<Rightarrow> db \<Rightarrow> (go_error + unit) \<times> db" where
  "insert_accounts now rs d =
     (let rs' = map (\<lambda>r. r\<lparr>aa_CreatedAt := now\<rparr>) rs in
      if \<not> distinct (map account_pk (api_key_accounts d @ rs')) then (Inl ErrDuplicatedKey, d)
      else if list_all (\<lambda>r. (aa_UserID r, aa_ApiKeyID r) \<in> set (key_refs d)
                          \<and> (aa_UserID r, aa_OAuthInfoID r) \<in> set (oauth_refs d)) rs'
        then (Inr (), d\<lparr>api_key_accounts := api_key_accounts d @ rs'\<rparr>)
      else (Inl ErrForeignKeyViolated, d))"

definition insert_external_keys ::
  "time \<Rightarrow> ApikeyExternalKey list \<Rightarrow> db \<Rightarrow> (go_error + unit) \<times> db" where
  "insert_external_keys now rs d =
     (let rs' = map (\<lambda>r. r\<lparr>ek_CreatedAt := now\<rparr>) rs in
      if \<not> distinct (map external_pk (api_key_external_keys d @ rs')) then (Inl ErrDuplicatedKey, d)
      else if list_all (\<lambda>r. (ek_UserID r, ek_ApiKeyID r) \<in> set (key_refs d)
                          \<and> (ek_UserID r, ek_ExternalApiKeyID r) \<in> set (external_refs d)) rs'
        then (Inr (), d\<lparr>api_key_external_keys := api_key_external_keys d @ rs'\<rparr>)
      else (Inl ErrForeignKeyViolated, d))"

section \<open>Updating and deleting rows\<close>

definition update_where :: "('r \<Rightarrow> bool) \<Rightarrow> ('r \<Rightarrow> 'r) \<Rightarrow> 'r list \<Rightarrow> 'r list" where
  "update_where p f rows = map (\<lambda>r. if p r then f r else r) rows"

text \<open>The results are \<open>RowsAffected\<close>. A deletion takes the rows that reference it along.\<close>

definition update_keys ::
  "(ApikeyInfo \<Rightarrow> bool) \<Rightarrow> (ApikeyInfo \<Rightarrow> ApikeyInfo) \<Rightarrow> db \<Rightarrow> (go_error + nat) \<times> db" where
  "update_keys p f d =
     (Inr (count_where p (api_keys d)), d\<lparr>api_keys := update_where p f (api_keys d)\<rparr>)"

definition update_oauth ::
  "(OAuthInfo \<Rightarrow> bool) \<Rightarrow> (OAuthInfo \<Rightarrow> OAuthInfo) \<Rightarrow> db \<Rightarrow> (go_error + nat) \<times> db" where
  "update_oauth p f d =
     (Inr (count_where p (oauth_infos d)), d\<lparr>oauth_infos := update_where p f (oauth_infos d)\<rparr>)"

definition update_external ::
  "(ExternalApikey \<Rightarrow> bool) \<Rightarrow> (ExternalApikey \<Rightarrow> ExternalApikey) \<Rightarrow> db \<Rightarrow> (go_error + nat) \<times> db" where
  "update_external p f d =
     (Inr (count_where p (external_api_keys d)),
      d\<lparr>external_api_keys := update_where p f (external_api_keys d)\<rparr>)"

definition delete_accounts :: "(Apikeyaccounts \<Rightarrow> bool) \<Rightarrow> db \<Rightarrow> (go_error + nat) \<times> db" where
  "delete_accounts p d =
     (Inr (count_where p (api_key_accounts d)),
      d\<lparr>api_key_accounts := filter (\<lambda>a. \<not> p a) (api_key_accounts d)\<rparr>)"

definition delete_external_keys ::
  "(ApikeyExternalKey \<Rightarrow> bool) \<Rightarrow> db \<Rightarrow> (go_error + nat) \<times> db" where
  "delete_external_keys p d =
     (Inr (count_where p (api_key_external_keys d)),
      d\<lparr>api_key_external_keys := filter (\<lambda>a. \<not> p a) (api_key_external_keys d)\<rparr>)"

definition delete_keys :: "(ApikeyInfo \<Rightarrow> bool) \<Rightarrow> db \<Rightarrow> (go_error + nat) \<times> db" where
  "delete_keys p d =
     (let gone = map (\<lambda>k. (key_UserID k, key_ID k)) (filter p (api_keys d)) in
      (Inr (count_where p (api_keys d)),
       d\<lparr>api_keys := filter (\<lambda>k. \<not> p k) (api_keys d),
         api_key_accounts :=
           filter (\<lambda>a. (aa_UserID a, aa_ApiKeyID a) \<notin> set gone) (api_key_accounts d),
         api_key_external_keys :=
           filter (\<lambda>k. (ek_UserID k, ek_ApiKeyID k) \<notin> set gone) (api_key_external_keys d)\<rparr>))"

definition delete_oauth :: "(OAuthInfo \<Rightarrow> bool) \<Rightarrow> db \<Rightarrow> (go_error + nat) \<times> db" where
  "delete_oauth p d =
     (let gone = map (\<lambda>a. (oa_UserID a, oa_ID a)) (filter p (oauth_infos d)) in
      (Inr (count_where p (oauth_infos d)),
       d\<lparr>oauth_infos := filter (\<lambda>a. \<not> p a) (oauth_infos d),
         api_key_accounts :=
           filter (\<lambda>a. (aa_UserID a, aa_OAuthInfoID a) \<notin> set gone) (api_key_accounts d)\<rparr>))"

definition delete_external :: "(ExternalApikey \<Rightarrow> bool) \<Rightarrow> db \<Rightarrow> (go_error + nat) \<times> db" where
  "delete_external p d =
     (let gone = map (\<lambda>k. (ext_UserID k, ext_ID k)) (filter p (external_api_keys d)) in
      (Inr (count_where p (external_api_keys d)),
       d\<lparr>external_api_keys := filter (\<lambda>k. \<not> p k) (external_api_keys d),
         api_key_external_keys :=
           filter (\<lambda>k. (ek_UserID k, ek_ExternalApiKeyID k) \<notin> set gone)
             (api_key_external_keys d)\<rparr>))"

lemma insert_key_InrD:
  assumes "insert_key now r d = (Inr k, d')"
  shows "k = r\<lparr>key_ID := of_nat (api_keys_seq d), key_CreatedAt := now, key_UpdatedAt := now\<rparr>"
    and "d' = d\<lparr>api_keys := api_keys d @ [k], api_keys_seq := Suc (api_keys_seq d)\<rparr>"
    and "api_keys_seq d < 2 ^ 63" and "key_KeyHash r \<notin> set (map key_KeyHash (api_keys d))"
    and "key_UserID r \<in> set (user_refs d)"
  using assms by (auto simp: insert_key_def Let_def split: if_splits)

lemma insert_accounts_InrD:
  assumes "insert_accounts now rs d = (Inr x, d')"
  shows "d' = d\<lparr>api_key_accounts := api_key_accounts d @ map (\<lambda>r. r\<lparr>aa_CreatedAt := now\<rparr>) rs\<rparr>"
    and "\<forall>r \<in> set rs. (aa_UserID r, aa_ApiKeyID r) \<in> set (key_refs d)
           \<and> (aa_UserID r, aa_OAuthInfoID r) \<in> set (oauth_refs d)"
  using assms by (auto simp: insert_accounts_def Let_def list_all_iff split: if_splits)

lemma insert_external_keys_InrD:
  assumes "insert_external_keys now rs d = (Inr x, d')"
  shows "d' = d\<lparr>api_key_external_keys :=
           api_key_external_keys d @ map (\<lambda>r. r\<lparr>ek_CreatedAt := now\<rparr>) rs\<rparr>"
    and "\<forall>r \<in> set rs. (ek_UserID r, ek_ApiKeyID r) \<in> set (key_refs d)
           \<and> (ek_UserID r, ek_ExternalApiKeyID r) \<in> set (external_refs d)"
  using assms by (auto simp: insert_external_keys_def Let_def list_all_iff split: if_splits)

text \<open>
  Counting the rows of an owner with given primary keys finds as many rows as there are
  identifiers exactly when the owner has them all, provided the identifiers are distinct.
\<close>

lemma count_owned:
  assumes "distinct (map pk rows)" and "distinct ids"
  shows "count_where (\<lambda>r. own r = u \<and> pk r \<in> set ids) rows = length ids
    \<longleftrightarrow> (\<forall>x \<in> set ids. (u, x) \<in> set (map (\<lambda>r. (own r, pk r)) rows))"
proof -
  let ?p = "\<lambda>r. own r = u \<and> pk r \<in> set ids"
  let ?found = "{x \<in> set ids. (u, x) \<in> set (map (\<lambda>r. (own r, pk r)) rows)}"
  have "distinct (map pk (filter ?p rows))" using assms(1) by (rule distinct_map_filter)
  then have "length (map pk (filter ?p rows)) = card (set (map pk (filter ?p rows)))"
    by (rule distinct_card [symmetric])
  moreover have "set (map pk (filter ?p rows)) = ?found"
  proof (rule set_eqI)
    fix x
    show "x \<in> set (map pk (filter ?p rows)) \<longleftrightarrow> x \<in> ?found"
      unfolding set_map set_filter image_iff mem_Collect_eq Bex_def prod.inject by blast
  qed
  ultimately have n: "count_where ?p rows = card ?found"
    by (simp only: count_where_def length_map)
  have "length ids = card (set ids)" using assms(2) by (simp add: distinct_card)
  moreover have "card ?found = card (set ids) \<longleftrightarrow> ?found = set ids"
    using card_subset_eq [of "set ids" ?found] by auto
  ultimately show ?thesis using n by auto
qed

section \<open>Every statement keeps the constraints\<close>

lemma identity_ok_fresh:
  assumes "identity_ok ids seq" and "seq < 2 ^ 63"
  shows "identity_ok (ids @ [of_nat seq]) (Suc seq)"
proof -
  have "unat (of_nat seq :: uint64) = seq"
    using assms(2) by (simp add: unat_of_nat take_bit_nat_eq_self_iff)
  with assms show ?thesis by (auto simp: identity_ok_def)
qed

lemma identity_ok_filter: "identity_ok (map pk rows) seq \<Longrightarrow> identity_ok (map pk (filter p rows)) seq"
  by (auto simp: identity_ok_def distinct_map_filter)

lemma map_update_where:
  assumes "\<And>r. h (f r) = h r"
  shows "map h (update_where p f rows) = map h rows"
  using assms by (simp add: update_where_def)

lemma set_update_where:
  "r \<in> set (update_where p f rows) \<Longrightarrow> \<exists>r0 \<in> set rows. r = (if p r0 then f r0 else r0)"
  by (auto simp: update_where_def)

lemma insert_oauth_keeps [keeps]: "db_inv d \<Longrightarrow> db_inv (snd (insert_oauth now r d))"
  by (auto simp: insert_oauth_def db_inv_def table_defs Let_def identity_ok_fresh
      oauth_owner_account_def)

lemma insert_key_keeps [keeps]: "db_inv d \<Longrightarrow> db_inv (snd (insert_key now r d))"
  by (auto simp: insert_key_def db_inv_def table_defs Let_def identity_ok_fresh)

lemma insert_external_keeps [keeps]: "db_inv d \<Longrightarrow> db_inv (snd (insert_external now r d))"
  by (auto simp: insert_external_def db_inv_def table_defs Let_def identity_ok_fresh)

lemma account_pk_created [simp]: "account_pk (r\<lparr>aa_CreatedAt := t\<rparr>) = account_pk r"
  by (simp add: account_pk_def)

lemma external_pk_created [simp]: "external_pk (r\<lparr>ek_CreatedAt := t\<rparr>) = external_pk r"
  by (simp add: external_pk_def)

lemma insert_accounts_keeps [keeps]:
  assumes "db_inv d"
  shows "db_inv (snd (insert_accounts now rs d))"
proof -
  have "accounts_ok (snd (insert_accounts now rs d))"
    using assms unfolding db_inv_def accounts_ok_def insert_accounts_def Let_def
    by (auto simp del: map_append map_map simp: list_all_iff)
  then show ?thesis
    using assms by (auto simp: insert_accounts_def db_inv_def Let_def users_ok_def oauth_ok_def
        keys_ok_def external_ok_def external_keys_ok_def)
qed

lemma insert_external_keys_keeps [keeps]:
  assumes "db_inv d"
  shows "db_inv (snd (insert_external_keys now rs d))"
proof -
  have "external_keys_ok (snd (insert_external_keys now rs d))"
    using assms unfolding db_inv_def external_keys_ok_def insert_external_keys_def Let_def
    by (auto simp del: map_append map_map simp: list_all_iff)
  then show ?thesis
    using assms by (auto simp: insert_external_keys_def db_inv_def Let_def users_ok_def oauth_ok_def
        keys_ok_def external_ok_def accounts_ok_def)
qed

text \<open>An update keeps the constraints when it leaves the columns they mention alone.\<close>

lemma update_keys_keeps [keeps]:
  assumes "db_inv d" and "\<And>k. key_ID (f k) = key_ID k" and "\<And>k. key_UserID (f k) = key_UserID k"
    and "\<And>k. key_KeyHash (f k) = key_KeyHash k"
  shows "db_inv (snd (update_keys p f d))"
proof -
  let ?ks = "update_where p f (api_keys d)"
  have "map key_ID ?ks = map key_ID (api_keys d)"
    and "map key_KeyHash ?ks = map key_KeyHash (api_keys d)"
    and "map (\<lambda>k. (key_UserID k, key_ID k)) ?ks = key_refs d"
    using assms(2-) by (simp_all add: map_update_where)
  moreover have "\<forall>k \<in> set ?ks. key_UserID k \<in> set (user_refs d)"
    using assms by (auto simp: db_inv_def keys_ok_def dest!: set_update_where)
  ultimately show ?thesis
    using assms(1) by (simp add: update_keys_def db_inv_def table_defs del: set_map)
qed

lemma update_oauth_keeps [keeps]:
  assumes "db_inv d" and "\<And>a. oa_ID (f a) = oa_ID a" and "\<And>a. oa_UserID (f a) = oa_UserID a"
    and "\<And>a. oa_Type (f a) = oa_Type a" and "\<And>a. oa_AccountID (f a) = oa_AccountID a"
  shows "db_inv (snd (update_oauth p f d))"
proof -
  let ?as = "update_where p f (oauth_infos d)"
  have "map oa_ID ?as = map oa_ID (oauth_infos d)"
    and "map oauth_owner_account ?as = map oauth_owner_account (oauth_infos d)"
    and "map (\<lambda>a. (oa_UserID a, oa_ID a)) ?as = oauth_refs d"
    using assms(2-) by (simp_all add: map_update_where oauth_owner_account_def)
  moreover have "\<forall>a \<in> set ?as. oa_UserID a \<in> set (user_refs d)"
    using assms by (auto simp: db_inv_def oauth_ok_def dest!: set_update_where)
  ultimately show ?thesis
    using assms(1) by (simp add: update_oauth_def db_inv_def table_defs del: set_map)
qed

lemma update_external_keeps [keeps]:
  assumes "db_inv d" and "\<And>k. ext_ID (f k) = ext_ID k" and "\<And>k. ext_UserID (f k) = ext_UserID k"
  shows "db_inv (snd (update_external p f d))"
proof -
  let ?ks = "update_where p f (external_api_keys d)"
  have "map ext_ID ?ks = map ext_ID (external_api_keys d)"
    and "map (\<lambda>k. (ext_UserID k, ext_ID k)) ?ks = external_refs d"
    using assms(2-) by (simp_all add: map_update_where)
  moreover have "\<forall>k \<in> set ?ks. ext_UserID k \<in> set (user_refs d)"
    using assms by (auto simp: db_inv_def external_ok_def dest!: set_update_where)
  ultimately show ?thesis
    using assms(1) by (simp add: update_external_def db_inv_def table_defs del: set_map)
qed

lemma delete_accounts_keeps [keeps]: "db_inv d \<Longrightarrow> db_inv (snd (delete_accounts p d))"
  by (auto simp: delete_accounts_def db_inv_def table_defs distinct_map_filter)

lemma delete_external_keys_keeps [keeps]: "db_inv d \<Longrightarrow> db_inv (snd (delete_external_keys p d))"
  by (auto simp: delete_external_keys_def db_inv_def table_defs distinct_map_filter)

lemma kept_ref:
  "ref \<in> set (map g rows) \<Longrightarrow> ref \<notin> set (map g (filter p rows))
    \<Longrightarrow> ref \<in> set (map g (filter (\<lambda>r. \<not> p r) rows))"
  by auto

lemma delete_keys_keeps [keeps]: "db_inv d \<Longrightarrow> db_inv (snd (delete_keys p d))"
  by (simp add: delete_keys_def db_inv_def table_defs distinct_map_filter identity_ok_filter
      kept_ref Let_def del: set_map)

lemma delete_oauth_keeps [keeps]: "db_inv d \<Longrightarrow> db_inv (snd (delete_oauth p d))"
  by (simp add: delete_oauth_def db_inv_def table_defs distinct_map_filter identity_ok_filter
      kept_ref Let_def del: set_map)

lemma delete_external_keeps [keeps]: "db_inv d \<Longrightarrow> db_inv (snd (delete_external p d))"
  by (simp add: delete_external_def db_inv_def table_defs distinct_map_filter identity_ok_filter
      kept_ref Let_def del: set_map)

lemmas statements_keep = insert_oauth_keeps insert_key_keeps insert_external_keeps
  insert_accounts_keeps insert_external_keys_keeps update_keys_keeps update_oauth_keeps
  update_external_keeps delete_accounts_keeps delete_external_keys_keeps delete_keys_keeps
  delete_oauth_keeps delete_external_keeps

interpretation schema: kept db_inv .

end
