(* ===== verification/ApiKeys.thy ===== *)
theory ApiKeys imports Tables begin

text \<open>
  \<open>internal/modules/apikey\<close>: the repository and the service of API keys. Every repository
  method takes the faults of its statements, every service method also the clock, the random
  bytes and the hash function it reads.
\<close>

section \<open>Statements\<close>

datatype key_stmt =
    Q_UpdateKey | Q_LockKey | Q_CountAccounts | Q_DeleteAccounts | Q_InsertAccounts
  | Q_CountExternal | Q_DeleteExternal | Q_InsertExternal | Q_TouchKey | Q_Commit
  | Q_DeleteKey | Q_InsertKey | Q_ListKeys | Q_ListAccounts | Q_ListExternal
  | Q_KeyByHash | Q_AccountsOfKey

type_synonym key_faults = "key_stmt \<Rightarrow> fault option"

definition no_faults :: "'q \<Rightarrow> fault option" where
  "no_faults q = None"

lemma no_faults_None [simp]: "no_faults q = None"
  by (simp add: no_faults_def)

section \<open>Items shown to users\<close>

record ApikeyAccountItem =
  item_AccessToken :: bytes
  item_Expired :: "time option"
  item_ID :: uint64
  item_Email :: bytes
  item_Type :: bytes
  item_Disabled :: bool

record ApikeyListItem =
  li_ExternalApiKeyIDs :: "uint64 list"
  li_ID :: uint64
  li_KeyPrefix :: bytes
  li_Disabled :: bool
  li_ExpiresAt :: "time option"
  li_Accounts :: "ApikeyAccountItem list"

section \<open>Repository\<close>

definition owns_key :: "uint64 \<Rightarrow> uint64 \<Rightarrow> ApikeyInfo \<Rightarrow> bool" where
  "owns_key userid kid k \<longleftrightarrow> key_ID k = kid \<and> key_UserID k = userid"

definition repo_UpdateApikey ::
  "key_faults \<Rightarrow> time \<Rightarrow> uint64 \<Rightarrow> uint64 \<Rightarrow> bool option \<Rightarrow> time option \<Rightarrow> bool \<Rightarrow> db
    \<Rightarrow> (go_error + unit) \<times> db" where
  "repo_UpdateApikey io now userid kid disabled expiresAt updateExpiry d =
     if_ok (call (io Q_UpdateKey)
       (update_keys (owns_key userid kid)
         (\<lambda>k. k\<lparr>key_UpdatedAt := now,
                 key_Disabled := (case disabled of None \<Rightarrow> key_Disabled k | Some b \<Rightarrow> b),
                 key_ExpiresAt := (if updateExpiry then expiresAt else key_ExpiresAt k)\<rparr>)) d)
     (\<lambda>n d. if n = 0 then (Inl ErrApikeyNotFound, d) else (Inr (), d))"

definition toApikeyaccounts :: "uint64 \<Rightarrow> uint64 list \<Rightarrow> Apikeyaccounts list" where
  "toApikeyaccounts userid oauthinfos =
     map (\<lambda>kid. \<lparr>aa_UserID = userid, aa_ApiKeyID = 0, aa_OAuthInfoID = kid, aa_CreatedAt = 0\<rparr>)
       oauthinfos"

definition CountOwnedAccounts :: "key_faults \<Rightarrow> uint64 \<Rightarrow> uint64 list \<Rightarrow> db \<Rightarrow> go_error + nat" where
  "CountOwnedAccounts io userid ids d =
     query (io Q_CountAccounts)
       (Inr (count_where (\<lambda>a. oa_UserID a = userid \<and> oa_ID a \<in> set ids) (oauth_infos d)))"

definition CountOwnedExternalKeys :: "key_faults \<Rightarrow> uint64 \<Rightarrow> uint64 list \<Rightarrow> db \<Rightarrow> go_error + nat" where
  "CountOwnedExternalKeys io userid ids d =
     query (io Q_CountExternal)
       (Inr (count_where (\<lambda>k. ext_UserID k = userid \<and> ext_ID k \<in> set ids) (external_api_keys d)))"

text \<open>
  The body of the transaction of \<open>ReplaceApikeyAccounts\<close>: lock the key, replace the account
  bindings, replace the external bindings, touch the key.
\<close>

definition lock_key :: "key_faults \<Rightarrow> uint64 \<Rightarrow> uint64 \<Rightarrow> db \<Rightarrow> (go_error + ApikeyInfo) \<times> db" where
  "lock_key io userid kid d =
     (case query (io Q_LockKey) (First key_ID (owns_key userid kid) (api_keys d)) of
        Inl e \<Rightarrow> (Inl (if errors_Is e ErrRecordNotFound then ErrApikeyNotFound else e), d)
      | Inr key \<Rightarrow> (Inr key, d))"

definition replace_accounts ::
  "key_faults \<Rightarrow> time \<Rightarrow> uint64 \<Rightarrow> uint64 \<Rightarrow> uint64 list \<Rightarrow> db \<Rightarrow> (go_error + unit) \<times> db" where
  "replace_accounts io now userid kid ids d =
     (case CountOwnedAccounts io userid ids d of
        Inl e \<Rightarrow> (Inl e, d)
      | Inr count \<Rightarrow>
          if count \<noteq> length ids then (Inl ErrInvalidAccounts, d)
          else if_ok (call (io Q_DeleteAccounts)
                 (delete_accounts (\<lambda>a. aa_ApiKeyID a = kid \<and> aa_UserID a = userid)) d)
               (\<lambda>_ d. if ids = [] then (Inr (), d)
                  else call (io Q_InsertAccounts)
                    (insert_accounts now
                      (map (\<lambda>a. a\<lparr>aa_ApiKeyID := kid\<rparr>) (toApikeyaccounts userid ids))) d))"

definition replace_external ::
  "key_faults \<Rightarrow> time \<Rightarrow> uint64 \<Rightarrow> uint64 \<Rightarrow> uint64 list \<Rightarrow> db \<Rightarrow> (go_error + unit) \<times> db" where
  "replace_external io now userid kid externalIDs d =
     if_ok (if externalIDs = [] then (Inr (), d)
            else (case CountOwnedExternalKeys io userid externalIDs d of
                Inl e \<Rightarrow> (Inl e, d)
              | Inr count \<Rightarrow>
                  if count \<noteq> length externalIDs then (Inl ErrInvalidAccounts, d) else (Inr (), d)))
       (\<lambda>_ d. if_ok (call (io Q_DeleteExternal)
            (delete_external_keys (\<lambda>k. ek_ApiKeyID k = kid \<and> ek_UserID k = userid)) d)
          (\<lambda>_ d. if externalIDs = [] then (Inr (), d)
             else call (io Q_InsertExternal)
               (insert_external_keys now
                 (map (\<lambda>x. \<lparr>ek_UserID = userid, ek_ApiKeyID = kid, ek_ExternalApiKeyID = x,
                            ek_CreatedAt = 0\<rparr>) externalIDs)) d))"

definition replace_body ::
  "key_faults \<Rightarrow> time \<Rightarrow> uint64 \<Rightarrow> uint64 \<Rightarrow> uint64 list \<Rightarrow> uint64 list \<Rightarrow> db
    \<Rightarrow> (go_error + unit) \<times> db" where
  "replace_body io now userid kid ids externalIDs d =
     if_ok (lock_key io userid kid d) (\<lambda>_ d.
     if_ok (replace_accounts io now userid kid ids d) (\<lambda>_ d.
     if_ok (replace_external io now userid kid externalIDs d) (\<lambda>_ d.
     if_ok (call (io Q_TouchKey)
       (update_keys (owns_key userid kid) (\<lambda>k. k\<lparr>key_UpdatedAt := now\<rparr>)) d) (\<lambda>_ d.
     (Inr (), d)))))"

text \<open>A violated foreign key is reported as invalid accounts.\<close>

definition fk_as_accounts :: "(go_error + 'a) \<times> db \<Rightarrow> (go_error + 'a) \<times> db" where
  "fk_as_accounts r = (case r of
       (Inl e, d) \<Rightarrow> (Inl (if errors_Is e ErrForeignKeyViolated then ErrInvalidAccounts else e), d)
     | (Inr x, d) \<Rightarrow> (Inr x, d))"

definition repo_ReplaceApikeyAccounts ::
  "key_faults \<Rightarrow> time \<Rightarrow> uint64 \<Rightarrow> uint64 \<Rightarrow> uint64 list \<Rightarrow> uint64 list \<Rightarrow> db
    \<Rightarrow> (go_error + unit) \<times> db" where
  "repo_ReplaceApikeyAccounts io now userid kid ids externalIDs d =
     (if ids = [] \<and> externalIDs = [] then (Inl ErrInvalidAccounts, d)
      else fk_as_accounts
        (transaction (io Q_Commit) (replace_body io now userid kid ids externalIDs) d))"

definition repo_DeleteApikey ::
  "key_faults \<Rightarrow> uint64 \<Rightarrow> uint64 \<Rightarrow> db \<Rightarrow> (go_error + unit) \<times> db" where
  "repo_DeleteApikey io userid kid d =
     if_ok (call (io Q_DeleteKey) (delete_keys (owns_key userid kid)) d)
     (\<lambda>n d. if n = 0 then (Inl ErrApikeyNotFound, d) else (Inr (), d))"

definition save_body ::
  "key_faults \<Rightarrow> time \<Rightarrow> ApikeyInfo \<Rightarrow> Apikeyaccounts list \<Rightarrow> ApikeyExternalKey list \<Rightarrow> db
    \<Rightarrow> (go_error + unit) \<times> db" where
  "save_body io now model relatemodel externalKeys d =
     if_ok (call (io Q_InsertKey) (insert_key now model) d) (\<lambda>model d.
     if_ok (if relatemodel = [] then (Inr (), d)
            else call (io Q_InsertAccounts)
              (insert_accounts now (map (\<lambda>r. r\<lparr>aa_ApiKeyID := key_ID model,
                 aa_UserID := key_UserID model\<rparr>) relatemodel)) d) (\<lambda>_ d.
     if externalKeys = [] then (Inr (), d)
     else call (io Q_InsertExternal)
       (insert_external_keys now (map (\<lambda>r. r\<lparr>ek_ApiKeyID := key_ID model,
          ek_UserID := key_UserID model\<rparr>) externalKeys)) d))"

definition SaveApikey ::
  "key_faults \<Rightarrow> time \<Rightarrow> ApikeyInfo \<Rightarrow> Apikeyaccounts list \<Rightarrow> ApikeyExternalKey list \<Rightarrow> db
    \<Rightarrow> (go_error + unit) \<times> db" where
  "SaveApikey io now model relatemodel externalKeys d =
     (if relatemodel = [] \<and> externalKeys = [] then (Inl ErrInvalidAccounts, d)
      else fk_as_accounts
        (transaction (io Q_Commit) (save_body io now model relatemodel externalKeys) d))"

text \<open>
  \<open>GetApikeyByUserId\<close> reads the keys, then the bindings of all of them, and distributes the
  bindings over the items through an index map; a key missing from the map would read as
  index 0, as a Go map does.
\<close>

definition list_keys :: "uint64 \<Rightarrow> db \<Rightarrow> ApikeyListItem list" where
  "list_keys userid d =
     map (\<lambda>k. \<lparr>li_ExternalApiKeyIDs = [], li_ID = key_ID k, li_KeyPrefix = key_KeyPrefix k,
               li_Disabled = key_Disabled k, li_ExpiresAt = key_ExpiresAt k, li_Accounts = []\<rparr>)
       (desc key_ID (filter (\<lambda>k. key_UserID k = userid) (api_keys d)))"

definition item_indexes :: "ApikeyListItem list \<Rightarrow> (uint64 \<rightharpoonup> nat)" where
  "item_indexes items = foldl (\<lambda>m i. m(li_ID (items ! i) \<mapsto> i)) Map.empty [0..<length items]"

definition index_of :: "(uint64 \<rightharpoonup> nat) \<Rightarrow> uint64 \<Rightarrow> nat" where
  "index_of m k = (case m k of None \<Rightarrow> 0 | Some i \<Rightarrow> i)"

text \<open>The join of the bindings of the given keys with their accounts, without credentials.\<close>

definition join_accounts ::
  "uint64 \<Rightarrow> uint64 list \<Rightarrow> db \<Rightarrow> (uint64 \<times> ApikeyAccountItem) list" where
  "join_accounts userid ids d =
     [(aa_ApiKeyID b, \<lparr>item_AccessToken = [], item_Expired = None, item_ID = oa_ID a,
         item_Email = oa_Email a, item_Type = oa_Type a, item_Disabled = oa_Disabled a\<rparr>).
       b \<leftarrow> api_key_accounts d, aa_UserID b = userid \<and> aa_ApiKeyID b \<in> set ids,
       a \<leftarrow> oauth_infos d, oa_ID a = aa_OAuthInfoID b \<and> oa_UserID a = aa_UserID b]"

definition order_accounts ::
  "(uint64 \<times> ApikeyAccountItem) list \<Rightarrow> (uint64 \<times> ApikeyAccountItem) list" where
  "order_accounts rows = desc fst (asc (\<lambda>r. item_ID (snd r)) rows)"

definition join_external :: "uint64 \<Rightarrow> uint64 list \<Rightarrow> db \<Rightarrow> (uint64 \<times> uint64) list" where
  "join_external userid ids d =
     desc fst (asc snd (map (\<lambda>k. (ek_ApiKeyID k, ek_ExternalApiKeyID k))
       (filter (\<lambda>k. ek_UserID k = userid \<and> ek_ApiKeyID k \<in> set ids) (api_key_external_keys d))))"

definition append_account ::
  "(uint64 \<rightharpoonup> nat) \<Rightarrow> ApikeyListItem list \<Rightarrow> uint64 \<times> ApikeyAccountItem \<Rightarrow> ApikeyListItem list" where
  "append_account indexes items r =
     (let i = index_of indexes (fst r)
      in items[i := (items ! i)\<lparr>li_Accounts := li_Accounts (items ! i) @ [snd r]\<rparr>])"

definition append_external ::
  "(uint64 \<rightharpoonup> nat) \<Rightarrow> ApikeyListItem list \<Rightarrow> uint64 \<times> uint64 \<Rightarrow> ApikeyListItem list" where
  "append_external indexes items r =
     (let i = index_of indexes (fst r)
      in items[i := (items ! i)\<lparr>li_ExternalApiKeyIDs := li_ExternalApiKeyIDs (items ! i) @ [snd r]\<rparr>])"

definition GetApikeyByUserId ::
  "key_faults \<Rightarrow> uint64 \<Rightarrow> db \<Rightarrow> go_error + ApikeyListItem list" where
  "GetApikeyByUserId io userid d =
     (case query (io Q_ListKeys) (Inr (list_keys userid d)) of
        Inl e \<Rightarrow> Inl e
      | Inr items \<Rightarrow>
          if items = [] then Inr items
          else let ids = map li_ID items; indexes = item_indexes items in
          (case query (io Q_ListAccounts) (Inr (order_accounts (join_accounts userid ids d))) of
             Inl e \<Rightarrow> Inl e
           | Inr accounts \<Rightarrow>
               let items = foldl (append_account indexes) items accounts in
               (case query (io Q_ListExternal) (Inr (join_external userid ids d)) of
                  Inl e \<Rightarrow> Inl e
                | Inr externalKeys \<Rightarrow> Inr (foldl (append_external indexes) items externalKeys))))"

text \<open>
  \<open>GetOauthByApikey\<close>: the accounts bound to an enabled, unexpired key with their encrypted
  tokens. The hash function is SHA-256, a parameter.
\<close>

definition key_hash :: "(bytes \<Rightarrow> bytes) \<Rightarrow> bytes \<Rightarrow> bytes" where
  "key_hash sha256 raw = hex_encode (sha256 raw)"

definition expired_at :: "time option \<Rightarrow> time \<Rightarrow> bool" where
  "expired_at t now = (case t of None \<Rightarrow> False | Some t \<Rightarrow> t \<le> now)"

definition accounts_of_key :: "ApikeyInfo \<Rightarrow> db \<Rightarrow> ApikeyAccountItem list" where
  "accounts_of_key key d =
     asc item_ID
       [\<lparr>item_AccessToken = oa_AccessToken a, item_Expired = oa_Expired a, item_ID = oa_ID a,
          item_Email = oa_Email a, item_Type = oa_Type a, item_Disabled = oa_Disabled a\<rparr>.
         b \<leftarrow> api_key_accounts d, aa_ApiKeyID b = key_ID key \<and> aa_UserID b = key_UserID key,
         a \<leftarrow> oauth_infos d, oa_ID a = aa_OAuthInfoID b \<and> oa_UserID a = aa_UserID b]"

definition GetOauthByApikey ::
  "key_faults \<Rightarrow> (bytes \<Rightarrow> bytes) \<Rightarrow> time \<Rightarrow> bytes \<Rightarrow> db \<Rightarrow> go_error + ApikeyAccountItem list" where
  "GetOauthByApikey io sha256 now raw d =
     (case query (io Q_KeyByHash)
             (First key_ID (\<lambda>k. key_KeyHash k = key_hash sha256 raw) (api_keys d)) of
        Inl e \<Rightarrow> Inl (if errors_Is e ErrRecordNotFound then ErrInvalidApikey else e)
      | Inr key \<Rightarrow>
          if key_Disabled key \<or> expired_at (key_ExpiresAt key) now then Inl ErrInvalidApikey
          else query (io Q_AccountsOfKey) (Inr (accounts_of_key key d)))"

section \<open>Service\<close>

text \<open>The loops that validate and deduplicate identifiers; \<open>seen\<close> is the source's map.\<close>

fun collect_ids :: "uint64 list \<Rightarrow> uint64 list \<Rightarrow> (uint64 \<Rightarrow> bool) \<Rightarrow> uint64 list option" where
  "collect_ids [] ids seen = Some ids"
| "collect_ids (x # xs) ids seen =
     (if x = 0 \<or> max_bigint < x then None
      else if \<not> seen x then collect_ids xs (ids @ [x]) (seen(x := True))
      else collect_ids xs ids seen)"

definition dedup_ids :: "uint64 list \<Rightarrow> go_error + uint64 list" where
  "dedup_ids xs = (case collect_ids xs [] (\<lambda>_. False) of
       None \<Rightarrow> Inl ErrInvalidAccounts
     | Some ids \<Rightarrow> Inr ids)"

definition svc_checkOauth :: "key_faults \<Rightarrow> uint64 \<Rightarrow> uint64 list \<Rightarrow> db \<Rightarrow> go_error + unit" where
  "svc_checkOauth io userid oauthinfos d =
     (if userid = 0 \<or> max_bigint < userid \<or> oauthinfos = [] then Inl ErrInvalidAccounts
      else case CountOwnedAccounts io userid oauthinfos d of
             Inl e \<Rightarrow> Inl e
           | Inr count \<Rightarrow> if count \<noteq> length oauthinfos then Inl ErrInvalidAccounts else Inr ())"

text \<open>A key is \<open>sk-\<close> and 32 random bytes in URL-safe Base64; \<open>rnd\<close> is the random source.\<close>

definition generateApikey ::
  "(bytes \<Rightarrow> bytes) \<Rightarrow> go_error + bytes \<Rightarrow> go_error + bytes \<times> bytes" where
  "generateApikey sha256 rnd = (case rnd of
       Inl e \<Rightarrow> Inl e
     | Inr secret \<Rightarrow> let raw = ''sk-'' @ RawURLEncode (fill_bytes 32 secret) in Inr (raw, key_hash sha256 raw))"

definition toApikeyinfo :: "bytes \<Rightarrow> uint64 \<Rightarrow> ApikeyInfo" where
  "toApikeyinfo keyhash userid =
     \<lparr>key_ID = 0, key_UserID = userid, key_KeyHash = keyhash, key_KeyPrefix = [],
      key_Disabled = False, key_ExpiresAt = None, key_CreatedAt = 0, key_UpdatedAt = 0\<rparr>"

definition check_external :: "key_faults \<Rightarrow> uint64 \<Rightarrow> uint64 list \<Rightarrow> db \<Rightarrow> go_error + unit" where
  "check_external io userid externalIDs d =
     (if externalIDs = [] then Inr ()
      else case CountOwnedExternalKeys io userid externalIDs d of
             Inl e \<Rightarrow> Inl e
           | Inr count \<Rightarrow> if count \<noteq> length externalIDs then Inl ErrInvalidAccounts else Inr ())"

text \<open>The validation part of \<open>CreatApikey\<close>: the deduplicated account and external identifiers.\<close>

definition creat_targets ::
  "key_faults \<Rightarrow> uint64 \<Rightarrow> uint64 list \<Rightarrow> uint64 list \<Rightarrow> db
    \<Rightarrow> go_error + uint64 list \<times> uint64 list" where
  "creat_targets io userid oauthinfos externalKeyIDs d =
     (if userid = 0 \<or> max_bigint < userid \<or> (oauthinfos = [] \<and> externalKeyIDs = [])
      then Inl ErrInvalidAccounts
      else case dedup_ids oauthinfos of Inl e \<Rightarrow> Inl e | Inr ids \<Rightarrow>
      (case (if ids = [] then Inr () else svc_checkOauth io userid ids d) of
         Inl e \<Rightarrow> Inl e | Inr _ \<Rightarrow>
      (case dedup_ids externalKeyIDs of Inl e \<Rightarrow> Inl e | Inr externalIDs \<Rightarrow>
      (case check_external io userid externalIDs d of
         Inl e \<Rightarrow> Inl e | Inr _ \<Rightarrow> Inr (ids, externalIDs)))))"

definition CreatApikey ::
  "key_faults \<Rightarrow> (bytes \<Rightarrow> bytes) \<Rightarrow> time \<Rightarrow> go_error + bytes \<Rightarrow> uint64 \<Rightarrow> uint64 list \<Rightarrow> uint64 list
    \<Rightarrow> db \<Rightarrow> (go_error + bytes) \<times> db" where
  "CreatApikey io sha256 now rnd userid oauthinfos externalKeyIDs d =
     (case creat_targets io userid oauthinfos externalKeyIDs d of
        Inl e \<Rightarrow> (Inl e, d)
      | Inr (ids, externalIDs) \<Rightarrow>
      (case generateApikey sha256 rnd of
         Inl e \<Rightarrow> (Inl e, d)
       | Inr (apikeyraw, apikeyhash) \<Rightarrow>
           if_ok (SaveApikey io now
               ((toApikeyinfo apikeyhash userid)\<lparr>key_KeyPrefix := take 12 apikeyraw\<rparr>)
               (toApikeyaccounts userid ids)
               (map (\<lambda>x. \<lparr>ek_UserID = userid, ek_ApiKeyID = 0, ek_ExternalApiKeyID = x,
                          ek_CreatedAt = 0\<rparr>) externalIDs) d)
             (\<lambda>_ d. (Inr apikeyraw, d))))"

definition UserApikeyList :: "key_faults \<Rightarrow> uint64 \<Rightarrow> db \<Rightarrow> go_error + ApikeyListItem list" where
  "UserApikeyList io userid d = GetApikeyByUserId io userid d"

definition UpdateApikey ::
  "key_faults \<Rightarrow> time \<Rightarrow> uint64 \<Rightarrow> uint64 \<Rightarrow> bool option \<Rightarrow> time option \<Rightarrow> bool \<Rightarrow> db
    \<Rightarrow> (go_error + unit) \<times> db" where
  "UpdateApikey io now userid kid disabled expiresAt updateExpiry d =
     repo_UpdateApikey io now userid kid disabled expiresAt updateExpiry d"

definition ReplaceApikeyAccounts ::
  "key_faults \<Rightarrow> time \<Rightarrow> uint64 \<Rightarrow> uint64 \<Rightarrow> uint64 list \<Rightarrow> uint64 list \<Rightarrow> db
    \<Rightarrow> (go_error + unit) \<times> db" where
  "ReplaceApikeyAccounts io now userid kid oauthinfos externalKeyIDs d =
     (case dedup_ids oauthinfos of
        Inl e \<Rightarrow> (Inl e, d)
      | Inr ids \<Rightarrow>
          if ids = [] \<and> externalKeyIDs = [] then (Inl ErrInvalidAccounts, d)
          else case dedup_ids externalKeyIDs of
                 Inl e \<Rightarrow> (Inl e, d)
               | Inr externalIDs \<Rightarrow>
                   repo_ReplaceApikeyAccounts io now userid kid ids externalIDs d)"

definition DeleteApikey :: "key_faults \<Rightarrow> uint64 \<Rightarrow> uint64 \<Rightarrow> db \<Rightarrow> (go_error + unit) \<times> db" where
  "DeleteApikey io userid kid d = repo_DeleteApikey io userid kid d"

end
