(* ===== verification/ApiKeyFacts.thy ===== *)
theory ApiKeyFacts imports ApiKeys begin

text \<open>
  Facts about the operations of \<open>ApiKeys\<close>: they keep the schema constraints, they touch only
  rows of the requesting user, errors leave the tables as they were, and what a successful
  creation, replacement and listing has done.
\<close>

section \<open>Identifier lists\<close>

lemma collect_ids_seen:
  "collect_ids xs ids (\<lambda>x. x \<in> set ids) =
     (if \<exists>x \<in> set xs. x = 0 \<or> max_bigint < x then None
      else Some (ids @ rev (remdups (rev (filter (\<lambda>x. x \<notin> set ids) xs)))))"
proof (induction xs arbitrary: ids)
  case Nil
  then show ?case by simp
next
  case (Cons x xs)
  have upd: "(\<lambda>y. y \<in> set ids)(x := True) = (\<lambda>y. y \<in> set (ids @ [x]))" by (rule ext) auto
  have *: "rev (remdups (rev (filter (\<lambda>y. y \<notin> set ids) (x # xs)))) =
      (if x \<in> set ids then [] else [x])
       @ rev (remdups (rev (filter (\<lambda>y. y \<notin> set (if x \<in> set ids then ids else ids @ [x])) xs)))"
    by (induction xs rule: rev_induct) (auto split: if_splits)
  show ?case
  proof (cases "x \<in> set ids")
    case True
    with Cons.IH [of ids] show ?thesis by simp
  next
    case False
    have "collect_ids (x # xs) ids (\<lambda>y. y \<in> set ids) =
        (if x = 0 \<or> max_bigint < x then None
         else collect_ids xs (ids @ [x]) (\<lambda>y. y \<in> set (ids @ [x])))"
      using False by (simp only: collect_ids.simps upd not_False_eq_True if_True)
    also have "\<dots> = (if \<exists>y \<in> set (x # xs). y = 0 \<or> max_bigint < y then None
        else Some (ids @ [x] @ rev (remdups (rev (filter (\<lambda>y. y \<notin> set (ids @ [x])) xs)))))"
      by (subst Cons.IH) (auto simp del: set_append)
    finally show ?thesis using * False by simp
  qed
qed

text \<open>The loop keeps the first occurrence of every identifier, in order.\<close>

lemma dedup_ids_eq:
  "dedup_ids xs =
     (if \<exists>x \<in> set xs. x = 0 \<or> max_bigint < x then Inl ErrInvalidAccounts
      else Inr (rev (remdups (rev xs))))"
  using collect_ids_seen [of xs "[]"] by (simp add: dedup_ids_def)

lemma dedup_ids_Inr:
  assumes "dedup_ids xs = Inr ys"
  shows "set ys = set xs" and "distinct ys" and "\<forall>x \<in> set xs. x \<noteq> 0 \<and> x \<le> max_bigint"
  using assms by (auto simp: dedup_ids_eq split: if_splits)

lemma dedup_ids_Inl: "dedup_ids xs = Inl e \<Longrightarrow> e = ErrInvalidAccounts"
  by (auto simp: dedup_ids_eq split: if_splits)

section \<open>The constraints are kept\<close>

lemma lock_key_snd [simp]: "snd (lock_key io userid kid d) = d"
  by (simp add: lock_key_def split: sum.splits)

lemma fk_as_accounts_snd [simp]: "snd (fk_as_accounts r) = snd r"
  by (simp add: fk_as_accounts_def split: prod.splits sum.splits)

lemma replace_accounts_keeps: "db_inv d \<Longrightarrow> db_inv (snd (replace_accounts io now userid kid ids d))"
  unfolding replace_accounts_def by (intro schema.steps statements_keep)

lemma replace_external_keeps: "db_inv d \<Longrightarrow> db_inv (snd (replace_external io now userid kid ids d))"
  unfolding replace_external_def by (intro schema.steps statements_keep)

lemma replace_body_keeps: "db_inv d \<Longrightarrow> db_inv (snd (replace_body io now userid kid ids exts d))"
  unfolding replace_body_def
  by (intro schema.steps statements_keep replace_accounts_keeps replace_external_keeps) simp_all

lemma save_body_keeps: "db_inv d \<Longrightarrow> db_inv (snd (save_body io now model accs exts d))"
  unfolding save_body_def by (intro schema.steps statements_keep)

lemma CreatApikey_keeps: "db_inv d \<Longrightarrow> db_inv (snd (CreatApikey io sha256 now rnd u oa ext d))"
  unfolding CreatApikey_def SaveApikey_def
  by (intro schema.steps save_body_keeps)
    (simp_all add: schema.steps save_body_keeps split: prod.splits)

lemma ReplaceApikeyAccounts_keeps:
  "db_inv d \<Longrightarrow> db_inv (snd (ReplaceApikeyAccounts io now u kid oa ext d))"
  unfolding ReplaceApikeyAccounts_def repo_ReplaceApikeyAccounts_def
  by (intro schema.steps) (simp_all add: schema.steps replace_body_keeps)

lemma UpdateApikey_keeps:
  "db_inv d \<Longrightarrow> db_inv (snd (UpdateApikey io now u kid dis exp upd d))"
  unfolding UpdateApikey_def repo_UpdateApikey_def
  by (intro schema.steps statements_keep) simp_all

lemma DeleteApikey_keeps: "db_inv d \<Longrightarrow> db_inv (snd (DeleteApikey io u kid d))"
  unfolding DeleteApikey_def repo_DeleteApikey_def
  by (intro schema.steps statements_keep)

section \<open>Other users' rows\<close>

text \<open>What the tables hold for one user.\<close>

definition rows_of :: "uint64 \<Rightarrow> db \<Rightarrow>
    ApikeyInfo list \<times> Apikeyaccounts list \<times> ApikeyExternalKey list \<times> OAuthInfo list \<times> ExternalApikey list" where
  "rows_of v d =
     (filter (\<lambda>k. key_UserID k = v) (api_keys d),
      filter (\<lambda>a. aa_UserID a = v) (api_key_accounts d),
      filter (\<lambda>k. ek_UserID k = v) (api_key_external_keys d),
      filter (\<lambda>a. oa_UserID a = v) (oauth_infos d),
      filter (\<lambda>k. ext_UserID k = v) (external_api_keys d))"

lemma filter_update_where:
  assumes "\<And>r. p r \<Longrightarrow> \<not> q r" and "\<And>r. p r \<Longrightarrow> \<not> q (f r)"
  shows "filter q (update_where p f rows) = filter q rows"
  using assms by (induction rows) (auto simp: update_where_def)

lemma update_keys_frame:
  assumes "u \<noteq> v" and "\<And>k. key_UserID (f k) = key_UserID k"
  shows "rows_of v (snd (update_keys (owns_key u kid) f d)) = rows_of v d"
  using assms by (auto simp: update_keys_def rows_of_def owns_key_def intro!: filter_update_where)

lemma delete_keys_frame:
  "u \<noteq> v \<Longrightarrow> rows_of v (snd (delete_keys (owns_key u kid) d)) = rows_of v d"
  by (auto simp: delete_keys_def rows_of_def owns_key_def Let_def intro!: filter_cong)

lemma delete_accounts_frame:
  "u \<noteq> v \<Longrightarrow> rows_of v (snd (delete_accounts (\<lambda>a. aa_ApiKeyID a = kid \<and> aa_UserID a = u) d)) = rows_of v d"
  by (auto simp: delete_accounts_def rows_of_def intro!: filter_cong)

lemma delete_external_keys_frame:
  "u \<noteq> v \<Longrightarrow> rows_of v (snd (delete_external_keys (\<lambda>k. ek_ApiKeyID k = kid \<and> ek_UserID k = u) d)) = rows_of v d"
  by (auto simp: delete_external_keys_def rows_of_def intro!: filter_cong)

lemma insert_key_frame:
  "key_UserID r \<noteq> v \<Longrightarrow> rows_of v (snd (insert_key now r d)) = rows_of v d"
  by (auto simp: insert_key_def rows_of_def Let_def)

lemma insert_accounts_frame:
  "\<forall>r \<in> set rs. aa_UserID r \<noteq> v \<Longrightarrow> rows_of v (snd (insert_accounts now rs d)) = rows_of v d"
  by (auto simp: insert_accounts_def rows_of_def Let_def filter_empty_conv)

lemma insert_external_keys_frame:
  "\<forall>r \<in> set rs. ek_UserID r \<noteq> v \<Longrightarrow> rows_of v (snd (insert_external_keys now rs d)) = rows_of v d"
  by (auto simp: insert_external_keys_def rows_of_def Let_def filter_empty_conv)

lemmas frame_steps = kept.steps [where inv = "\<lambda>d. rows_of v d = R" for v R]

lemmas frame_statements = update_keys_frame delete_keys_frame delete_accounts_frame
  delete_external_keys_frame insert_key_frame insert_accounts_frame insert_external_keys_frame

lemma save_body_frame:
  assumes "key_UserID model \<noteq> v" and "rows_of v d = R"
  shows "rows_of v (snd (save_body io now model accs exts d)) = R"
  unfolding save_body_def
proof (rule kept.sequenced_result [where inv = "\<lambda>d. rows_of v d = R"])
  show "rows_of v (snd (call (io Q_InsertKey) (insert_key now model) d)) = R"
    by (intro frame_steps) (use assms in \<open>simp_all add: insert_key_frame\<close>)
next
  fix k s
  assume "call (io Q_InsertKey) (insert_key now model) d = (Inr k, s)" and R: "rows_of v s = R"
  then have "key_UserID k = key_UserID model"
    by (auto dest!: call_InrD dest: insert_key_InrD(1))
  with assms(1) R
  show "rows_of v (snd (if_ok (if accs = [] then (Inr (), s)
      else call (io Q_InsertAccounts) (insert_accounts now
        (map (\<lambda>r. r\<lparr>aa_ApiKeyID := key_ID k, aa_UserID := key_UserID k\<rparr>) accs)) s)
      (\<lambda>_ d. if exts = [] then (Inr (), d)
        else call (io Q_InsertExternal) (insert_external_keys now
          (map (\<lambda>r. r\<lparr>ek_ApiKeyID := key_ID k, ek_UserID := key_UserID k\<rparr>) exts)) d))) = R"
    by (intro frame_steps) (simp_all add: frame_statements)
qed

lemma CreatApikey_frame:
  assumes "u \<noteq> v"
  shows "rows_of v (snd (CreatApikey io sha256 now rnd u oa ext d)) = rows_of v d"
  unfolding CreatApikey_def SaveApikey_def
  by (intro frame_steps)
    (use assms in \<open>simp_all add: frame_steps save_body_frame toApikeyinfo_def split: prod.splits\<close>)

lemma replace_accounts_frame:
  assumes "u \<noteq> v" and "rows_of v d = R"
  shows "rows_of v (snd (replace_accounts io now u kid ids d)) = R"
  unfolding replace_accounts_def
  by (intro frame_steps) (use assms in \<open>simp_all add: frame_statements toApikeyaccounts_def\<close>)

lemma replace_external_frame:
  assumes "u \<noteq> v" and "rows_of v d = R"
  shows "rows_of v (snd (replace_external io now u kid ids d)) = R"
  unfolding replace_external_def
  by (intro frame_steps) (use assms in \<open>simp_all add: frame_statements\<close>)

lemma ReplaceApikeyAccounts_frame:
  assumes "u \<noteq> v"
  shows "rows_of v (snd (ReplaceApikeyAccounts io now u kid oa ext d)) = rows_of v d"
proof -
  have "rows_of v d = R \<Longrightarrow> rows_of v (snd (replace_body io now u kid ids exts d)) = R"
    for ids exts d R
    unfolding replace_body_def
    by (intro frame_steps replace_accounts_frame replace_external_frame)
      (use assms in \<open>simp_all add: frame_statements\<close>)
  then show ?thesis
    unfolding ReplaceApikeyAccounts_def repo_ReplaceApikeyAccounts_def
    by (intro frame_steps) (simp_all add: frame_steps)
qed

lemma UpdateApikey_frame:
  "u \<noteq> v \<Longrightarrow> rows_of v (snd (UpdateApikey io now u kid dis exp upd d)) = rows_of v d"
  unfolding UpdateApikey_def repo_UpdateApikey_def
  by (intro frame_steps) (simp_all add: frame_statements)

lemma DeleteApikey_frame: "u \<noteq> v \<Longrightarrow> rows_of v (snd (DeleteApikey io u kid d)) = rows_of v d"
  unfolding DeleteApikey_def repo_DeleteApikey_def
  by (intro frame_steps) (simp_all add: frame_statements)

section \<open>Creation\<close>

text \<open>The rows a creation adds.\<close>

definition account_binding :: "time \<Rightarrow> uint64 \<Rightarrow> uint64 \<Rightarrow> uint64 \<Rightarrow> Apikeyaccounts" where
  "account_binding now u kid x =
     \<lparr>aa_UserID = u, aa_ApiKeyID = kid, aa_OAuthInfoID = x, aa_CreatedAt = now\<rparr>"

definition external_binding :: "time \<Rightarrow> uint64 \<Rightarrow> uint64 \<Rightarrow> uint64 \<Rightarrow> ApikeyExternalKey" where
  "external_binding now u kid x =
     \<lparr>ek_UserID = u, ek_ApiKeyID = kid, ek_ExternalApiKeyID = x, ek_CreatedAt = now\<rparr>"

definition add_key ::
  "time \<Rightarrow> ApikeyInfo \<Rightarrow> uint64 list \<Rightarrow> uint64 list \<Rightarrow> db \<Rightarrow> db" where
  "add_key now k ids exts d =
     d\<lparr>api_keys := api_keys d @ [k], api_keys_seq := Suc (api_keys_seq d),
       api_key_accounts := api_key_accounts d @ map (account_binding now (key_UserID k) (key_ID k)) ids,
       api_key_external_keys :=
         api_key_external_keys d @ map (external_binding now (key_UserID k) (key_ID k)) exts\<rparr>"

definition new_key :: "time \<Rightarrow> nat \<Rightarrow> uint64 \<Rightarrow> (bytes \<Rightarrow> bytes) \<Rightarrow> bytes \<Rightarrow> ApikeyInfo" where
  "new_key now seq u sha256 raw =
     \<lparr>key_ID = of_nat seq, key_UserID = u, key_KeyHash = key_hash sha256 raw,
      key_KeyPrefix = take 12 raw, key_Disabled = False, key_ExpiresAt = None,
      key_CreatedAt = now, key_UpdatedAt = now\<rparr>"

lemma inserted_accounts:
  assumes "(if ids = [] then (Inr (), d) else call f (insert_accounts now
      (map (\<lambda>r. r\<lparr>aa_ApiKeyID := kid, aa_UserID := u\<rparr>) (toApikeyaccounts u ids))) d) = (Inr x, d')"
  shows "d' = d\<lparr>api_key_accounts := api_key_accounts d @ map (account_binding now u kid) ids\<rparr>
    \<and> (\<forall>x \<in> set ids. (u, x) \<in> set (oauth_refs d))"
proof (cases "ids = []")
  case True
  with assms show ?thesis by simp
next
  case False
  with assms have "call f (insert_accounts now (map (\<lambda>r. r\<lparr>aa_ApiKeyID := kid, aa_UserID := u\<rparr>)
      (toApikeyaccounts u ids))) d = (Inr x, d')" by simp
  from insert_accounts_InrD [OF call_InrD [OF this, THEN conjunct2]] show ?thesis
    by (auto simp: toApikeyaccounts_def account_binding_def comp_def)
qed

lemma inserted_external:
  assumes "(if exts = [] then (Inr (), d) else call f (insert_external_keys now
      (map (\<lambda>r. r\<lparr>ek_ApiKeyID := kid, ek_UserID := u\<rparr>)
        (map (\<lambda>x. \<lparr>ek_UserID = v, ek_ApiKeyID = 0, ek_ExternalApiKeyID = x, ek_CreatedAt = 0\<rparr>) exts))) d)
      = (Inr x, d')"
  shows "d' = d\<lparr>api_key_external_keys :=
           api_key_external_keys d @ map (external_binding now u kid) exts\<rparr>
    \<and> (\<forall>x \<in> set exts. (u, x) \<in> set (external_refs d))"
proof (cases "exts = []")
  case True
  with assms show ?thesis by simp
next
  case False
  with assms have "call f (insert_external_keys now (map (\<lambda>r. r\<lparr>ek_ApiKeyID := kid, ek_UserID := u\<rparr>)
      (map (\<lambda>x. \<lparr>ek_UserID = v, ek_ApiKeyID = 0, ek_ExternalApiKeyID = x, ek_CreatedAt = 0\<rparr>) exts))) d
      = (Inr x, d')" by simp
  from insert_external_keys_InrD [OF call_InrD [OF this, THEN conjunct2]] show ?thesis
    by (auto simp: external_binding_def comp_def)
qed

lemma bindings_empty: "toApikeyaccounts u ids = [] \<longleftrightarrow> ids = []" "map g exts = [] \<longleftrightarrow> exts = []"
  by (simp_all add: toApikeyaccounts_def)

lemma save_body_InrD:
  assumes "save_body io now ((toApikeyinfo (key_hash sha256 raw) u)\<lparr>key_KeyPrefix := take 12 raw\<rparr>)
      (toApikeyaccounts u ids)
      (map (\<lambda>x. \<lparr>ek_UserID = u, ek_ApiKeyID = 0, ek_ExternalApiKeyID = x, ek_CreatedAt = 0\<rparr>) exts) d
      = (Inr x, d')"
  shows "d' = add_key now (new_key now (api_keys_seq d) u sha256 raw) ids exts d"
    and "\<forall>x \<in> set ids. (u, x) \<in> set (oauth_refs d)"
    and "\<forall>x \<in> set exts. (u, x) \<in> set (external_refs d)"
    and "key_hash sha256 raw \<notin> set (map key_KeyHash (api_keys d))"
proof -
  let ?model = "(toApikeyinfo (key_hash sha256 raw) u)\<lparr>key_KeyPrefix := take 12 raw\<rparr>"
  from if_ok_InrD [OF assms [unfolded save_body_def]] obtain k d1 where
    k: "insert_key now ?model d = (Inr k, d1)" and
    rest: "if_ok (if toApikeyaccounts u ids = [] then (Inr (), d1) else call (io Q_InsertAccounts)
        (insert_accounts now (map (\<lambda>r. r\<lparr>aa_ApiKeyID := key_ID k, aa_UserID := key_UserID k\<rparr>)
          (toApikeyaccounts u ids))) d1)
      (\<lambda>_ d. if map (\<lambda>x. \<lparr>ek_UserID = u, ek_ApiKeyID = 0, ek_ExternalApiKeyID = x, ek_CreatedAt = 0\<rparr>) exts = []
        then (Inr (), d) else call (io Q_InsertExternal) (insert_external_keys now
          (map (\<lambda>r. r\<lparr>ek_ApiKeyID := key_ID k, ek_UserID := key_UserID k\<rparr>)
            (map (\<lambda>x. \<lparr>ek_UserID = u, ek_ApiKeyID = 0, ek_ExternalApiKeyID = x, ek_CreatedAt = 0\<rparr>) exts))) d)
      = (Inr x, d')"
    by (auto dest: call_InrD)
  from k have new: "k = new_key now (api_keys_seq d) u sha256 raw"
    by (simp add: insert_key_InrD(1) [OF k] new_key_def toApikeyinfo_def)
  then have u: "key_UserID k = u" by (simp add: new_key_def)
  from if_ok_InrD [OF rest [unfolded u bindings_empty]] obtain y d2 where
    a: "(if ids = [] then (Inr (), d1) else call (io Q_InsertAccounts) (insert_accounts now
        (map (\<lambda>r. r\<lparr>aa_ApiKeyID := key_ID k, aa_UserID := u\<rparr>) (toApikeyaccounts u ids))) d1) = (Inr y, d2)" and
    b: "(if exts = [] then (Inr (), d2) else call (io Q_InsertExternal) (insert_external_keys now
        (map (\<lambda>r. r\<lparr>ek_ApiKeyID := key_ID k, ek_UserID := u\<rparr>)
          (map (\<lambda>x. \<lparr>ek_UserID = u, ek_ApiKeyID = 0, ek_ExternalApiKeyID = x, ek_CreatedAt = 0\<rparr>) exts))) d2)
        = (Inr x, d')"
    by blast
  from inserted_accounts [OF a] inserted_external [OF b] insert_key_InrD [OF k] u new
  show "d' = add_key now (new_key now (api_keys_seq d) u sha256 raw) ids exts d"
    and "\<forall>x \<in> set ids. (u, x) \<in> set (oauth_refs d)"
    and "\<forall>x \<in> set exts. (u, x) \<in> set (external_refs d)"
    and "key_hash sha256 raw \<notin> set (map key_KeyHash (api_keys d))"
    by (simp_all add: add_key_def toApikeyinfo_def)
qed

lemma fk_as_accounts_InrD: "fk_as_accounts r = (Inr x, d) \<Longrightarrow> r = (Inr x, d)"
  by (auto simp: fk_as_accounts_def split: prod.splits sum.splits)

lemma generateApikey_InrD:
  assumes "generateApikey sha256 rnd = Inr (raw, h)"
  obtains secret where "rnd = Inr secret" and "raw = ''sk-'' @ RawURLEncode (fill_bytes 32 secret)"
    and "h = key_hash sha256 raw"
  using assms by (auto simp: generateApikey_def Let_def split: sum.splits)

lemma creat_targets_InrD:
  assumes "creat_targets io u oa ext d = Inr (ids, exts)"
  shows "u \<noteq> 0" and "u \<le> max_bigint" and "oa \<noteq> [] \<or> ext \<noteq> []"
    and "dedup_ids oa = Inr ids" and "dedup_ids ext = Inr exts"
  using assms by (auto simp: creat_targets_def split: if_splits sum.splits)

lemma CreatApikey_InrD:
  assumes "CreatApikey io sha256 now rnd u oa ext d = (Inr raw, d')"
  obtains secret ids exts where "rnd = Inr secret" and "raw = ''sk-'' @ RawURLEncode (fill_bytes 32 secret)"
    and "creat_targets io u oa ext d = Inr (ids, exts)"
    and "d' = add_key now (new_key now (api_keys_seq d) u sha256 raw) ids exts d"
    and "\<forall>x \<in> set ids. (u, x) \<in> set (oauth_refs d)"
    and "\<forall>x \<in> set exts. (u, x) \<in> set (external_refs d)"
    and "key_hash sha256 raw \<notin> set (map key_KeyHash (api_keys d))"
proof -
  from assms obtain ids exts h where t: "creat_targets io u oa ext d = Inr (ids, exts)"
    and g: "generateApikey sha256 rnd = Inr (raw, h)"
    and save: "if_ok (SaveApikey io now ((toApikeyinfo h u)\<lparr>key_KeyPrefix := take 12 raw\<rparr>)
        (toApikeyaccounts u ids) (map (\<lambda>x. \<lparr>ek_UserID = u, ek_ApiKeyID = 0,
          ek_ExternalApiKeyID = x, ek_CreatedAt = 0\<rparr>) exts) d) (\<lambda>_ d. (Inr raw, d)) = (Inr raw, d')"
    by (auto simp: CreatApikey_def dest: if_ok_InrD split: sum.splits prod.splits)
  from generateApikey_InrD [OF g] obtain secret where
    r: "rnd = Inr secret" "raw = ''sk-'' @ RawURLEncode (fill_bytes 32 secret)" "h = key_hash sha256 raw" .
  from if_ok_InrD [OF save] obtain x where "transaction (io Q_Commit) (save_body io now
        ((toApikeyinfo h u)\<lparr>key_KeyPrefix := take 12 raw\<rparr>) (toApikeyaccounts u ids)
        (map (\<lambda>x. \<lparr>ek_UserID = u, ek_ApiKeyID = 0, ek_ExternalApiKeyID = x, ek_CreatedAt = 0\<rparr>) exts))
      d = (Inr x, d')"
    by (auto simp: SaveApikey_def dest!: fk_as_accounts_InrD split: if_splits)
  from save_body_InrD [OF transaction_InrD [OF this, THEN conjunct2, unfolded r(3)]]
  show thesis using that [OF r(1,2) t] by blast
qed

section \<open>Errors leave the tables as they were\<close>

lemma transaction_error:
  assumes "fst (transaction f body s) = Inl e" and "\<forall>e'. f \<noteq> Some (Unacked e')"
  shows "snd (transaction f body s) = s"
  using assms by (auto simp: transaction_def split: option.splits fault.splits sum.splits prod.splits)

lemma fk_as_accounts_Inl: "fst (fk_as_accounts r) = Inl e \<Longrightarrow> \<exists>e'. fst r = Inl e'"
  by (auto simp: fk_as_accounts_def split: prod.splits sum.splits if_splits)

lemma SaveApikey_error:
  assumes "fst (SaveApikey io now m accs exts d) = Inl e" and "\<forall>e'. io Q_Commit \<noteq> Some (Unacked e')"
  shows "snd (SaveApikey io now m accs exts d) = d"
  using assms
  by (auto simp: SaveApikey_def dest!: fk_as_accounts_Inl transaction_error split: if_splits)

lemma CreatApikey_error:
  assumes "fst (CreatApikey io sha256 now rnd u oa ext d) = Inl e"
    and "\<forall>e'. io Q_Commit \<noteq> Some (Unacked e')"
  shows "snd (CreatApikey io sha256 now rnd u oa ext d) = d"
proof -
  have *: "fst r = Inl e' \<Longrightarrow> snd (if_ok r (\<lambda>_ d. (Inr x, d))) = snd r"
    "fst (if_ok r (\<lambda>_ d. (Inr x, d))) = Inl e \<Longrightarrow> fst r = Inl e" for r :: "(go_error + unit) \<times> db" and x :: bytes and e'
    by (auto simp: if_ok_def split: prod.splits sum.splits)
  show ?thesis
    using assms
    by (auto simp: CreatApikey_def * dest!: *(2) SaveApikey_error split: sum.splits prod.splits)
qed

lemma ReplaceApikeyAccounts_error:
  assumes "fst (ReplaceApikeyAccounts io now u kid oa ext d) = Inl e"
    and "\<forall>e'. io Q_Commit \<noteq> Some (Unacked e')"
  shows "snd (ReplaceApikeyAccounts io now u kid oa ext d) = d"
  using assms
  by (auto simp: ReplaceApikeyAccounts_def repo_ReplaceApikeyAccounts_def
      dest!: fk_as_accounts_Inl transaction_error split: sum.splits if_splits)

section \<open>Creation succeeds\<close>

lemma First_count: "count_where p rows = 0 \<longleftrightarrow> (\<forall>r \<in> set rows. \<not> p r)"
  by (auto simp: count_where_def filter_empty_conv)

lemma dedup_ids_valid:
  assumes "\<forall>x \<in> set xs. x \<noteq> 0 \<and> x \<le> max_bigint"
  shows "dedup_ids xs = Inr (rev (remdups (rev xs)))"
  using assms by (auto simp: dedup_ids_eq)

lemma identity_max:
  assumes "identity_ok ids seq" and "x \<in> set ids"
  shows "x \<noteq> 0 \<and> x \<le> max_bigint"
proof -
  have "0 < unat x" and "unat x < 2 ^ 63"
    using assms by (auto simp: identity_ok_def)
  then show ?thesis by (auto simp: max_bigint_def word_le_nat_alt)
qed

lemma owned_accounts_counted:
  assumes "db_inv d" and "distinct ids"
  shows "CountOwnedAccounts no_faults u ids d = Inr n \<Longrightarrow>
    n = length ids \<longleftrightarrow> (\<forall>x \<in> set ids. (u, x) \<in> set (oauth_refs d))"
  using count_owned [of oa_ID "oauth_infos d" ids oa_UserID u] assms
  by (auto simp: CountOwnedAccounts_def db_inv_def oauth_ok_def identity_ok_def)

lemma owned_external_counted:
  assumes "db_inv d" and "distinct ids"
  shows "CountOwnedExternalKeys no_faults u ids d = Inr n \<Longrightarrow>
    n = length ids \<longleftrightarrow> (\<forall>x \<in> set ids. (u, x) \<in> set (external_refs d))"
  using count_owned [of ext_ID "external_api_keys d" ids ext_UserID u] assms
  by (auto simp: CountOwnedExternalKeys_def db_inv_def external_ok_def identity_ok_def)

lemma creat_targets_ok:
  assumes inv: "db_inv d" and u: "u \<noteq> 0" "u \<le> max_bigint" and ne: "oa \<noteq> [] \<or> ext \<noteq> []"
    and oa: "\<forall>x \<in> set oa. (u, x) \<in> set (oauth_refs d)"
    and ext: "\<forall>x \<in> set ext. (u, x) \<in> set (external_refs d)"
  shows "creat_targets no_faults u oa ext d = Inr (rev (remdups (rev oa)), rev (remdups (rev ext)))"
proof -
  let ?ids = "rev (remdups (rev oa))" and ?exts = "rev (remdups (rev ext))"
  have "\<forall>x \<in> set oa. x \<noteq> 0 \<and> x \<le> max_bigint"
    using inv oa identity_max [of "map oa_ID (oauth_infos d)"]
    by (fastforce simp: db_inv_def oauth_ok_def)
  then have 1: "dedup_ids oa = Inr ?ids" by (rule dedup_ids_valid)
  have "\<forall>x \<in> set ext. x \<noteq> 0 \<and> x \<le> max_bigint"
    using inv ext identity_max [of "map ext_ID (external_api_keys d)"]
    by (fastforce simp: db_inv_def external_ok_def)
  then have 2: "dedup_ids ext = Inr ?exts" by (rule dedup_ids_valid)
  have 3: "CountOwnedAccounts no_faults u ?ids d = Inr (length ?ids)"
    using owned_accounts_counted [OF inv, of ?ids u] oa
    by (simp add: CountOwnedAccounts_def)
  have 4: "CountOwnedExternalKeys no_faults u ?exts d = Inr (length ?exts)"
    using owned_external_counted [OF inv, of ?exts u] ext
    by (simp add: CountOwnedExternalKeys_def)
  show ?thesis
    using u ne leD [OF u(2)]
    by (simp add: creat_targets_def svc_checkOauth_def check_external_def 1 2 3 4)
qed

lemma insert_key_ok:
  assumes "api_keys_seq d < 2 ^ 63" and "length (key_KeyHash r) \<le> 64" and "length (key_KeyPrefix r) \<le> 20"
    and "key_KeyHash r \<notin> set (map key_KeyHash (api_keys d))" and "key_UserID r \<in> set (user_refs d)"
  shows "\<exists>d'. insert_key now r d = (Inr (r\<lparr>key_ID := of_nat (api_keys_seq d), key_CreatedAt := now,
      key_UpdatedAt := now\<rparr>), d')"
  using assms by (auto simp: insert_key_def Let_def)

lemma insert_accounts_ok:
  assumes "distinct (map account_pk (api_key_accounts d))"
    and new: "\<forall>a \<in> set (api_key_accounts d). aa_ApiKeyID a \<noteq> kid" and "distinct ids"
    and refs: "(u, kid) \<in> set (key_refs d)" "\<forall>x \<in> set ids. (u, x) \<in> set (oauth_refs d)"
    and rs: "map (\<lambda>r. r\<lparr>aa_CreatedAt := now\<rparr>) rs = map (account_binding now u kid) ids"
  shows "insert_accounts now rs d = (Inr (), d\<lparr>api_key_accounts :=
    api_key_accounts d @ map (account_binding now u kid) ids\<rparr>)"
proof -
  have pk: "account_pk \<circ> account_binding now u kid = Pair kid"
    by (rule ext) (simp add: account_pk_def account_binding_def)
  have "distinct (map account_pk (api_key_accounts d @ map (account_binding now u kid) ids))"
    using assms(1,3) new by (auto simp: pk distinct_map inj_on_def account_pk_def)
  moreover have "list_all (\<lambda>r. (aa_UserID r, aa_ApiKeyID r) \<in> set (key_refs d)
      \<and> (aa_UserID r, aa_OAuthInfoID r) \<in> set (oauth_refs d)) (map (account_binding now u kid) ids)"
    unfolding list.pred_map using refs by (simp add: list_all_iff account_binding_def del: set_map)
  ultimately show ?thesis by (simp only: insert_accounts_def Let_def rs if_True if_False not_True_eq_False)
qed

lemma insert_external_ok:
  assumes "distinct (map external_pk (api_key_external_keys d))"
    and new: "\<forall>a \<in> set (api_key_external_keys d). ek_ApiKeyID a \<noteq> kid" and "distinct ids"
    and refs: "(u, kid) \<in> set (key_refs d)" "\<forall>x \<in> set ids. (u, x) \<in> set (external_refs d)"
    and rs: "map (\<lambda>r. r\<lparr>ek_CreatedAt := now\<rparr>) rs = map (external_binding now u kid) ids"
  shows "insert_external_keys now rs d = (Inr (), d\<lparr>api_key_external_keys :=
    api_key_external_keys d @ map (external_binding now u kid) ids\<rparr>)"
proof -
  have pk: "external_pk \<circ> external_binding now u kid = Pair kid"
    by (rule ext) (simp add: external_pk_def external_binding_def)
  have "distinct (map external_pk (api_key_external_keys d @ map (external_binding now u kid) ids))"
    using assms(1,3) new by (auto simp: pk distinct_map inj_on_def external_pk_def)
  moreover have "list_all (\<lambda>r. (ek_UserID r, ek_ApiKeyID r) \<in> set (key_refs d)
      \<and> (ek_UserID r, ek_ExternalApiKeyID r) \<in> set (external_refs d)) (map (external_binding now u kid) ids)"
    unfolding list.pred_map using refs by (simp add: list_all_iff external_binding_def del: set_map)
  ultimately show ?thesis
    by (simp only: insert_external_keys_def Let_def rs if_True if_False not_True_eq_False)
qed

text \<open>The identifier a new key gets is not that of any row yet.\<close>

lemma fresh_key_id:
  assumes "db_inv d" and "api_keys_seq d < 2 ^ 63"
  shows "\<forall>a \<in> set (api_key_accounts d). aa_ApiKeyID a \<noteq> of_nat (api_keys_seq d)"
    and "\<forall>a \<in> set (api_key_external_keys d). ek_ApiKeyID a \<noteq> of_nat (api_keys_seq d)"
proof -
  have "unat (of_nat (api_keys_seq d) :: uint64) = api_keys_seq d"
    using assms(2) by (simp add: unat_of_nat take_bit_nat_eq_self_iff)
  moreover have "\<forall>k \<in> set (api_keys d). unat (key_ID k) < api_keys_seq d"
    using assms(1) by (auto simp: db_inv_def keys_ok_def identity_ok_def)
  ultimately have *: "(u, of_nat (api_keys_seq d)) \<notin> set (key_refs d)" for u by auto
  have A: "\<forall>a \<in> set (api_key_accounts d). (aa_UserID a, aa_ApiKeyID a) \<in> set (key_refs d)"
    and B: "\<forall>a \<in> set (api_key_external_keys d). (ek_UserID a, ek_ApiKeyID a) \<in> set (key_refs d)"
    using assms(1) unfolding db_inv_def accounts_ok_def external_keys_ok_def by blast+
  show "\<forall>a \<in> set (api_key_accounts d). aa_ApiKeyID a \<noteq> of_nat (api_keys_seq d)"
  proof (intro ballI notI)
    fix a assume "a \<in> set (api_key_accounts d)" and new: "aa_ApiKeyID a = of_nat (api_keys_seq d)"
    from bspec [OF A this(1)] show False unfolding new using * by (rule notE [rotated])
  qed
  show "\<forall>a \<in> set (api_key_external_keys d). ek_ApiKeyID a \<noteq> of_nat (api_keys_seq d)"
  proof (intro ballI notI)
    fix a assume "a \<in> set (api_key_external_keys d)" and new: "ek_ApiKeyID a = of_nat (api_keys_seq d)"
    from bspec [OF B this(1)] show False unfolding new using * by (rule notE [rotated])
  qed
qed

lemma length_key_hash [simp]: "length (key_hash sha256 raw) = 2 * length (sha256 raw)"
  by (simp add: key_hash_def)

lemma save_body_ok:
  assumes inv: "db_inv d" and seq: "api_keys_seq d < 2 ^ 63" and u: "u \<in> set (user_refs d)"
    and sha: "length (sha256 raw) = 32" and fresh: "key_hash sha256 raw \<notin> set (map key_KeyHash (api_keys d))"
    and ids: "distinct ids" "\<forall>x \<in> set ids. (u, x) \<in> set (oauth_refs d)"
    and exts: "distinct exts" "\<forall>x \<in> set exts. (u, x) \<in> set (external_refs d)"
  shows "save_body no_faults now ((toApikeyinfo (key_hash sha256 raw) u)\<lparr>key_KeyPrefix := take 12 raw\<rparr>)
      (toApikeyaccounts u ids)
      (map (\<lambda>x. \<lparr>ek_UserID = u, ek_ApiKeyID = 0, ek_ExternalApiKeyID = x, ek_CreatedAt = 0\<rparr>) exts) d
    = (Inr (), add_key now (new_key now (api_keys_seq d) u sha256 raw) ids exts d)"
proof -
  let ?k = "new_key now (api_keys_seq d) u sha256 raw"
  let ?model = "(toApikeyinfo (key_hash sha256 raw) u)\<lparr>key_KeyPrefix := take 12 raw\<rparr>"
  let ?d1 = "d\<lparr>api_keys := api_keys d @ [?k], api_keys_seq := Suc (api_keys_seq d)\<rparr>"
  let ?d2 = "?d1\<lparr>api_key_accounts := api_key_accounts d @ map (account_binding now u (key_ID ?k)) ids\<rparr>"
  let ?rs = "map (\<lambda>r. r\<lparr>aa_ApiKeyID := key_ID ?k, aa_UserID := key_UserID ?k\<rparr>) (toApikeyaccounts u ids)"
  let ?es = "map (\<lambda>r. r\<lparr>ek_ApiKeyID := key_ID ?k, ek_UserID := key_UserID ?k\<rparr>)
      (map (\<lambda>x. \<lparr>ek_UserID = u, ek_ApiKeyID = 0, ek_ExternalApiKeyID = x, ek_CreatedAt = 0\<rparr>) exts)"
  have k: "key_UserID ?k = u" "key_ID ?k = of_nat (api_keys_seq d)" by (simp_all add: new_key_def)
  have 1: "insert_key now ?model d = (Inr ?k, ?d1)"
    using seq u sha fresh by (auto simp: insert_key_def Let_def toApikeyinfo_def new_key_def)
  have pks: "distinct (map account_pk (api_key_accounts d))" "distinct (map external_pk (api_key_external_keys d))"
    using inv by (simp_all add: db_inv_def accounts_ok_def external_keys_ok_def)
  have 2: "insert_accounts now ?rs ?d1 = (Inr (), ?d2)"
    using insert_accounts_ok [of ?d1 "key_ID ?k" ids u now ?rs] pks fresh_key_id [OF inv seq] ids
    by (simp add: k toApikeyaccounts_def account_binding_def comp_def del: set_map)
  have 3: "insert_external_keys now ?es ?d2 = (Inr (), add_key now ?k ids exts d)"
    using insert_external_ok [of ?d2 "key_ID ?k" exts u now ?es] pks fresh_key_id [OF inv seq] exts
    by (simp add: k external_binding_def comp_def add_key_def del: set_map)
  show ?thesis
    by (cases "ids = []"; cases "exts = []")
      (insert 2 3, simp_all add: save_body_def bindings_empty 1 add_key_def k del: map_map)
qed

lemma CreatApikey_ok:
  assumes inv: "db_inv d" and seq: "api_keys_seq d < 2 ^ 63" and u: "u \<in> set (user_refs d)"
    and ne: "oa \<noteq> [] \<or> ext \<noteq> []"
    and oa: "\<forall>x \<in> set oa. (u, x) \<in> set (oauth_refs d)"
    and ext: "\<forall>x \<in> set ext. (u, x) \<in> set (external_refs d)"
    and raw: "raw = ''sk-'' @ RawURLEncode (fill_bytes 32 secret)"
    and sha: "length (sha256 raw) = 32" and fresh: "key_hash sha256 raw \<notin> set (map key_KeyHash (api_keys d))"
  shows "CreatApikey no_faults sha256 now (Inr secret) u oa ext d =
    (Inr raw, add_key now (new_key now (api_keys_seq d) u sha256 raw)
       (rev (remdups (rev oa))) (rev (remdups (rev ext))) d)"
proof -
  let ?ids = "rev (remdups (rev oa))" and ?exts = "rev (remdups (rev ext))"
  have "u \<noteq> 0 \<and> u \<le> max_bigint"
    using inv u identity_max [of "user_refs d"] by (auto simp: db_inv_def users_ok_def)
  then have t: "creat_targets no_faults u oa ext d = Inr (?ids, ?exts)"
    using creat_targets_ok [OF inv _ _ ne oa ext] by blast
  have "save_body no_faults now ((toApikeyinfo (key_hash sha256 raw) u)\<lparr>key_KeyPrefix := take 12 raw\<rparr>)
      (toApikeyaccounts u ?ids)
      (map (\<lambda>x. \<lparr>ek_UserID = u, ek_ApiKeyID = 0, ek_ExternalApiKeyID = x, ek_CreatedAt = 0\<rparr>) ?exts) d
    = (Inr (), add_key now (new_key now (api_keys_seq d) u sha256 raw) ?ids ?exts d)"
    using save_body_ok [OF inv seq u sha fresh, of ?ids ?exts] oa ext by simp
  moreover have "?ids \<noteq> [] \<or> ?exts \<noteq> []" using ne by simp
  moreover have "generateApikey sha256 (Inr secret) = Inr (raw, key_hash sha256 raw)"
    by (simp add: generateApikey_def Let_def raw)
  ultimately show ?thesis
    unfolding CreatApikey_def t SaveApikey_def
    by (simp add: bindings_empty transaction_def fk_as_accounts_def)
qed

section \<open>Replacement\<close>

text \<open>The tables after the scope of a key has been replaced.\<close>

definition set_scope ::
  "time \<Rightarrow> uint64 \<Rightarrow> uint64 \<Rightarrow> uint64 list \<Rightarrow> uint64 list \<Rightarrow> db \<Rightarrow> db" where
  "set_scope now u kid ids exts d =
     d\<lparr>api_key_accounts := filter (\<lambda>a. \<not> (aa_ApiKeyID a = kid \<and> aa_UserID a = u)) (api_key_accounts d)
         @ map (account_binding now u kid) ids,
       api_key_external_keys :=
         filter (\<lambda>k. \<not> (ek_ApiKeyID k = kid \<and> ek_UserID k = u)) (api_key_external_keys d)
         @ map (external_binding now u kid) exts,
       api_keys := update_where (owns_key u kid) (\<lambda>k. k\<lparr>key_UpdatedAt := now\<rparr>) (api_keys d)\<rparr>"

lemma lock_key_InrD: "lock_key io u kid d = (Inr k, d') \<Longrightarrow> d' = d \<and> k \<in> set (api_keys d) \<and> owns_key u kid k"
  by (auto simp: lock_key_def dest!: query_InrD First_InrD split: sum.splits)

lemma replace_accounts_InrD:
  assumes "replace_accounts io now u kid ids d = (Inr x, d')"
  shows "d' = d\<lparr>api_key_accounts := filter (\<lambda>a. \<not> (aa_ApiKeyID a = kid \<and> aa_UserID a = u)) (api_key_accounts d)
         @ map (account_binding now u kid) ids\<rparr>"
    and "\<forall>x \<in> set ids. (u, x) \<in> set (oauth_refs d)"
proof -
  let ?d1 = "d\<lparr>api_key_accounts := filter (\<lambda>a. \<not> (aa_ApiKeyID a = kid \<and> aa_UserID a = u)) (api_key_accounts d)\<rparr>"
  from assms have "(if ids = [] then (Inr (), ?d1) else call (io Q_InsertAccounts)
      (insert_accounts now (map (\<lambda>a. a\<lparr>aa_ApiKeyID := kid\<rparr>) (toApikeyaccounts u ids))) ?d1) = (Inr x, d')"
    by (auto simp: replace_accounts_def delete_accounts_def dest!: if_ok_InrD call_InrD
        split: sum.splits if_splits)
  moreover have "map (\<lambda>a. a\<lparr>aa_ApiKeyID := kid\<rparr>) (toApikeyaccounts u ids)
      = map (\<lambda>r. r\<lparr>aa_ApiKeyID := kid, aa_UserID := u\<rparr>) (toApikeyaccounts u ids)"
    by (simp add: toApikeyaccounts_def)
  ultimately have "(if ids = [] then (Inr (), ?d1) else call (io Q_InsertAccounts)
      (insert_accounts now (map (\<lambda>r. r\<lparr>aa_ApiKeyID := kid, aa_UserID := u\<rparr>) (toApikeyaccounts u ids))) ?d1)
      = (Inr x, d')" by (simp only:)
  from inserted_accounts [OF this]
  show "d' = d\<lparr>api_key_accounts := filter (\<lambda>a. \<not> (aa_ApiKeyID a = kid \<and> aa_UserID a = u)) (api_key_accounts d)
         @ map (account_binding now u kid) ids\<rparr>"
    and "\<forall>x \<in> set ids. (u, x) \<in> set (oauth_refs d)" by simp_all
qed

lemma replace_external_InrD:
  assumes "replace_external io now u kid exts d = (Inr x, d')"
  shows "d' = d\<lparr>api_key_external_keys :=
         filter (\<lambda>k. \<not> (ek_ApiKeyID k = kid \<and> ek_UserID k = u)) (api_key_external_keys d)
         @ map (external_binding now u kid) exts\<rparr>"
    and "\<forall>x \<in> set exts. (u, x) \<in> set (external_refs d)"
proof -
  let ?d1 = "d\<lparr>api_key_external_keys :=
         filter (\<lambda>k. \<not> (ek_ApiKeyID k = kid \<and> ek_UserID k = u)) (api_key_external_keys d)\<rparr>"
  from if_ok_InrD [OF assms [unfolded replace_external_def]]
  have "(if exts = [] then (Inr (), ?d1) else call (io Q_InsertExternal)
      (insert_external_keys now (map (\<lambda>x. \<lparr>ek_UserID = u, ek_ApiKeyID = kid, ek_ExternalApiKeyID = x,
         ek_CreatedAt = 0\<rparr>) exts)) ?d1) = (Inr x, d')"
    by (auto simp: delete_external_keys_def dest!: if_ok_InrD call_InrD split: sum.splits if_splits)
  moreover have "map (\<lambda>x. \<lparr>ek_UserID = u, ek_ApiKeyID = kid, ek_ExternalApiKeyID = x, ek_CreatedAt = 0\<rparr>) exts
      = map (\<lambda>r. r\<lparr>ek_ApiKeyID := kid, ek_UserID := u\<rparr>)
          (map (\<lambda>x. \<lparr>ek_UserID = u, ek_ApiKeyID = 0, ek_ExternalApiKeyID = x, ek_CreatedAt = 0\<rparr>) exts)"
    by simp
  ultimately have "(if exts = [] then (Inr (), ?d1) else call (io Q_InsertExternal)
      (insert_external_keys now (map (\<lambda>r. r\<lparr>ek_ApiKeyID := kid, ek_UserID := u\<rparr>)
          (map (\<lambda>x. \<lparr>ek_UserID = u, ek_ApiKeyID = 0, ek_ExternalApiKeyID = x, ek_CreatedAt = 0\<rparr>) exts))) ?d1)
      = (Inr x, d')" by (simp only:)
  from inserted_external [OF this]
  show "d' = d\<lparr>api_key_external_keys :=
         filter (\<lambda>k. \<not> (ek_ApiKeyID k = kid \<and> ek_UserID k = u)) (api_key_external_keys d)
         @ map (external_binding now u kid) exts\<rparr>"
    and "\<forall>x \<in> set exts. (u, x) \<in> set (external_refs d)" by simp_all
qed

lemma replace_body_InrD:
  assumes "replace_body io now u kid ids exts d = (Inr x, d')"
  shows "d' = set_scope now u kid ids exts d" and "\<exists>k \<in> set (api_keys d). owns_key u kid k"
    and "\<forall>x \<in> set ids. (u, x) \<in> set (oauth_refs d)"
    and "\<forall>x \<in> set exts. (u, x) \<in> set (external_refs d)"
proof -
  from assms obtain k d1 y d2 z d3 where l: "lock_key io u kid d = (Inr k, d1)"
    and a: "replace_accounts io now u kid ids d1 = (Inr y, d2)"
    and b: "replace_external io now u kid exts d2 = (Inr z, d3)"
    and t: "d' = d3\<lparr>api_keys := update_where (owns_key u kid) (\<lambda>k. k\<lparr>key_UpdatedAt := now\<rparr>) (api_keys d3)\<rparr>"
    unfolding replace_body_def
    by (auto simp: update_keys_def dest!: if_ok_InrD call_InrD)
  from lock_key_InrD [OF l] replace_accounts_InrD [OF a] replace_external_InrD [OF b] t
  show "d' = set_scope now u kid ids exts d" and "\<exists>k \<in> set (api_keys d). owns_key u kid k"
    and "\<forall>x \<in> set ids. (u, x) \<in> set (oauth_refs d)"
    and "\<forall>x \<in> set exts. (u, x) \<in> set (external_refs d)"
    by (auto simp: set_scope_def)
qed

lemma ReplaceApikeyAccounts_InrD:
  assumes "ReplaceApikeyAccounts io now u kid oa ext d = (Inr x, d')"
  obtains ids exts where "dedup_ids oa = Inr ids" and "dedup_ids ext = Inr exts"
    and "ids \<noteq> [] \<or> exts \<noteq> []" and "replace_body io now u kid ids exts d = (Inr (), d')"
  using assms
  by (auto simp: ReplaceApikeyAccounts_def repo_ReplaceApikeyAccounts_def
      dest!: fk_as_accounts_InrD transaction_InrD split: sum.splits if_splits)

section \<open>Keys of other users\<close>

lemma lock_key_foreign:
  assumes "\<forall>k \<in> set (api_keys d). \<not> owns_key u kid k"
  shows "fst (lock_key no_faults u kid d) = Inl ErrApikeyNotFound"
proof -
  have "First key_ID (owns_key u kid) (api_keys d) = Inl ErrRecordNotFound"
    using assms by (simp add: First_Inl)
  then show ?thesis by (simp add: lock_key_def)
qed

lemma UpdateApikey_foreign:
  assumes "\<forall>k \<in> set (api_keys d). \<not> owns_key u kid k"
  shows "UpdateApikey no_faults now u kid dis exp upd d = (Inl ErrApikeyNotFound, d)"
proof -
  have "count_where (owns_key u kid) (api_keys d) = 0" using assms by (simp add: First_count)
  moreover have "update_where (owns_key u kid) f (api_keys d) = api_keys d" for f
    using assms by (simp add: update_where_def map_idI)
  ultimately show ?thesis
    by (simp add: UpdateApikey_def repo_UpdateApikey_def update_keys_def)
qed

lemma DeleteApikey_foreign:
  assumes "\<forall>k \<in> set (api_keys d). \<not> owns_key u kid k"
  shows "DeleteApikey no_faults u kid d = (Inl ErrApikeyNotFound, d)"
proof -
  have "filter (owns_key u kid) (api_keys d) = []" "filter (\<lambda>k. \<not> owns_key u kid k) (api_keys d) = api_keys d"
    using assms by (auto simp: filter_empty_conv filter_id_conv)
  then show ?thesis
    by (simp add: DeleteApikey_def repo_DeleteApikey_def delete_keys_def count_where_def)
qed

lemma ReplaceApikeyAccounts_foreign:
  assumes "\<forall>k \<in> set (api_keys d). \<not> owns_key u kid k"
    and "dedup_ids oa = Inr ids" and "dedup_ids ext = Inr exts" and "oa \<noteq> [] \<or> ext \<noteq> []"
  shows "ReplaceApikeyAccounts no_faults now u kid oa ext d = (Inl ErrApikeyNotFound, d)"
proof -
  have "ids = [] \<longleftrightarrow> oa = []" "exts = [] \<longleftrightarrow> ext = []"
    using dedup_ids_Inr(1) [OF assms(2)] dedup_ids_Inr(1) [OF assms(3)] by fastforce+
  moreover obtain d' where "lock_key no_faults u kid d = (Inl ErrApikeyNotFound, d')"
    using lock_key_foreign [OF assms(1)] by (metis prod.collapse)
  ultimately show ?thesis
    using assms(2-4)
    by (auto simp: ReplaceApikeyAccounts_def repo_ReplaceApikeyAccounts_def replace_body_def
        transaction_def fk_as_accounts_def)
qed

section \<open>Looking a key up by its secret\<close>

lemma key_by_hash:
  assumes "db_inv d" and "k \<in> set (api_keys d)" and "key_KeyHash k = h"
  shows "First key_ID (\<lambda>k. key_KeyHash k = h) (api_keys d) = Inr k"
proof (rule First_unique)
  fix k' assume "k' \<in> set (api_keys d)" and "key_KeyHash k' = h"
  moreover have "inj_on key_KeyHash (set (api_keys d))"
    using assms(1) by (simp add: db_inv_def keys_ok_def distinct_map)
  ultimately show "k' = k" using assms(2,3) by (metis inj_onD)
qed (use assms in simp_all)

lemma GetOauthByApikey_found:
  assumes "db_inv d" and "k \<in> set (api_keys d)" and "key_KeyHash k = key_hash sha256 raw"
  shows "GetOauthByApikey no_faults sha256 now raw d =
    (if key_Disabled k \<or> expired_at (key_ExpiresAt k) now then Inl ErrInvalidApikey
     else Inr (accounts_of_key k d))"
  by (simp add: GetOauthByApikey_def key_by_hash [OF assms])

lemma GetOauthByApikey_unknown:
  assumes "\<forall>k \<in> set (api_keys d). key_KeyHash k \<noteq> key_hash sha256 raw"
  shows "GetOauthByApikey no_faults sha256 now raw d = Inl ErrInvalidApikey"
proof -
  have "First key_ID (\<lambda>k. key_KeyHash k = key_hash sha256 raw) (api_keys d) = Inl ErrRecordNotFound"
    using assms by (simp add: First_Inl)
  then show ?thesis by (simp add: GetOauthByApikey_def)
qed

lemma set_join:
  "x \<in> set [f b a. b \<leftarrow> bs, P b, a \<leftarrow> as, Q b a]
    \<longleftrightarrow> (\<exists>b \<in> set bs. \<exists>a \<in> set as. P b \<and> Q b a \<and> x = f b a)"
  by auto

text \<open>An account as the check of a key sees it.\<close>

definition item_of :: "OAuthInfo \<Rightarrow> ApikeyAccountItem" where
  "item_of a = \<lparr>item_AccessToken = oa_AccessToken a, item_Expired = oa_Expired a, item_ID = oa_ID a,
     item_Email = oa_Email a, item_Type = oa_Type a, item_Disabled = oa_Disabled a\<rparr>"

lemma item_of_simps [simp]:
  "item_ID (item_of a) = oa_ID a" "item_Type (item_of a) = oa_Type a"
  "item_Disabled (item_of a) = oa_Disabled a" "item_AccessToken (item_of a) = oa_AccessToken a"
  "item_Expired (item_of a) = oa_Expired a"
  by (simp_all add: item_of_def)

text \<open>What the accounts of a key are, as a set: the owner's accounts bound to it.\<close>

lemma set_accounts_of_key:
  "x \<in> set (accounts_of_key k d) \<longleftrightarrow>
     (\<exists>b \<in> set (api_key_accounts d). \<exists>a \<in> set (oauth_infos d).
        aa_ApiKeyID b = key_ID k \<and> aa_UserID b = key_UserID k
      \<and> oa_ID a = aa_OAuthInfoID b \<and> oa_UserID a = aa_UserID b \<and> x = item_of a)"
  unfolding accounts_of_key_def set_asc set_join item_of_def by blast

section \<open>Listing\<close>

text \<open>
  The reference: each key of the user, newest first, with its external keys and its accounts
  in ascending order, and no credential in it.
\<close>

definition key_view :: "uint64 \<Rightarrow> db \<Rightarrow> ApikeyInfo \<Rightarrow> ApikeyListItem" where
  "key_view u d k =
     \<lparr>li_ExternalApiKeyIDs = asc id (map ek_ExternalApiKeyID
         (filter (\<lambda>b. ek_UserID b = u \<and> ek_ApiKeyID b = key_ID k) (api_key_external_keys d))),
      li_ID = key_ID k, li_KeyPrefix = key_KeyPrefix k, li_Disabled = key_Disabled k,
      li_ExpiresAt = key_ExpiresAt k,
      li_Accounts = asc item_ID
        [\<lparr>item_AccessToken = [], item_Expired = None, item_ID = oa_ID a, item_Email = oa_Email a,
           item_Type = oa_Type a, item_Disabled = oa_Disabled a\<rparr>.
          b \<leftarrow> api_key_accounts d, aa_UserID b = u \<and> aa_ApiKeyID b = key_ID k,
          a \<leftarrow> oauth_infos d, oa_ID a = aa_OAuthInfoID b \<and> oa_UserID a = aa_UserID b]\<rparr>"

lemma item_indexes_eq:
  assumes "distinct (map li_ID items)" and "i < length items"
  shows "item_indexes items (li_ID (items ! i)) = Some i"
proof -
  have "foldl (\<lambda>m i. m(li_ID (items ! i) \<mapsto> i)) Map.empty [0..<n] (li_ID (items ! j)) = Some j"
    if "j < n" "n \<le> length items" for j n
    using that
  proof (induction n)
    case (Suc n)
    show ?case
    proof (cases "j = n")
      case False
      then have "li_ID (items ! j) \<noteq> li_ID (items ! n)"
        using Suc.prems assms(1) by (auto simp: distinct_conv_nth)
      with False Suc show ?thesis by simp
    qed simp
  qed simp
  from this [of i "length items"] assms(2) show ?thesis by (simp add: item_indexes_def)
qed

text \<open>Distributing rows over the items by key is filtering them by key, item by item.\<close>

lemma foldl_distribute:
  fixes get :: "'i \<Rightarrow> 'r list" and ix :: "'k \<Rightarrow> nat"
  assumes "\<And>r. r \<in> set rows \<Longrightarrow> ix (fst r) < length items"
    and app: "\<And>items r. app items r =
        items[ix (fst r) := put (items ! ix (fst r)) (get (items ! ix (fst r)) @ [snd r])]"
    and get_put: "\<And>i v. get (put i v) = v" and put_put: "\<And>i v w. put (put i v) w = put i w"
    and put_get: "\<And>i. put i (get i) = i"
  shows "foldl app items rows =
    map (\<lambda>i. put (items ! i) (get (items ! i) @ map snd (filter (\<lambda>r. ix (fst r) = i) rows)))
      [0..<length items]"
  using assms(1)
proof (induction rows rule: rev_induct)
  case Nil
  show ?case by (simp add: put_get map_nth)
next
  case (snoc r rows)
  then have IH: "foldl app items rows =
      map (\<lambda>i. put (items ! i) (get (items ! i) @ map snd (filter (\<lambda>r. ix (fst r) = i) rows)))
        [0..<length items]" and r: "ix (fst r) < length items" by simp_all
  let ?old = "map (\<lambda>i. put (items ! i) (get (items ! i) @ map snd (filter (\<lambda>r. ix (fst r) = i) rows)))
        [0..<length items]"
  have "foldl app items (rows @ [r]) = app ?old r" by (simp only: foldl_append foldl.simps IH)
  also have "\<dots> = ?old[ix (fst r) := put (?old ! ix (fst r)) (get (?old ! ix (fst r)) @ [snd r])]"
    by (rule app)
  finally show ?case
    by (intro nth_equalityI) (use r in \<open>auto simp: nth_list_update get_put put_put\<close>)
qed

lemma desc_const: "(\<And>r. r \<in> set rows \<Longrightarrow> pk r = c) \<Longrightarrow> desc pk rows = rows"
  unfolding desc_def by (rule sort_key_id_if_sorted) (auto simp: sorted_wrt_map sorted_wrt_iff_nth_less)

lemma filter_desc: "filter p (desc pk rows) = desc pk (filter p rows)"
  by (simp add: desc_def filter_sort)

lemma filter_asc: "filter p (asc pk rows) = asc pk (filter p rows)"
  by (simp add: asc_def filter_sort)

lemma map_asc: "map f (asc (\<lambda>r. pk (f r)) rows) = asc pk (map f rows)"
  unfolding asc_def sort_key_def foldr_map comp_def
proof (induction rows)
  case (Cons r rows)
  have "map f (insort_key (\<lambda>r. pk (f r)) x xs) = insort_key pk (f x) (map f xs)" for x xs
    by (induction xs) auto
  with Cons show ?case by simp
qed simp

lemma filter_join:
  assumes "x \<in> S"
  shows "map snd (filter (\<lambda>r. fst r = x) [(g b, f b a). b \<leftarrow> bs, P b \<and> g b \<in> S, a \<leftarrow> as, Q b a])
    = [f b a. b \<leftarrow> bs, P b \<and> g b = x, a \<leftarrow> as, Q b a]"
proof (induction bs)
  case (Cons b bs)
  have "map snd (filter (\<lambda>r. fst r = x) [(g b, f b a). a \<leftarrow> as, Q b a])
      = (if g b = x then [f b a. a \<leftarrow> as, Q b a] else [])"
    by (induction as) auto
  with Cons assms show ?case by auto
qed simp

lemma key_rows_of_order:
  assumes "x \<in> set ids"
  shows "map snd (filter (\<lambda>r. fst r = x) (order_accounts (join_accounts u ids d))) =
    asc item_ID
        [\<lparr>item_AccessToken = [], item_Expired = None, item_ID = oa_ID a, item_Email = oa_Email a,
           item_Type = oa_Type a, item_Disabled = oa_Disabled a\<rparr>.
          b \<leftarrow> api_key_accounts d, aa_UserID b = u \<and> aa_ApiKeyID b = x,
          a \<leftarrow> oauth_infos d, oa_ID a = aa_OAuthInfoID b \<and> oa_UserID a = aa_UserID b]"
proof -
  have "filter (\<lambda>r. fst r = x) (order_accounts (join_accounts u ids d)) =
      asc (\<lambda>r. item_ID (snd r)) (filter (\<lambda>r. fst r = x) (join_accounts u ids d))"
    unfolding order_accounts_def filter_desc filter_asc by (rule desc_const) auto
  then have "map snd (filter (\<lambda>r. fst r = x) (order_accounts (join_accounts u ids d))) =
      asc item_ID (map snd (filter (\<lambda>r. fst r = x) (join_accounts u ids d)))"
    by (simp only: map_asc)
  then show ?thesis unfolding join_accounts_def filter_join [OF assms] .
qed

lemma key_rows_of_external:
  assumes "x \<in> set ids"
  shows "map snd (filter (\<lambda>r. fst r = x) (join_external u ids d)) =
    asc id (map ek_ExternalApiKeyID
         (filter (\<lambda>b. ek_UserID b = u \<and> ek_ApiKeyID b = x) (api_key_external_keys d)))"
proof -
  let ?rows = "map (\<lambda>k. (ek_ApiKeyID k, ek_ExternalApiKeyID k))
       (filter (\<lambda>k. ek_UserID k = u \<and> ek_ApiKeyID k \<in> set ids) (api_key_external_keys d))"
  have "filter (\<lambda>r. fst r = x) (join_external u ids d) = asc snd (filter (\<lambda>r. fst r = x) ?rows)"
    unfolding join_external_def filter_desc filter_asc by (rule desc_const) auto
  then have "map snd (filter (\<lambda>r. fst r = x) (join_external u ids d)) =
      asc id (map snd (filter (\<lambda>r. fst r = x) ?rows))"
    using map_asc [of snd id] by simp
  moreover have "map snd (filter (\<lambda>r. fst r = x) ?rows) = map ek_ExternalApiKeyID
         (filter (\<lambda>b. ek_UserID b = u \<and> ek_ApiKeyID b = x) (api_key_external_keys d))"
    using assms
    by (auto simp: filter_map comp_def intro!: arg_cong [where f = "map ek_ExternalApiKeyID"] filter_cong)
  ultimately show ?thesis by simp
qed


lemma GetApikeyByUserId_eq:
  assumes "db_inv d"
  shows "GetApikeyByUserId no_faults u d =
    Inr (map (key_view u d) (desc key_ID (filter (\<lambda>k. key_UserID k = u) (api_keys d))))"
proof -
  define keys where "keys = desc key_ID (filter (\<lambda>k. key_UserID k = u) (api_keys d))"
  define items where "items = list_keys u d"
  define ids where "ids = map li_ID items"
  define ix where "ix = index_of (item_indexes items)"
  have base: "items = map (\<lambda>k. \<lparr>li_ExternalApiKeyIDs = [], li_ID = key_ID k, li_KeyPrefix = key_KeyPrefix k,
      li_Disabled = key_Disabled k, li_ExpiresAt = key_ExpiresAt k, li_Accounts = []\<rparr>) keys"
    by (simp add: items_def list_keys_def keys_def)
  have ids: "ids = map key_ID keys" by (simp add: ids_def base)
  have "distinct (map key_ID (api_keys d))"
    using assms by (simp add: db_inv_def keys_ok_def identity_ok_def)
  then have "distinct ids" unfolding ids keys_def desc_def
    by (simp add: distinct_map inj_on_def)
  then have at: "ix (ids ! i) = i" if "i < length items" for i
    using item_indexes_eq [of items i] that by (simp add: ix_def index_of_def ids_def)
  have at': "ix x < length items \<and> (ix x = i \<longleftrightarrow> x = ids ! i)" if "x \<in> set ids" "i < length items" for x i
    using that at by (metis ids_def in_set_conv_nth length_map)
  define accs where "accs = order_accounts (join_accounts u ids d)"
  define exts where "exts = join_external u ids d"
  have accs: "fst r \<in> set ids" if "r \<in> set accs" for r
    using that by (auto simp: accs_def order_accounts_def join_accounts_def)
  have exts: "fst r \<in> set ids" if "r \<in> set exts" for r
    using that by (auto simp: exts_def join_external_def)
  have ne: "x \<in> set ids \<Longrightarrow> ix x < length items" for x
    using at' [of x 0] by (cases "items = []") (auto simp: ids_def)
  define items2 where "items2 = map (\<lambda>i. (items ! i)\<lparr>li_Accounts :=
      li_Accounts (items ! i) @ map snd (filter (\<lambda>r. ix (fst r) = i) accs)\<rparr>) [0..<length items]"
  have A: "foldl (append_account (item_indexes items)) items accs = items2"
    unfolding items2_def
    by (rule foldl_distribute [where get = li_Accounts and put = "\<lambda>i v. i\<lparr>li_Accounts := v\<rparr>"])
      (simp_all add: append_account_def Let_def ix_def [symmetric] ne accs)
  have len: "length items2 = length items" by (simp add: items2_def)
  have B: "foldl (append_external (item_indexes items)) items2 exts =
    map (\<lambda>i. (items2 ! i)\<lparr>li_ExternalApiKeyIDs :=
      li_ExternalApiKeyIDs (items2 ! i) @ map snd (filter (\<lambda>r. ix (fst r) = i) exts)\<rparr>) [0..<length items2]"
    by (rule foldl_distribute [where get = li_ExternalApiKeyIDs
          and put = "\<lambda>i v. i\<lparr>li_ExternalApiKeyIDs := v\<rparr>"])
      (simp_all add: append_external_def Let_def ix_def [symmetric] ne exts len)
  have C: "foldl (append_external (item_indexes items)) items2 exts = map (key_view u d) keys"
    unfolding B
  proof (rule nth_equalityI)
    fix i assume "i < length (map (\<lambda>i. (items2 ! i)\<lparr>li_ExternalApiKeyIDs :=
      li_ExternalApiKeyIDs (items2 ! i) @ map snd (filter (\<lambda>r. ix (fst r) = i) exts)\<rparr>) [0..<length items2])"
    then have i: "i < length items" "i < length keys" by (simp_all add: len base)
    have x: "key_ID (keys ! i) \<in> set ids" using i by (simp add: ids)
    have "ids ! i = key_ID (keys ! i)" using i by (simp add: ids)
    then have pick: "map snd (filter (\<lambda>r. ix (fst r) = i) rows) = map snd (filter (\<lambda>r. fst r = key_ID (keys ! i)) rows)"
      if "\<And>r. r \<in> set rows \<Longrightarrow> fst r \<in> set ids" for rows :: "(uint64 \<times> 'z) list"
      by (intro arg_cong [where f = "map snd"] filter_cong refl)
        (use at' [OF that i(1)] \<open>ids ! i = key_ID (keys ! i)\<close> in simp)
    show "map (\<lambda>i. (items2 ! i)\<lparr>li_ExternalApiKeyIDs :=
      li_ExternalApiKeyIDs (items2 ! i) @ map snd (filter (\<lambda>r. ix (fst r) = i) exts)\<rparr>) [0..<length items2] ! i
        = map (key_view u d) keys ! i"
      using i pick [of accs, OF accs] pick [of exts, OF exts]
        key_rows_of_order [OF x, of u d] key_rows_of_external [OF x, of u d]
      by (simp add: len items2_def base key_view_def accs_def exts_def)
  qed (simp add: len base)
  show ?thesis
    unfolding keys_def [symmetric]
    by (cases "items = []")
      (simp_all add: GetApikeyByUserId_def Let_def items_def [symmetric] ids_def [symmetric]
        accs_def [symmetric] exts_def [symmetric] A C, simp add: base)
qed

end
