(* ===== verification/ApiKeyAuth.thy ===== *)
theory ApiKeyAuth imports ApiKeyFacts begin

text \<open>
  Authentication by API key: the checklist of models (\<open>check.go\<close>, \<open>init.go\<close>), the check of a
  key for a model (\<open>checkOauth.go\<close>) and the choice of the credential (\<open>getCrendital.go\<close>).
\<close>

section \<open>The checklist\<close>

text \<open>A Go map of strings: reading an absent key gives the empty string.\<close>

type_synonym Checklist = "bytes \<rightharpoonup> bytes"

definition NewChecklist :: Checklist where
  "NewChecklist = Map.empty"

definition register :: "bytes \<Rightarrow> bytes \<Rightarrow> Checklist \<Rightarrow> Checklist" where
  "register model needOauth c = c(model \<mapsto> needOauth)"

definition getNeedOauth :: "Checklist \<Rightarrow> bytes \<Rightarrow> bytes" where
  "getNeedOauth c model = (case c model of None \<Rightarrow> [] | Some t \<Rightarrow> t)"

definition codex_models :: "bytes list" where
  "codex_models = [''gpt-6-astra'', ''gpt-5.6-sol'', ''gpt-5.6-terra'',
     ''gpt-5.6-luna'', ''gpt-5.5'', ''gpt-5.3-codex-spark'']"

text \<open>The package's \<open>init\<close> fills the default checklist.\<close>

definition defaultchecklist :: Checklist where
  "defaultchecklist = foldl (\<lambda>c model. register model ''codex'' c) NewChecklist codex_models"

definition GetNeedOauth :: "bytes \<Rightarrow> bytes" where
  "GetNeedOauth model = getNeedOauth defaultchecklist model"

section \<open>Checking a key for a model\<close>

text \<open>\<open>Apikeycheck\<close> is ready when a repository has been injected (\<open>ApikeycheckInject\<close>).\<close>

definition checkOauth ::
  "bool \<Rightarrow> key_faults \<Rightarrow> (bytes \<Rightarrow> bytes) \<Rightarrow> time \<Rightarrow> bytes \<Rightarrow> bytes \<Rightarrow> db
    \<Rightarrow> go_error + ApikeyAccountItem list" where
  "checkOauth ready io sha256 now apikey model d =
     (if \<not> ready then Inl ErrCheckUnavailable
      else case GetOauthByApikey io sha256 now apikey d of
        Inl e \<Rightarrow> Inl e
      | Inr accounts \<Rightarrow>
          let needOauth = GetNeedOauth model in
          if needOauth = [] then Inl ErrUnsupportedModel
          else let allowed = filter (\<lambda>a. \<not> item_Disabled a \<and> item_Type a = needOauth) accounts in
          if allowed = [] then Inl ErrOauthForbidden else Inr allowed)"

section \<open>The credential\<close>

record Credential =
  cred_Mode :: bytes
  cred_Secret :: bytes

text \<open>
  \<open>ctx_err\<close> is \<open>ctx.Err()\<close>; \<open>decrypt\<close> is AES-GCM decryption with the injected key, which fails
  on a ciphertext it did not produce.
\<close>

definition getCredential ::
  "go_error option \<Rightarrow> (bytes \<Rightarrow> bytes option) \<Rightarrow> time \<Rightarrow> ApikeyAccountItem list \<Rightarrow> go_error + Credential" where
  "getCredential ctx_err decrypt now accounts =
     (case ctx_err of Some e \<Rightarrow> Inl e | None \<Rightarrow>
      (case accounts of [] \<Rightarrow> Inl ErrOauthForbidden | account # _ \<Rightarrow>
        if item_Disabled account \<or> item_Type account \<noteq> ''codex'' then Inl ErrOauthForbidden
        else if expired_at (item_Expired account) now then Inl ErrCredentialUnavailable
        else case decrypt (item_AccessToken account) of
               None \<Rightarrow> Inl ErrCredentialUnavailable
             | Some plain \<Rightarrow>
                 if TrimSpace plain = [] then Inl ErrCredentialUnavailable
                 else Inr \<lparr>cred_Mode = ''access_token'', cred_Secret = plain\<rparr>))"

section \<open>Facts\<close>

interpretation checklist: registry "\<lambda>c model. c model" register NewChecklist
  by unfold_locales (simp_all add: register_def NewChecklist_def)

lemma defaultchecklist_add_all:
  "defaultchecklist = checklist.add_all (map (\<lambda>model. (model, ''codex'')) codex_models) NewChecklist"
  by (simp add: defaultchecklist_def checklist.add_all_def foldl_map)

lemma GetNeedOauth_eq: "GetNeedOauth model = (if model \<in> set codex_models then ''codex'' else [])"
proof -
  have "defaultchecklist model = (if model \<in> fst ` set (map (\<lambda>model. (model, ''codex'')) codex_models)
      then Some ''codex'' else None)"
    unfolding defaultchecklist_add_all by (rule checklist.find_registered) auto
  then show ?thesis by (simp add: GetNeedOauth_def getNeedOauth_def image_image)
qed

lemma checkOauth_Inr:
  assumes "checkOauth ready io sha256 now apikey model d = Inr accs"
  shows "ready" and "model \<in> set codex_models" and "accs \<noteq> []"
    and "\<exists>all. GetOauthByApikey io sha256 now apikey d = Inr all
      \<and> accs = filter (\<lambda>a. \<not> item_Disabled a \<and> item_Type a = ''codex'') all"
  using assms by (auto simp: checkOauth_def GetNeedOauth_eq Let_def split: if_splits sum.splits)

lemma GetOauthByApikey_InrD:
  assumes "GetOauthByApikey io sha256 now raw d = Inr accs"
  shows "\<exists>k \<in> set (api_keys d). key_KeyHash k = key_hash sha256 raw \<and> \<not> key_Disabled k
    \<and> \<not> expired_at (key_ExpiresAt k) now \<and> accs = accounts_of_key k d"
  using assms
  by (auto simp: GetOauthByApikey_def dest!: query_InrD First_InrD split: sum.splits if_splits)

lemma DeleteApikey_InrD:
  assumes "DeleteApikey io u kid d = (Inr x, d')"
  shows "d' = snd (delete_keys (owns_key u kid) d)"
  using assms
  by (auto simp: DeleteApikey_def repo_DeleteApikey_def dest!: if_ok_InrD call_InrD split: if_splits)

lemma UpdateApikey_InrD:
  assumes "UpdateApikey io now u kid dis exp upd d = (Inr x, d')"
  shows "d' = d\<lparr>api_keys := update_where (owns_key u kid)
    (\<lambda>k. k\<lparr>key_UpdatedAt := now,
            key_Disabled := (case dis of None \<Rightarrow> key_Disabled k | Some b \<Rightarrow> b),
            key_ExpiresAt := (if upd then exp else key_ExpiresAt k)\<rparr>) (api_keys d)\<rparr>"
    and "\<exists>k \<in> set (api_keys d). owns_key u kid k"
  using assms First_count [of "owns_key u kid" "api_keys d"]
  by (auto simp: UpdateApikey_def repo_UpdateApikey_def update_keys_def
      dest!: if_ok_InrD call_InrD split: if_splits)

lemma hash_determines_key:
  "db_inv d \<Longrightarrow> k \<in> set (api_keys d) \<Longrightarrow> k' \<in> set (api_keys d) \<Longrightarrow> key_KeyHash k = key_KeyHash k' \<Longrightarrow> k = k'"
  by (auto simp: db_inv_def keys_ok_def distinct_map dest: inj_onD)

text \<open>The accounts a key just made is bound to.\<close>

lemma accounts_of_new_key:
  assumes inv: "db_inv d" and seq: "api_keys_seq d < 2 ^ 63"
    and own: "\<forall>x \<in> set ids. (u, x) \<in> set (oauth_refs d)"
  shows "set (accounts_of_key (new_key now (api_keys_seq d) u sha256 raw)
      (add_key now (new_key now (api_keys_seq d) u sha256 raw) ids exts d))
    = item_of ` {a \<in> set (oauth_infos d). oa_UserID a = u \<and> oa_ID a \<in> set ids}"
proof -
  let ?k = "new_key now (api_keys_seq d) u sha256 raw"
  let ?d = "add_key now ?k ids exts d"
  have k: "key_UserID ?k = u" "key_ID ?k = of_nat (api_keys_seq d)" by (simp_all add: new_key_def)
  have bound: "b \<in> set (api_key_accounts ?d) \<and> aa_ApiKeyID b = key_ID ?k \<and> aa_UserID b = u
      \<longleftrightarrow> (\<exists>x \<in> set ids. b = account_binding now u (key_ID ?k) x)" for b
    using fresh_key_id(1) [OF inv seq] by (auto simp: add_key_def k account_binding_def)
  have oa: "oauth_infos ?d = oauth_infos d" by (simp add: add_key_def)
  have "x \<in> set (accounts_of_key ?k ?d) \<longleftrightarrow>
      (\<exists>b. (b \<in> set (api_key_accounts ?d) \<and> aa_ApiKeyID b = key_ID ?k \<and> aa_UserID b = u)
        \<and> (\<exists>a \<in> set (oauth_infos d). oa_ID a = aa_OAuthInfoID b \<and> oa_UserID a = aa_UserID b
             \<and> x = item_of a))" for x
    unfolding set_accounts_of_key k(1) oa by blast
  then have "x \<in> set (accounts_of_key ?k ?d) \<longleftrightarrow> (\<exists>y \<in> set ids. \<exists>a \<in> set (oauth_infos d).
      oa_ID a = aa_OAuthInfoID (account_binding now u (key_ID ?k) y)
      \<and> oa_UserID a = aa_UserID (account_binding now u (key_ID ?k) y) \<and> x = item_of a)" for x
    unfolding bound by blast
  then show ?thesis by (auto simp: account_binding_def)
qed

lemma CreatApikey_seq:
  assumes "CreatApikey io sha256 now rnd u oa ext d = (Inr raw, d')"
  shows "api_keys_seq d < 2 ^ 63"
  using assms
  by (auto simp: CreatApikey_def SaveApikey_def save_body_def
      dest!: if_ok_InrD fk_as_accounts_InrD transaction_InrD call_InrD insert_key_InrD(3)
      split: sum.splits prod.splits if_splits)

lemma CreatApikey_effect:
  assumes "CreatApikey io sha256 now rnd u oa ext d = (Inr raw, d')"
  shows "\<exists>secret ids exts. rnd = Inr secret \<and> raw = ''sk-'' @ RawURLEncode (fill_bytes 32 secret)
    \<and> d' = add_key now (new_key now (api_keys_seq d) u sha256 raw) ids exts d
    \<and> ids = rev (remdups (rev oa)) \<and> exts = rev (remdups (rev ext)) \<and> (oa \<noteq> [] \<or> ext \<noteq> [])
    \<and> (\<forall>x \<in> set oa. (u, x) \<in> set (oauth_refs d)) \<and> (\<forall>x \<in> set ext. (u, x) \<in> set (external_refs d))
    \<and> key_hash sha256 raw \<notin> set (map key_KeyHash (api_keys d))"
proof -
  from CreatApikey_InrD [OF assms] obtain secret ids exts where
    r: "rnd = Inr secret" "raw = ''sk-'' @ RawURLEncode (fill_bytes 32 secret)"
    and t: "creat_targets io u oa ext d = Inr (ids, exts)"
    and e: "d' = add_key now (new_key now (api_keys_seq d) u sha256 raw) ids exts d"
      "\<forall>x \<in> set ids. (u, x) \<in> set (oauth_refs d)" "\<forall>x \<in> set exts. (u, x) \<in> set (external_refs d)"
      "key_hash sha256 raw \<notin> set (map key_KeyHash (api_keys d))" .
  from creat_targets_InrD [OF t] have "ids = rev (remdups (rev oa))" "exts = rev (remdups (rev ext))"
    "oa \<noteq> [] \<or> ext \<noteq> []" by (simp_all add: dedup_ids_eq split: if_splits)
  with r e show ?thesis by simp
qed

lemma checkOauth_iff:
  assumes "db_inv d"
  shows "checkOauth True no_faults sha256 now raw model d = Inr accs \<longleftrightarrow>
    (\<exists>k \<in> set (api_keys d). key_KeyHash k = key_hash sha256 raw \<and> \<not> key_Disabled k
       \<and> \<not> expired_at (key_ExpiresAt k) now \<and> model \<in> set codex_models \<and> accs \<noteq> []
       \<and> accs = filter (\<lambda>a. \<not> item_Disabled a \<and> item_Type a = ''codex'') (accounts_of_key k d))"
    (is "?check \<longleftrightarrow> ?spec")
proof
  assume ?check
  from checkOauth_Inr [OF this] show ?spec by (auto dest: GetOauthByApikey_InrD)
next
  assume ?spec
  then obtain k where k: "k \<in> set (api_keys d)" "key_KeyHash k = key_hash sha256 raw" and
    rest: "\<not> key_Disabled k" "\<not> expired_at (key_ExpiresAt k) now" "model \<in> set codex_models" "accs \<noteq> []"
      "accs = filter (\<lambda>a. \<not> item_Disabled a \<and> item_Type a = ''codex'') (accounts_of_key k d)" by blast
  from GetOauthByApikey_found [OF assms k] rest show ?check
    by (simp add: checkOauth_def GetNeedOauth_eq)
qed

end
