(* ===== verification/Json.thy ===== *)
theory Json imports GoLib begin

text \<open>
  What the sources use of \<open>encoding/json\<close>: validity, the raw members of an object and elements of
  an array (\<open>json.RawMessage\<close>), decoding of strings, integers and struct fields, and the encoding
  of strings and of maps of raw messages. A document is a byte string; a raw message is the part
  of it that spells one value.
\<close>

section \<open>Scanning values\<close>

definition is_ws :: "char \<Rightarrow> bool" where
  "is_ws c \<longleftrightarrow> c = CHR 0x20 \<or> c = CHR 0x09 \<or> c = CHR 0x0D \<or> c = CHR 0x0A"

definition skip_ws :: "bytes \<Rightarrow> bytes" where
  "skip_ws s = dropWhile is_ws s"

definition is_hex :: "char \<Rightarrow> bool" where
  "is_hex c \<longleftrightarrow> c \<in> set ''0123456789abcdefABCDEF''"

definition quote_mark :: char where
  "quote_mark = CHR 0x22"

definition backslash :: char where
  "backslash = CHR 0x5C"

text \<open>A scanner gives what follows the value at the front, or fails. Strings, from after the quote:\<close>

fun scan_string :: "bytes \<Rightarrow> bytes option" where
  "scan_string [] = None"
| "scan_string (c # s) =
     (if c = quote_mark then Some s
      else if c = backslash then (case s of
          [] \<Rightarrow> None
        | e # t \<Rightarrow>
            if e \<in> set [quote_mark, backslash, CHR ''/'', CHR ''b'', CHR ''f'', CHR ''n'', CHR ''r'', CHR ''t'']
            then scan_string t
            else if e = CHR ''u'' \<and> 4 \<le> length t \<and> list_all is_hex (take 4 t) then scan_string (drop 4 t)
            else None)
      else if of_char c < (32 :: nat) then None else scan_string s)"

definition scan_digits :: "bytes \<Rightarrow> bytes option" where
  "scan_digits s = (case s of
       [] \<Rightarrow> None
     | c # t \<Rightarrow> if is_digit c then Some (dropWhile is_digit t) else None)"

definition scan_fraction :: "bytes \<Rightarrow> bytes option" where
  "scan_fraction s = (case s of
       [] \<Rightarrow> Some []
     | c # t \<Rightarrow> if c = CHR ''.'' then scan_digits t else Some s)"

definition scan_exponent :: "bytes \<Rightarrow> bytes option" where
  "scan_exponent s = (case s of
       [] \<Rightarrow> Some []
     | c # t \<Rightarrow> if c = CHR ''e'' \<or> c = CHR ''E'' then (case t of
           [] \<Rightarrow> None
         | d # u \<Rightarrow> if d = CHR ''+'' \<or> d = CHR ''-'' then scan_digits u else scan_digits t)
       else Some s)"

definition scan_integer :: "bytes \<Rightarrow> bytes option" where
  "scan_integer s = (case s of
       [] \<Rightarrow> None
     | c # t \<Rightarrow> if c = CHR ''0'' then Some t else scan_digits s)"

definition scan_number :: "bytes \<Rightarrow> bytes option" where
  "scan_number s =
     Option.bind (scan_integer (if HasPrefix s ''-'' then tl s else s))
       (\<lambda>r. Option.bind (scan_fraction r) scan_exponent)"

definition scan_word :: "bytes \<Rightarrow> bytes \<Rightarrow> bytes option" where
  "scan_word w s = (if HasPrefix s w then Some (drop (length w) s) else None)"

definition scan_flat :: "bytes \<Rightarrow> bytes option" where
  "scan_flat s = (case s of
       [] \<Rightarrow> None
     | c # t \<Rightarrow>
         if c = quote_mark then scan_string t
         else if c = CHR ''t'' then scan_word ''true'' s
         else if c = CHR ''f'' then scan_word ''false'' s
         else if c = CHR ''n'' then scan_word ''null'' s
         else scan_number s)"

text \<open>The part of \<open>s\<close> in front of the rest \<open>r\<close>\<close>

definition upto :: "bytes \<Rightarrow> bytes \<Rightarrow> bytes" where
  "upto s r = take (length s - length r) s"

text \<open>
  The elements of a non-empty array and the members of a non-empty object, from the first one to
  after the closing bracket, for a scanner \<open>v\<close> of the values; the first argument bounds their
  number, for which the length of the document is enough.
\<close>

fun scan_elems :: "nat \<Rightarrow> (bytes \<Rightarrow> bytes option) \<Rightarrow> bytes \<Rightarrow> (bytes list \<times> bytes) option" where
  "scan_elems 0 v s = None"
| "scan_elems (Suc n) v s = (case v s of
       None \<Rightarrow> None
     | Some r \<Rightarrow> (case skip_ws r of
         [] \<Rightarrow> None
       | c # t \<Rightarrow>
           if c = CHR '']'' then Some ([upto s r], t)
           else if c = CHR '','' then
             map_option (\<lambda>(xs, q). (upto s r # xs, q)) (scan_elems n v (skip_ws t))
           else None))"

definition scan_key :: "bytes \<Rightarrow> (bytes \<times> bytes) option" where
  "scan_key s = (case s of
       [] \<Rightarrow> None
     | c # t \<Rightarrow> if c \<noteq> quote_mark then None else (case scan_string t of
         None \<Rightarrow> None
       | Some r \<Rightarrow> (case skip_ws r of
           [] \<Rightarrow> None
         | d # u \<Rightarrow> if d = CHR '':'' then Some (upto s r, skip_ws u) else None)))"

fun scan_members :: "nat \<Rightarrow> (bytes \<Rightarrow> bytes option) \<Rightarrow> bytes \<Rightarrow> ((bytes \<times> bytes) list \<times> bytes) option" where
  "scan_members 0 v s = None"
| "scan_members (Suc n) v s = (case scan_key s of
       None \<Rightarrow> None
     | Some (k, s') \<Rightarrow> (case v s' of
         None \<Rightarrow> None
       | Some r \<Rightarrow> (case skip_ws r of
           [] \<Rightarrow> None
         | c # t \<Rightarrow>
             if c = CHR ''}'' then Some ([(k, upto s' r)], t)
             else if c = CHR '','' then
               map_option (\<lambda>(xs, q). ((k, upto s' r) # xs, q)) (scan_members n v (skip_ws t))
             else None)))"

definition scan_array :: "(bytes \<Rightarrow> bytes option) \<Rightarrow> bytes \<Rightarrow> (bytes list \<times> bytes) option" where
  "scan_array v s = (let t = skip_ws s in
     if HasPrefix t '']'' then Some ([], tl t) else scan_elems (length s) v t)"

definition scan_object :: "(bytes \<Rightarrow> bytes option) \<Rightarrow> bytes \<Rightarrow> ((bytes \<times> bytes) list \<times> bytes) option" where
  "scan_object v s = (let t = skip_ws s in
     if HasPrefix t ''}'' then Some ([], tl t) else scan_members (length s) v t)"

text \<open>The first argument is the nesting depth still allowed.\<close>

fun scan_value :: "nat \<Rightarrow> bytes \<Rightarrow> bytes option" where
  "scan_value 0 s = (if HasPrefix s ''{'' \<or> HasPrefix s ''['' then None else scan_flat s)"
| "scan_value (Suc d) s =
     (if HasPrefix s ''{'' then map_option snd (scan_object (scan_value d) (tl s))
      else if HasPrefix s ''['' then map_option snd (scan_array (scan_value d) (tl s))
      else scan_flat s)"

text \<open>\<open>maxNestingDepth\<close> of the library\<close>

definition max_nesting :: nat where
  "max_nesting = 10000"

text \<open>The value a whole document spells, without the white space around it; \<open>json.Valid\<close>.\<close>

definition document :: "bytes \<Rightarrow> bytes option" where
  "document s = (let t = skip_ws s in case scan_value max_nesting t of
       None \<Rightarrow> None
     | Some r \<Rightarrow> if skip_ws r = [] then Some (upto t r) else None)"

definition json_Valid :: "bytes \<Rightarrow> bool" where
  "json_Valid s \<longleftrightarrow> document s \<noteq> None"

section \<open>Decoding strings\<close>

definition hex_value :: "char \<Rightarrow> nat" where
  "hex_value c = (let n = of_char c in
     if n < 58 then n - 48 else if n < 71 then n - 55 else n - 87)"

definition hex4 :: "bytes \<Rightarrow> nat" where
  "hex4 s = foldl (\<lambda>n c. 16 * n + hex_value c) 0 (take 4 s)"

text \<open>UTF-8: the encoding of a code point, and the length of the valid sequence at the front, if any.\<close>

definition utf8_encode :: "nat \<Rightarrow> bytes" where
  "utf8_encode n =
     map char_of
       (if n < 128 then [n]
        else if n < 2048 then [192 + n div 64, 128 + n mod 64]
        else if n < 65536 then [224 + n div 4096, 128 + n div 64 mod 64, 128 + n mod 64]
        else [240 + n div 262144, 128 + n div 4096 mod 64, 128 + n div 64 mod 64, 128 + n mod 64])"

definition rune_error :: bytes where
  "rune_error = utf8_encode 65533"

definition between :: "nat \<Rightarrow> nat \<Rightarrow> char \<Rightarrow> bool" where
  "between a b c \<longleftrightarrow> a \<le> of_char c \<and> of_char c \<le> b"

definition utf8_len :: "bytes \<Rightarrow> nat" where
  "utf8_len s = (case s of
       [] \<Rightarrow> 0
     | c # t \<Rightarrow>
         if between 0 127 c then 1
         else if between 194 223 c then (case t of d # _ \<Rightarrow> if between 128 191 d then 2 else 0 | _ \<Rightarrow> 0)
         else if between 224 239 c then (case t of
             d # e # _ \<Rightarrow>
               if between (if of_char c = (224 :: nat) then 160 else 128)
                    (if of_char c = (237 :: nat) then 159 else 191) d \<and> between 128 191 e then 3 else 0
           | _ \<Rightarrow> 0)
         else if between 240 244 c then (case t of
             d # e # f # _ \<Rightarrow>
               if between (if of_char c = (240 :: nat) then 144 else 128)
                    (if of_char c = (244 :: nat) then 143 else 191) d
                 \<and> between 128 191 e \<and> between 128 191 f then 4 else 0
           | _ \<Rightarrow> 0)
         else 0)"

definition escape_value :: "char \<Rightarrow> char" where
  "escape_value e =
     (if e = CHR ''b'' then CHR 0x08 else if e = CHR ''f'' then CHR 0x0C
      else if e = CHR ''n'' then CHR 0x0A else if e = CHR ''r'' then CHR 0x0D
      else if e = CHR ''t'' then CHR 0x09 else e)"

definition is_low_surrogate :: "nat \<Rightarrow> bool" where
  "is_low_surrogate n \<longleftrightarrow> 56320 \<le> n \<and> n < 57344"

text \<open>
  What the escape \<open>\u\<close> before \<open>t\<close> stands for and how many bytes of \<open>t\<close> it takes: a code point, a
  surrogate pair, or the replacement character for a lone surrogate.
\<close>

definition unicode_escape :: "bytes \<Rightarrow> bytes \<times> nat" where
  "unicode_escape t =
     (let n = hex4 t; u = drop 4 t; m = hex4 (drop 2 u) in
      if n < 55296 \<or> 57344 \<le> n then (utf8_encode n, 4)
      else if n < 56320 \<and> HasPrefix u [backslash, CHR ''u''] \<and> is_low_surrogate m
        then (utf8_encode (65536 + (n - 55296) * 1024 + (m - 56320)), 10)
      else (rune_error, 4))"

text \<open>The body of a valid string literal, up to its closing quote.\<close>

function (sequential) unquote_body :: "bytes \<Rightarrow> bytes" where
  "unquote_body [] = []"
| "unquote_body (c # s) =
     (if c = quote_mark then []
      else if c = backslash then (case s of
          [] \<Rightarrow> []
        | e # t \<Rightarrow>
            if e = CHR ''u'' then fst (unicode_escape t) @ unquote_body (drop (snd (unicode_escape t)) t)
            else escape_value e # unquote_body t)
      else if utf8_len (c # s) = 0 then rune_error @ unquote_body s
      else take (utf8_len (c # s)) (c # s) @ unquote_body (drop (utf8_len (c # s) - 1) s))"
  by pat_completeness auto

termination
  by (relation "measure length") auto

definition unquote :: "bytes \<Rightarrow> bytes" where
  "unquote raw = unquote_body (tl raw)"

section \<open>Decoding documents\<close>

text \<open>Members of an object with their keys decoded, elements of an array; of a valid value.\<close>

definition json_members :: "bytes \<Rightarrow> (bytes \<times> bytes) list option" where
  "json_members raw =
     (if HasPrefix raw ''{'' then map_option (\<lambda>(ms, _). map (\<lambda>(k, v). (unquote k, v)) ms)
        (scan_object (scan_value max_nesting) (tl raw))
      else None)"

definition json_elems :: "bytes \<Rightarrow> bytes list option" where
  "json_elems raw =
     (if HasPrefix raw ''['' then map_option fst (scan_array (scan_value max_nesting) (tl raw)) else None)"

definition is_null :: "bytes \<Rightarrow> bool" where
  "is_null raw \<longleftrightarrow> raw = ''null''"

text \<open>
  A key selects a field when it is its name up to Unicode simple folding: besides the two cases
  of a letter, the Kelvin sign folds to k and the long s to s.
\<close>

fun fold_name :: "bytes \<Rightarrow> bytes" where
  "fold_name (a # b # c # s) =
     (if [a, b, c] = [CHR 0xE2, CHR 0x84, CHR 0xAA] then CHR ''k'' # fold_name s
      else if [a, b] = [CHR 0xC5, CHR 0xBF] then CHR ''s'' # fold_name (c # s)
      else ascii_lower a # fold_name (b # c # s))"
| "fold_name [a, b] = (if [a, b] = [CHR 0xC5, CHR 0xBF] then ''s'' else [ascii_lower a, ascii_lower b])"
| "fold_name [a] = [ascii_lower a]"
| "fold_name [] = []"

definition field_values :: "bytes \<Rightarrow> (bytes \<times> bytes) list \<Rightarrow> bytes list" where
  "field_values name ms = map snd (filter (\<lambda>(k, _). fold_name k = name) ms)"

text \<open>
  Decoding assigns the values of a field in order; \<open>null\<close> leaves it. The second component tells
  whether every value had the type of the field: otherwise \<open>json.Unmarshal\<close> fails in the end.
\<close>

definition string_field :: "bytes \<Rightarrow> (bytes \<times> bytes) list \<Rightarrow> bytes \<times> bool" where
  "string_field name ms = foldl (\<lambda>(v, ok) raw.
       if is_null raw then (v, ok)
       else if HasPrefix raw [quote_mark] then (unquote raw, ok)
       else (v, False)) ([], True) (field_values name ms)"

definition bool_field :: "bytes \<Rightarrow> (bytes \<times> bytes) list \<Rightarrow> bool \<times> bool" where
  "bool_field name ms = foldl (\<lambda>(v, ok) raw.
       if is_null raw then (v, ok)
       else if raw = ''true'' then (True, ok)
       else if raw = ''false'' then (False, ok)
       else (v, False)) (False, True) (field_values name ms)"

text \<open>A field of type \<open>*bool\<close>, which \<open>null\<close> clears.\<close>

definition bool_pointer_field :: "bytes \<Rightarrow> (bytes \<times> bytes) list \<Rightarrow> bool option \<times> bool" where
  "bool_pointer_field name ms = foldl (\<lambda>(v, ok) raw.
       if is_null raw then (None, ok)
       else if raw = ''true'' then (Some True, ok)
       else if raw = ''false'' then (Some False, ok)
       else (v, False)) (None, True) (field_values name ms)"

text \<open>
  A field of type \<open>*[]uint64\<close>, which \<open>null\<close> clears (a \<open>[]uint64\<close> is then nil, which has length 0);
  a \<open>null\<close> element is 0. That a repeated key decodes into the elements of the earlier array is
  left out: the later array replaces it.
\<close>

definition uint_elem :: "bytes \<Rightarrow> uint64 option" where
  "uint_elem raw = (if is_null raw then Some 0 else ParseUint raw 64)"

definition uints_field :: "bytes \<Rightarrow> (bytes \<times> bytes) list \<Rightarrow> uint64 list option \<times> bool" where
  "uints_field name ms = foldl (\<lambda>(v, ok) raw.
       if is_null raw then (None, ok)
       else case json_elems raw of
           None \<Rightarrow> (v, False)
         | Some es \<Rightarrow> let ns = map uint_elem es in
             (Some (map (\<lambda>n. case n of None \<Rightarrow> 0 | Some n \<Rightarrow> n) ns), ok \<and> None \<notin> set ns))
     (None, True) (field_values name ms)"

text \<open>A field of type \<open>[]string\<close>; a \<open>null\<close> element is empty.\<close>

definition strings_field :: "bytes \<Rightarrow> (bytes \<times> bytes) list \<Rightarrow> bytes list \<times> bool" where
  "strings_field name ms = foldl (\<lambda>(v, ok) raw.
       if is_null raw then ([], ok)
       else case json_elems raw of
           None \<Rightarrow> (v, False)
         | Some es \<Rightarrow>
             (map (\<lambda>e. if HasPrefix e [quote_mark] then unquote e else []) es,
              ok \<and> list_all (\<lambda>e. is_null e \<or> HasPrefix e [quote_mark]) es))
     ([], True) (field_values name ms)"

text \<open>\<open>strconv.ParseInt(s, 10, 64)\<close> on a JSON number\<close>

definition ParseInt :: "bytes \<Rightarrow> int option" where
  "ParseInt s =
     (let neg = HasPrefix s ''-''; t = (if neg then tl s else s) in
      if t = [] \<or> \<not> list_all is_digit t then None
      else let n = int (decimal_value t) in
        if neg then (if n \<le> 2 ^ 63 then Some (- n) else None)
        else (if n < 2 ^ 63 then Some n else None))"

definition int_field :: "bytes \<Rightarrow> (bytes \<times> bytes) list \<Rightarrow> int \<times> bool" where
  "int_field name ms = foldl (\<lambda>(v, ok) raw.
       if is_null raw then (v, ok)
       else case ParseInt raw of Some n \<Rightarrow> (n, ok) | None \<Rightarrow> (v, False)) (0, True) (field_values name ms)"

text \<open>A field of an unsigned type of the given width\<close>

definition uint_field :: "nat \<Rightarrow> bytes \<Rightarrow> (bytes \<times> bytes) list \<Rightarrow> uint64 \<times> bool" where
  "uint_field w name ms = foldl (\<lambda>(v, ok) raw.
       if is_null raw then (v, ok)
       else case ParseUint raw w of Some n \<Rightarrow> (n, ok) | None \<Rightarrow> (v, False)) (0, True) (field_values name ms)"

text \<open>A field of type \<open>json.RawMessage\<close>; the empty string when it is absent.\<close>

definition raw_field :: "bytes \<Rightarrow> (bytes \<times> bytes) list \<Rightarrow> bytes" where
  "raw_field name ms = foldl (\<lambda>_ raw. raw) [] (field_values name ms)"

text \<open>
  A map from strings to raw messages as an association list whose later entries count:
  \<open>None\<close> is the nil map.
\<close>

type_synonym raw_map = "(bytes \<times> bytes) list option"

definition map_field :: "bytes \<Rightarrow> (bytes \<times> bytes) list \<Rightarrow> raw_map \<times> bool" where
  "map_field name ms = foldl (\<lambda>(v, ok) raw.
       if is_null raw then (None, ok)
       else case json_members raw of
           Some es \<Rightarrow> (Some ((case v of None \<Rightarrow> [] | Some old \<Rightarrow> old) @ es), ok)
         | None \<Rightarrow> (v, False)) (None, True) (field_values name ms)"

text \<open>A field of a struct type: the objects it is given are read one after the other.\<close>

definition object_field :: "bytes \<Rightarrow> (bytes \<times> bytes) list \<Rightarrow> (bytes \<times> bytes) list \<times> bool" where
  "object_field name ms = foldl (\<lambda>(v, ok) raw.
       if is_null raw then (v, ok)
       else case json_members raw of Some es \<Rightarrow> (v @ es, ok) | None \<Rightarrow> (v, False)) ([], True) (field_values name ms)"

text \<open>The value at the top: \<open>json.Unmarshal\<close> into a struct gives its members, none for \<open>null\<close>.\<close>

definition struct_members :: "bytes \<Rightarrow> (bytes \<times> bytes) list option" where
  "struct_members s = Option.bind (document s) (\<lambda>raw. if is_null raw then Some [] else json_members raw)"

text \<open>\<open>json.NewDecoder(r).Decode\<close> reads the first value and leaves the rest.\<close>

definition first_document :: "bytes \<Rightarrow> bytes option" where
  "first_document s = (let t = skip_ws s in map_option (upto t) (scan_value max_nesting t))"

definition decoder_members :: "bytes \<Rightarrow> (bytes \<times> bytes) list option" where
  "decoder_members s =
     Option.bind (first_document s) (\<lambda>raw. if is_null raw then Some [] else json_members raw)"

definition lookup_last :: "bytes \<Rightarrow> (bytes \<times> bytes) list \<Rightarrow> bytes option" where
  "lookup_last k ms = map_of (rev ms) k"

section \<open>Encoding\<close>

definition hex_digit :: "nat \<Rightarrow> char" where
  "hex_digit n = (if n < 10 then char_of (48 + n) else char_of (87 + n))"

text \<open>\<open>\u00xx\<close>\<close>

definition escape_byte :: "char \<Rightarrow> bytes" where
  "escape_byte c = [backslash, CHR ''u'', CHR ''0'', CHR ''0'', hex_digit (of_char c div 16), hex_digit (of_char c mod 16)]"

definition html_char :: "char \<Rightarrow> bool" where
  "html_char c \<longleftrightarrow> c = CHR ''<'' \<or> c = CHR ''>'' \<or> c = CHR ''&''"

definition quote_ascii :: "char \<Rightarrow> bytes" where
  "quote_ascii c =
     (if c = quote_mark \<or> c = backslash then [backslash, c]
      else if c = CHR 0x08 then [backslash, CHR ''b'']
      else if c = CHR 0x0C then [backslash, CHR ''f'']
      else if c = CHR 0x0A then [backslash, CHR ''n'']
      else if c = CHR 0x0D then [backslash, CHR ''r'']
      else if c = CHR 0x09 then [backslash, CHR ''t'']
      else if of_char c < (32 :: nat) \<or> html_char c then escape_byte c
      else [c])"

text \<open>U+2028 and U+2029, the line separators that are escaped too.\<close>

definition line_separator :: "bytes \<Rightarrow> bool" where
  "line_separator s \<longleftrightarrow> take 3 s = [CHR 0xE2, CHR 0x80, CHR 0xA8] \<or> take 3 s = [CHR 0xE2, CHR 0x80, CHR 0xA9]"

definition escape_separator :: "bytes \<Rightarrow> bytes" where
  "escape_separator s = [backslash] @ ''u202'' @ [if s ! 2 = CHR 0xA8 then CHR ''8'' else CHR ''9'']"

function (sequential) quote_body :: "bytes \<Rightarrow> bytes" where
  "quote_body [] = []"
| "quote_body (c # s) =
     (if utf8_len (c # s) = 0 then [backslash] @ ''ufffd'' @ quote_body s
      else if utf8_len (c # s) = 1 then quote_ascii c @ quote_body s
      else if line_separator (c # s) then escape_separator (c # s) @ quote_body (drop 2 s)
      else take (utf8_len (c # s)) (c # s) @ quote_body (drop (utf8_len (c # s) - 1) s))"
  by pat_completeness auto

termination
  by (relation "measure length") auto

definition json_quote :: "bytes \<Rightarrow> bytes" where
  "json_quote s = [quote_mark] @ quote_body s @ [quote_mark]"

text \<open>A raw message is compacted: no white space outside strings, HTML characters escaped.\<close>

function (sequential) compact_from :: "bool \<Rightarrow> bytes \<Rightarrow> bytes" where
  "compact_from q [] = []"
| "compact_from q (c # s) =
     (if html_char c then escape_byte c @ compact_from q s
      else if line_separator (c # s) then escape_separator (c # s) @ compact_from q (drop 2 s)
      else if \<not> q \<and> is_ws c then compact_from q s
      else if q \<and> c = backslash then c # take 1 s @ compact_from q (drop 1 s)
      else c # compact_from (if c = quote_mark then \<not> q else q) s)"
  by pat_completeness auto

termination
  by (relation "measure (length \<circ> snd)") auto

definition compact :: "bytes \<Rightarrow> bytes" where
  "compact raw = compact_from False raw"

text \<open>
  \<open>json.Marshal\<close> of the values the sources build; a nil raw message is \<open>null\<close>, the keys of a map
  are sorted, the fields of a struct are in their order.
\<close>

datatype json_out = RawOut bytes | StringOut bytes | IntOut nat | BoolOut bool | NullOut
  | ListOut "json_out list" | MapOut "(bytes \<times> json_out) list" | StructOut "(bytes \<times> json_out) list"

definition marshal_raw :: "bytes \<Rightarrow> bytes" where
  "marshal_raw raw = (if raw = [] then ''null'' else compact raw)"

definition sort_fields :: "(bytes \<times> 'v) list \<Rightarrow> (bytes \<times> 'v) list" where
  "sort_fields ms = sort_key fst ms"

definition bracket :: "char \<Rightarrow> bytes list \<Rightarrow> char \<Rightarrow> bytes" where
  "bracket a parts b = [a] @ Join parts '','' @ [b]"

fun marshal :: "json_out \<Rightarrow> bytes" where
  "marshal (RawOut raw) = marshal_raw raw"
| "marshal (StringOut s) = json_quote s"
| "marshal (IntOut n) = decimal n"
| "marshal (BoolOut b) = (if b then ''true'' else ''false'')"
| "marshal NullOut = ''null''"
| "marshal (ListOut xs) = bracket (CHR ''['') (map marshal xs) (CHR '']'')"
| "marshal (MapOut ms) = bracket (CHR ''{'')
     (map snd (sort_fields (map (\<lambda>(k, v). (k, json_quote k @ '':'' @ marshal v)) ms))) (CHR ''}'')"
| "marshal (StructOut ms) = bracket (CHR ''{'')
     (map (\<lambda>(k, v). json_quote k @ '':'' @ marshal v) ms) (CHR ''}'')"

text \<open>The distinct entries of a map given by an association list whose later entries count.\<close>

definition map_entries :: "(bytes \<times> 'v) list \<Rightarrow> (bytes \<times> 'v) list" where
  "map_entries ms = rev (fold (\<lambda>(k, v) acc.
     if k \<in> set (map fst acc) then acc else (k, v) # acc) (rev ms) [])"

definition raw_map_out :: "(bytes \<times> bytes) list \<Rightarrow> json_out" where
  "raw_map_out ms = MapOut (map (\<lambda>(k, v). (k, RawOut v)) (map_entries ms))"

end
