(* ===== verification/Http.thy ===== *)
theory Http imports Prelude begin

text \<open>
  The public HTTP response contract of \<open>internal/dto/response\<close>. A handler of the framework
  either writes one reply or passes the request on.
\<close>

text \<open>The JSON document \<open>Response\<close> with the status and the headers it is sent with.\<close>

record 'd reply =
  reply_status :: nat
  reply_headers :: "(string \<times> string) list"
  reply_code :: nat
  reply_data :: "'d option"
  reply_message :: string

definition Success :: "'d option \<Rightarrow> 'd reply" where
  "Success data = \<lparr>reply_status = 200, reply_headers = [], reply_code = 0, reply_data = data,
     reply_message = ''success''\<rparr>"

definition SuccessWithStatus :: "nat \<Rightarrow> 'd option \<Rightarrow> string \<Rightarrow> 'd reply" where
  "SuccessWithStatus status data message = \<lparr>reply_status = status, reply_headers = [],
     reply_code = 0, reply_data = data, reply_message = message\<rparr>"

definition Error :: "nat \<Rightarrow> nat \<Rightarrow> string \<Rightarrow> 'd reply" where
  "Error status c message = \<lparr>reply_status = status, reply_headers = [], reply_code = c,
     reply_data = None, reply_message = message\<rparr>"

text \<open>\<open>c.Header("Cache-Control", "no-store")\<close>\<close>

definition no_store :: "'d reply \<Rightarrow> 'd reply" where
  "no_store r = r\<lparr>reply_headers := reply_headers r @ [(''Cache-Control'', ''no-store'')]\<rparr>"

text \<open>A middleware continues with what it adds to the context, or aborts with a reply.\<close>

datatype ('d, 'c) middleware = Abort "'d reply" | Next 'c

lemma reply_simps [simp]:
  "reply_status (Success x) = 200" "reply_data (Success x) = x" "reply_code (Success x) = 0"
  "reply_headers (Success x) = []"
  "reply_status (SuccessWithStatus s x m) = s" "reply_data (SuccessWithStatus s x m) = x"
  "reply_code (SuccessWithStatus s x m) = 0"
  "reply_status (Error s c m) = s" "reply_code (Error s c m) = c" "reply_data (Error s c m) = None"
  "reply_message (Error s c m) = m" "reply_headers (Error s c m) = []"
  "reply_status (no_store r) = reply_status r" "reply_data (no_store r) = reply_data r"
  "reply_code (no_store r) = reply_code r" "reply_message (no_store r) = reply_message r"
  by (simp_all add: Success_def SuccessWithStatus_def Error_def no_store_def)

end
