(* ===== verification/ApiKeyHttp.thy ===== *)
theory ApiKeyHttp imports ApiKeyAuth Json Http begin

text \<open>
  The HTTP side of API keys: the middleware that authenticates chat requests
  (\<open>apikeyfilter.go\<close>) and the handlers of the management routes (\<open>apikey_handler.go\<close>).
\<close>

section \<open>The filter\<close>

text \<open>What the filter adds to the context.\<close>

record apikey_context =
  ctx_apikey :: bytes
  ctx_accounts :: "ApikeyAccountItem list"

definition check_reply :: "go_error \<Rightarrow> 'd reply" where
  "check_reply e =
     (let (c, message) =
        (if errors_Is e ErrInvalidApikey then (401, ''invalid api key'')
         else if errors_Is e ErrUnsupportedModel then (400, ''unsupported model'')
         else if errors_Is e ErrOauthForbidden then (403, ''no authorized OAuth account for model'')
         else (500, ''api key authentication failed''))
      in Error c (c * 100) message)"

text \<open>The field \<open>model\<close> of a request body, if it is a JSON object with a non-blank one.\<close>

definition request_model :: "bytes \<Rightarrow> bytes option" where
  "request_model body = (case struct_members body of
       None \<Rightarrow> None
     | Some ms \<Rightarrow> let (model, ok) = string_field ''model'' ms in
         if \<not> ok \<or> TrimSpace model = [] then None else Some model)"

definition ApikeyFilter ::
  "bool \<Rightarrow> key_faults \<Rightarrow> (bytes \<Rightarrow> bytes) \<Rightarrow> time \<Rightarrow> bytes \<Rightarrow> go_error + bytes \<Rightarrow> db
    \<Rightarrow> ('d, apikey_context) middleware" where
  "ApikeyFilter ready io sha256 now authorization body d =
     (let parts = Fields authorization in
      if length parts \<noteq> 2 \<or> \<not> EqualFold (parts ! 0) ''Bearer''
        then Abort (Error 401 40100 ''missing or invalid authorization header'')
      else let apikey = parts ! 1 in
      (case body of
         Inl _ \<Rightarrow> Abort (Error 400 40000 ''invalid request body'')
       | Inr body \<Rightarrow>
      (case request_model body of
         None \<Rightarrow> Abort (Error 400 40000 ''invalid chat request'')
       | Some model \<Rightarrow>
      (case checkOauth ready io sha256 now apikey model d of
         Inl e \<Rightarrow> Abort (check_reply e)
       | Inr accounts \<Rightarrow> Next \<lparr>ctx_apikey = apikey, ctx_accounts = accounts\<rparr>))))"

section \<open>The handlers\<close>

text \<open>The documents the handlers reply with.\<close>

datatype key_data = ApiKeyData bytes | ApiKeyListData "ApikeyListItem list"

type_synonym key_reply = "key_data reply"

text \<open>
  \<open>apikeyRequestIDs\<close>: the user the JWT filter put into the context and the parameter \<open>id\<close> of
  the route.
\<close>

definition apikeyRequestIDs :: "uint64 option \<Rightarrow> bytes \<Rightarrow> key_reply + uint64 \<times> uint64" where
  "apikeyRequestIDs user param =
     (case user of
        None \<Rightarrow> Inl (Error 401 40100 ''invalid user identity'')
      | Some userid \<Rightarrow>
          if userid = 0 \<or> max_bigint < userid then Inl (Error 401 40100 ''invalid user identity'')
          else (case ParseUint param 63 of
                  None \<Rightarrow> Inl (Error 400 40000 ''invalid api key id'')
                | Some kid \<Rightarrow> if kid = 0 then Inl (Error 400 40000 ''invalid api key id'')
                    else Inr (userid, kid)))"

definition apikeyMutationResponse :: "go_error + unit \<Rightarrow> key_reply" where
  "apikeyMutationResponse r = (case r of
       Inr _ \<Rightarrow> Success None
     | Inl e \<Rightarrow>
         if errors_Is e ErrApikeyNotFound then Error 404 40400 ''api key not found''
         else if errors_Is e ErrInvalidAccounts
           then Error 400 40000 ''select valid accounts owned by the current user''
         else Error 500 50000 ''internal server error'')"

record UpdateApikeyRequest =
  up_Disabled :: "bool option"
  up_ExpiresAt :: bytes

record CreatApikeyRequest =
  cr_OAuthInfo :: "uint64 list"
  cr_ExternalApiKeyIDs :: "uint64 list"

text \<open>\<open>ShouldBindJSON\<close> into the request of each handler.\<close>

definition bind_update :: "bytes \<Rightarrow> UpdateApikeyRequest option" where
  "bind_update body = Option.bind (decoder_members body) (\<lambda>ms.
     let (disabled, ok) = bool_pointer_field ''disabled'' ms in
     if ok then Some \<lparr>up_Disabled = disabled, up_ExpiresAt = raw_field ''expires_at'' ms\<rparr> else None)"

definition nil_is_empty :: "'a list option \<Rightarrow> 'a list" where
  "nil_is_empty v = (case v of None \<Rightarrow> [] | Some xs \<Rightarrow> xs)"

definition bind_creat :: "bytes \<Rightarrow> CreatApikeyRequest option" where
  "bind_creat body = Option.bind (decoder_members body) (\<lambda>ms.
     let (oa, ok1) = uints_field ''oauth_info'' ms; (ext, ok2) = uints_field ''external_api_key_ids'' ms in
     if ok1 \<and> ok2
     then Some \<lparr>cr_OAuthInfo = nil_is_empty oa, cr_ExternalApiKeyIDs = nil_is_empty ext\<rparr> else None)"

text \<open>Both fields of a replacement are pointers that must be given.\<close>

definition bind_replace :: "bytes \<Rightarrow> CreatApikeyRequest option" where
  "bind_replace body = Option.bind (decoder_members body) (\<lambda>ms.
     let (oa, ok1) = uints_field ''oauth_info'' ms; (ext, ok2) = uints_field ''external_api_key_ids'' ms in
     case (oa, ext) of
       (Some oa, Some ext) \<Rightarrow>
         if ok1 \<and> ok2 then Some \<lparr>cr_OAuthInfo = oa, cr_ExternalApiKeyIDs = ext\<rparr> else None
     | _ \<Rightarrow> None)"

text \<open>
  The handlers, with the clock, the random bytes and \<open>parse_time\<close>, which decodes a JSON value into
  a \<open>*time.Time\<close> (\<open>time.Time.UnmarshalJSON\<close>, nil for \<open>null\<close>).
\<close>

definition UpdateApikeyHandler ::
  "key_faults \<Rightarrow> (bytes \<Rightarrow> time option option) \<Rightarrow> time \<Rightarrow> uint64 option \<Rightarrow> bytes \<Rightarrow> bytes \<Rightarrow> db
    \<Rightarrow> key_reply \<times> db" where
  "UpdateApikeyHandler io parse_time now user param body d =
     (case apikeyRequestIDs user param of
        Inl r \<Rightarrow> (r, d)
      | Inr (userid, kid) \<Rightarrow>
      (case bind_update body of
         None \<Rightarrow> (Error 400 40000 ''invalid api key request'', d)
       | Some req \<Rightarrow>
           if up_Disabled req = None \<and> up_ExpiresAt req = []
             then (Error 400 40000 ''invalid api key request'', d)
           else (case (if up_ExpiresAt req \<noteq> [] then parse_time (up_ExpiresAt req) else Some None) of
               None \<Rightarrow> (Error 400 40000 ''invalid expires_at'', d)
             | Some expiresAt \<Rightarrow>
                 let (r, d') = UpdateApikey io now userid kid (up_Disabled req) expiresAt
                                 (up_ExpiresAt req \<noteq> []) d
                 in (apikeyMutationResponse r, d'))))"

definition ReplaceApikeyAccountsHandler ::
  "key_faults \<Rightarrow> time \<Rightarrow> uint64 option \<Rightarrow> bytes \<Rightarrow> bytes \<Rightarrow> db \<Rightarrow> key_reply \<times> db" where
  "ReplaceApikeyAccountsHandler io now user param body d =
     (case apikeyRequestIDs user param of
        Inl r \<Rightarrow> (r, d)
      | Inr (userid, kid) \<Rightarrow>
      (case bind_replace body of
         None \<Rightarrow> (Error 400 40000 ''invalid api key request'', d)
       | Some req \<Rightarrow>
           let (r, d') = ReplaceApikeyAccounts io now userid kid (cr_OAuthInfo req)
                           (cr_ExternalApiKeyIDs req) d
           in (apikeyMutationResponse r, d')))"

definition DeleteApikeyHandler ::
  "key_faults \<Rightarrow> uint64 option \<Rightarrow> bytes \<Rightarrow> db \<Rightarrow> key_reply \<times> db" where
  "DeleteApikeyHandler io user param d =
     (case apikeyRequestIDs user param of
        Inl r \<Rightarrow> (r, d)
      | Inr (userid, kid) \<Rightarrow>
          let (r, d') = DeleteApikey io userid kid d in (apikeyMutationResponse r, d'))"

definition CreatApikeyHandler ::
  "key_faults \<Rightarrow> (bytes \<Rightarrow> bytes) \<Rightarrow> time \<Rightarrow> go_error + bytes \<Rightarrow> uint64 option \<Rightarrow> bytes \<Rightarrow> db
    \<Rightarrow> key_reply \<times> db" where
  "CreatApikeyHandler io sha256 now rnd user body d =
     (case user of
        None \<Rightarrow> (Error 401 40100 ''invalid user identity'', d)
      | Some userid \<Rightarrow>
          if userid = 0 then (Error 401 40100 ''invalid user identity'', d)
          else (case bind_creat body of
              None \<Rightarrow> (Error 400 40000 ''invalid api key request'', d)
            | Some req \<Rightarrow>
                (case CreatApikey io sha256 now rnd userid (cr_OAuthInfo req)
                        (cr_ExternalApiKeyIDs req) d of
                   (Inl e, d') \<Rightarrow>
                     (if errors_Is e ErrInvalidAccounts
                      then Error 400 40000 ''select valid accounts owned by the current user''
                      else Error 500 50000 ''internal server error'', d')
                 | (Inr raw, d') \<Rightarrow>
                     (no_store (SuccessWithStatus 201 (Some (ApiKeyData raw)) ''success''), d'))))"

definition ApikeyListHandler :: "key_faults \<Rightarrow> uint64 option \<Rightarrow> db \<Rightarrow> key_reply" where
  "ApikeyListHandler io user d =
     (case user of
        None \<Rightarrow> Error 401 40100 ''invalid user identity''
      | Some userid \<Rightarrow>
          if userid = 0 then Error 401 40100 ''invalid user identity''
          else (case UserApikeyList io userid d of
              Inl e \<Rightarrow> Error 500 50000 ''internal server error''
            | Inr items \<Rightarrow> no_store (Success (Some (ApiKeyListData items)))))"

end
