(* ===== verification/ApiKeyProps.thy ===== *)
theory ApiKeyProps imports ApiKeyAuth begin

text \<open>
  The properties of API keys, with witnesses on a small database of two users.
\<close>

section \<open>A concrete database\<close>

definition sample_account :: "uint64 \<Rightarrow> uint64 \<Rightarrow> bool \<Rightarrow> bytes \<Rightarrow> OAuthInfo" where
  "sample_account kid u dis acc =
     \<lparr>oa_ID = kid, oa_UserID = u, oa_AccessToken = ''token'', oa_AccountID = acc, oa_Disabled = dis,
      oa_Email = ''a@example.com'', oa_Expired = Some 1000, oa_IDToken = ''idt'', oa_LastRefresh = None,
      oa_RefreshToken = ''rt'', oa_Type = ''codex'', oa_CreatedAt = 1, oa_UpdatedAt = 1\<rparr>"

definition sample_user :: "uint64 \<Rightarrow> bytes \<Rightarrow> User" where
  "sample_user u name =
     \<lparr>user_ID = u, user_Username = name, user_PasswordHash = ''pw'', user_RoleCode = ''user'',
      user_IsActive = True, user_CreatedAt = 1, user_UpdatedAt = 1\<rparr>"

text \<open>User 1 owns accounts 1 and 3 (3 disabled) and external key 1; user 2 owns account 2 and key 1.\<close>

definition sample_db :: db where
  "sample_db =
     \<lparr>users = [sample_user 1 ''alice'', sample_user 2 ''bob''],
      oauth_infos = [sample_account 1 1 False ''acc-a'', sample_account 2 2 False ''acc-b'',
        sample_account 3 1 True ''acc-c''],
      api_keys = [\<lparr>key_ID = 1, key_UserID = 2, key_KeyHash = ''h1'', key_KeyPrefix = ''sk-old'',
        key_Disabled = False, key_ExpiresAt = None, key_CreatedAt = 1, key_UpdatedAt = 1\<rparr>],
      api_key_accounts = [\<lparr>aa_UserID = 2, aa_ApiKeyID = 1, aa_OAuthInfoID = 2, aa_CreatedAt = 1\<rparr>],
      external_api_keys = [\<lparr>ext_ID = 1, ext_UserID = 1, ext_KeyHash = ''eh'', ext_Ciphertext = ''c'',
        ext_Endpoint = ''https://a.example'', ext_Suffix = \<lparr>ChatCompletions = ''/c'', Responses = [],
        Messages = []\<rparr>, ext_CreatedAt = 1, ext_UpdatedAt = 1\<rparr>],
      api_key_external_keys = [],
      users_seq = 3, oauth_infos_seq = 4, api_keys_seq = 2, external_api_keys_seq = 2\<rparr>"

definition sample_sha :: "bytes \<Rightarrow> bytes" where
  "sample_sha x = take 32 (x @ replicate 32 (CHR ''0''))"

definition sample_secret :: bytes where
  "sample_secret = replicate 32 (CHR ''x'')"

definition sample_raw :: bytes where
  "sample_raw = ''sk-'' @ RawURLEncode sample_secret"

lemma sample_users: "users_ok sample_db"
  by code_simp

lemma sample_oauth: "oauth_ok sample_db"
  by code_simp

lemma sample_keys: "keys_ok sample_db"
  by code_simp

lemma sample_external: "external_ok sample_db"
  by code_simp

lemma sample_accounts: "accounts_ok sample_db"
  by code_simp

lemma sample_external_keys: "external_keys_ok sample_db"
  by code_simp

lemma sample_inv: "db_inv sample_db"
  by (simp only: db_inv_def sample_users sample_oauth sample_keys sample_external sample_accounts
      sample_external_keys simp_thms)

text \<open>The database once user 1 has made key 2 on accounts 1 and 3 and external key 1.\<close>

definition sample_created :: db where
  "sample_created = snd (CreatApikey no_faults sample_sha 5 (Inr sample_secret) 1 [3, 1, 3] [1] sample_db)"

lemma sample_creation: "fst (CreatApikey no_faults sample_sha 5 (Inr sample_secret) 1 [3, 1, 3] [1] sample_db) = Inr sample_raw"
  by code_simp

lemma sample_created_inv: "db_inv sample_created"
  unfolding sample_created_def by (rule CreatApikey_keeps [OF sample_inv])

section \<open>Properties\<close>

text \<open>Whatever the requests and whichever statements fail, lose their reply or fail to commit,
  every operation keeps all keys, unique constraints and references of the schema.\<close>

lemma apikey_operations_keep_constraints:
  assumes "db_inv d"
  shows "db_inv (snd (CreatApikey io sha256 now rnd u oa ext d))
    \<and> db_inv (snd (UpdateApikey io now u kid dis exp upd d))
    \<and> db_inv (snd (ReplaceApikeyAccounts io now u kid oa ext d))
    \<and> db_inv (snd (DeleteApikey io u kid d))"
  using assms
  by (simp add: CreatApikey_keeps UpdateApikey_keeps ReplaceApikeyAccounts_keeps DeleteApikey_keeps)

theorem apikey_operations_keep_constraints_witness:
  "db_inv (snd (CreatApikey no_faults sample_sha 5 (Inr sample_secret) 1 [3, 1] [1] sample_db))
   \<and> db_inv (snd (DeleteApikey (\<lambda>q. Some (Unacked ContextCanceled)) 2 1 sample_db))"
  using apikey_operations_keep_constraints [OF sample_inv] by blast

text \<open>An operation requested by one user leaves every row of another user as it was, under any
  faults: keys, bindings, accounts and external keys.\<close>

lemma apikey_operations_keep_others_rows:
  assumes "u \<noteq> v"
  shows "rows_of v (snd (CreatApikey io sha256 now rnd u oa ext d)) = rows_of v d
    \<and> rows_of v (snd (UpdateApikey io now u kid dis exp upd d)) = rows_of v d
    \<and> rows_of v (snd (ReplaceApikeyAccounts io now u kid oa ext d)) = rows_of v d
    \<and> rows_of v (snd (DeleteApikey io u kid d)) = rows_of v d"
  using assms
  by (simp add: CreatApikey_frame UpdateApikey_frame ReplaceApikeyAccounts_frame DeleteApikey_frame)

theorem apikey_operations_keep_others_rows_witness:
  "rows_of 2 (snd (DeleteApikey no_faults 1 1 sample_db)) = rows_of 2 sample_db
   \<and> rows_of 2 sample_db \<noteq> rows_of 2 empty_db"
  using apikey_operations_keep_others_rows [of 1 2] by (simp add: rows_of_def sample_db_def empty_db_def)

text \<open>C3: a creation that reports success has added exactly one key, owned by the user and enabled,
  whose stored hash is that of the returned secret and was not in use, bound to the requested
  accounts and external keys without duplicates in the order requested, all of them the user's;
  nothing else has changed. On accounts and external keys of the user it does succeed when the
  database answers, the hash of the new secret is unused and the sequence is not exhausted.\<close>

theorem creat_apikey_effect:
  "(CreatApikey io sha256 now rnd u oa ext d = (Inr raw, d') \<longrightarrow> (\<exists>secret ids exts. rnd = Inr secret \<and> raw = ''sk-'' @ RawURLEncode (fill_bytes 32 secret)
      \<and> d' = add_key now (new_key now (api_keys_seq d) u sha256 raw) ids exts d
      \<and> ids = rev (remdups (rev oa)) \<and> exts = rev (remdups (rev ext)) \<and> (oa \<noteq> [] \<or> ext \<noteq> [])
      \<and> (\<forall>x \<in> set oa. (u, x) \<in> set (oauth_refs d)) \<and> (\<forall>x \<in> set ext. (u, x) \<in> set (external_refs d))
      \<and> key_hash sha256 raw \<notin> set (map key_KeyHash (api_keys d))))
   \<and> (db_inv d \<and> api_keys_seq d < 2 ^ 63 \<and> u \<in> set (user_refs d) \<and> (oa \<noteq> [] \<or> ext \<noteq> [])
      \<and> (\<forall>x \<in> set oa. (u, x) \<in> set (oauth_refs d)) \<and> (\<forall>x \<in> set ext. (u, x) \<in> set (external_refs d))
      \<and> length (sha256 (''sk-'' @ RawURLEncode (fill_bytes 32 s))) = 32
      \<and> key_hash sha256 (''sk-'' @ RawURLEncode (fill_bytes 32 s)) \<notin> set (map key_KeyHash (api_keys d))
      \<longrightarrow> fst (CreatApikey no_faults sha256 now (Inr s) u oa ext d) = Inr (''sk-'' @ RawURLEncode (fill_bytes 32 s)))"
proof (intro conjI impI)
  assume "CreatApikey io sha256 now rnd u oa ext d = (Inr raw, d')"
  then show "\<exists>secret ids exts. rnd = Inr secret \<and> raw = ''sk-'' @ RawURLEncode (fill_bytes 32 secret)
      \<and> d' = add_key now (new_key now (api_keys_seq d) u sha256 raw) ids exts d
      \<and> ids = rev (remdups (rev oa)) \<and> exts = rev (remdups (rev ext)) \<and> (oa \<noteq> [] \<or> ext \<noteq> [])
      \<and> (\<forall>x \<in> set oa. (u, x) \<in> set (oauth_refs d)) \<and> (\<forall>x \<in> set ext. (u, x) \<in> set (external_refs d))
      \<and> key_hash sha256 raw \<notin> set (map key_KeyHash (api_keys d))"
    by (rule CreatApikey_effect)
next
  assume a: "db_inv d \<and> api_keys_seq d < 2 ^ 63 \<and> u \<in> set (user_refs d) \<and> (oa \<noteq> [] \<or> ext \<noteq> [])
      \<and> (\<forall>x \<in> set oa. (u, x) \<in> set (oauth_refs d)) \<and> (\<forall>x \<in> set ext. (u, x) \<in> set (external_refs d))
      \<and> length (sha256 (''sk-'' @ RawURLEncode (fill_bytes 32 s))) = 32
      \<and> key_hash sha256 (''sk-'' @ RawURLEncode (fill_bytes 32 s)) \<notin> set (map key_KeyHash (api_keys d))"
  show "fst (CreatApikey no_faults sha256 now (Inr s) u oa ext d) = Inr (''sk-'' @ RawURLEncode (fill_bytes 32 s))"
    using CreatApikey_ok [OF _ _ _ _ _ _ refl] a by simp
qed

theorem creat_apikey_effect_witness:
  "api_keys_seq sample_created = 3 \<and> (\<exists>secret. sample_raw = ''sk-'' @ RawURLEncode (fill_bytes 32 secret))
   \<and> fst (CreatApikey no_faults sample_sha 5 (Inr sample_secret) 1 [3, 1, 3] [1] sample_db)
     = Inr (''sk-'' @ RawURLEncode (fill_bytes 32 sample_secret))"
proof -
  have c: "CreatApikey no_faults sample_sha 5 (Inr sample_secret) 1 [3, 1, 3] [1] sample_db = (Inr sample_raw, sample_created)"
    by (simp add: sample_created_def prod_eq_iff sample_creation)
  note e = creat_apikey_effect [of no_faults sample_sha 5 "Inr sample_secret" 1 "[3, 1, 3]" "[1]" sample_db sample_raw sample_created
      sample_secret]
  from e c obtain secret ids exts where
    r: "sample_raw = ''sk-'' @ RawURLEncode (fill_bytes 32 secret)" and
    d: "sample_created = add_key 5 (new_key 5 (api_keys_seq sample_db) 1 sample_sha sample_raw) ids exts sample_db"
    by blast
  have "api_keys_seq sample_created = Suc (api_keys_seq sample_db)"
    by (subst d) (simp add: add_key_def)
  moreover have "length (sample_sha (''sk-'' @ RawURLEncode (fill_bytes 32 sample_secret))) = 32" by code_simp
  moreover have "key_hash sample_sha (''sk-'' @ RawURLEncode (fill_bytes 32 sample_secret)) \<notin> set (map key_KeyHash (api_keys sample_db))"
    by code_simp
  ultimately show ?thesis using r e sample_inv by (auto simp: sample_db_def sample_user_def sample_account_def)
qed

text \<open>C5: a creation or replacement that reports an error has changed nothing, unless the commit
  itself was executed and only its reply was lost.\<close>

theorem failed_change_changes_nothing:
  assumes "\<forall>e. io Q_Commit \<noteq> Some (Unacked e)"
  shows "(fst (CreatApikey io sha256 now rnd u oa ext d) = Inl e1 \<longrightarrow>
       snd (CreatApikey io sha256 now rnd u oa ext d) = d)
    \<and> (fst (ReplaceApikeyAccounts io now u kid oa ext d) = Inl e2 \<longrightarrow>
       snd (ReplaceApikeyAccounts io now u kid oa ext d) = d)"
  using CreatApikey_error ReplaceApikeyAccounts_error assms by blast

theorem failed_change_changes_nothing_witness:
  "fst (ReplaceApikeyAccounts (no_faults(Q_InsertAccounts := Some (Unacked ContextCanceled))) 9 2 1 [2] [] sample_db)
     = Inl ContextCanceled
   \<and> snd (ReplaceApikeyAccounts (no_faults(Q_InsertAccounts := Some (Unacked ContextCanceled))) 9 2 1 [2] [] sample_db)
     = sample_db"
proof -
  have e: "fst (ReplaceApikeyAccounts (no_faults(Q_InsertAccounts := Some (Unacked ContextCanceled))) 9 2 1 [2] [] sample_db)
     = Inl ContextCanceled" by code_simp
  have "\<forall>e. (no_faults(Q_InsertAccounts := Some (Unacked ContextCanceled))) Q_Commit \<noteq> Some (Unacked e)"
    by simp
  from failed_change_changes_nothing
    [where io = "no_faults(Q_InsertAccounts := Some (Unacked ContextCanceled))", OF this] e
  show ?thesis by blast
qed

text \<open>C6: a replacement that reports success leaves the key, which is the user's, with exactly the
  requested accounts and external keys, without duplicates and all the user's; the bindings of
  other keys and everything else are as before.\<close>

theorem replace_sets_scope:
  assumes "ReplaceApikeyAccounts io now u kid oa ext d = (Inr x, d')"
  shows "d' = set_scope now u kid (rev (remdups (rev oa))) (rev (remdups (rev ext))) d
    \<and> (\<exists>k \<in> set (api_keys d). key_ID k = kid \<and> key_UserID k = u) \<and> (oa \<noteq> [] \<or> ext \<noteq> [])
    \<and> (\<forall>x \<in> set oa. (u, x) \<in> set (oauth_refs d)) \<and> (\<forall>x \<in> set ext. (u, x) \<in> set (external_refs d))"
proof -
  from ReplaceApikeyAccounts_InrD [OF assms] obtain ids exts where
    i: "dedup_ids oa = Inr ids" and e: "dedup_ids ext = Inr exts" and ne: "ids \<noteq> [] \<or> exts \<noteq> []"
    and b: "replace_body io now u kid ids exts d = (Inr (), d')" .
  from i e have "ids = rev (remdups (rev oa))" "exts = rev (remdups (rev ext))"
    by (simp_all add: dedup_ids_eq split: if_splits)
  with ne replace_body_InrD [OF b] show ?thesis by (auto simp: owns_key_def)
qed

theorem replace_sets_scope_witness:
  "\<exists>d'. ReplaceApikeyAccounts no_faults 9 2 1 [2, 2] [] sample_db = (Inr (), d')
     \<and> d' = set_scope 9 2 1 [2] [] sample_db"
proof -
  have "fst (ReplaceApikeyAccounts no_faults 9 2 1 [2, 2] [] sample_db) = Inr ()" by code_simp
  then obtain d' where r: "ReplaceApikeyAccounts no_faults 9 2 1 [2, 2] [] sample_db = (Inr (), d')"
    by (metis prod.collapse)
  from replace_sets_scope [OF r] r show ?thesis by simp
qed

text \<open>C7: a key that does not exist and a key of another user are the same to the caller: every
  change answers that the key is not found and changes nothing.\<close>

theorem foreign_key_not_found:
  assumes "\<forall>k \<in> set (api_keys d). \<not> (key_ID k = kid \<and> key_UserID k = u)"
    and "\<forall>x \<in> set oa \<union> set ext. x \<noteq> 0 \<and> x \<le> max_bigint" and "oa \<noteq> [] \<or> ext \<noteq> []"
  shows "UpdateApikey no_faults now u kid dis exp upd d = (Inl ErrApikeyNotFound, d)
    \<and> DeleteApikey no_faults u kid d = (Inl ErrApikeyNotFound, d)
    \<and> ReplaceApikeyAccounts no_faults now u kid oa ext d = (Inl ErrApikeyNotFound, d)"
proof -
  have *: "\<forall>k \<in> set (api_keys d). \<not> owns_key u kid k" using assms(1) by (simp add: owns_key_def)
  have "dedup_ids oa = Inr (rev (remdups (rev oa)))" "dedup_ids ext = Inr (rev (remdups (rev ext)))"
    using assms(2) by (simp_all add: dedup_ids_valid)
  then show ?thesis
    using UpdateApikey_foreign [OF *] DeleteApikey_foreign [OF *]
      ReplaceApikeyAccounts_foreign [OF * _ _ assms(3)] by simp
qed

theorem foreign_key_not_found_witness:
  "DeleteApikey no_faults 1 1 sample_db = (Inl ErrApikeyNotFound, sample_db)"
proof -
  have "\<forall>k \<in> set (api_keys sample_db). \<not> (key_ID k = 1 \<and> key_UserID k = 1)"
    by (simp add: sample_db_def)
  from foreign_key_not_found [OF this, of "[1]" "[]"] show ?thesis
    by (simp add: max_bigint_def)
qed

text \<open>C8: a secret authenticates for a model exactly when an enabled, unexpired key has its hash,
  the model is supported, and an enabled Codex account is bound to the key; the accounts handed
  on are those of the key's owner that are enabled and of the type the model needs.\<close>

theorem check_admits_exactly:
  assumes "db_inv d"
  shows "checkOauth True no_faults sha256 now raw model d = Inr accs \<longleftrightarrow>
    (\<exists>k \<in> set (api_keys d). key_KeyHash k = key_hash sha256 raw \<and> \<not> key_Disabled k
       \<and> \<not> expired_at (key_ExpiresAt k) now \<and> model \<in> set codex_models \<and> accs \<noteq> []
       \<and> accs = filter (\<lambda>a. \<not> item_Disabled a \<and> item_Type a = ''codex'') (accounts_of_key k d))"
  using assms by (rule checkOauth_iff)

theorem check_admits_exactly_witness:
  "checkOauth True no_faults sample_sha 10 sample_raw ''gpt-5.5'' sample_created
     = Inr [item_of (sample_account 1 1 False ''acc-a'')]
   \<and> (\<exists>k \<in> set (api_keys sample_created). key_KeyHash k = key_hash sample_sha sample_raw)"
proof -
  have "checkOauth True no_faults sample_sha 10 sample_raw ''gpt-5.5'' sample_created
     = Inr [item_of (sample_account 1 1 False ''acc-a'')]" by code_simp
  with check_admits_exactly [OF sample_created_inv] show ?thesis by blast
qed

text \<open>What the check of a new key gives.\<close>

lemma new_key_checked:
  assumes "db_inv d" and c: "CreatApikey io sha256 now rnd u oa ext d = (Inr raw, d')"
    and "model \<in> set codex_models"
    and "\<exists>a \<in> set (oauth_infos d). oa_UserID a = u \<and> oa_ID a \<in> set oa \<and> \<not> oa_Disabled a \<and> oa_Type a = ''codex''"
  shows "\<exists>accs. checkOauth True no_faults sha256 later raw model d' = Inr accs
    \<and> set accs = item_of ` {a \<in> set (oauth_infos d).
        oa_UserID a = u \<and> oa_ID a \<in> set oa \<and> \<not> oa_Disabled a \<and> oa_Type a = ''codex''}"
proof -
  let ?k = "new_key now (api_keys_seq d) u sha256 raw"
  let ?usable = "\<lambda>a. \<not> item_Disabled a \<and> item_Type a = ''codex''"
  let ?accs = "filter ?usable (accounts_of_key ?k d')"
  from CreatApikey_effect [OF c] obtain exts where
    d': "d' = add_key now ?k (rev (remdups (rev oa))) exts d" and own: "\<forall>x \<in> set oa. (u, x) \<in> set (oauth_refs d)"
    by blast
  have inv: "db_inv d'" using CreatApikey_keeps [OF assms(1), of io sha256 now rnd u oa ext] c by simp
  have s: "set (accounts_of_key ?k d') = item_of ` {a \<in> set (oauth_infos d). oa_UserID a = u \<and> oa_ID a \<in> set oa}"
    unfolding d' using accounts_of_new_key [OF assms(1) CreatApikey_seq [OF c]] own by simp
  then have accs: "set ?accs = item_of ` {a \<in> set (oauth_infos d).
        oa_UserID a = u \<and> oa_ID a \<in> set oa \<and> \<not> oa_Disabled a \<and> oa_Type a = ''codex''}"
    by auto
  moreover from assms(4) obtain a where "a \<in> set (oauth_infos d)" and "oa_UserID a = u \<and> oa_ID a \<in> set oa
      \<and> \<not> oa_Disabled a \<and> oa_Type a = ''codex''" by blast
  ultimately have "item_of a \<in> set ?accs" by blast
  then have "?accs \<noteq> []" by (rule ne_if_member)
  moreover have "?k \<in> set (api_keys d')" by (simp add: d' add_key_def)
  ultimately have "checkOauth True no_faults sha256 later raw model d' = Inr ?accs"
    unfolding checkOauth_iff [OF inv]
    using assms(3) by (intro bexI [of _ ?k]) (simp_all add: new_key_def expired_at_def)
  with accs show ?thesis by blast
qed

text \<open>The secret a creation returns authenticates at once, for every supported model, when one of
  the requested accounts is an enabled Codex account, and it gives access to exactly the enabled
  Codex accounts among the requested ones.\<close>

theorem created_key_authenticates:
  assumes "db_inv d" and c: "CreatApikey io sha256 now rnd u oa ext d = (Inr raw, d')"
    and "model \<in> set codex_models"
    and "\<exists>a \<in> set (oauth_infos d). oa_UserID a = u \<and> oa_ID a \<in> set oa \<and> \<not> oa_Disabled a \<and> oa_Type a = ''codex''"
  shows "\<exists>accs. checkOauth True no_faults sha256 later raw model d' = Inr accs
    \<and> set accs = item_of ` {a \<in> set (oauth_infos d).
        oa_UserID a = u \<and> oa_ID a \<in> set oa \<and> \<not> oa_Disabled a \<and> oa_Type a = ''codex''}"
  using assms by (rule new_key_checked)

theorem created_key_authenticates_witness:
  "\<exists>accs. checkOauth True no_faults sample_sha 10 sample_raw ''gpt-5.6-sol'' sample_created = Inr accs
     \<and> set accs = item_of ` {a \<in> set (oauth_infos sample_db).
          oa_UserID a = 1 \<and> oa_ID a \<in> set [3, 1, 3] \<and> \<not> oa_Disabled a \<and> oa_Type a = ''codex''}"
proof (rule created_key_authenticates [OF sample_inv])
  show "CreatApikey no_faults sample_sha 5 (Inr sample_secret) 1 [3, 1, 3] [1] sample_db = (Inr sample_raw, sample_created)"
    by (simp add: sample_created_def prod_eq_iff sample_creation)
qed (simp_all add: codex_models_def sample_db_def sample_account_def)

text \<open>C10: a key that has been deleted, disabled, or given an expiry that has passed no longer
  authenticates.\<close>

theorem revoked_key_rejected:
  assumes "db_inv d" and "k \<in> set (api_keys d)" and "key_KeyHash k = key_hash sha256 raw"
    and "key_ID k = kid" and "key_UserID k = u"
  shows "(DeleteApikey io u kid d = (Inr (), d') \<longrightarrow>
       GetOauthByApikey no_faults sha256 later raw d' = Inl ErrInvalidApikey)
    \<and> (UpdateApikey io now u kid (Some True) exp upd d = (Inr (), d') \<longrightarrow>
       GetOauthByApikey no_faults sha256 later raw d' = Inl ErrInvalidApikey)
    \<and> (UpdateApikey io now u kid dis (Some t) True d = (Inr (), d') \<and> t \<le> later \<longrightarrow>
       GetOauthByApikey no_faults sha256 later raw d' = Inl ErrInvalidApikey)"
proof -
  have k: "owns_key u kid k" using assms(4,5) by (simp add: owns_key_def)
  have del: "GetOauthByApikey no_faults sha256 later raw d' = Inl ErrInvalidApikey"
    if "DeleteApikey io u kid d = (Inr (), d')"
  proof (rule GetOauthByApikey_unknown, intro ballI notI)
    fix k' assume "k' \<in> set (api_keys d')" and h: "key_KeyHash k' = key_hash sha256 raw"
    then have "k' \<in> set (api_keys d)" and "\<not> owns_key u kid k'"
      using DeleteApikey_InrD [OF that] by (simp_all add: delete_keys_def Let_def)
    with hash_determines_key [OF assms(1) assms(2)] assms(3) h k show False by metis
  qed
  have upd: "GetOauthByApikey no_faults sha256 later raw d' = Inl ErrInvalidApikey"
    if "UpdateApikey io now u kid dis exp upd d = (Inr (), d')"
      and bad: "dis = Some True \<or> (upd \<and> (\<exists>t. exp = Some t \<and> t \<le> later))" for dis exp upd
  proof -
    have inv: "db_inv d'" using UpdateApikey_keeps [OF assms(1)] that(1) by (metis snd_conv)
    let ?k = "k\<lparr>key_UpdatedAt := now, key_Disabled := (case dis of None \<Rightarrow> key_Disabled k | Some b \<Rightarrow> b),
            key_ExpiresAt := (if upd then exp else key_ExpiresAt k)\<rparr>"
    have "?k \<in> set (api_keys d')"
      using UpdateApikey_InrD(1) [OF that(1)] assms(2) k by (force simp: update_where_def)
    from GetOauthByApikey_found [OF inv this] assms(3) bad show ?thesis by (auto simp: expired_at_def)
  qed
  from del upd show ?thesis by auto
qed

theorem revoked_key_rejected_witness:
  "GetOauthByApikey no_faults sample_sha 20 sample_raw
     (snd (UpdateApikey no_faults 7 1 2 None (Some 15) True sample_created)) = Inl ErrInvalidApikey
   \<and> GetOauthByApikey no_faults sample_sha 20 sample_raw sample_created \<noteq> Inl ErrInvalidApikey"
proof -
  let ?k = "new_key 5 2 1 sample_sha sample_raw"
  let ?u = "UpdateApikey no_faults 7 1 2 None (Some 15) True sample_created"
  have k: "?k \<in> set (api_keys sample_created)" by code_simp
  have r: "?u = (Inr (), snd ?u)"
    unfolding prod_eq_iff by (simp, code_simp)
  have s: "GetOauthByApikey no_faults sample_sha 20 sample_raw sample_created \<noteq> Inl ErrInvalidApikey"
    by code_simp
  from revoked_key_rejected [OF sample_created_inv k, where ?sha256.0 = sample_sha and raw = sample_raw
      and kid = 2 and u = 1 and io = no_faults and d' = "snd ?u" and now = 7 and dis = None
      and t = 15 and later = 20] r s
  show ?thesis by (simp add: new_key_def)
qed

text \<open>C11: the list of a user's keys is, newest first, each key with exactly its own accounts and
  external keys in ascending order; no item carries a credential or an expiry of an account.\<close>

theorem list_is_reference:
  assumes "db_inv d"
  shows "UserApikeyList no_faults u d =
      Inr (map (key_view u d) (desc key_ID (filter (\<lambda>k. key_UserID k = u) (api_keys d))))"
  using GetApikeyByUserId_eq [OF assms] by (simp add: UserApikeyList_def)

theorem list_is_reference_witness:
  "UserApikeyList no_faults 1 sample_created = Inr [key_view 1 sample_created (new_key 5 2 1 sample_sha sample_raw)]
   \<and> map item_ID (li_Accounts (key_view 1 sample_created (new_key 5 2 1 sample_sha sample_raw))) = [1, 3]"
proof -
  have "desc key_ID (filter (\<lambda>k. key_UserID k = 1) (api_keys sample_created)) = [new_key 5 2 1 sample_sha sample_raw]"
    by code_simp
  moreover have "map item_ID (li_Accounts (key_view 1 sample_created (new_key 5 2 1 sample_sha sample_raw))) = [1, 3]"
    by code_simp
  ultimately show ?thesis using list_is_reference [OF sample_created_inv, of 1] by simp
qed


lemma generateApikey_Inr:
  "generateApikey sha256 (Inr secret) = (let raw = ''sk-'' @ RawURLEncode (fill_bytes 32 secret) in Inr (raw, key_hash sha256 raw))"
  by (simp add: generateApikey_def)

lemma generateApikey_eq_iff:
  "generateApikey sha256 (Inr s) = generateApikey sha256 (Inr t) \<longleftrightarrow> fill_bytes 32 s = fill_bytes 32 t"
  using RawURLEncode_inj [of "fill_bytes 32 s" "fill_bytes 32 t"] by (auto simp: generateApikey_Inr Let_def)

lemma card_fill_bytes: "card (range (fill_bytes n)) = 256 ^ n"
proof -
  have "range (fill_bytes n) = {bs. set bs \<subseteq> UNIV \<and> length bs = n}"
  proof (intro equalityI subsetI)
    fix bs assume "bs \<in> {bs :: bytes. set bs \<subseteq> UNIV \<and> length bs = n}"
    then have "bs = fill_bytes n bs" by simp
    then show "bs \<in> range (fill_bytes n)" by blast
  qed auto
  then show ?thesis using card_lists_length_eq [of "UNIV :: char set" n]
    by (simp add: card_UNIV_char)
qed

text \<open>C12: a key is generated exactly when the random source answers, and it is the marker and 43
  characters of the URL-safe alphabet, 46 bytes of which the listing shows 12; it hides all of
  the 32 random bytes read and nothing else: two draws give the same key exactly when those
  bytes agree, so there are \<open>2 ^ 256\<close> keys.\<close>

theorem generated_key_form:
  "(case generateApikey sha256 rnd of
      Inl e \<Rightarrow> rnd = Inl e
    | Inr (raw, h) \<Rightarrow> length raw = 46 \<and> take 3 raw = ''sk-'' \<and> set (drop 3 raw) \<subseteq> set url_alphabet
        \<and> h = hex_encode (sha256 raw)
        \<and> (\<exists>secret. rnd = Inr secret \<and> (\<forall>other. generateApikey sha256 (Inr other) = Inr (raw, h)
             \<longleftrightarrow> fill_bytes 32 other = fill_bytes 32 secret)))
   \<and> card (range (\<lambda>secret. generateApikey sha256 (Inr secret))) = 2 ^ 256"
proof
  have "card (range (\<lambda>secret. generateApikey sha256 (Inr secret))) = card (range (fill_bytes 32))"
  proof -
    let ?g = "\<lambda>bs. generateApikey sha256 (Inr bs)"
    have "?g bs = ?g (fill_bytes 32 bs)" for bs by (simp add: generateApikey_eq_iff)
    then have "range ?g = ?g ` range (fill_bytes 32)" unfolding image_image by metis
    moreover have "inj_on ?g (range (fill_bytes 32))"
      by (rule inj_onI) (auto simp: generateApikey_eq_iff)
    ultimately show ?thesis by (simp add: card_image)
  qed
  then show "card (range (\<lambda>secret. generateApikey sha256 (Inr secret))) = 2 ^ 256"
    by (simp add: card_fill_bytes)
next
  show "case generateApikey sha256 rnd of
      Inl e \<Rightarrow> rnd = Inl e
    | Inr (raw, h) \<Rightarrow> length raw = 46 \<and> take 3 raw = ''sk-'' \<and> set (drop 3 raw) \<subseteq> set url_alphabet
        \<and> h = hex_encode (sha256 raw)
        \<and> (\<exists>secret. rnd = Inr secret \<and> (\<forall>other. generateApikey sha256 (Inr other) = Inr (raw, h)
             \<longleftrightarrow> fill_bytes 32 other = fill_bytes 32 secret))"
  proof (cases rnd)
    case (Inr secret)
    then obtain raw h where g: "generateApikey sha256 rnd = Inr (raw, h)" by (simp add: generateApikey_Inr Let_def)
    then have raw: "raw = ''sk-'' @ RawURLEncode (fill_bytes 32 secret)" "h = key_hash sha256 raw"
      using Inr by (auto simp: generateApikey_Inr Let_def)
    moreover have "generateApikey sha256 (Inr other) = Inr (raw, h) \<longleftrightarrow> fill_bytes 32 other = fill_bytes 32 secret" for other
      using g Inr generateApikey_eq_iff by metis
    ultimately show ?thesis
      using RawURLEncode_alphabet [of "fill_bytes 32 secret"] Inr unfolding g
      by (simp add: key_hash_def length_RawURLEncode)
  qed (simp add: generateApikey_def)
qed

theorem generated_key_form_witness:
  "generateApikey sample_sha (Inr sample_secret) = Inr (sample_raw, key_hash sample_sha sample_raw)
   \<and> length sample_raw = 46"
proof -
  have g: "generateApikey sample_sha (Inr sample_secret) = Inr (sample_raw, key_hash sample_sha sample_raw)"
    by (simp add: generateApikey_def sample_raw_def sample_secret_def Let_def)
  with generated_key_form [of "Inr sample_secret" sample_sha] show ?thesis by simp
qed

end
