(* ===== verification/KeyHttpProps.thy ===== *)
theory KeyHttpProps imports ApiKeyHttp ApiKeyProps begin

text \<open>
  The properties of the management routes of API keys, with witnesses.
\<close>

section \<open>Replies and tables\<close>

lemma update_where_none: "count_where p rows = 0 \<Longrightarrow> update_where p f rows = rows"
  by (simp add: First_count update_where_def map_idI)

lemma UpdateApikey_error:
  assumes "\<forall>e'. io Q_UpdateKey \<noteq> Some (Unacked e')"
    and "fst (UpdateApikey io now u kid dis exp upd d) = Inl e"
  shows "snd (UpdateApikey io now u kid dis exp upd d) = d"
  using assms
  by (auto simp: UpdateApikey_def repo_UpdateApikey_def call_def update_keys_def update_where_none
      split: option.splits fault.splits if_splits)

lemma delete_keys_none: "count_where p (api_keys d) = 0 \<Longrightarrow> snd (delete_keys p d) = d"
proof -
  assume "count_where p (api_keys d) = 0"
  then have n: "\<forall>k \<in> set (api_keys d). \<not> p k" by (simp add: First_count)
  then have "filter p (api_keys d) = []" and "filter (\<lambda>k. \<not> p k) (api_keys d) = api_keys d"
    by (simp_all add: filter_empty_conv)
  then show ?thesis by (simp add: delete_keys_def)
qed

lemma DeleteApikey_error:
  assumes "\<forall>e'. io Q_DeleteKey \<noteq> Some (Unacked e')"
    and "fst (DeleteApikey io u kid d) = Inl e"
  shows "snd (DeleteApikey io u kid d) = d"
proof (cases "count_where (owns_key u kid) (api_keys d) = 0")
  case True
  then show ?thesis using assms(1) delete_keys_none [OF True]
    by (auto simp: DeleteApikey_def repo_DeleteApikey_def call_def if_ok_def
        split: option.splits fault.splits prod.splits sum.splits)
next
  case False
  then show ?thesis using assms
    by (auto simp: DeleteApikey_def repo_DeleteApikey_def call_def delete_keys_def Let_def
        split: option.splits fault.splits if_splits)
qed

lemma mutation_reply:
  "400 \<le> reply_status (apikeyMutationResponse r) \<longleftrightarrow> (\<exists>e. r = Inl e)"
  by (auto simp: apikeyMutationResponse_def split: sum.splits)

text \<open>C28: the status of a reply tells what happened to the tables: as long as the database reports the
  fate of each statement, a reply of 400 and above means that nothing was changed, on every
  management route and every path through it; and without a user no route does anything but
  answer 401.\<close>

theorem error_reply_changes_nothing:
  assumes "\<forall>q e. io q \<noteq> Some (Unacked e)"
  shows "(400 \<le> reply_status (fst (UpdateApikeyHandler io parse now user param body d)) \<longrightarrow>
       snd (UpdateApikeyHandler io parse now user param body d) = d)
    \<and> (400 \<le> reply_status (fst (ReplaceApikeyAccountsHandler io now user param body d)) \<longrightarrow>
       snd (ReplaceApikeyAccountsHandler io now user param body d) = d)
    \<and> (400 \<le> reply_status (fst (DeleteApikeyHandler io user param d)) \<longrightarrow>
       snd (DeleteApikeyHandler io user param d) = d)
    \<and> (400 \<le> reply_status (fst (CreatApikeyHandler io sha256 now rnd user body d)) \<longrightarrow>
       snd (CreatApikeyHandler io sha256 now rnd user body d) = d)
    \<and> (user = None \<or> user = Some 0 \<longrightarrow>
       reply_status (fst (UpdateApikeyHandler io parse now user param body d)) = 401
       \<and> reply_status (fst (ReplaceApikeyAccountsHandler io now user param body d)) = 401
       \<and> reply_status (fst (DeleteApikeyHandler io user param d)) = 401
       \<and> reply_status (fst (CreatApikeyHandler io sha256 now rnd user body d)) = 401
       \<and> reply_status (ApikeyListHandler io user d) = 401)"
proof (intro conjI impI)
  have ids: "apikeyRequestIDs user param = Inl r \<Longrightarrow> 400 \<le> reply_status r" for r :: key_reply
    by (auto simp: apikeyRequestIDs_def split: option.splits if_splits)
  show "snd (UpdateApikeyHandler io parse now user param body d) = d"
    if "400 \<le> reply_status (fst (UpdateApikeyHandler io parse now user param body d))"
    using that assms UpdateApikey_error [of io now _ _ _ _ _ d]
    by (auto simp: UpdateApikeyHandler_def mutation_reply Let_def split: sum.splits prod.splits option.splits if_splits)
      (metis fst_conv snd_conv)+
  show "snd (ReplaceApikeyAccountsHandler io now user param body d) = d"
    if "400 \<le> reply_status (fst (ReplaceApikeyAccountsHandler io now user param body d))"
    using that assms ReplaceApikeyAccounts_error [of io now _ _ _ _ d]
    by (auto simp: ReplaceApikeyAccountsHandler_def mutation_reply Let_def split: sum.splits prod.splits option.splits)
      (metis fst_conv snd_conv)+
  show "snd (DeleteApikeyHandler io user param d) = d"
    if "400 \<le> reply_status (fst (DeleteApikeyHandler io user param d))"
    using that assms DeleteApikey_error [of io _ _ d]
    by (auto simp: DeleteApikeyHandler_def mutation_reply Let_def split: sum.splits prod.splits)
      (metis fst_conv snd_conv)+
  show "snd (CreatApikeyHandler io sha256 now rnd user body d) = d"
    if "400 \<le> reply_status (fst (CreatApikeyHandler io sha256 now rnd user body d))"
    using that assms CreatApikey_error [of io sha256 now rnd _ _ _ d]
    by (auto simp: CreatApikeyHandler_def split: sum.splits prod.splits option.splits if_splits)
      (metis fst_conv snd_conv)+
qed (auto simp: UpdateApikeyHandler_def ReplaceApikeyAccountsHandler_def DeleteApikeyHandler_def
      CreatApikeyHandler_def ApikeyListHandler_def apikeyRequestIDs_def)

lemma error_reply_changes_nothing_witness:
  "reply_status (fst (DeleteApikeyHandler no_faults (Some 1) ''1'' sample_db)) = 404
   \<and> snd (DeleteApikeyHandler no_faults (Some 1) ''1'' sample_db) = sample_db"
proof -
  have "\<forall>q e. no_faults q \<noteq> Some (Unacked e)" by simp
  moreover have "reply_status (fst (DeleteApikeyHandler no_faults (Some 1) ''1'' sample_db)) = 404"
    by code_simp
  ultimately show ?thesis
    using error_reply_changes_nothing [of no_faults _ _ "Some 1" "''1''" _ sample_db] by simp
qed

end
