(* ===== verification/Sessions.thy ===== *)
theory Sessions imports GoLib begin

text \<open>
  \<open>internal/middleware/redis\<close>: refresh tokens (\<open>refresh_token.go\<close>) and OAuth login state
  (\<open>oauth_state.go\<close>), on a model of the Redis commands they use: values with an optional expiry,
  \<open>SET\<close> with a time to live, \<open>GET\<close>, \<open>DEL\<close>, \<open>GETDEL\<close> and the rotation script, each of which runs
  without interruption. Times are in nanoseconds, Redis counts milliseconds.
\<close>

section \<open>Redis\<close>

type_synonym redis = "bytes \<rightharpoonup> bytes \<times> time option"

definition redis_get :: "time \<Rightarrow> bytes \<Rightarrow> redis \<Rightarrow> bytes option" where
  "redis_get now k r = (case r k of
       None \<Rightarrow> None
     | Some (v, None) \<Rightarrow> Some v
     | Some (v, Some t) \<Rightarrow> if now < t then Some v else None)"

definition millisecond :: int where
  "millisecond = 1000000"

text \<open>
  \<open>client.Set\<close>: no time to live keeps the value for good, and one below a millisecond counts as
  one. (A negative one is not modelled: the configuration admits positive durations only.)
\<close>

definition redis_set :: "time \<Rightarrow> bytes \<Rightarrow> bytes \<Rightarrow> time \<Rightarrow> redis \<Rightarrow> (go_error + unit) \<times> redis" where
  "redis_set now k v ttl r =
     (Inr (), r(k \<mapsto> (v, if ttl = 0 then None
                       else Some (now + max 1 (ttl div millisecond) * millisecond))))"

definition redis_del :: "bytes \<Rightarrow> redis \<Rightarrow> (go_error + unit) \<times> redis" where
  "redis_del k r = (Inr (), r(k := None))"

definition redis_getdel :: "time \<Rightarrow> bytes \<Rightarrow> redis \<Rightarrow> (go_error + bytes) \<times> redis" where
  "redis_getdel now k r = (case redis_get now k r of
       None \<Rightarrow> (Inl RedisNil, r)
     | Some v \<Rightarrow> (Inr v, r(k := None)))"

text \<open>
  \<open>rotateRefreshTokenScript\<close>. \<open>SET\<close> with \<open>PX 0\<close> is an error, which does not undo the \<open>DEL\<close>.
\<close>

definition rotate_script :: "time \<Rightarrow> bytes \<Rightarrow> bytes \<Rightarrow> int \<Rightarrow> redis \<Rightarrow> (go_error + bytes) \<times> redis" where
  "rotate_script now old new ms r = (case redis_get now old r of
       None \<Rightarrow> (Inl RedisNil, r)
     | Some user_id \<Rightarrow>
         if ms \<le> 0 then (Inl (Other ''ERR invalid expire time in 'set' command''), r(old := None))
         else (Inr user_id, r(old := None, new \<mapsto> (user_id, Some (now + ms * millisecond)))))"

section \<open>Refresh tokens\<close>

datatype session_stmt = R_Set | R_Eval | R_Del

type_synonym session_faults = "session_stmt \<Rightarrow> fault option"

definition refreshTokenPrefix :: bytes where
  "refreshTokenPrefix = ''refresh_token:''"

definition newRefreshToken :: "go_error + bytes \<Rightarrow> go_error + bytes" where
  "newRefreshToken rnd = (case rnd of
       Inl e \<Rightarrow> Inl (Wrap ''generate refresh token'' e)
     | Inr randomBytes \<Rightarrow> Inr (RawURLEncode (fill_bytes 32 randomBytes)))"

definition refreshTokenKey :: "(bytes \<Rightarrow> bytes) \<Rightarrow> bytes \<Rightarrow> bytes" where
  "refreshTokenKey sha256 refreshToken = refreshTokenPrefix @ hex_encode (sha256 refreshToken)"

definition CreateRefreshToken ::
  "session_faults \<Rightarrow> (bytes \<Rightarrow> bytes) \<Rightarrow> time \<Rightarrow> go_error + bytes \<Rightarrow> uint64 \<Rightarrow> time \<Rightarrow> redis
    \<Rightarrow> (go_error + bytes) \<times> redis" where
  "CreateRefreshToken io sha256 now rnd userID ttl r =
     (case newRefreshToken rnd of
        Inl e \<Rightarrow> (Inl e, r)
      | Inr refreshToken \<Rightarrow>
          (case call (io R_Set) (redis_set now (refreshTokenKey sha256 refreshToken) (FormatUint userID) ttl) r of
             (Inl e, r) \<Rightarrow> (Inl (Wrap ''store refresh token'' e), r)
           | (Inr _, r) \<Rightarrow> (Inr refreshToken, r)))"

definition RotateRefreshToken ::
  "session_faults \<Rightarrow> (bytes \<Rightarrow> bytes) \<Rightarrow> time \<Rightarrow> go_error + bytes \<Rightarrow> bytes \<Rightarrow> time \<Rightarrow> redis
    \<Rightarrow> (go_error + bytes \<times> uint64) \<times> redis" where
  "RotateRefreshToken io sha256 now rnd oldRefreshToken ttl r =
     (case newRefreshToken rnd of
        Inl e \<Rightarrow> (Inl e, r)
      | Inr newToken \<Rightarrow>
          (case call (io R_Eval) (rotate_script now (refreshTokenKey sha256 oldRefreshToken)
                  (refreshTokenKey sha256 newToken) (ttl div millisecond)) r of
             (Inl e, r) \<Rightarrow>
               (Inl (if errors_Is e RedisNil then ErrRefreshTokenNotFound
                     else Wrap ''rotate refresh token'' e), r)
           | (Inr userIDValue, r) \<Rightarrow>
               (case ParseUint userIDValue 64 of
                  Some userID \<Rightarrow>
                    if userID = 0
                    then (Inl ErrRefreshTokenNotFound,
                          snd (call (io R_Del) (redis_del (refreshTokenKey sha256 newToken)) r))
                    else (Inr (newToken, userID), r)
                | None \<Rightarrow> (Inl ErrRefreshTokenNotFound,
                          snd (call (io R_Del) (redis_del (refreshTokenKey sha256 newToken)) r)))))"

definition DeleteRefreshToken ::
  "session_faults \<Rightarrow> (bytes \<Rightarrow> bytes) \<Rightarrow> bytes \<Rightarrow> redis \<Rightarrow> (go_error + unit) \<times> redis" where
  "DeleteRefreshToken io sha256 refreshToken r =
     (case call (io R_Del) (redis_del (refreshTokenKey sha256 refreshToken)) r of
        (Inl e, r) \<Rightarrow> (Inl (Wrap ''delete refresh token'' e), r)
      | (Inr _, r) \<Rightarrow> (Inr (), r))"

section \<open>Login state\<close>

datatype state_stmt = S_Set | S_GetDel

definition oidcStateKey :: "bytes \<Rightarrow> bytes" where
  "oidcStateKey state = ''oidc:flow:'' @ state"

definition SetState ::
  "(state_stmt \<Rightarrow> fault option) \<Rightarrow> time \<Rightarrow> bytes \<Rightarrow> bytes \<Rightarrow> time \<Rightarrow> redis \<Rightarrow> (go_error + unit) \<times> redis" where
  "SetState io now state data ttl r = call (io S_Set) (redis_set now (oidcStateKey state) data ttl) r"

definition DeleteState ::
  "(state_stmt \<Rightarrow> fault option) \<Rightarrow> time \<Rightarrow> bytes \<Rightarrow> redis \<Rightarrow> (go_error + bytes) \<times> redis" where
  "DeleteState io now state r = call (io S_GetDel) (redis_getdel now (oidcStateKey state)) r"

section \<open>Tokens that are taken once\<close>

text \<open>
  A history of a store as seen by one token: attempts to take it, of which it counts those that
  succeeded, and other steps.
\<close>

inductive history ::
  "('s \<Rightarrow> 'v option \<Rightarrow> 's \<Rightarrow> bool) \<Rightarrow> ('s \<Rightarrow> 's \<Rightarrow> bool) \<Rightarrow> 's \<Rightarrow> nat \<Rightarrow> 's \<Rightarrow> bool"
  for takes other where
  start: "history takes other s 0 s"
| taken: "history takes other s n s' \<Longrightarrow> takes s' (Some v) s'' \<Longrightarrow> history takes other s (Suc n) s''"
| missed: "history takes other s n s' \<Longrightarrow> takes s' None s'' \<Longrightarrow> history takes other s n s''"
| elsewhere: "history takes other s n s' \<Longrightarrow> other s' s'' \<Longrightarrow> history takes other s n s''"

lemma history_one:
  assumes "takes s (Some v) s'"
  shows "history takes other s 1 s'"
proof -
  have "history takes other s (Suc 0) s'" by (rule history.taken) (rule history.start, rule assms)
  then show ?thesis by simp
qed

text \<open>
  The contract both stores give: taking a token gives what it stands for, the token is gone
  afterwards, and a token that is gone stays gone whatever happens to other tokens.
\<close>

locale one_shot =
  fixes look :: "'s \<Rightarrow> 't \<Rightarrow> 'v option" and takes :: "'t \<Rightarrow> 's \<Rightarrow> 'v option \<Rightarrow> 's \<Rightarrow> bool"
    and other :: "'t \<Rightarrow> 's \<Rightarrow> 's \<Rightarrow> bool"
  assumes take_found: "takes t s (Some v) s' \<Longrightarrow> look s t = Some v"
    and take_gone: "takes t s (Some v) s' \<Longrightarrow> look s' t = None"
    and take_missed: "takes t s r s' \<Longrightarrow> look s t = None \<Longrightarrow> look s' t = None"
    and other_keeps: "other t s s' \<Longrightarrow> look s t = None \<Longrightarrow> look s' t = None"
begin

lemma taken_at_most_once:
  "history (takes t) (other t) s n s' \<Longrightarrow>
    n \<le> 1 \<and> (n = 1 \<longrightarrow> look s' t = None) \<and> (look s t = None \<longrightarrow> n = 0 \<and> look s' t = None)"
proof (induction rule: history.induct)
  case (taken s n s' v s'')
  then show ?case using take_found [of t s' v s''] take_gone [of t s' v s''] by auto
next
  case (missed s n s' s'')
  then show ?case using take_missed [of t s' None s''] by auto
next
  case (elsewhere s n s' s'')
  then show ?case using other_keeps [of t s' s''] by auto
qed simp

end

text \<open>When no step replaces what a token stands for, a token that still stands for something was never taken.\<close>

locale one_shot_kept = one_shot +
  assumes take_keeps: "takes t s r s' \<Longrightarrow> look s' t = look s t \<or> look s' t = None"
    and other_keeps_or_drops: "other t s s' \<Longrightarrow> look s' t = look s t \<or> look s' t = None"
begin

lemma history_keeps:
  "history (takes t) (other t) s n s' \<Longrightarrow> look s' t = look s t \<or> look s' t = None"
proof (induction rule: history.induct)
  case (taken s n s' v s'')
  then show ?case using take_gone [of t s' v s''] by simp
next
  case (missed s n s' s'')
  then show ?case using take_keeps [of t s' None s''] by auto
next
  case (elsewhere s n s' s'')
  then show ?case using other_keeps_or_drops [of t s' s''] by auto
qed simp

lemma still_there:
  assumes "history (takes t) (other t) s n s'" and "look s' t = Some v"
  shows "look s t = Some v" and "n = 0"
  using history_keeps [OF assms(1)] taken_at_most_once [OF assms(1)] assms(2) by auto

end

text \<open>The stores with the clock. A token stands for a user, a login state for the data stored.\<close>

type_synonym store = "time \<times> redis"

definition token_user :: "(bytes \<Rightarrow> bytes) \<Rightarrow> store \<Rightarrow> bytes \<Rightarrow> uint64 option" where
  "token_user sha256 s t = (case redis_get (fst s) (refreshTokenKey sha256 t) (snd s) of
       None \<Rightarrow> None
     | Some v \<Rightarrow> (case ParseUint v 64 of Some u \<Rightarrow> if u = 0 then None else Some u | None \<Rightarrow> None))"

text \<open>No random token has the key of \<open>t\<close>; this is what makes tokens unguessable.\<close>

definition fresh_random :: "(bytes \<Rightarrow> bytes) \<Rightarrow> bytes \<Rightarrow> go_error + bytes \<Rightarrow> bool" where
  "fresh_random sha256 t rnd \<longleftrightarrow>
     (\<forall>new. newRefreshToken rnd = Inr new \<longrightarrow> refreshTokenKey sha256 new \<noteq> refreshTokenKey sha256 t)"

definition rotates ::
  "(bytes \<Rightarrow> bytes) \<Rightarrow> bytes \<Rightarrow> store \<Rightarrow> uint64 option \<Rightarrow> store \<Rightarrow> bool" where
  "rotates sha256 t s r s' \<longleftrightarrow> fst s' = fst s \<and> (\<exists>io rnd ttl x. fresh_random sha256 t rnd
     \<and> RotateRefreshToken io sha256 (fst s) rnd t ttl (snd s) = (x, snd s')
     \<and> r = (case x of Inl _ \<Rightarrow> None | Inr (_, u) \<Rightarrow> Some u))"

definition session_step :: "(bytes \<Rightarrow> bytes) \<Rightarrow> bytes \<Rightarrow> store \<Rightarrow> store \<Rightarrow> bool" where
  "session_step sha256 t s s' \<longleftrightarrow>
     (fst s \<le> fst s' \<and> snd s' = snd s)
   \<or> fst s' = fst s \<and> (\<exists>io rnd u ttl. fresh_random sha256 t rnd
        \<and> snd s' = snd (CreateRefreshToken io sha256 (fst s) rnd u ttl (snd s)))
   \<or> fst s' = fst s \<and> (\<exists>io rnd t' ttl. fresh_random sha256 t rnd
        \<and> snd s' = snd (RotateRefreshToken io sha256 (fst s) rnd t' ttl (snd s)))
   \<or> fst s' = fst s \<and> (\<exists>io t'. snd s' = snd (DeleteRefreshToken io sha256 t' (snd s)))"

text \<open>What a command does to another key, and to its own.\<close>

lemma redis_get_upd [simp]:
  "redis_get now k (r(k := None)) = None"
  "redis_get now k (r(k \<mapsto> (v, e))) = (case e of None \<Rightarrow> Some v | Some t \<Rightarrow> if now < t then Some v else None)"
  by (simp_all add: redis_get_def)

lemma redis_get_other: "k \<noteq> k' \<Longrightarrow> redis_get now k (r(k' := x)) = redis_get now k r"
  by (simp add: redis_get_def)

lemma redis_get_later: "redis_get now k r = None \<Longrightarrow> now \<le> later \<Longrightarrow> redis_get later k r = None"
  by (auto simp: redis_get_def split: option.splits if_splits)

text \<open>No operation gives the key of \<open>t\<close> another value: it keeps it or loses it.\<close>

definition keeps_or_drops :: "time \<Rightarrow> bytes \<Rightarrow> redis \<Rightarrow> redis \<Rightarrow> bool" where
  "keeps_or_drops now k r r' \<longleftrightarrow> redis_get now k r' = redis_get now k r \<or> redis_get now k r' = None"

lemma keeps_or_drops_refl [simp]: "keeps_or_drops now k r r"
  by (simp add: keeps_or_drops_def)

lemma keeps_or_drops_trans:
  "keeps_or_drops now k r r' \<Longrightarrow> keeps_or_drops now k r' r'' \<Longrightarrow> keeps_or_drops now k r r''"
  by (auto simp: keeps_or_drops_def)

lemma keeps_or_drops_call:
  "keeps_or_drops now k r (snd (op r)) \<Longrightarrow> keeps_or_drops now k r (snd (call f op r))"
  using call_snd [of f op r] by auto

lemma set_keeps: "k \<noteq> k' \<Longrightarrow> keeps_or_drops now k r (snd (redis_set now k' v ttl r))"
  by (simp add: keeps_or_drops_def redis_set_def redis_get_other)

lemma del_keeps: "keeps_or_drops now k r (snd (redis_del k' r))"
  by (cases "k = k'") (simp_all add: keeps_or_drops_def redis_del_def redis_get_other)

lemma getdel_keeps: "keeps_or_drops now k r (snd (redis_getdel now k' r))"
  by (cases "k = k'") (simp_all add: keeps_or_drops_def redis_getdel_def redis_get_other split: option.splits)

lemma script_keeps: "k \<noteq> new \<Longrightarrow> keeps_or_drops now k r (snd (rotate_script now old new ms r))"
  by (cases "k = old") (simp_all add: keeps_or_drops_def rotate_script_def redis_get_other split: option.splits)

lemma snd_reply [simp]:
  "snd (case c of (x, r) \<Rightarrow> (case x of Inl e \<Rightarrow> (f e, r) | Inr y \<Rightarrow> (g y, r))) = snd c"
  by (simp split: prod.splits sum.splits)

lemma create_keeps:
  assumes "fresh_random sha256 t rnd"
  shows "keeps_or_drops now (refreshTokenKey sha256 t) r (snd (CreateRefreshToken io sha256 now rnd u ttl r))"
proof (cases "newRefreshToken rnd")
  case (Inr new)
  with assms have "refreshTokenKey sha256 t \<noteq> refreshTokenKey sha256 new" by (metis fresh_random_def)
  from keeps_or_drops_call [where op = "redis_set now (refreshTokenKey sha256 new) (FormatUint u) ttl"
      and f = "io R_Set", OF set_keeps [OF this]]
  show ?thesis using Inr by (simp add: CreateRefreshToken_def)
qed (simp add: CreateRefreshToken_def)

lemma delete_keeps:
  "keeps_or_drops now k r (snd (DeleteRefreshToken io sha256 t' r))"
  using keeps_or_drops_call [where op = "redis_del (refreshTokenKey sha256 t')" and f = "io R_Del",
      OF del_keeps]
  by (simp add: DeleteRefreshToken_def)

lemma rotate_keeps:
  assumes "fresh_random sha256 t rnd"
  shows "keeps_or_drops now (refreshTokenKey sha256 t) r (snd (RotateRefreshToken io sha256 now rnd t' ttl r))"
proof (cases "newRefreshToken rnd")
  case (Inr new)
  let ?k = "refreshTokenKey sha256 t" and ?new = "refreshTokenKey sha256 new"
  obtain x r1 where e: "call (io R_Eval) (rotate_script now (refreshTokenKey sha256 t') ?new (ttl div millisecond)) r = (x, r1)"
    by (metis prod.collapse)
  have "?k \<noteq> ?new" using assms Inr by (metis fresh_random_def)
  from keeps_or_drops_call [where op = "rotate_script now (refreshTokenKey sha256 t') ?new (ttl div millisecond)"
      and f = "io R_Eval", OF script_keeps [OF this]] e
  have 1: "keeps_or_drops now ?k r r1" by (metis snd_conv)
  have 2: "keeps_or_drops now ?k r1 (snd (call (io R_Del) (redis_del ?new) r1))"
    by (rule keeps_or_drops_call) (rule del_keeps)
  show ?thesis
    using 1 keeps_or_drops_trans [OF 1 2] Inr e
    by (simp add: RotateRefreshToken_def split: sum.splits option.splits)
qed (simp add: RotateRefreshToken_def)

lemma rotate_success:
  assumes "RotateRefreshToken io sha256 now rnd t ttl r = (Inr (new, u), r')"
  shows "newRefreshToken rnd = Inr new" and "redis_get now (refreshTokenKey sha256 t) r \<noteq> None"
    and "ParseUint (the (redis_get now (refreshTokenKey sha256 t) r)) 64 = Some u" and "u \<noteq> 0"
    and "r' = r(refreshTokenKey sha256 t := None, refreshTokenKey sha256 new \<mapsto>
      (the (redis_get now (refreshTokenKey sha256 t) r), Some (now + ttl div millisecond * millisecond)))"
  using assms
  by (auto simp: RotateRefreshToken_def rotate_script_def dest!: call_InrD
      split: sum.splits prod.splits option.splits if_splits)

lemma token_user_gone:
  "keeps_or_drops now (refreshTokenKey sha256 t) r r' \<Longrightarrow> token_user sha256 (now, r) t = None
    \<Longrightarrow> token_user sha256 (now, r') t = None"
  by (auto simp: keeps_or_drops_def token_user_def)

lemma token_user_later:
  "now \<le> later \<Longrightarrow> token_user sha256 (now, r) t = None \<Longrightarrow> token_user sha256 (later, r) t = None"
  by (auto simp: token_user_def redis_get_def split: option.splits if_splits)

interpretation refresh: one_shot "token_user sha256" "rotates sha256" "session_step sha256" for sha256
proof
  fix t s v s'
  assume "rotates sha256 t s (Some v) s'"
  then obtain io rnd ttl x where f: "fresh_random sha256 t rnd" and now: "fst s' = fst s"
    and x: "RotateRefreshToken io sha256 (fst s) rnd t ttl (snd s) = (x, snd s')"
      "Some v = (case x of Inl _ \<Rightarrow> None | Inr (_, u) \<Rightarrow> Some u)"
    unfolding rotates_def by blast
  from x(2) obtain new where "x = Inr (new, v)" by (auto split: sum.splits prod.splits)
  with x(1) have r: "RotateRefreshToken io sha256 (fst s) rnd t ttl (snd s) = (Inr (new, v), snd s')"
    by simp
  note ok = rotate_success [OF r]
  show "token_user sha256 s t = Some v" using ok by (auto simp: token_user_def)
  have "refreshTokenKey sha256 t \<noteq> refreshTokenKey sha256 new" using f ok(1) by (metis fresh_random_def)
  then show "token_user sha256 s' t = None" by (simp add: token_user_def now ok(5) redis_get_other)
next
  fix t s r s'
  assume "rotates sha256 t s r s'" and gone: "token_user sha256 s t = None"
  then obtain io rnd ttl x where f: "fresh_random sha256 t rnd" and now: "fst s' = fst s"
    and x: "RotateRefreshToken io sha256 (fst s) rnd t ttl (snd s) = (x, snd s')"
    by (auto simp: rotates_def)
  from rotate_keeps [OF f, of "fst s" "snd s" io t ttl] x
  have "keeps_or_drops (fst s) (refreshTokenKey sha256 t) (snd s) (snd s')" by simp
  with token_user_gone [of "fst s" sha256 t "snd s" "snd s'"] gone now show "token_user sha256 s' t = None"
    by (metis prod.collapse)
next
  fix t s s'
  assume st: "session_step sha256 t s s'" and gone: "token_user sha256 s t = None"
  have "token_user sha256 s' t = None"
    if "fst s' = fst s" and "keeps_or_drops (fst s) (refreshTokenKey sha256 t) (snd s) (snd s')"
    using token_user_gone [of "fst s" sha256 t "snd s" "snd s'"] that gone by (metis prod.collapse)
  moreover have "token_user sha256 s' t = None" if "fst s \<le> fst s'" and "snd s' = snd s"
    using token_user_later [OF that(1), of sha256 "snd s" t] that gone by (metis prod.collapse)
  ultimately show "token_user sha256 s' t = None"
    using st create_keeps rotate_keeps delete_keeps unfolding session_step_def by metis
qed

text \<open>A login state stands for the data stored with it.\<close>

definition state_data :: "store \<Rightarrow> bytes \<Rightarrow> bytes option" where
  "state_data s state = redis_get (fst s) (oidcStateKey state) (snd s)"

definition redeems :: "bytes \<Rightarrow> store \<Rightarrow> bytes option \<Rightarrow> store \<Rightarrow> bool" where
  "redeems state s r s' \<longleftrightarrow> fst s' = fst s \<and> (\<exists>io x. DeleteState io (fst s) state (snd s) = (x, snd s')
     \<and> r = (case x of Inl _ \<Rightarrow> None | Inr v \<Rightarrow> Some v))"

definition state_step :: "bytes \<Rightarrow> store \<Rightarrow> store \<Rightarrow> bool" where
  "state_step state s s' \<longleftrightarrow>
     (fst s \<le> fst s' \<and> snd s' = snd s)
   \<or> fst s' = fst s \<and> (\<exists>io state' data ttl. state' \<noteq> state
        \<and> snd s' = snd (SetState io (fst s) state' data ttl (snd s)))
   \<or> fst s' = fst s \<and> (\<exists>io state'. snd s' = snd (DeleteState io (fst s) state' (snd s)))"

lemma DeleteState_keeps: "keeps_or_drops now k r (snd (DeleteState io now state r))"
  unfolding DeleteState_def by (rule keeps_or_drops_call) (rule getdel_keeps)

lemma SetState_keeps:
  "state' \<noteq> state \<Longrightarrow> keeps_or_drops now (oidcStateKey state) r (snd (SetState io now state' data ttl r))"
  unfolding SetState_def by (rule keeps_or_drops_call, rule set_keeps) (simp add: oidcStateKey_def)

lemma state_data_gone:
  "keeps_or_drops (fst s) (oidcStateKey state) (snd s) (snd s') \<Longrightarrow> fst s' = fst s \<Longrightarrow>
    state_data s state = None \<Longrightarrow> state_data s' state = None"
  by (auto simp: keeps_or_drops_def state_data_def)

interpretation login: one_shot state_data redeems state_step
proof
  fix t s v s'
  assume "redeems t s (Some v) s'"
  then obtain io x where d': "DeleteState io (fst s) t (snd s) = (x, snd s')" and now: "fst s' = fst s"
    and x: "Some v = (case x of Inl _ \<Rightarrow> None | Inr v \<Rightarrow> Some v)"
    unfolding redeems_def by blast
  from x have "x = Inr v" by (auto split: sum.splits)
  with d' have d: "DeleteState io (fst s) t (snd s) = (Inr v, snd s')" by simp
  from call_InrD [OF d [unfolded DeleteState_def]] now
  show "state_data s t = Some v" and "state_data s' t = None"
    by (auto simp: redis_getdel_def state_data_def split: option.splits) (metis redis_get_upd(1))
next
  fix t s r s'
  assume "redeems t s r s'" and "state_data s t = None"
  then show "state_data s' t = None"
    using state_data_gone [of s t s'] DeleteState_keeps by (auto simp: redeems_def) (metis snd_conv)
next
  fix t s s'
  assume st: "state_step t s s'" and gone: "state_data s t = None"
  have "state_data s' t = None" if "fst s \<le> fst s'" and "snd s' = snd s"
    using redis_get_later [of "fst s" _ "snd s" "fst s'"] that gone by (simp add: state_data_def)
  then show "state_data s' t = None"
    using st gone state_data_gone [of s t s'] SetState_keeps DeleteState_keeps unfolding state_step_def by metis
qed

section \<open>Issue and rotate\<close>

lemma CreateRefreshToken_InrD:
  assumes "CreateRefreshToken io sha256 now rnd u ttl r = (Inr t, r')"
  shows "newRefreshToken rnd = Inr t"
    and "r' = snd (redis_set now (refreshTokenKey sha256 t) (FormatUint u) ttl r)"
  using assms
  by (auto simp: CreateRefreshToken_def redis_set_def dest!: call_InrD split: sum.splits prod.splits)

lemma token_user_created:
  assumes "CreateRefreshToken io sha256 now rnd u ttl r = (Inr t, r')" and "u \<noteq> 0"
    and "now \<le> later" and "later < now + ttl div millisecond * millisecond"
  shows "token_user sha256 (later, r') t = Some u"
  using assms(2-4) unfolding token_user_def CreateRefreshToken_InrD(2) [OF assms(1)]
  by (auto simp: redis_set_def millisecond_def max_def)

lemma RotateRefreshToken_ok:
  assumes "token_user sha256 (now, r) t = Some u" and "0 < ttl div millisecond"
    and "newRefreshToken rnd = Inr new"
  shows "fst (RotateRefreshToken (\<lambda>_. None) sha256 now rnd t ttl r) = Inr (new, u)"
  using assms by (auto simp: token_user_def RotateRefreshToken_def rotate_script_def split: option.splits if_splits)

end
