(* ===== verification/SessionProps.thy ===== *)
theory SessionProps imports Sessions begin

text \<open>
  The properties of refresh tokens and login states, with witnesses.
\<close>

definition toy_sha :: "bytes \<Rightarrow> bytes" where
  "toy_sha x = x"

definition toy_token :: bytes where
  "toy_token = RawURLEncode (fill_bytes 32 ''one'')"

definition toy_store :: redis where
  "toy_store = snd (CreateRefreshToken (\<lambda>_. None) toy_sha 0 (Inr ''one'') 7 5000000000 Map.empty)"

lemma toy_store_eq:
  "CreateRefreshToken (\<lambda>_. None) toy_sha 0 (Inr ''one'') 7 5000000000 Map.empty = (Inr toy_token, toy_store)"
  unfolding toy_store_def toy_token_def prod_eq_iff
  by (simp add: CreateRefreshToken_def newRefreshToken_def redis_set_def)

text \<open>C29: a refresh token is redeemed at most once, whatever happens before, between and after the
  attempts: other sessions being created, rotated and revoked, time passing, and requests whose
  fate Redis does not report; once it has been redeemed, revoked or has expired it is never valid
  again. The random bytes of no other token collide with it.\<close>

theorem refresh_token_redeemed_once:
  assumes "history (rotates sha256 t) (session_step sha256 t) s n s'"
  shows "n \<le> 1 \<and> (n = 1 \<longrightarrow> token_user sha256 s' t = None)
    \<and> (token_user sha256 s t = None \<longrightarrow> n = 0 \<and> token_user sha256 s' t = None)"
  using assms by (rule refresh.taken_at_most_once)

lemma toy_fresh: "fresh_random toy_sha toy_token (Inr ''two'')"
  unfolding fresh_random_def newRefreshToken_def refreshTokenKey_def toy_sha_def toy_token_def
  by (simp, code_simp)

theorem refresh_token_redeemed_once_witness:
  "\<exists>s'. history (rotates toy_sha toy_token) (session_step toy_sha toy_token) (1, toy_store) 1 s'
     \<and> token_user toy_sha s' toy_token = None"
proof -
  let ?rot = "RotateRefreshToken (\<lambda>_. None) toy_sha 1 (Inr ''two'') toy_token 5000000000 toy_store"
  have u: "token_user toy_sha (1, toy_store) toy_token = Some 7"
    using token_user_created [OF toy_store_eq, of 1] by (simp add: millisecond_def)
  from RotateRefreshToken_ok [OF u, of 5000000000 "Inr ''two''"]
  have "fst ?rot = Inr (RawURLEncode (fill_bytes 32 ''two''), 7)" by (simp add: millisecond_def newRefreshToken_def)
  then have "?rot = (Inr (RawURLEncode (fill_bytes 32 ''two''), 7), snd ?rot)" by (metis prod.collapse)
  then have "rotates toy_sha toy_token (1, toy_store) (Some 7) (1, snd ?rot)"
    unfolding rotates_def using toy_fresh by force
  then have h: "history (rotates toy_sha toy_token) (session_step toy_sha toy_token) (1, toy_store) 1 (1, snd ?rot)"
    by (rule history_one)
  from refresh_token_redeemed_once [OF h] h show ?thesis by blast
qed

text \<open>A token just issued, until its time to live has passed, rotates to a new token for the same
  user, and the new one is valid in its turn.\<close>

lemma issued_token_rotates:
  assumes "CreateRefreshToken io sha256 now rnd u ttl r = (Inr t, r')" and "u \<noteq> 0"
    and "now \<le> later" and "later < now + ttl div millisecond * millisecond"
    and "newRefreshToken rnd' = Inr new" and "refreshTokenKey sha256 new \<noteq> refreshTokenKey sha256 t"
  shows "\<exists>r''. RotateRefreshToken (\<lambda>_. None) sha256 later rnd' t ttl r' = (Inr (new, u), r'')
    \<and> token_user sha256 (later, r'') new = Some u \<and> token_user sha256 (later, r'') t = None"
proof -
  have u: "token_user sha256 (later, r') t = Some u" by (rule token_user_created [OF assms(1-4)])
  have ttl: "0 < ttl div millisecond" using assms(3,4) by (simp add: millisecond_def)
  let ?rot = "RotateRefreshToken (\<lambda>_. None) sha256 later rnd' t ttl r'"
  have rot: "?rot = (Inr (new, u), snd ?rot)"
    using RotateRefreshToken_ok [OF u ttl assms(5)] by (metis prod.collapse)
  note ok = rotate_success [OF rot]
  have "token_user sha256 (later, snd ?rot) new = Some u"
    using ok(3,4) ttl by (subst ok(5)) (simp add: token_user_def millisecond_def)
  moreover have "token_user sha256 (later, snd ?rot) t = None"
    using assms(6) by (subst ok(5)) (simp add: token_user_def redis_get_other [OF assms(6) [symmetric]])
  ultimately show ?thesis using rot by blast
qed

lemma issued_token_rotates_witness:
  "\<exists>r''. RotateRefreshToken (\<lambda>_. None) toy_sha 1 (Inr ''two'') toy_token 5000000000 toy_store
     = (Inr (RawURLEncode (fill_bytes 32 ''two''), 7), r'')
    \<and> token_user toy_sha (1, r'') (RawURLEncode (fill_bytes 32 ''two'')) = Some 7 \<and> token_user toy_sha (1, r'') toy_token = None"
proof (rule issued_token_rotates [OF toy_store_eq])
  show "newRefreshToken (Inr ''two'') = Inr (RawURLEncode (fill_bytes 32 ''two''))" by (simp add: newRefreshToken_def)
  with toy_fresh show "refreshTokenKey toy_sha (RawURLEncode (fill_bytes 32 ''two'')) \<noteq> refreshTokenKey toy_sha toy_token"
    by (simp add: fresh_random_def)
qed (simp_all add: millisecond_def)

text \<open>A login state is redeemed at most once, whatever other logins do meanwhile, so a callback
  cannot be replayed.\<close>

lemma login_state_redeemed_once:
  assumes "history (redeems state) (state_step state) s n s'"
  shows "n \<le> 1 \<and> (n = 1 \<longrightarrow> state_data s' state = None)
    \<and> (state_data s state = None \<longrightarrow> n = 0 \<and> state_data s' state = None)"
  using assms by (rule login.taken_at_most_once)

theorem login_state_redeemed_once_witness:
  "\<exists>s'. history (redeems ''st'') (state_step ''st'') (1, snd (SetState (\<lambda>_. None) 0 ''st'' ''flow'' 600000000000 Map.empty)) 1 s'
     \<and> state_data s' ''st'' = None"
proof -
  let ?r = "snd (SetState (\<lambda>_. None) 0 ''st'' ''flow'' 600000000000 Map.empty)"
  have "DeleteState (\<lambda>_. None) 1 ''st'' ?r = (Inr ''flow'', ?r(oidcStateKey ''st'' := None))"
    by (simp add: DeleteState_def SetState_def redis_set_def redis_getdel_def millisecond_def)
  then have "redeems ''st'' (1, ?r) (Some ''flow'') (1, ?r(oidcStateKey ''st'' := None))"
    unfolding redeems_def by force
  then have h: "history (redeems ''st'') (state_step ''st'') (1, ?r) 1 (1, ?r(oidcStateKey ''st'' := None))"
    by (rule history_one)
  from login_state_redeemed_once [OF h] h show ?thesis by blast
qed

end
