(* ===== verification/HttpClient.thy ===== *)
theory HttpClient imports Json begin

text \<open>
  What the sources use of \<open>net/http\<close> as a client and of \<open>bufio.Scanner\<close>: requests with canonical
  header names, responses whose body may break off, and the scan of a body by lines. The client
  itself is a parameter of the operations.
\<close>

section \<open>Headers\<close>

definition token_char :: "char \<Rightarrow> bool" where
  "token_char c \<longleftrightarrow> c \<in> set (''!#$%&*+-.^_`|~0123456789ABCDEFGHIJKLMNOPQRSTUVWXYZabcdefghijklmnopqrstuvwxyz'')
     \<or> c = CHR 0x27"

fun canonical_from :: "bool \<Rightarrow> bytes \<Rightarrow> bytes" where
  "canonical_from up [] = []"
| "canonical_from up (c # s) =
     (if up then ascii_upper c else ascii_lower c) # canonical_from (c = CHR ''-'') s"

definition CanonicalHeaderKey :: "bytes \<Rightarrow> bytes" where
  "CanonicalHeaderKey k = (if list_all token_char k then canonical_from True k else k)"

type_synonym headers = "bytes \<rightharpoonup> bytes"

definition set_header :: "bytes \<Rightarrow> bytes \<Rightarrow> headers \<Rightarrow> headers" where
  "set_header k v h = h(CanonicalHeaderKey k \<mapsto> v)"

definition get_header :: "headers \<Rightarrow> bytes \<Rightarrow> bytes option" where
  "get_header h k = h (CanonicalHeaderKey k)"

lemma get_set_header:
  "get_header (set_header k v h) k' =
     (if CanonicalHeaderKey k' = CanonicalHeaderKey k then Some v else get_header h k')"
  by (simp add: get_header_def set_header_def)

section \<open>Requests and responses\<close>

record http_request =
  req_method :: bytes
  req_url :: bytes
  req_headers :: headers
  req_body :: bytes

text \<open>The body a response delivers, and the error reading it ends with, if not the end of file.\<close>

record http_response =
  resp_status :: nat
  resp_body :: bytes
  resp_read_error :: "go_error option"

type_synonym http_client = "http_request \<Rightarrow> go_error + http_response"

section \<open>Lines\<close>

text \<open>
  \<open>bufio.ScanLines\<close> with a buffer of at most \<open>n\<close> bytes: the lines without their line ends, and
  whether the scan stopped at a line that does not fit the buffer.
\<close>

definition newline :: char where
  "newline = CHR 0x0A"

definition drop_cr :: "bytes \<Rightarrow> bytes" where
  "drop_cr l = (if HasSuffix l [CHR 0x0D] then butlast l else l)"

function scan_lines :: "nat \<Rightarrow> bytes \<Rightarrow> bytes list \<times> bool" where
  "scan_lines n s =
     (if s = [] then ([], False)
      else let l = takeWhile (\<lambda>c. c \<noteq> newline) s; r = dropWhile (\<lambda>c. c \<noteq> newline) s in
        if n \<le> length l then ([], True)
        else if r = [] then ([drop_cr l], False)
        else let (ls, long) = scan_lines n (tl r) in (drop_cr l # ls, long))"
  by pat_completeness auto

termination
proof (relation "measure (length \<circ> snd)", goal_cases)
  case (2 n s l r)
  then have "length r \<le> length s" and "r \<noteq> []" by (simp_all add: length_dropWhile_le)
  then show ?case by (cases r) auto
qed simp

declare scan_lines.simps [simp del]

lemma scan_lines_Nil [simp]: "scan_lines n [] = ([], False)"
  by (simp add: scan_lines.simps)

text \<open>A line written with its line end is read back.\<close>

lemma scan_lines_line:
  assumes "newline \<notin> set l" and "length l < n" and "\<not> HasSuffix l [CHR 0x0D]"
  shows "scan_lines n (l @ [newline] @ s) = (let (ls, long) = scan_lines n s in (l # ls, long))"
proof -
  have "takeWhile (\<lambda>c. c \<noteq> newline) (l @ newline # s) = l"
    using assms(1) by (subst takeWhile_append2) auto
  moreover have "dropWhile (\<lambda>c. c \<noteq> newline) (l @ newline # s) = newline # s"
    using assms(1) by (subst dropWhile_append2) auto
  ultimately show ?thesis
    using assms(2,3) by (subst scan_lines.simps) (simp add: drop_cr_def)
qed

lemma scan_lines_round_trip:
  assumes "\<forall>l \<in> set ls. newline \<notin> set l \<and> length l < n \<and> \<not> HasSuffix l [CHR 0x0D]"
  shows "scan_lines n (concat (map (\<lambda>l. l @ [newline]) ls)) = (ls, False)"
  using assms
proof (induction ls)
  case (Cons l ls)
  then show ?case using scan_lines_line [of l n "concat (map (\<lambda>l. l @ [newline]) ls)"] by simp
qed simp

end
