(* ===== verification/UpstreamServer.thy ===== *)
theory UpstreamServer imports HttpClient begin

text \<open>
  \<open>internal/upstreamserver\<close>: the gRPC server that talks to the providers. Chat requests
  (\<open>chat.go\<close>), token exchange and refresh, provider metadata, token verification and the device
  flow (\<open>server.go\<close>). The HTTP clients, \<open>oauth2\<close> and \<open>go-oidc\<close> are parameters; \<open>ctx_err\<close> is what
  \<open>ctx.Err()\<close> gives when it is asked.
\<close>

section \<open>Error codes\<close>

definition exchangeErrorCode :: "go_error option \<Rightarrow> go_error \<Rightarrow> code" where
  "exchangeErrorCode ctx_err err =
     (case ctx_err of Some e \<Rightarrow> FromContextError e | None \<Rightarrow>
      if errors_Is err ContextDeadlineExceeded then DeadlineExceeded
      else if errors_Is err ContextCanceled then Canceled
      else case as_RetrieveError err of
        Some (error_code, response) \<Rightarrow>
          if error_code = ''invalid_grant'' then Unauthenticated
          else (case response of
              Some st \<Rightarrow> if st = 429 \<or> 500 \<le> st then Unavailable else Internal
            | None \<Rightarrow> Internal)
      | None \<Rightarrow> if as_NetError err \<noteq> None then Unavailable else Internal)"

definition deviceHTTPError :: "nat \<Rightarrow> go_error" where
  "deviceHTTPError st =
     Status (if st = 403 \<or> st = 404 then FailedPrecondition
             else if st = 400 \<or> st = 401 then Unauthenticated
             else if st = 429 \<or> 500 \<le> st then Unavailable
             else Internal) ''device authorization rejected''"

definition chatStreamErrorCode :: "go_error \<Rightarrow> code" where
  "chatStreamErrorCode err =
     (if errors_Is err ContextCanceled then Canceled
      else if errors_Is err ContextDeadlineExceeded then DeadlineExceeded
      else case as_HTTPError err of
        Some st \<Rightarrow>
          if st = 400 \<or> st = 422 then InvalidArgument
          else if st = 401 then Unauthenticated
          else if st = 403 then PermissionDenied
          else if st = 404 then NotFound
          else if st = 429 then ResourceExhausted
          else if st = 408 \<or> st = 504 then DeadlineExceeded
          else if 500 \<le> st then Unavailable else Internal
      | None \<Rightarrow> (case as_NetError err of
          Some timeout \<Rightarrow> if timeout then DeadlineExceeded else Unavailable
        | None \<Rightarrow> if errors_Is err ErrUnexpectedEOF then Unavailable else Internal))"

section \<open>Chat requests\<close>

record ChatRequest =
  chat_Data :: bytes
  chat_Secret :: bytes
  chat_Endpoint :: bytes
  chat_Authmode :: bytes
  chat_AuthHeader :: bytes
  chat_AuthPrefix :: bytes
  chat_Headers :: "(bytes \<times> bytes) list"

text \<open>A nil request is \<open>None\<close>.\<close>

definition chat_request_ok :: "ChatRequest option \<Rightarrow> bool" where
  "chat_request_ok request = (case request of
       None \<Rightarrow> False
     | Some r \<Rightarrow> \<not> (length (TrimSpace (chat_Data r)) = 0 \<or> TrimSpace (chat_Secret r) = []
                  \<or> TrimSpace (chat_AuthHeader r) = []))"

text \<open>
  The request to the provider: the fixed headers, those of the route in the order the map gives
  them, and last the credential.
\<close>

definition provider_request :: "bytes \<Rightarrow> ChatRequest \<Rightarrow> http_request" where
  "provider_request accept r =
     \<lparr>req_method = ''POST'', req_url = chat_Endpoint r,
      req_headers =
        set_header (chat_AuthHeader r) (chat_AuthPrefix r @ chat_Secret r)
          (foldl (\<lambda>h (k, v). set_header k v h)
             (set_header ''Accept'' accept (set_header ''Content-Type'' ''application/json'' Map.empty))
             (chat_Headers r)),
      req_body = chat_Data r\<rparr>"

text \<open>\<open>url_error\<close> is the error of \<open>http.NewRequestWithContext\<close> for a URL that does not parse.\<close>

definition ChatNonStream ::
  "http_client \<Rightarrow> (bytes \<Rightarrow> go_error option) \<Rightarrow> ChatRequest option \<Rightarrow> go_error + bytes" where
  "ChatNonStream client url_error request =
     (if \<not> chat_request_ok request
      then Inl (Status InvalidArgument ''data, secret and auth header are required'')
      else let r = the request in
      if url_error (chat_Endpoint r) \<noteq> None
        then Inl (Status InvalidArgument ''invalid upstream request'')
      else case client (provider_request ''application/json'' r) of
        Inl e \<Rightarrow> Inl (Status (chatStreamErrorCode e) ''upstream request failed'')
      | Inr resp \<Rightarrow>
          if resp_status resp < 200 \<or> 300 \<le> resp_status resp
            then Inl (Status (chatStreamErrorCode (HTTPError (resp_status resp))) ''upstream request failed'')
          else (case resp_read_error resp of
              Some e \<Rightarrow> Inl (Status (chatStreamErrorCode e) ''upstream response failed'')
            | None \<Rightarrow>
                if \<not> json_Valid (resp_body resp) \<or> \<not> HasPrefix (TrimSpace (resp_body resp)) ''{''
                  then Inl (Status Internal ''invalid upstream JSON response'')
                else Inr (resp_body resp)))"

text \<open>The line that ends a response, as far as the server is concerned.\<close>

definition terminal_line :: "bytes \<Rightarrow> bool" where
  "terminal_line data \<longleftrightarrow> HasPrefix data ''data:'' \<and>
     (case struct_members (TrimSpace (TrimPrefix data ''data:'')) of
        None \<Rightarrow> False
      | Some ms \<Rightarrow> let (kind, ok) = string_field ''type'' ms in
          ok \<and> (kind = ''response.completed'' \<or> kind = ''response.incomplete''
                \<or> kind = ''response.failed''))"

text \<open>
  The loop over the lines: each is handed to \<open>handle\<close>, whose \<open>i\<close>-th call fails with \<open>send i\<close>. The
  result are the chunks handed over, and an error or whether a terminal line was seen.
\<close>

fun stream_lines ::
  "(nat \<Rightarrow> go_error option) \<Rightarrow> nat \<Rightarrow> bytes list \<Rightarrow> bool \<Rightarrow> bytes list \<times> (go_error + bool)" where
  "stream_lines send i [] terminalSeen = ([], Inr terminalSeen)"
| "stream_lines send i (data # lines) terminalSeen =
     (let terminalSeen = (terminalSeen \<or> terminal_line data) in
      case send i of
        Some e \<Rightarrow> ([data], Inl e)
      | None \<Rightarrow> let (sent, r) = stream_lines send (Suc i) lines terminalSeen in (data # sent, r))"

definition max_line :: nat where
  "max_line = 1024 * 1024"

definition Stream ::
  "http_client \<Rightarrow> (bytes \<Rightarrow> go_error option) \<Rightarrow> (nat \<Rightarrow> go_error option) \<Rightarrow> ChatRequest
    \<Rightarrow> bytes list \<times> go_error option" where
  "Stream client url_error send r =
     (case url_error (chat_Endpoint r) of Some e \<Rightarrow> ([], Some e) | None \<Rightarrow>
      (case client (provider_request ''text/event-stream'' r) of
         Inl e \<Rightarrow> ([], Some e)
       | Inr resp \<Rightarrow>
           if resp_status resp < 200 \<or> 300 \<le> resp_status resp
             then ([], Some (HTTPError (resp_status resp)))
           else let (lines, too_long) = scan_lines max_line (resp_body resp);
                    (sent, r) = stream_lines send 0 lines False in
             (sent, case r of
                Inl e \<Rightarrow> Some e
              | Inr terminalSeen \<Rightarrow>
                  if too_long then Some ErrTooLong
                  else (case resp_read_error resp of
                      Some e \<Rightarrow> Some e
                    | None \<Rightarrow> if \<not> terminalSeen then Some ErrUnexpectedEOF else None))))"

text \<open>
  The streaming call: what the client receives and the status the call ends with (\<open>None\<close> is OK).
  \<open>ctx0\<close> and \<open>ctx1\<close> are \<open>ctx.Err()\<close> before and after the stream.
\<close>

definition ChatStream ::
  "http_client \<Rightarrow> (bytes \<Rightarrow> go_error option) \<Rightarrow> (nat \<Rightarrow> go_error option) \<Rightarrow> go_error option
    \<Rightarrow> go_error option \<Rightarrow> ChatRequest option \<Rightarrow> bytes list \<times> go_error option" where
  "ChatStream client url_error send ctx0 ctx1 request =
     (if \<not> chat_request_ok request
      then ([], Some (Status InvalidArgument ''data, secret and auth header are required''))
      else case ctx0 of Some e \<Rightarrow> ([], Some (Status (FromContextError e) [])) | None \<Rightarrow>
      (let (sent, err) = Stream client url_error send (the request) in
       (sent, case err of
          None \<Rightarrow> None
        | Some e \<Rightarrow> (case ctx1 of
            Some c \<Rightarrow> Some (Status (FromContextError c) [])
          | None \<Rightarrow> if has_status e then Some e
              else Some (Status (chatStreamErrorCode e) ''upstream stream failed'')))))"

end
