(* ===== verification/UpstreamOAuth.thy ===== *)
theory UpstreamOAuth imports UpstreamServer begin

text \<open>
  The OAuth calls of \<open>internal/upstreamserver/server.go\<close>: code exchange, refresh, provider metadata,
  ID token verification and the device flow with its polling loop.
\<close>

section \<open>Providers\<close>

text \<open>\<open>oauth2.Config\<close>; the token endpoint takes the client secret in the body or in a header.\<close>

datatype auth_style = InParams | InHeader

record oauth2_config =
  ClientID :: bytes
  ClientSecret :: bytes
  RedirectURL :: bytes
  AuthURL :: bytes
  TokenURL :: bytes
  DeviceAuthURL :: bytes
  AuthStyle :: auth_style
  Scopes :: "bytes list"

text \<open>\<open>oauth2.Token\<close> with its extra \<open>id_token\<close> (empty when that is no string).\<close>

record Token =
  AccessToken :: bytes
  TokenRefresh :: bytes
  TokenType :: bytes
  Expiry :: "time option"
  IdToken :: bytes

text \<open>
  A discovered provider of \<open>go-oidc\<close>: its discovery document and the endpoints read from it.
\<close>

record OidcProvider =
  op_RawClaims :: bytes
  op_AuthURL :: bytes
  op_TokenURL :: bytes
  op_DeviceAuthURL :: bytes
  op_UserInfoURL :: bytes

text \<open>A verified ID token; its claims may fail to decode.\<close>

record IDToken =
  it_Issuer :: bytes
  it_Subject :: bytes
  it_Audience :: "bytes list"
  it_Nonce :: bytes
  it_Claims :: "go_error + bytes"
  it_Expiry :: "time option"
  it_IssuedAt :: "time option"

text \<open>The messages of the protocol.\<close>

record ProviderResponse =
  pr_Issuer :: bytes
  pr_AuthURL :: bytes
  pr_TokenURL :: bytes
  pr_DeviceAuthURL :: bytes
  pr_UserInfoURL :: bytes
  pr_JwksURL :: bytes
  pr_Algorithms :: "bytes list"
  pr_RawClaims :: bytes

record VerifyResponse =
  vr_Issuer :: bytes
  vr_Subject :: bytes
  vr_Audience :: "bytes list"
  vr_Nonce :: bytes
  vr_ClaimsJson :: bytes
  vr_ExpiresAt :: "time option"
  vr_IssuedAt :: "time option"

record TokenResponse =
  tr_AccessToken :: bytes
  tr_RefreshToken :: bytes
  tr_TokenType :: bytes
  tr_IdToken :: bytes
  tr_ExpiresAt :: "time option"

text \<open>\<open>OIDCAuth\<close>; the verifier of \<open>go-oidc\<close> checks a raw token.\<close>

record OIDCAuth =
  Provider :: "OidcProvider option"
  OauthConfig :: "oauth2_config option"
  AuthURLParams :: "(bytes \<times> bytes) list"
  IDVerifier :: "(bytes \<Rightarrow> go_error + IDToken) option"

definition tokenResponse :: "Token \<Rightarrow> TokenResponse" where
  "tokenResponse token =
     \<lparr>tr_AccessToken = AccessToken token, tr_RefreshToken = TokenRefresh token,
      tr_TokenType = TokenType token, tr_IdToken = IdToken token, tr_ExpiresAt = Expiry token\<rparr>"

definition toProviderResponse :: "OidcProvider \<Rightarrow> ProviderResponse option" where
  "toProviderResponse p = Option.bind (struct_members (op_RawClaims p)) (\<lambda>ms.
     let (issuer, ok1) = string_field ''issuer'' ms; (jwks, ok2) = string_field ''jwks_uri'' ms;
         (algs, ok3) = strings_field ''id_token_signing_alg_values_supported'' ms in
     if \<not> (ok1 \<and> ok2 \<and> ok3) then None
     else map_option (\<lambda>raw.
       \<lparr>pr_Issuer = issuer, pr_AuthURL = op_AuthURL p, pr_TokenURL = op_TokenURL p,
        pr_DeviceAuthURL = op_DeviceAuthURL p, pr_UserInfoURL = op_UserInfoURL p,
        pr_JwksURL = jwks, pr_Algorithms = algs, pr_RawClaims = raw\<rparr>) (document (op_RawClaims p)))"

text \<open>\<open>CheckValid\<close> of a timestamp: years 1 to 9999.\<close>

definition timestamp_valid :: "time option \<Rightarrow> bool" where
  "timestamp_valid t = (case t of
       None \<Rightarrow> True
     | Some t \<Rightarrow> - 62135596800 \<le> t div 1000000000 \<and> t div 1000000000 \<le> 253402300799)"

definition toVerifyResponse :: "IDToken \<Rightarrow> VerifyResponse option" where
  "toVerifyResponse token = (case it_Claims token of
       Inl _ \<Rightarrow> None
     | Inr claims \<Rightarrow>
         if \<not> timestamp_valid (it_Expiry token) \<or> \<not> timestamp_valid (it_IssuedAt token) then None
         else Some \<lparr>vr_Issuer = it_Issuer token, vr_Subject = it_Subject token,
                    vr_Audience = it_Audience token, vr_Nonce = it_Nonce token, vr_ClaimsJson = claims,
                    vr_ExpiresAt = it_Expiry token, vr_IssuedAt = it_IssuedAt token\<rparr>)"

text \<open>
  The server: its providers, in the order an iteration over the map takes them. A nil provider
  reads like an absent one.
\<close>

type_synonym server = "(bytes \<times> OIDCAuth) list"

definition provider_config :: "server \<Rightarrow> bytes \<Rightarrow> oauth2_config option" where
  "provider_config s p = Option.bind (map_of s p) OauthConfig"

section \<open>Exchange and refresh\<close>

definition exchange_config :: "oauth2_config \<Rightarrow> bytes \<Rightarrow> bytes \<Rightarrow> go_error + oauth2_config" where
  "exchange_config cfg provider flow =
     (if flow = [] \<or> flow = ''browser'' then Inr cfg
      else if flow = ''device'' then
        (if provider \<noteq> ''oai'' then Inl (Status InvalidArgument ''unsupported device provider'')
         else Inr (cfg\<lparr>RedirectURL := ''https://auth.openai.com/deviceauth/callback''\<rparr>))
      else Inl (Status InvalidArgument ''invalid flow type''))"

record ExchangeCodeRequest =
  ex_Code :: bytes
  ex_CodeVerifier :: bytes
  ex_Provider :: bytes
  ex_FlowType :: bytes

text \<open>\<open>exchange\<close> is \<open>cfg.Exchange(ctx, code, VerifierOption(verifier))\<close>.\<close>

definition ExchangeCode ::
  "server \<Rightarrow> (oauth2_config \<Rightarrow> bytes \<Rightarrow> bytes \<Rightarrow> go_error + Token) \<Rightarrow> go_error option
    \<Rightarrow> ExchangeCodeRequest option \<Rightarrow> go_error + TokenResponse" where
  "ExchangeCode s exchange ctx_err request =
     (case request of
        None \<Rightarrow> Inl (Status InvalidArgument ''code, code_verifier and provider are required'')
      | Some r \<Rightarrow>
          if TrimSpace (ex_Code r) = [] \<or> TrimSpace (ex_CodeVerifier r) = [] \<or> ex_Provider r = []
            then Inl (Status InvalidArgument ''code, code_verifier and provider are required'')
          else (case provider_config s (ex_Provider r) of
              None \<Rightarrow> Inl (Status FailedPrecondition ''provider is not configured'')
            | Some cfg \<Rightarrow>
                (case exchange_config cfg (ex_Provider r) (ex_FlowType r) of
                   Inl e \<Rightarrow> Inl e
                 | Inr cfg \<Rightarrow>
                     (case exchange cfg (ex_Code r) (ex_CodeVerifier r) of
                        Inl e \<Rightarrow> Inl (Status (exchangeErrorCode ctx_err e) ''token exchange failed'')
                      | Inr token \<Rightarrow> Inr (tokenResponse token)))))"

text \<open>\<open>refresh\<close> is the token source of the configuration for a refresh token.\<close>

definition RefreshToken ::
  "server \<Rightarrow> (oauth2_config \<Rightarrow> bytes \<Rightarrow> go_error + Token) \<Rightarrow> go_error option
    \<Rightarrow> (bytes \<times> bytes) option \<Rightarrow> go_error + TokenResponse" where
  "RefreshToken s refresh ctx_err request =
     (case request of
        None \<Rightarrow> Inl (Status InvalidArgument ''refresh_token and provider are required'')
      | Some (refresh_token, provider) \<Rightarrow>
          if TrimSpace refresh_token = [] \<or> TrimSpace provider = []
            then Inl (Status InvalidArgument ''refresh_token and provider are required'')
          else (case provider_config s provider of
              None \<Rightarrow> Inl (Status FailedPrecondition ''provider is not configured'')
            | Some cfg \<Rightarrow>
                (case refresh cfg refresh_token of
                   Inl e \<Rightarrow> Inl (Status (exchangeErrorCode ctx_err e) ''token refresh failed'')
                 | Inr token \<Rightarrow> Inr (tokenResponse token))))"

section \<open>Provider metadata and verification\<close>

fun find_provider :: "server \<Rightarrow> bytes \<Rightarrow> go_error + ProviderResponse" where
  "find_provider [] issuer = Inl (Status FailedPrecondition ''issuer is not configured'')"
| "find_provider ((_, auth) # s) issuer = (case Provider auth of
       None \<Rightarrow> find_provider s issuer
     | Some p \<Rightarrow> (case toProviderResponse p of
         None \<Rightarrow> Inl (Status Internal ''invalid provider metadata'')
       | Some response \<Rightarrow>
           if pr_Issuer response = issuer then Inr response else find_provider s issuer))"

definition GetProvider :: "server \<Rightarrow> go_error option \<Rightarrow> bytes option \<Rightarrow> go_error + ProviderResponse" where
  "GetProvider s ctx_err request =
     (case request of
        None \<Rightarrow> Inl (Status InvalidArgument ''issuer is required'')
      | Some issuer \<Rightarrow>
          if TrimSpace issuer = [] then Inl (Status InvalidArgument ''issuer is required'')
          else (case ctx_err of Some e \<Rightarrow> Inl (Status (FromContextError e) [])
            | None \<Rightarrow> find_provider s issuer))"

text \<open>\<open>ctx0\<close> and \<open>ctx1\<close> are \<open>ctx.Err()\<close> before and after the verification.\<close>

definition Verifier ::
  "server \<Rightarrow> go_error option \<Rightarrow> go_error option \<Rightarrow> (bytes \<times> bytes) option
    \<Rightarrow> go_error + VerifyResponse" where
  "Verifier s ctx0 ctx1 request =
     (case request of
        None \<Rightarrow> Inl (Status InvalidArgument ''rawidtoken and provider are required'')
      | Some (rawidtoken, provider) \<Rightarrow>
          if TrimSpace provider = [] \<or> TrimSpace rawidtoken = []
            then Inl (Status InvalidArgument ''rawidtoken and provider are required'')
          else (case Option.bind (map_of s provider) IDVerifier of
              None \<Rightarrow> Inl (Status FailedPrecondition ''provider is not configured'')
            | Some verify \<Rightarrow>
                (case ctx0 of Some e \<Rightarrow> Inl (Status (FromContextError e) []) | None \<Rightarrow>
                (case verify rawidtoken of
                   Inl e \<Rightarrow>
                     let c = exchangeErrorCode ctx1 e
                     in Inl (Status (if c = Internal then Unauthenticated else c)
                          ''ID token verification failed'')
                 | Inr verified \<Rightarrow> (case toVerifyResponse verified of
                     None \<Rightarrow> Inl (Status Internal ''invalid verified claims'')
                   | Some response \<Rightarrow> Inr response)))))"

section \<open>Device flow\<close>

record DeviceFlowResponse =
  df_DeviceAuthId :: bytes
  df_UserCode :: bytes
  df_IntervalSeconds :: uint64
  df_VerificationUrl :: bytes

record DeviceAuthorization =
  AuthorizationCode :: bytes
  CodeVerifier :: bytes

definition LoginDeviceFlowEndpoint :: bytes where
  "LoginDeviceFlowEndpoint = ''https://auth.openai.com/api/accounts/deviceauth/usercode''"

definition PostTokenEndpoint :: bytes where
  "PostTokenEndpoint = ''https://auth.openai.com/api/accounts/deviceauth/token''"

definition json_post :: "bytes \<Rightarrow> (bytes \<times> bytes) list \<Rightarrow> http_request" where
  "json_post url kvs =
     \<lparr>req_method = ''POST'', req_url = url,
      req_headers = set_header ''Content-Type'' ''application/json'' Map.empty,
      req_body = marshal (MapOut (map (\<lambda>(k, v). (k, StringOut v)) kvs))\<rparr>"

definition device_flow_answer :: "bytes \<Rightarrow> DeviceFlowResponse option" where
  "device_flow_answer body = Option.bind (decoder_members body) (\<lambda>ms.
     let (authID, ok1) = string_field ''device_auth_id'' ms;
         (userCode, ok2) = string_field ''user_code'' ms;
         (interval, ok3) = string_field ''interval'' ms in
     if \<not> (ok1 \<and> ok2 \<and> ok3) then None
     else (case ParseUint interval 32 of
         None \<Rightarrow> None
       | Some n \<Rightarrow> if n = 0 \<or> 900 < n \<or> authID = [] \<or> userCode = [] then None
           else Some \<lparr>df_DeviceAuthId = authID, df_UserCode = userCode, df_IntervalSeconds = n,
                      df_VerificationUrl = ''https://auth.openai.com/codex/device''\<rparr>))"

definition GetDeviceFlowCode ::
  "server \<Rightarrow> http_client \<Rightarrow> go_error option \<Rightarrow> bytes option \<Rightarrow> go_error + DeviceFlowResponse" where
  "GetDeviceFlowCode s client ctx_err request =
     (case request of
        None \<Rightarrow> Inl (Status InvalidArgument ''provider is required'')
      | Some provider \<Rightarrow>
          if provider = [] then Inl (Status InvalidArgument ''provider is required'')
          else (case provider_config s provider of
              None \<Rightarrow> Inl (Status FailedPrecondition ''device provider is not configured'')
            | Some cfg \<Rightarrow>
                if provider \<noteq> ''oai'' \<or> ClientID cfg = []
                  then Inl (Status FailedPrecondition ''device provider is not configured'')
                else (case client (json_post LoginDeviceFlowEndpoint [(''client_id'', ClientID cfg)]) of
                    Inl e \<Rightarrow> Inl (Status (exchangeErrorCode ctx_err e) ''device authorization request failed'')
                  | Inr resp \<Rightarrow>
                      if resp_status resp \<noteq> 200 then Inl (deviceHTTPError (resp_status resp))
                      else (case device_flow_answer (resp_body resp) of
                          None \<Rightarrow> Inl (Status Internal ''invalid device authorization response'')
                        | Some r \<Rightarrow> Inr r))))"

text \<open>\<open>postToken\<close>: \<open>None\<close> while the approval is pending.\<close>

definition token_answer :: "bytes \<Rightarrow> DeviceAuthorization option" where
  "token_answer body = Option.bind (decoder_members body) (\<lambda>ms.
     let (c, ok1) = string_field ''authorization_code'' ms; (v, ok2) = string_field ''code_verifier'' ms in
     if \<not> (ok1 \<and> ok2) \<or> c = [] \<or> v = [] then None
     else Some \<lparr>AuthorizationCode = c, CodeVerifier = v\<rparr>)"

definition postToken ::
  "http_client \<Rightarrow> go_error option \<Rightarrow> http_request \<Rightarrow> go_error + DeviceAuthorization option" where
  "postToken client ctx_err request = (case client request of
       Inl e \<Rightarrow> Inl (Status (exchangeErrorCode ctx_err e) ''device authorization request failed'')
     | Inr resp \<Rightarrow>
         if resp_status resp = 403 \<or> resp_status resp = 404 then Inr None
         else if resp_status resp \<noteq> 200 then Inl (deviceHTTPError (resp_status resp))
         else (case token_answer (resp_body resp) of
             None \<Rightarrow> Inl (Status Internal ''invalid device authorization response'')
           | Some r \<Rightarrow> Inr (Some r)))"

record PollDeviceFlowRequest =
  po_Provider :: bytes
  po_DeviceAuthId :: bytes
  po_UserCode :: bytes
  po_IntervalSeconds :: uint32

text \<open>
  One attempt of the loop: how the HTTP client answers it, the error of its context afterwards
  and how long it took. The context of the whole call ends at a time with an error: after 15
  minutes with its deadline, or earlier with the caller's. Times are in nanoseconds from the
  start of the call.
\<close>

record attempt =
  at_client :: http_client
  at_ctx_err :: "go_error option"
  at_duration :: nat

definition seconds :: "nat \<Rightarrow> nat" where
  "seconds n = n * 1000000000"

text \<open>
  The loop: \<open>i\<close> counts the attempts, \<open>t\<close> is the time; between attempts it waits for the interval or
  the end of the context, whichever comes first; when both are due at the same instant, where the
  code may take either, the model takes the end of the context. \<open>None\<close> when the fuel is used up.
\<close>

fun poll ::
  "nat \<Rightarrow> (nat \<Rightarrow> attempt) \<Rightarrow> nat \<times> go_error \<Rightarrow> http_request \<Rightarrow> nat \<Rightarrow> nat \<Rightarrow> nat
    \<Rightarrow> (go_error + DeviceAuthorization) option" where
  "poll 0 env ctx request interval i t = None"
| "poll (Suc fuel) env ctx request interval i t =
     (case postToken (at_client (env i)) (at_ctx_err (env i)) request of
        Inl e \<Rightarrow> Some (Inl e)
      | Inr (Some r) \<Rightarrow> Some (Inr r)
      | Inr None \<Rightarrow>
          let t' = t + at_duration (env i) + interval in
          if fst ctx \<le> t' then Some (Inl (Status (FromContextError (snd ctx)) []))
          else poll fuel env ctx request interval (Suc i) t')"

definition poll_request_ok :: "PollDeviceFlowRequest option \<Rightarrow> bool" where
  "poll_request_ok request = (case request of
       None \<Rightarrow> False
     | Some r \<Rightarrow> \<not> (po_Provider r = [] \<or> po_DeviceAuthId r = [] \<or> po_UserCode r = []
                  \<or> po_IntervalSeconds r = 0 \<or> 900 < po_IntervalSeconds r))"

definition poll_http_request :: "PollDeviceFlowRequest \<Rightarrow> http_request" where
  "poll_http_request r = json_post PostTokenEndpoint
     [(''device_auth_id'', po_DeviceAuthId r), (''user_code'', po_UserCode r)]"

text \<open>The end of the context: the deadline of 15 minutes, or the caller's when it is earlier.\<close>

definition poll_context :: "(nat \<times> go_error) option \<Rightarrow> nat \<times> go_error" where
  "poll_context caller = (case caller of
       Some (t, e) \<Rightarrow> if t < seconds 900 then (t, e) else (seconds 900, ContextDeadlineExceeded)
     | None \<Rightarrow> (seconds 900, ContextDeadlineExceeded))"

definition PollDeviceFlow ::
  "server \<Rightarrow> nat \<Rightarrow> (nat \<Rightarrow> attempt) \<Rightarrow> (nat \<times> go_error) option \<Rightarrow> PollDeviceFlowRequest option
    \<Rightarrow> (go_error + DeviceAuthorization) option" where
  "PollDeviceFlow s fuel env caller request =
     (if \<not> poll_request_ok request
      then Some (Inl (Status InvalidArgument ''device auth ID, user code and valid interval are required''))
      else let r = the request in
      if po_Provider r \<noteq> ''oai'' \<or> provider_config s (po_Provider r) = None
        then Some (Inl (Status FailedPrecondition ''device provider is not configured''))
      else poll fuel env (poll_context caller) (poll_http_request r)
             (seconds (unat (po_IntervalSeconds r))) 0 0)"

section \<open>The polling loop ends\<close>

lemma poll_ends:
  assumes "0 < interval" and "t \<le> fst ctx" and "fst ctx < t + fuel * interval"
  shows "\<exists>r. poll fuel env ctx request interval i t = Some r"
  using assms(2,3)
proof (induction fuel arbitrary: i t)
  case (Suc fuel)
  show ?case
  proof (cases "postToken (at_client (env i)) (at_ctx_err (env i)) request")
    case (Inr r)
    show ?thesis
    proof (cases r)
      case None
      let ?t = "t + at_duration (env i) + interval"
      have "fst ctx < ?t + fuel * interval" using Suc.prems by auto
      with Suc.IH [of ?t "Suc i"] Inr None show ?thesis by (auto simp: Let_def)
    qed (use Inr in simp)
  qed simp
qed simp

text \<open>The attempts the loop makes: at most one per interval until the end of the context.\<close>

lemma poll_more_fuel:
  "poll fuel env ctx request interval i t = Some r \<Longrightarrow> fuel \<le> fuel' \<Longrightarrow>
    poll fuel' env ctx request interval i t = Some r"
proof (induction fuel arbitrary: fuel' i t)
  case (Suc fuel)
  then obtain f where "fuel' = Suc f" and "fuel \<le> f" by (cases fuel') auto
  with Suc show ?case by (auto simp: Let_def split: sum.splits option.splits if_splits)
qed simp

end
