(* ===== verification/Directory.thy ===== *)
theory Directory imports UpstreamOAuth begin

text \<open>
  \<open>internal/directory/upstream\<close>: the client of the upstream server inside the API. The calls
  of tokens, providers, ID tokens and device flows check what came back and turn gRPC statuses into
  the package's errors; those of chats return the gRPC error unchanged, and the chat handler reads
  its code. An RPC gives an error or a message, \<open>None\<close> for a nil one.
\<close>

section \<open>Statuses to errors\<close>

definition deviceFlowError :: "go_error \<Rightarrow> go_error" where
  "deviceFlowError err = (case status_Code err of
       InvalidArgument \<Rightarrow> ErrInvalidDeviceFlow
     | FailedPrecondition \<Rightarrow> ErrProviderUnavailable
     | NotFound \<Rightarrow> ErrProviderUnavailable
     | Unauthenticated \<Rightarrow> ErrDeviceFlowRejected
     | PermissionDenied \<Rightarrow> ErrDeviceFlowRejected
     | DeadlineExceeded \<Rightarrow> ErrDeviceFlowTimeout
     | Canceled \<Rightarrow> ContextCanceled
     | Unavailable \<Rightarrow> ErrUpstreamUnavailable
     | _ \<Rightarrow> ErrDeviceFlowFailed)"

definition providerError :: "go_error \<Rightarrow> go_error" where
  "providerError err = (case status_Code err of
       FailedPrecondition \<Rightarrow> ErrProviderUnavailable
     | NotFound \<Rightarrow> ErrProviderUnavailable
     | InvalidArgument \<Rightarrow> ErrInvalidIDToken
     | Unauthenticated \<Rightarrow> ErrInvalidIDToken
     | Canceled \<Rightarrow> ContextCanceled
     | _ \<Rightarrow> ErrUpstreamUnavailable)"

definition exchangeError :: "go_error \<Rightarrow> go_error" where
  "exchangeError err = (case status_Code err of
       InvalidArgument \<Rightarrow> ErrInvalidExchange
     | FailedPrecondition \<Rightarrow> ErrProviderUnavailable
     | NotFound \<Rightarrow> ErrProviderUnavailable
     | Unauthenticated \<Rightarrow> ErrExchangeRejected
     | Unavailable \<Rightarrow> ErrUpstreamUnavailable
     | DeadlineExceeded \<Rightarrow> ErrExchangeTimeout
     | Canceled \<Rightarrow> ContextCanceled
     | _ \<Rightarrow> ErrExchangeFailed)"

definition refreshError :: "go_error \<Rightarrow> go_error" where
  "refreshError err = (case status_Code err of
       InvalidArgument \<Rightarrow> ErrInvalidRefresh
     | FailedPrecondition \<Rightarrow> ErrProviderUnavailable
     | NotFound \<Rightarrow> ErrProviderUnavailable
     | Unauthenticated \<Rightarrow> ErrRefreshRejected
     | Unavailable \<Rightarrow> ErrUpstreamUnavailable
     | DeadlineExceeded \<Rightarrow> ErrRefreshTimeout
     | Canceled \<Rightarrow> ContextCanceled
     | _ \<Rightarrow> ErrRefreshFailed)"

section \<open>Operations\<close>

definition dir_GetDeviceFlowCode ::
  "go_error + DeviceFlowResponse option \<Rightarrow> go_error + DeviceFlowResponse" where
  "dir_GetDeviceFlowCode rpc = (case rpc of
       Inl e \<Rightarrow> Inl (deviceFlowError e)
     | Inr None \<Rightarrow> Inl ErrDeviceFlowFailed
     | Inr (Some r) \<Rightarrow>
         if TrimSpace (df_DeviceAuthId r) = [] \<or> TrimSpace (df_UserCode r) = []
           \<or> df_IntervalSeconds r = 0 \<or> 900 < df_IntervalSeconds r \<or> TrimSpace (df_VerificationUrl r) = []
         then Inl ErrDeviceFlowFailed else Inr r)"

definition dir_PollDeviceFlow ::
  "go_error + DeviceAuthorization option \<Rightarrow> go_error + DeviceAuthorization" where
  "dir_PollDeviceFlow rpc = (case rpc of
       Inl e \<Rightarrow> Inl (deviceFlowError e)
     | Inr None \<Rightarrow> Inl ErrDeviceFlowFailed
     | Inr (Some r) \<Rightarrow>
         if TrimSpace (AuthorizationCode r) = [] \<or> TrimSpace (CodeVerifier r) = []
         then Inl ErrDeviceFlowFailed else Inr r)"

definition dir_GetProvider :: "go_error + ProviderResponse option \<Rightarrow> go_error + ProviderResponse" where
  "dir_GetProvider rpc = (case rpc of
       Inl e \<Rightarrow> Inl (providerError e)
     | Inr None \<Rightarrow> Inl ErrProviderUnavailable
     | Inr (Some r) \<Rightarrow> Inr r)"

definition dir_Verifier :: "go_error + VerifyResponse option \<Rightarrow> go_error + VerifyResponse" where
  "dir_Verifier rpc = (case rpc of
       Inl e \<Rightarrow> Inl (providerError e)
     | Inr None \<Rightarrow> Inl ErrInvalidIDToken
     | Inr (Some r) \<Rightarrow> Inr r)"

text \<open>The token of a response; an absent expiry is the zero time.\<close>

definition token_of :: "TokenResponse \<Rightarrow> Token" where
  "token_of r = \<lparr>AccessToken = tr_AccessToken r, TokenRefresh = tr_RefreshToken r,
     TokenType = tr_TokenType r, Expiry = tr_ExpiresAt r, IdToken = tr_IdToken r\<rparr>"

definition dir_Exchange :: "go_error + TokenResponse option \<Rightarrow> go_error + Token" where
  "dir_Exchange rpc = (case rpc of
       Inl e \<Rightarrow> Inl (exchangeError e)
     | Inr None \<Rightarrow> Inl ErrExchangeFailed
     | Inr (Some r) \<Rightarrow>
         if tr_AccessToken r = [] then Inl ErrExchangeFailed
         else if \<not> timestamp_valid (tr_ExpiresAt r) then Inl ErrExchangeFailed
         else Inr (token_of r))"

definition dir_RefreshToken :: "go_error + TokenResponse option \<Rightarrow> go_error + Token" where
  "dir_RefreshToken rpc = (case rpc of
       Inl e \<Rightarrow> Inl (refreshError e)
     | Inr None \<Rightarrow> Inl ErrRefreshFailed
     | Inr (Some r) \<Rightarrow>
         if TrimSpace (tr_AccessToken r) = [] then Inl ErrRefreshFailed
         else if \<not> timestamp_valid (tr_ExpiresAt r) then Inl ErrRefreshFailed
         else Inr (token_of r))"

text \<open>The request both chat calls send, and what the non-streaming one makes of the answer.\<close>

definition chat_request ::
  "bytes \<Rightarrow> bytes \<Rightarrow> bytes \<Rightarrow> bytes \<Rightarrow> bytes \<Rightarrow> bytes \<Rightarrow> (bytes \<times> bytes) list \<Rightarrow> ChatRequest" where
  "chat_request body secret authmode endpoint authHeader authPrefix headers =
     \<lparr>chat_Data = body, chat_Secret = secret, chat_Endpoint = endpoint, chat_Authmode = authmode,
      chat_AuthHeader = authHeader, chat_AuthPrefix = authPrefix, chat_Headers = headers\<rparr>"

definition dir_ChatNonStream :: "go_error + bytes option \<Rightarrow> go_error + bytes" where
  "dir_ChatNonStream rpc = (case rpc of
       Inl e \<Rightarrow> Inl e
     | Inr None \<Rightarrow> Inl (Status Internal ''empty upstream response'')
     | Inr (Some content) \<Rightarrow> Inr content)"

section \<open>Error contracts\<close>

text \<open>
  A mapping from statuses is a contract of the package: it depends only on the code, gives one of
  the errors the package names, and reports a cancelled call as the context's error.
\<close>

locale error_contract =
  fixes f :: "go_error \<Rightarrow> go_error" and errors :: "go_error set"
  assumes by_code: "status_Code e = status_Code e' \<Longrightarrow> f e = f e'"
    and named: "f e \<in> errors"
    and canceled: "status_Code e = Canceled \<longleftrightarrow> f e = ContextCanceled"
begin

text \<open>The message of the status never shows.\<close>

lemma message_hidden: "f (Status c m) = f (Status c [])"
  by (rule by_code) simp

lemma wrapped: "f (Wrap m e) = f e"
  by (rule by_code) simp

lemma no_status_leaks:
  assumes "\<And>c m. Status c m \<notin> errors"
  shows "f e \<noteq> Status c m"
  using named [of e] assms by auto

end

definition device_errors :: "go_error set" where
  "device_errors = {ErrInvalidDeviceFlow, ErrProviderUnavailable, ErrDeviceFlowRejected,
     ErrDeviceFlowTimeout, ContextCanceled, ErrUpstreamUnavailable, ErrDeviceFlowFailed}"

definition provider_errors :: "go_error set" where
  "provider_errors = {ErrProviderUnavailable, ErrInvalidIDToken, ContextCanceled, ErrUpstreamUnavailable}"

definition exchange_errors :: "go_error set" where
  "exchange_errors = {ErrInvalidExchange, ErrProviderUnavailable, ErrExchangeRejected,
     ErrUpstreamUnavailable, ErrExchangeTimeout, ContextCanceled, ErrExchangeFailed}"

definition refresh_errors :: "go_error set" where
  "refresh_errors = {ErrInvalidRefresh, ErrProviderUnavailable, ErrRefreshRejected,
     ErrUpstreamUnavailable, ErrRefreshTimeout, ContextCanceled, ErrRefreshFailed}"

interpretation device: error_contract deviceFlowError device_errors
  by unfold_locales (auto simp: deviceFlowError_def device_errors_def split: code.splits)

interpretation provider: error_contract providerError provider_errors
  by unfold_locales (auto simp: providerError_def provider_errors_def split: code.splits)

interpretation exchange: error_contract exchangeError exchange_errors
  by unfold_locales (auto simp: exchangeError_def exchange_errors_def split: code.splits)

interpretation refresh: error_contract refreshError refresh_errors
  by unfold_locales (auto simp: refreshError_def refresh_errors_def split: code.splits)

end
