(* ===== verification/UpstreamProps.thy ===== *)
theory UpstreamProps imports Directory begin

text \<open>
  The properties of the upstream server and of its client in the API, with witnesses.
\<close>

section \<open>Chat requests\<close>

lemma get_header_foldl:
  "get_header (foldl (\<lambda>h (k, v). set_header k v h) h hs) k =
     (case map_of (rev (map (\<lambda>(k, v). (CanonicalHeaderKey k, v)) hs)) (CanonicalHeaderKey k) of
        Some v \<Rightarrow> Some v | None \<Rightarrow> get_header h k)"
proof (induction hs rule: rev_induct)
  case (snoc x hs)
  obtain k' v where x: "x = (k', v)" by (cases x)
  show ?case
    using snoc.IH by (cases "CanonicalHeaderKey k = CanonicalHeaderKey k'") (simp_all add: x get_set_header)
qed simp

text \<open>A request to a provider carries the credential in the header of the route, whatever fixed
  headers the route has and however they are spelled; every other header is the last the route
  gives for its canonical name, or the server's own.\<close>

lemma credential_header_wins:
  "get_header (req_headers (provider_request accept r)) k =
     (if CanonicalHeaderKey k = CanonicalHeaderKey (chat_AuthHeader r)
      then Some (chat_AuthPrefix r @ chat_Secret r)
      else case map_of (rev (map (\<lambda>(k, v). (CanonicalHeaderKey k, v)) (chat_Headers r))) (CanonicalHeaderKey k) of
        Some v \<Rightarrow> Some v
      | None \<Rightarrow> if CanonicalHeaderKey k = ''Accept'' then Some accept
          else if CanonicalHeaderKey k = ''Content-Type'' then Some ''application/json'' else None)"
proof -
  have canon: "CanonicalHeaderKey ''Accept'' = ''Accept''" "CanonicalHeaderKey ''Content-Type'' = ''Content-Type''"
    by code_simp+
  let ?h = "set_header ''Accept'' accept (set_header ''Content-Type'' ''application/json'' Map.empty)"
  have "get_header ?h k = (if CanonicalHeaderKey k = ''Accept'' then Some accept
      else if CanonicalHeaderKey k = ''Content-Type'' then Some ''application/json'' else None)"
    unfolding get_header_def set_header_def canon by simp
  then show ?thesis
    unfolding provider_request_def http_request.simps get_set_header get_header_foldl by (simp only:)
qed

lemma stream_lines_Inr:
  "stream_lines send i lines seen = (sent, Inr b) \<longleftrightarrow>
     sent = lines \<and> (\<forall>j < length lines. send (i + j) = None) \<and> b = (seen \<or> (\<exists>l \<in> set lines. terminal_line l))"
proof (induction lines arbitrary: i seen sent b)
  case (Cons l lines)
  have all: "(\<forall>j < length (l # lines). send (i + j) = None) \<longleftrightarrow>
      send i = None \<and> (\<forall>j < length lines. send (Suc i + j) = None)"
    by (auto simp: less_Suc_eq_0_disj)
  show ?case
  proof (cases "send i")
    case None
    obtain sent' r where r: "stream_lines send (Suc i) lines (seen \<or> terminal_line l) = (sent', r)"
      by (cases "stream_lines send (Suc i) lines (seen \<or> terminal_line l)")
    have "stream_lines send i (l # lines) seen = (sent, Inr b) \<longleftrightarrow> sent = l # sent' \<and> r = Inr b"
      using None r by (auto simp: Let_def)
    also have "\<dots> \<longleftrightarrow> (\<exists>xs. sent = l # xs \<and>
        stream_lines send (Suc i) lines (seen \<or> terminal_line l) = (xs, Inr b))"
      unfolding r by auto
    also have "\<dots> \<longleftrightarrow> sent = l # lines \<and> (\<forall>j < length (l # lines). send (i + j) = None)
        \<and> b = (seen \<or> (\<exists>l' \<in> set (l # lines). terminal_line l'))"
      unfolding Cons.IH all using None by auto
    finally show ?thesis .
  next
    case (Some e)
    have "stream_lines send i (l # lines) seen = ([l], Inl e)" using Some by (simp add: Let_def)
    then show ?thesis unfolding all using Some by simp
  qed
qed auto

lemma Stream_complete:
  "Stream client url_error send r = (sent, None) \<longleftrightarrow> url_error (chat_Endpoint r) = None
   \<and> (\<exists>resp. client (provider_request ''text/event-stream'' r) = Inr resp
        \<and> 200 \<le> resp_status resp \<and> resp_status resp < 300 \<and> resp_read_error resp = None
        \<and> scan_lines max_line (resp_body resp) = (sent, False)
        \<and> (\<forall>i < length sent. send i = None) \<and> (\<exists>l \<in> set sent. terminal_line l))"
proof (cases "url_error (chat_Endpoint r)")
  case None
  show ?thesis
  proof (cases "client (provider_request ''text/event-stream'' r)")
    case (Inr resp)
    obtain lines long where l: "scan_lines max_line (resp_body resp) = (lines, long)"
      by (cases "scan_lines max_line (resp_body resp)")
    obtain xs res where x: "stream_lines send 0 lines False = (xs, res)"
      by (cases "stream_lines send 0 lines False")
    have res: "res = Inr b \<longleftrightarrow> xs = lines \<and> (\<forall>j < length lines. send j = None)
        \<and> b = (\<exists>l \<in> set lines. terminal_line l)" for b
      using stream_lines_Inr [of send 0 lines False xs b] x by auto
    have "Stream client url_error send r = (sent, None) \<longleftrightarrow> 200 \<le> resp_status resp
        \<and> resp_status resp < 300 \<and> resp_read_error resp = None \<and> \<not> long \<and> sent = xs \<and> res = Inr True"
      using None Inr l x
      by (auto simp: Stream_def not_less split: option.splits sum.splits if_splits)
    moreover have "xs = lines" if "\<forall>j < length lines. send j = None"
    proof -
      have "stream_lines send 0 lines False = (lines, Inr (\<exists>l \<in> set lines. terminal_line l))"
        using that by (simp add: stream_lines_Inr)
      then show ?thesis using x by simp
    qed
    ultimately show ?thesis using None Inr l by (auto simp: res)
  qed (simp add: Stream_def None)
qed (simp add: Stream_def)

lemma ChatStream_complete:
  "ChatStream client url_error send ctx0 ctx1 request = (sent, None) \<longleftrightarrow>
     chat_request_ok request \<and> ctx0 = None \<and> Stream client url_error send (the request) = (sent, None)"
  by (auto simp: ChatStream_def split: option.splits prod.splits)

text \<open>C14: a chat stream ends without an error exactly when the request is complete, the provider
  answered with a success, its whole body was read as lines that fit the buffer, every line was
  delivered, in order and unchanged, and one of them ended the response; a stream the provider
  broke off is never taken for a finished one.\<close>

theorem stream_complete_iff:
  "ChatStream client url_error send ctx0 ctx1 request = (sent, None) \<longleftrightarrow>
     chat_request_ok request \<and> ctx0 = None \<and> url_error (chat_Endpoint (the request)) = None
   \<and> (\<exists>resp. client (provider_request ''text/event-stream'' (the request)) = Inr resp
        \<and> 200 \<le> resp_status resp \<and> resp_status resp < 300 \<and> resp_read_error resp = None
        \<and> scan_lines max_line (resp_body resp) = (sent, False)
        \<and> (\<forall>i < length sent. send i = None) \<and> (\<exists>l \<in> set sent. terminal_line l))"
  by (simp add: ChatStream_complete Stream_complete)

section \<open>Errors\<close>

lemma dir_errors:
  "dir_Exchange rpc1 = Inl e \<Longrightarrow> e \<in> exchange_errors"
  "dir_RefreshToken rpc1 = Inl e \<Longrightarrow> e \<in> refresh_errors"
  "dir_GetDeviceFlowCode rpc2 = Inl e \<Longrightarrow> e \<in> device_errors"
  "dir_PollDeviceFlow rpc3 = Inl e \<Longrightarrow> e \<in> device_errors"
  "dir_GetProvider rpc4 = Inl e \<Longrightarrow> e \<in> provider_errors"
  "dir_Verifier rpc5 = Inl e \<Longrightarrow> e \<in> provider_errors"
proof -
  have m: "ErrExchangeFailed \<in> exchange_errors" "ErrRefreshFailed \<in> refresh_errors"
    "ErrDeviceFlowFailed \<in> device_errors" "ErrProviderUnavailable \<in> provider_errors"
    "ErrInvalidIDToken \<in> provider_errors"
    by (simp_all add: exchange_errors_def refresh_errors_def device_errors_def provider_errors_def)
  show "dir_Exchange rpc1 = Inl e \<Longrightarrow> e \<in> exchange_errors"
    using m exchange.named by (auto simp: dir_Exchange_def split: sum.splits option.splits if_splits)
  show "dir_RefreshToken rpc1 = Inl e \<Longrightarrow> e \<in> refresh_errors"
    using m refresh.named by (auto simp: dir_RefreshToken_def split: sum.splits option.splits if_splits)
  show "dir_GetDeviceFlowCode rpc2 = Inl e \<Longrightarrow> e \<in> device_errors"
    using m device.named by (auto simp: dir_GetDeviceFlowCode_def split: sum.splits option.splits if_splits)
  show "dir_PollDeviceFlow rpc3 = Inl e \<Longrightarrow> e \<in> device_errors"
    using m device.named by (auto simp: dir_PollDeviceFlow_def split: sum.splits option.splits if_splits)
  show "dir_GetProvider rpc4 = Inl e \<Longrightarrow> e \<in> provider_errors"
    using m provider.named by (auto simp: dir_GetProvider_def split: sum.splits option.splits)
  show "dir_Verifier rpc5 = Inl e \<Longrightarrow> e \<in> provider_errors"
    using m provider.named by (auto simp: dir_Verifier_def split: sum.splits option.splits)
qed

text \<open>When one of these six calls fails, what reaches its caller is one of the errors the package names
  for that call, and it depends on the code of the status alone. The two chat calls are not among
  them: \<open>ChatStream\<close> and \<open>ChatNonStream\<close> return the gRPC error as it came.\<close>

lemma directory_errors_are_named:
  "(\<forall>e. dir_Exchange rpc1 = Inl e \<longrightarrow> e \<in> exchange_errors)
   \<and> (\<forall>e. dir_RefreshToken rpc1 = Inl e \<longrightarrow> e \<in> refresh_errors)
   \<and> (\<forall>e. dir_GetDeviceFlowCode rpc2 = Inl e \<longrightarrow> e \<in> device_errors)
   \<and> (\<forall>e. dir_PollDeviceFlow rpc3 = Inl e \<longrightarrow> e \<in> device_errors)
   \<and> (\<forall>e. dir_GetProvider rpc4 = Inl e \<longrightarrow> e \<in> provider_errors)
   \<and> (\<forall>e. dir_Verifier rpc5 = Inl e \<longrightarrow> e \<in> provider_errors)
   \<and> exchangeError (Status c m) = exchangeError (Status c []) \<and> refreshError (Status c m) = refreshError (Status c [])
   \<and> deviceFlowError (Status c m) = deviceFlowError (Status c []) \<and> providerError (Status c m) = providerError (Status c [])"
  by (intro conjI allI impI dir_errors exchange.message_hidden refresh.message_hidden
      device.message_hidden provider.message_hidden)

lemma stream_complete_iff_witness:
  "ChatStream (\<lambda>_. Inr \<lparr>resp_status = 200, resp_body = ''data: {\"type\":\"response.failed\"}'', resp_read_error = None\<rparr>)
     (\<lambda>_. None) (\<lambda>_. None) None None
     (Some \<lparr>chat_Data = ''{}'', chat_Secret = ''s'', chat_Endpoint = ''u'', chat_Authmode = [],
            chat_AuthHeader = ''A'', chat_AuthPrefix = [], chat_Headers = []\<rparr>)
   = ([''data: {\"type\":\"response.failed\"}''], None)"
proof -
  let ?l = "''data: {\"type\":\"response.failed\"}''"
  have "chat_request_ok (Some \<lparr>chat_Data = ''{}'', chat_Secret = ''s'', chat_Endpoint = ''u'', chat_Authmode = [],
            chat_AuthHeader = ''A'', chat_AuthPrefix = [], chat_Headers = []\<rparr>)"
    by code_simp
  moreover have "scan_lines max_line ?l = ([?l], False)"
    by (subst scan_lines.simps) (simp add: max_line_def newline_def drop_cr_def HasSuffix_def)
  moreover have "terminal_line ?l" by code_simp
  ultimately show ?thesis unfolding stream_complete_iff by simp
qed

lemma chat_error_unchanged:
  "dir_ChatNonStream rpc = Inl e \<longleftrightarrow> rpc = Inl e \<or> rpc = Inr None \<and> e = Status Internal ''empty upstream response''"
  by (auto simp: dir_ChatNonStream_def split: sum.splits option.splits)

section \<open>The device flow\<close>

text \<open>The answer of an attempt, and the time at which it starts.\<close>

definition poll_answer ::
  "(nat \<Rightarrow> attempt) \<Rightarrow> http_request \<Rightarrow> nat \<Rightarrow> go_error + DeviceAuthorization option" where
  "poll_answer env request i = postToken (at_client (env i)) (at_ctx_err (env i)) request"

definition poll_start :: "(nat \<Rightarrow> attempt) \<Rightarrow> nat \<Rightarrow> nat \<Rightarrow> nat" where
  "poll_start env interval n = (\<Sum>i < n. at_duration (env i) + interval)"

text \<open>The \<open>n\<close>-th attempt is made: all before it were pending and the context has not ended.\<close>

definition poll_reached ::
  "(nat \<Rightarrow> attempt) \<Rightarrow> nat \<times> go_error \<Rightarrow> http_request \<Rightarrow> nat \<Rightarrow> nat \<Rightarrow> bool" where
  "poll_reached env ctx request interval n \<longleftrightarrow>
     (\<forall>i < n. poll_answer env request i = Inr None \<and> poll_start env interval (Suc i) < fst ctx)"

text \<open>What the call returns after that attempt, if it does.\<close>

definition poll_outcome ::
  "(nat \<Rightarrow> attempt) \<Rightarrow> nat \<times> go_error \<Rightarrow> http_request \<Rightarrow> nat \<Rightarrow> nat
    \<Rightarrow> (go_error + DeviceAuthorization) option" where
  "poll_outcome env ctx request interval n = (case poll_answer env request n of
       Inl e \<Rightarrow> Some (Inl e)
     | Inr (Some r) \<Rightarrow> Some (Inr r)
     | Inr None \<Rightarrow> if fst ctx \<le> poll_start env interval (Suc n)
         then Some (Inl (Status (FromContextError (snd ctx)) [])) else None)"

lemma poll_reaches:
  assumes "poll fuel env ctx request interval n (poll_start env interval n) = Some x"
    and "poll_reached env ctx request interval n"
  shows "\<exists>m. poll_reached env ctx request interval m \<and> poll_outcome env ctx request interval m = Some x"
  using assms
proof (induction fuel arbitrary: n)
  case (Suc fuel)
  show ?case
  proof (cases "poll_answer env request n = Inr None \<and> poll_start env interval (Suc n) < fst ctx")
    case True
    then have "poll fuel env ctx request interval (Suc n) (poll_start env interval (Suc n)) = Some x"
      using Suc.prems(1) by (simp add: poll_answer_def poll_start_def Let_def add.assoc)
    moreover have "poll_reached env ctx request interval (Suc n)"
      using True Suc.prems(2) by (simp add: poll_reached_def less_Suc_eq)
    ultimately show ?thesis by (rule Suc.IH)
  next
    case False
    then have "poll_outcome env ctx request interval n = Some x"
      using Suc.prems(1)
      by (auto simp: poll_outcome_def poll_answer_def poll_start_def Let_def add.assoc
          split: sum.splits option.splits if_splits)
    with Suc.prems(2) show ?thesis by blast
  qed
qed simp

lemma poll_reached_early:
  assumes "poll_reached env ctx request interval n" and "n \<noteq> 0"
  shows "n * interval < fst ctx"
proof -
  from assms(2) obtain k where n: "n = Suc k" by (cases n) auto
  then have "poll_start env interval n < fst ctx" using assms(1) by (simp add: poll_reached_def)
  moreover have "n * interval \<le> poll_start env interval n"
    unfolding poll_start_def by (induction n) auto
  ultimately show ?thesis by linarith
qed

text \<open>C16: the polling loop of the device flow always returns. Every attempt before the last was
  answered by a pending approval, within the time of the call, and the last decides: its
  approval, its error, or the end of the context. At an interval of \<open>k\<close> seconds the attempts
  numbered from 0 stay below \<open>900 / k\<close>, so that 901 steps are always enough.\<close>

theorem poll_device_flow_outcome:
  assumes "poll_request_ok (Some q)" and "po_Provider q = ''oai''" and "provider_config s ''oai'' \<noteq> None"
  shows "\<exists>n x. n * unat (po_IntervalSeconds q) < 900
     \<and> poll_reached env (poll_context caller) (poll_http_request q) (seconds (unat (po_IntervalSeconds q))) n
     \<and> poll_outcome env (poll_context caller) (poll_http_request q) (seconds (unat (po_IntervalSeconds q))) n = Some x
     \<and> (\<forall>f. PollDeviceFlow s (901 + f) env caller (Some q) = Some x)"
proof -
  let ?k = "seconds (unat (po_IntervalSeconds q))" and ?ctx = "poll_context caller" and ?r = "poll_http_request q"
  have "po_IntervalSeconds q \<noteq> 0" using assms(1) by (simp add: poll_request_ok_def)
  then have k: "0 < unat (po_IntervalSeconds q)" by (simp add: unat_gt_0)
  then have k1: "seconds 1 \<le> ?k" by (simp add: seconds_def)
  have c: "fst ?ctx \<le> seconds 900" by (simp add: poll_context_def split: option.splits)
  have "fst ?ctx < 0 + 901 * ?k"
  proof -
    have "901 * seconds 1 \<le> 901 * ?k" using k1 by simp
    then show ?thesis using c by (simp add: seconds_def)
  qed
  then obtain x where x: "poll 901 env ?ctx ?r ?k 0 0 = Some x"
    using poll_ends [of ?k 0 ?ctx 901 env ?r 0] k by (auto simp: seconds_def)
  then have f: "PollDeviceFlow s (901 + f) env caller (Some q) = Some x" for f
    using assms poll_more_fuel [OF x, of "901 + f"] by (auto simp: PollDeviceFlow_def)
  have "poll_start env ?k 0 = 0" and "poll_reached env ?ctx ?r ?k 0"
    by (simp_all add: poll_start_def poll_reached_def)
  with poll_reaches [of 901 env ?ctx ?r ?k 0 x] x obtain m where
    m: "poll_reached env ?ctx ?r ?k m" "poll_outcome env ?ctx ?r ?k m = Some x" by auto
  have "m * unat (po_IntervalSeconds q) < 900"
  proof (cases "m = 0")
    case False
    have "m * ?k < seconds 900" using poll_reached_early [OF m(1) False] c by linarith
    then show ?thesis by (simp add: seconds_def)
  qed simp
  with m f show ?thesis by blast
qed

definition toy_config :: oauth2_config where
  "toy_config = \<lparr>ClientID = ''c'', ClientSecret = ''s'', RedirectURL = ''r'', AuthURL = ''a'', TokenURL = ''t'',
     DeviceAuthURL = [], AuthStyle = InParams, Scopes = []\<rparr>"

definition toy_server :: server where
  "toy_server = [(''oai'', \<lparr>Provider = None, OauthConfig = Some toy_config, AuthURLParams = [], IDVerifier = None\<rparr>)]"

text \<open>Pending at first, approved at the second attempt.\<close>

definition toy_env :: "nat \<Rightarrow> attempt" where
  "toy_env i = \<lparr>at_client = \<lambda>_. Inr (if i = 0 then \<lparr>resp_status = 403, resp_body = [], resp_read_error = None\<rparr>
       else \<lparr>resp_status = 200, resp_body = ''{\"authorization_code\":\"a\",\"code_verifier\":\"v\"}'', resp_read_error = None\<rparr>),
     at_ctx_err = None, at_duration = 1\<rparr>"

definition toy_poll :: PollDeviceFlowRequest where
  "toy_poll = \<lparr>po_Provider = ''oai'', po_DeviceAuthId = ''d'', po_UserCode = ''u'', po_IntervalSeconds = 5\<rparr>"

lemma poll_device_flow_outcome_witness:
  "PollDeviceFlow toy_server 901 toy_env None (Some toy_poll)
     = Some (Inr \<lparr>AuthorizationCode = ''a'', CodeVerifier = ''v''\<rparr>)"
proof -
  let ?r = "poll_http_request toy_poll" and ?k = "seconds (unat (po_IntervalSeconds toy_poll))"
  let ?a = "\<lparr>AuthorizationCode = ''a'', CodeVerifier = ''v''\<rparr>"
  have "poll_request_ok (Some toy_poll)" "po_Provider toy_poll = ''oai''" "provider_config toy_server ''oai'' \<noteq> None"
    by (simp_all add: poll_request_ok_def toy_poll_def toy_server_def provider_config_def)
  from poll_device_flow_outcome [OF this, of toy_env None] obtain n x where
    n: "poll_reached toy_env (poll_context None) ?r ?k n"
    and x: "poll_outcome toy_env (poll_context None) ?r ?k n = Some x"
    and p: "PollDeviceFlow toy_server (901 + 0) toy_env None (Some toy_poll) = Some x" by blast
  have k: "?k = 5000000000" by (simp add: toy_poll_def seconds_def)
  have a0: "poll_answer toy_env ?r 0 = Inr None"
    by (simp add: poll_answer_def toy_env_def postToken_def)
  have "token_answer ''{\"authorization_code\":\"a\",\"code_verifier\":\"v\"}'' = Some ?a" by code_simp
  then have a1: "poll_answer toy_env ?r (Suc i) = Inr (Some ?a)" for i
    by (simp add: poll_answer_def toy_env_def postToken_def)
  have "n < 2"
  proof (rule ccontr)
    assume "\<not> n < 2"
    then have "poll_answer toy_env ?r (Suc 0) = Inr None" using n unfolding poll_reached_def by auto
    with a1 show False by simp
  qed
  moreover have "poll_outcome toy_env (poll_context None) ?r ?k 0 = None"
    unfolding poll_outcome_def a0 k by (simp add: poll_start_def poll_context_def seconds_def toy_env_def)
  ultimately have "n = 1" using x by (cases n) auto
  then have "x = Inr ?a" using x a1 [of 0] by (simp add: poll_outcome_def)
  with p show ?thesis by simp
qed

section \<open>Exchange\<close>

text \<open>The message a successful call sends, and what its client reads.\<close>

definition answered :: "go_error + 'a \<Rightarrow> go_error + 'a option" where
  "answered r = (case r of Inl e \<Rightarrow> Inl e | Inr x \<Rightarrow> Inr (Some x))"

lemma token_of_tokenResponse [simp]: "token_of (tokenResponse t) = t"
  by (simp add: token_of_def tokenResponse_def)

lemma exchangeErrorCode_none:
  "exchangeError (Status (exchangeErrorCode None e) m) =
     (if errors_Is e ContextDeadlineExceeded then ErrExchangeTimeout
      else if errors_Is e ContextCanceled then ContextCanceled
      else case as_RetrieveError e of
        Some (error_code, st) \<Rightarrow> if error_code = ''invalid_grant'' then ErrExchangeRejected
          else if st = Some 429 \<or> (\<exists>n. st = Some n \<and> 500 \<le> n) then ErrUpstreamUnavailable else ErrExchangeFailed
      | None \<Rightarrow> if as_NetError e = None then ErrExchangeFailed else ErrUpstreamUnavailable)"
  by (auto simp: exchangeErrorCode_def exchangeError_def split: option.splits)

text \<open>C17: an exchange through the server and its client. The provider's configuration is used with
  its own redirect address, except in the device flow, which only \<open>oai\<close> has; the caller gets the
  provider's token unchanged unless it has no access token or an impossible expiry, and an error
  that says whether the code was rejected, the provider is unreachable, or the time was up.\<close>

theorem exchange_end_to_end:
  assumes "provider_config s (ex_Provider q) = Some cfg"
    and "TrimSpace (ex_Code q) \<noteq> []" and "TrimSpace (ex_CodeVerifier q) \<noteq> []" and "ex_Provider q \<noteq> []"
  shows "dir_Exchange (answered (ExchangeCode s exchange None (Some q))) =
    (if ex_FlowType q \<notin> {[], ''browser'', ''device''} \<or> ex_FlowType q = ''device'' \<and> ex_Provider q \<noteq> ''oai''
     then Inl ErrInvalidExchange
     else case exchange (if ex_FlowType q = ''device''
           then cfg\<lparr>RedirectURL := ''https://auth.openai.com/deviceauth/callback''\<rparr> else cfg)
           (ex_Code q) (ex_CodeVerifier q) of
       Inr token \<Rightarrow> if AccessToken token = [] \<or> \<not> timestamp_valid (Expiry token)
         then Inl ErrExchangeFailed else Inr token
     | Inl e \<Rightarrow> Inl (if errors_Is e ContextDeadlineExceeded then ErrExchangeTimeout
         else if errors_Is e ContextCanceled then ContextCanceled
         else case as_RetrieveError e of
           Some (error_code, st) \<Rightarrow> if error_code = ''invalid_grant'' then ErrExchangeRejected
             else if st = Some 429 \<or> (\<exists>n. st = Some n \<and> 500 \<le> n) then ErrUpstreamUnavailable
             else ErrExchangeFailed
         | None \<Rightarrow> if as_NetError e = None then ErrExchangeFailed else ErrUpstreamUnavailable))"
proof -
  have dir: "dir_Exchange (answered (case exchange c x v of
        Inl e \<Rightarrow> Inl (Status (exchangeErrorCode None e) m) | Inr token \<Rightarrow> Inr (tokenResponse token))) =
      (case exchange c x v of
        Inl e \<Rightarrow> Inl (exchangeError (Status (exchangeErrorCode None e) m))
      | Inr token \<Rightarrow> if AccessToken token = [] \<or> \<not> timestamp_valid (Expiry token)
         then Inl ErrExchangeFailed else Inr token)" for c x v m
    by (simp add: dir_Exchange_def answered_def split: sum.splits)
       (auto simp: tokenResponse_def token_of_def)
  have inv: "dir_Exchange (answered (Inl (Status InvalidArgument m))) = Inl ErrInvalidExchange" for m
    by (simp add: dir_Exchange_def answered_def exchangeError_def)
  show ?thesis
    using assms
    by (simp add: ExchangeCode_def exchange_config_def dir inv exchangeErrorCode_none cong: sum.case_cong)
qed

definition toy_exchange :: "oauth2_config \<Rightarrow> bytes \<Rightarrow> bytes \<Rightarrow> go_error + Token" where
  "toy_exchange cfg x v = Inr \<lparr>AccessToken = RedirectURL cfg, TokenRefresh = ''r'', TokenType = ''Bearer'',
     Expiry = None, IdToken = ''i''\<rparr>"

lemma exchange_end_to_end_witness:
  "dir_Exchange (answered (ExchangeCode toy_server toy_exchange None
     (Some \<lparr>ex_Code = ''c'', ex_CodeVerifier = ''v'', ex_Provider = ''oai'', ex_FlowType = ''device''\<rparr>)))
   = Inr \<lparr>AccessToken = ''https://auth.openai.com/deviceauth/callback'', TokenRefresh = ''r'',
          TokenType = ''Bearer'', Expiry = None, IdToken = ''i''\<rparr>"
proof -
  let ?q = "\<lparr>ex_Code = ''c'', ex_CodeVerifier = ''v'', ex_Provider = ''oai'', ex_FlowType = ''device''\<rparr>"
  have "provider_config toy_server (ex_Provider ?q) = Some toy_config" "TrimSpace (ex_Code ?q) \<noteq> []"
    "TrimSpace (ex_CodeVerifier ?q) \<noteq> []" "ex_Provider ?q \<noteq> []"
    by code_simp+
  from exchange_end_to_end [OF this, of toy_exchange] show ?thesis
    by (simp add: toy_exchange_def timestamp_valid_def)
qed

section \<open>Provider metadata and ID tokens\<close>

lemma find_provider_Inr:
  "find_provider s issuer = Inr r \<Longrightarrow>
     pr_Issuer r = issuer \<and> (\<exists>(name, auth) \<in> set s. \<exists>p. Provider auth = Some p \<and> toProviderResponse p = Some r)"
proof (induction s)
  case (Cons x s)
  obtain n a where x: "x = (n, a)" by (cases x)
  show ?case
  proof (cases "Provider a")
    case None
    then show ?thesis using Cons x by auto
  next
    case (Some p)
    then show ?thesis using Cons x by (cases "toProviderResponse p") (auto split: if_splits)
  qed
qed simp

lemma find_provider_finds:
  assumes "(name, auth) \<in> set s" and "Provider auth = Some p" and "toProviderResponse p = Some r"
    and "\<forall>(n, a) \<in> set s. \<forall>p'. Provider a = Some p' \<longrightarrow> toProviderResponse p' \<noteq> None"
  shows "\<exists>r'. find_provider s (pr_Issuer r) = Inr r'"
  using assms
proof (induction s)
  case (Cons x s)
  obtain n a where x: "x = (n, a)" by (cases x)
  show ?case
  proof (cases "Provider a")
    case None
    then have "(name, auth) \<in> set s" using Cons.prems(1,2) x by auto
    then show ?thesis using Cons.IH Cons.prems None x by auto
  next
    case (Some p')
    then obtain r' where r': "toProviderResponse p' = Some r'" using Cons.prems(4) x by fastforce
    show ?thesis
    proof (cases "pr_Issuer r' = pr_Issuer r")
      case False
      then have "(name, auth) \<in> set s" using Cons.prems(1-3) x Some r' by auto
      then show ?thesis using Cons.IH Cons.prems False Some r' x by auto
    qed (simp add: x Some r')
  qed
qed simp

text \<open>While the metadata of every provider can be read, an issuer is answered, whatever the order
  in which the map of providers is gone through, exactly when a provider has it, and the answer is
  the metadata of such a provider, issuer included.\<close>

lemma provider_lookup_by_issuer:
  assumes "\<forall>(n, a) \<in> set s. \<forall>p. Provider a = Some p \<longrightarrow> toProviderResponse p \<noteq> None"
  shows "(\<forall>r. GetProvider s None (Some issuer) = Inr r \<longrightarrow> pr_Issuer r = issuer \<and>
       (\<exists>(n, a) \<in> set s. \<exists>p. Provider a = Some p \<and> toProviderResponse p = Some r))
    \<and> ((\<exists>r. GetProvider s None (Some issuer) = Inr r) \<longleftrightarrow> TrimSpace issuer \<noteq> [] \<and>
       (\<exists>(n, a) \<in> set s. \<exists>p r. Provider a = Some p \<and> toProviderResponse p = Some r \<and> pr_Issuer r = issuer))"
proof -
  have G: "GetProvider s None (Some issuer) = Inr r \<longleftrightarrow>
      TrimSpace issuer \<noteq> [] \<and> find_provider s issuer = Inr r" for r
    by (simp add: GetProvider_def)
  have "(\<exists>r. find_provider s issuer = Inr r) \<longleftrightarrow>
       (\<exists>(n, a) \<in> set s. \<exists>p r. Provider a = Some p \<and> toProviderResponse p = Some r \<and> pr_Issuer r = issuer)"
    using find_provider_Inr [of s issuer] find_provider_finds [OF _ _ _ assms] by fast
  then show ?thesis unfolding G using find_provider_Inr by blast
qed

definition toy_oidc :: OidcProvider where
  "toy_oidc = \<lparr>op_RawClaims = ''{\"issuer\":\"https://i\"}'', op_AuthURL = ''a'', op_TokenURL = ''t'',
     op_DeviceAuthURL = [], op_UserInfoURL = []\<rparr>"

lemma provider_lookup_by_issuer_witness:
  "\<exists>r. GetProvider [(''oai'', \<lparr>Provider = Some toy_oidc, OauthConfig = None, AuthURLParams = [], IDVerifier = None\<rparr>)]
     None (Some ''https://i'') = Inr r \<and> pr_Issuer r = ''https://i''"
proof -
  let ?s = "[(''oai'', \<lparr>Provider = Some toy_oidc, OauthConfig = None, AuthURLParams = [], IDVerifier = None\<rparr>)]"
  obtain r where r: "toProviderResponse toy_oidc = Some r" "pr_Issuer r = ''https://i''"
  proof -
    have "map_option pr_Issuer (toProviderResponse toy_oidc) = Some ''https://i''" by code_simp
    then show ?thesis using that by auto
  qed
  have all: "\<forall>(n, a) \<in> set ?s. \<forall>p. Provider a = Some p \<longrightarrow> toProviderResponse p \<noteq> None" using r by simp
  have "TrimSpace ''https://i'' \<noteq> []" by code_simp
  then show ?thesis using provider_lookup_by_issuer [OF all, of "''https://i''"] r by auto
qed

text \<open>Claims are handed out only for a token that the verifier of the named provider accepted, and
  are those of the token: on every other path, whether the provider is unknown, the context has
  ended, or the token is rejected, the answer is an error.\<close>

lemma claims_only_when_verified:
  "dir_Verifier (answered (Verifier s ctx0 ctx1 request)) = Inr v \<longleftrightarrow>
     ctx0 = None \<and> (\<exists>raw provider auth verify token claims.
       request = Some (raw, provider) \<and> TrimSpace raw \<noteq> [] \<and> TrimSpace provider \<noteq> []
     \<and> map_of s provider = Some auth \<and> IDVerifier auth = Some verify \<and> verify raw = Inr token
     \<and> it_Claims token = Inr claims \<and> timestamp_valid (it_Expiry token) \<and> timestamp_valid (it_IssuedAt token)
     \<and> v = \<lparr>vr_Issuer = it_Issuer token, vr_Subject = it_Subject token, vr_Audience = it_Audience token,
            vr_Nonce = it_Nonce token, vr_ClaimsJson = claims, vr_ExpiresAt = it_Expiry token,
            vr_IssuedAt = it_IssuedAt token\<rparr>)"
  by (auto simp: dir_Verifier_def answered_def Verifier_def toVerifyResponse_def Let_def bind_eq_Some_conv
      split: option.splits sum.splits if_splits)

section \<open>Device codes\<close>

lemma device_flow_answer_SomeD:
  assumes "device_flow_answer body = Some r"
  shows "df_IntervalSeconds r \<noteq> 0" "df_IntervalSeconds r \<le> 900"
    "df_DeviceAuthId r \<noteq> []" "df_UserCode r \<noteq> []"
    "df_VerificationUrl r = ''https://auth.openai.com/codex/device''"
proof -
  from assms obtain ms where ms: "decoder_members body = Some ms"
    by (auto simp: device_flow_answer_def bind_eq_Some_conv)
  obtain a b c d e f where f: "string_field ''device_auth_id'' ms = (a, b)"
    "string_field ''user_code'' ms = (c, d)" "string_field ''interval'' ms = (e, f)" by fastforce
  show "df_IntervalSeconds r \<noteq> 0" "df_IntervalSeconds r \<le> 900"
    "df_DeviceAuthId r \<noteq> []" "df_UserCode r \<noteq> []"
    "df_VerificationUrl r = ''https://auth.openai.com/codex/device''"
    using assms by (auto simp: device_flow_answer_def ms f not_less split: option.splits if_splits)
qed

lemma ucast_interval:
  fixes n :: uint64
  assumes "n \<noteq> 0" and "n \<le> 900"
  shows "(ucast n :: uint32) \<noteq> 0" and "(ucast n :: uint32) \<le> 900"
proof -
  have "unat n \<le> 900" using assms(2) by (simp add: word_le_nat_alt)
  then have u: "unat (ucast n :: uint32) = unat n"
    by (simp add: unsigned_ucast_eq unsigned_take_bit_eq take_bit_nat_eq_self)
  show "(ucast n :: uint32) \<noteq> 0" using u assms(1) by (metis unat_eq_zero)
  show "(ucast n :: uint32) \<le> 900" using u \<open>unat n \<le> 900\<close> by (simp add: word_le_nat_alt)
qed

lemma device_code_table:
  assumes "provider_config s ''oai'' = Some cfg" and "ClientID cfg \<noteq> []"
    and "client (json_post LoginDeviceFlowEndpoint [(''client_id'', ClientID cfg)]) = Inr resp"
  shows "dir_GetDeviceFlowCode (answered (GetDeviceFlowCode s client None (Some ''oai''))) =
    (if resp_status resp = 200 then (case device_flow_answer (resp_body resp) of
        None \<Rightarrow> Inl ErrDeviceFlowFailed
      | Some r \<Rightarrow> if TrimSpace (df_DeviceAuthId r) = [] \<or> TrimSpace (df_UserCode r) = []
          then Inl ErrDeviceFlowFailed else Inr r)
     else Inl (if resp_status resp \<in> {403, 404} then ErrProviderUnavailable
       else if resp_status resp \<in> {400, 401} then ErrDeviceFlowRejected
       else if resp_status resp = 429 \<or> 500 \<le> resp_status resp then ErrUpstreamUnavailable
       else ErrDeviceFlowFailed))"
proof -
  have url: "TrimSpace ''https://auth.openai.com/codex/device'' \<noteq> []" by code_simp
  show ?thesis
  proof (cases "resp_status resp = 200")
    case True
    show ?thesis
    proof (cases "device_flow_answer (resp_body resp)")
      case None
      then show ?thesis using assms True
        by (simp add: GetDeviceFlowCode_def answered_def dir_GetDeviceFlowCode_def deviceFlowError_def)
    next
      case (Some r)
      from device_flow_answer_SomeD [OF Some] have "\<not> 900 < df_IntervalSeconds r" by (simp add: not_less)
      with device_flow_answer_SomeD [OF Some] show ?thesis using assms True Some url
        by (simp add: GetDeviceFlowCode_def answered_def dir_GetDeviceFlowCode_def)
    qed
  next
    case False
    then show ?thesis using assms
      by (simp add: GetDeviceFlowCode_def answered_def dir_GetDeviceFlowCode_def deviceFlowError_def deviceHTTPError_def)
  qed
qed

text \<open>C15: a device code reaches the API exactly when the provider answered 200 with a document that
  has an interval of 1 to 900 seconds and a device and a user code that are not blank; what reaches
  it can be polled as it is. Any other answer of the provider gives the error of its status.\<close>

theorem device_code_end_to_end:
  assumes "provider_config s ''oai'' = Some cfg" and "ClientID cfg \<noteq> []"
    and "client (json_post LoginDeviceFlowEndpoint [(''client_id'', ClientID cfg)]) = Inr resp"
  shows "dir_GetDeviceFlowCode (answered (GetDeviceFlowCode s client None (Some ''oai''))) =
    (if resp_status resp = 200 then (case device_flow_answer (resp_body resp) of
        None \<Rightarrow> Inl ErrDeviceFlowFailed
      | Some r \<Rightarrow> if TrimSpace (df_DeviceAuthId r) = [] \<or> TrimSpace (df_UserCode r) = []
          then Inl ErrDeviceFlowFailed else Inr r)
     else Inl (if resp_status resp \<in> {403, 404} then ErrProviderUnavailable
       else if resp_status resp \<in> {400, 401} then ErrDeviceFlowRejected
       else if resp_status resp = 429 \<or> 500 \<le> resp_status resp then ErrUpstreamUnavailable
       else ErrDeviceFlowFailed))
    \<and> (\<forall>r. dir_GetDeviceFlowCode (answered (GetDeviceFlowCode s client None (Some ''oai''))) = Inr r \<longrightarrow>
      poll_request_ok (Some \<lparr>po_Provider = ''oai'', po_DeviceAuthId = df_DeviceAuthId r,
        po_UserCode = df_UserCode r, po_IntervalSeconds = ucast (df_IntervalSeconds r)\<rparr>))"
proof (intro conjI allI impI device_code_table [where client = client, OF assms])
  fix r
  assume "dir_GetDeviceFlowCode (answered (GetDeviceFlowCode s client None (Some ''oai''))) = Inr r"
  then have "device_flow_answer (resp_body resp) = Some r"
    unfolding device_code_table [where client = client, OF assms] by (auto split: if_splits option.splits)
  from device_flow_answer_SomeD [OF this] show "poll_request_ok (Some \<lparr>po_Provider = ''oai'',
      po_DeviceAuthId = df_DeviceAuthId r, po_UserCode = df_UserCode r,
      po_IntervalSeconds = ucast (df_IntervalSeconds r)\<rparr>)"
    using ucast_interval [of "df_IntervalSeconds r"] by (auto simp: poll_request_ok_def)
qed

definition toy_device_client :: http_client where
  "toy_device_client _ = Inr \<lparr>resp_status = 200,
     resp_body = ''{\"device_auth_id\":\"d\",\"user_code\":\"u\",\"interval\":\"5\"}'',
     resp_read_error = None\<rparr>"

lemma device_code_end_to_end_witness:
  "dir_GetDeviceFlowCode (answered (GetDeviceFlowCode toy_server toy_device_client None (Some ''oai'')))
   = Inr \<lparr>df_DeviceAuthId = ''d'', df_UserCode = ''u'', df_IntervalSeconds = 5,
          df_VerificationUrl = ''https://auth.openai.com/codex/device''\<rparr>"
proof -
  let ?body = "''{\"device_auth_id\":\"d\",\"user_code\":\"u\",\"interval\":\"5\"}''"
  have c: "provider_config toy_server ''oai'' = Some toy_config" "ClientID toy_config \<noteq> []"
    by (simp_all add: provider_config_def toy_server_def toy_config_def)
  have "toy_device_client (json_post LoginDeviceFlowEndpoint [(''client_id'', ClientID toy_config)]) =
      Inr \<lparr>resp_status = 200, resp_body = ?body, resp_read_error = None\<rparr>"
    by (simp add: toy_device_client_def)
  from device_code_end_to_end [where client = toy_device_client, OF c this]
  have "dir_GetDeviceFlowCode (answered (GetDeviceFlowCode toy_server toy_device_client None (Some ''oai''))) =
      (case device_flow_answer ?body of None \<Rightarrow> Inl ErrDeviceFlowFailed
       | Some r \<Rightarrow> if TrimSpace (df_DeviceAuthId r) = [] \<or> TrimSpace (df_UserCode r) = []
          then Inl ErrDeviceFlowFailed else Inr r)" by simp
  moreover have "device_flow_answer ?body = Some \<lparr>df_DeviceAuthId = ''d'', df_UserCode = ''u'',
      df_IntervalSeconds = 5, df_VerificationUrl = ''https://auth.openai.com/codex/device''\<rparr>"
    by code_simp
  moreover have "TrimSpace ''d'' = ''d''" "TrimSpace ''u'' = ''u''" by code_simp+
  ultimately show ?thesis by simp
qed

end
