(* ===== verification/Translator.thy ===== *)
theory Translator imports Json begin

text \<open>
  \<open>internal/modules/translator\<close>: the choice between passing a message through and the conversion
  of the SDK, and the synthetic event stream for Claude messages. The conversions of the SDK
  (\<open>CLIProxyAPI\<close>) are parameters.
\<close>

datatype Format = FormatOpenAI | FormatOpenAIResponse | FormatClaude | FormatGemini | FormatCodex
  | FormatAntigravity

text \<open>
  The conversions: of requests; of stream fragments, threading the state a request owns (none
  before the first fragment); of whole responses.
\<close>

record 'st sdk =
  sdk_request :: "Format \<Rightarrow> Format \<Rightarrow> bytes \<Rightarrow> bytes \<Rightarrow> bool \<Rightarrow> bytes"
  sdk_stream :: "Format \<Rightarrow> Format \<Rightarrow> bytes \<Rightarrow> bytes \<Rightarrow> bytes \<Rightarrow> bytes \<Rightarrow> 'st option
    \<Rightarrow> bytes list \<times> 'st option"
  sdk_non_stream :: "Format \<Rightarrow> Format \<Rightarrow> bytes \<Rightarrow> bytes \<Rightarrow> bytes \<Rightarrow> bytes \<Rightarrow> bytes"

definition TranslateRequest ::
  "'st sdk \<Rightarrow> Format \<Rightarrow> Format \<Rightarrow> bytes \<Rightarrow> bytes \<Rightarrow> bool \<Rightarrow> bytes" where
  "TranslateRequest sdk from_f to_f model raw stream =
     (if from_f = to_f then raw else sdk_request sdk from_f to_f model raw stream)"

definition TranslateStream ::
  "'st sdk \<Rightarrow> Format \<Rightarrow> Format \<Rightarrow> bytes \<Rightarrow> bytes \<Rightarrow> bytes \<Rightarrow> bytes \<Rightarrow> 'st option
    \<Rightarrow> bytes list \<times> 'st option" where
  "TranslateStream sdk from_f to_f model originalReq translatedReq raw state =
     sdk_stream sdk from_f to_f model originalReq translatedReq raw state"

section \<open>Claude messages as events\<close>

text \<open>The value of a raw map; the nil raw message when the key is absent.\<close>

definition raw_at :: "(bytes \<times> bytes) list \<Rightarrow> bytes \<Rightarrow> bytes" where
  "raw_at m k = (case lookup_last k m of None \<Rightarrow> [] | Some raw \<Rightarrow> raw)"

definition append_event :: "bytes \<Rightarrow> json_out \<Rightarrow> bytes" where
  "append_event acc event = acc @ ''data: '' @ marshal event @ [CHR 0x0A, CHR 0x0A]"

text \<open>\<open>json.Unmarshal(block["type"], &kind)\<close> with its error ignored: a string or nothing.\<close>

definition block_kind :: "(bytes \<times> bytes) list \<Rightarrow> bytes" where
  "block_kind block = (let raw = raw_at block ''type'' in
     if HasPrefix raw [quote_mark] then unquote raw else [])"

text \<open>The delta and the start of a content block; none for a kind the SDK cannot express.\<close>

definition block_delta :: "(bytes \<times> bytes) list \<Rightarrow> json_out option" where
  "block_delta block =
     (let kind = block_kind block in
      if kind = ''text'' then
        Some (MapOut [(''type'', StringOut ''text_delta''), (''text'', RawOut (raw_at block ''text''))])
      else if kind = ''thinking'' then
        Some (MapOut [(''type'', StringOut ''thinking_delta''),
                      (''thinking'', RawOut (raw_at block ''thinking''))])
      else if kind = ''tool_use'' then
        Some (MapOut [(''type'', StringOut ''input_json_delta''),
                      (''partial_json'', StringOut (raw_at block ''input''))])
      else None)"

definition block_start :: "(bytes \<times> bytes) list \<Rightarrow> json_out" where
  "block_start block =
     (let kind = block_kind block in
      MapOut ([(''type'', StringOut kind)]
        @ (if kind = ''text'' then [(''text'', StringOut [])] else [])
        @ (if kind = ''thinking'' then [(''thinking'', StringOut [])] else [])
        @ (if kind = ''tool_use''
           then [(''id'', RawOut (raw_at block ''id'')), (''name'', RawOut (raw_at block ''name'')),
                 (''input'', MapOut [])]
           else [])))"

fun block_events :: "nat \<Rightarrow> (bytes \<times> bytes) list list \<Rightarrow> bytes \<Rightarrow> bytes option" where
  "block_events i [] acc = Some acc"
| "block_events i (block # blocks) acc = (case block_delta block of
       None \<Rightarrow> None
     | Some delta \<Rightarrow>
         let acc = append_event acc (MapOut [(''type'', StringOut ''content_block_start''),
               (''index'', IntOut i), (''content_block'', block_start block)]);
             acc = append_event acc (MapOut [(''type'', StringOut ''content_block_delta''),
               (''index'', IntOut i), (''delta'', delta)]);
             acc = append_event acc (MapOut [(''type'', StringOut ''content_block_stop''),
               (''index'', IntOut i)])
         in block_events (Suc i) blocks acc)"

text \<open>\<open>[]map[string]json.RawMessage\<close>: a \<open>null\<close> element is a nil map, which reads as empty.\<close>

definition raw_maps :: "bytes \<Rightarrow> (bytes \<times> bytes) list list option" where
  "raw_maps raw =
     (if is_null raw then Some []
      else Option.bind (json_elems raw) (\<lambda>es.
        if \<exists>e \<in> set es. \<not> is_null e \<and> json_members e = None then None
        else Some (map (\<lambda>e. if is_null e then [] else the (json_members e)) es)))"

definition claudeMessageEvents :: "bytes \<Rightarrow> bytes option" where
  "claudeMessageEvents raw = (case struct_members raw of
       None \<Rightarrow> None
     | Some message \<Rightarrow>
         if raw_at message ''type'' \<noteq> [quote_mark] @ ''message'' @ [quote_mark] then None
         else Option.bind (raw_maps (raw_at message ''content'')) (\<lambda>blocks.
           let shown = message @ [(''content'', ''[]'')];
               acc = append_event [] (MapOut [(''type'', StringOut ''message_start''),
                 (''message'', raw_map_out shown)])
           in map_option (\<lambda>acc.
                append_event
                  (append_event acc (MapOut [(''type'', StringOut ''message_delta''),
                     (''delta'', MapOut [(''stop_reason'', RawOut (raw_at message ''stop_reason'')),
                        (''stop_sequence'', RawOut (raw_at message ''stop_sequence''))]),
                     (''usage'', RawOut (raw_at message ''usage''))]))
                  (MapOut [(''type'', StringOut ''message_stop'')]))
              (block_events 0 blocks acc)))"

text \<open>The empty result stands for nil.\<close>

definition TranslateNonStream ::
  "'st sdk \<Rightarrow> Format \<Rightarrow> Format \<Rightarrow> bytes \<Rightarrow> bytes \<Rightarrow> bytes \<Rightarrow> bytes \<Rightarrow> bytes" where
  "TranslateNonStream sdk from_f to_f model originalReq translatedReq raw =
     (if from_f = FormatClaude \<and> (to_f = FormatOpenAI \<or> to_f = FormatOpenAIResponse) \<and> json_Valid raw
      then (case claudeMessageEvents raw of
              None \<Rightarrow> []
            | Some events \<Rightarrow> sdk_non_stream sdk from_f to_f model originalReq translatedReq events)
      else sdk_non_stream sdk from_f to_f model originalReq translatedReq raw)"

end
