(* ===== verification/ChatRoutes.thy ===== *)
theory ChatRoutes imports Translator ApiKeyAuth begin

text \<open>
  \<open>internal/modules/chat/route\<close>: the registry from model, credential mode and client format to the
  upstream route, and the routes of the Codex models.
\<close>

type_synonym AuthMode = bytes

definition AuthModeAccessToken :: AuthMode where
  "AuthModeAccessToken = ''access_token''"

definition AuthModeAPIKey :: AuthMode where
  "AuthModeAPIKey = ''api_key''"

record Route =
  UpstreamFormat :: Format
  Endpoint :: bytes
  ForceStream :: bool
  AuthHeader :: bytes
  AuthPrefix :: bytes
  Headers :: "(bytes \<times> bytes) list"

text \<open>Nested Go maps; reading through an absent one finds nothing.\<close>

type_synonym Registry = "bytes \<rightharpoonup> (AuthMode \<rightharpoonup> (Format \<rightharpoonup> Route))"

definition NewRegistry :: Registry where
  "NewRegistry = Map.empty"

definition submap :: "('k \<rightharpoonup> ('l \<rightharpoonup> 'v)) \<Rightarrow> 'k \<Rightarrow> ('l \<rightharpoonup> 'v)" where
  "submap m k = (case m k of None \<Rightarrow> Map.empty | Some n \<Rightarrow> n)"

definition register_route :: "bytes \<Rightarrow> AuthMode \<Rightarrow> Format \<Rightarrow> Route \<Rightarrow> Registry \<Rightarrow> Registry" where
  "register_route model mode clientFormat route r =
     r(model \<mapsto> (submap r model)(mode \<mapsto> (submap (submap r model) mode)(clientFormat \<mapsto> route)))"

definition getRoute :: "Registry \<Rightarrow> bytes \<Rightarrow> AuthMode \<Rightarrow> Format \<Rightarrow> go_error + Route" where
  "getRoute r model mode clientFormat =
     (case submap (submap r model) mode clientFormat of
        None \<Rightarrow> Inl ErrUnsupported
      | Some route \<Rightarrow> Inr route)"

definition route_models :: "bytes list" where
  "route_models = [''gpt-6-astra'', ''gpt-5.6-sol'', ''gpt-5.6-terra'', ''gpt-5.6-luna'', ''gpt-5.5'',
     ''gpt-5.3-codex-spark'']"

definition client_formats :: "Format list" where
  "client_formats = [FormatClaude, FormatOpenAIResponse, FormatOpenAI]"

definition codex_route :: Route where
  "codex_route = \<lparr>UpstreamFormat = FormatCodex, Endpoint = ''https://chatgpt.com/backend-api/codex/responses'',
     ForceStream = True, AuthHeader = ''Authorization'', AuthPrefix = ''Bearer '', Headers = []\<rparr>"

definition defaultRegistry :: Registry where
  "defaultRegistry = foldl (\<lambda>r model. foldl (\<lambda>r clientFormat.
     register_route model AuthModeAccessToken clientFormat codex_route r) r client_formats)
     NewRegistry route_models"

definition GetRoute :: "bytes \<Rightarrow> AuthMode \<Rightarrow> Format \<Rightarrow> go_error + Route" where
  "GetRoute model mode clientFormat = getRoute defaultRegistry model mode clientFormat"

section \<open>Facts\<close>

text \<open>The route registry, keyed by model, mode and format.\<close>

definition find_route :: "Registry \<Rightarrow> bytes \<times> AuthMode \<times> Format \<Rightarrow> Route option" where
  "find_route r k = (case k of (model, mode, clientFormat) \<Rightarrow> submap (submap r model) mode clientFormat)"

definition add_route :: "bytes \<times> AuthMode \<times> Format \<Rightarrow> Route \<Rightarrow> Registry \<Rightarrow> Registry" where
  "add_route k route r = (case k of (model, mode, clientFormat) \<Rightarrow> register_route model mode clientFormat route r)"

interpretation routes: registry find_route add_route NewRegistry
  by unfold_locales
    (auto simp: find_route_def add_route_def register_route_def NewRegistry_def submap_def
      split: option.splits prod.splits if_splits)

lemma getRoute_find: "getRoute r model mode f =
    (case find_route r (model, mode, f) of None \<Rightarrow> Inl ErrUnsupported | Some route \<Rightarrow> Inr route)"
  by (simp add: getRoute_def find_route_def)

lemma defaultRegistry_add_all:
  "defaultRegistry = routes.add_all
     [((model, AuthModeAccessToken, f), codex_route). model \<leftarrow> route_models, f \<leftarrow> client_formats] NewRegistry"
  by (simp add: defaultRegistry_def routes.add_all_def add_route_def route_models_def client_formats_def)

lemma GetRoute_eq:
  "GetRoute model mode f =
     (if model \<in> set route_models \<and> mode = AuthModeAccessToken \<and> f \<in> set client_formats
      then Inr codex_route else Inl ErrUnsupported)"
proof -
  let ?es = "[((model, AuthModeAccessToken, f), codex_route). model \<leftarrow> route_models, f \<leftarrow> client_formats]"
  have "find_route defaultRegistry (model, mode, f) =
      (if (model, mode, f) \<in> fst ` set ?es then Some codex_route else None)"
    unfolding defaultRegistry_add_all by (rule routes.find_registered) auto
  moreover have "(model, mode, f) \<in> fst ` set ?es \<longleftrightarrow>
      model \<in> set route_models \<and> mode = AuthModeAccessToken \<and> f \<in> set client_formats"
    by (auto simp: image_iff)
  ultimately show ?thesis by (simp add: GetRoute_def getRoute_find)
qed

end
