(* ===== verification/ChatService.thy ===== *)
theory ChatService imports ChatRoutes Directory Http begin

text \<open>
  \<open>internal/modules/chat\<close>: the service that routes, translates and frames chat requests, the
  aggregation of a stream into one response (\<open>service.go\<close>), and the HTTP handler (\<open>handler.go\<close>).
\<close>

section \<open>Streaming\<close>

definition blank_line :: bytes where
  "blank_line = [newline, newline]"

text \<open>How an event of the SDK goes to the client; the empty event stays empty and is dropped.\<close>

definition frame_event :: "Format \<Rightarrow> bytes \<Rightarrow> bytes" where
  "frame_event client event =
     (if event = [] then []
      else if client = FormatOpenAI then ''data: '' @ event @ blank_line
      else if \<not> HasSuffix event blank_line
        then TrimRightSet [CHR 0x0D, newline] event @ blank_line
      else event)"

text \<open>
  The events of a sequence of lines from the upstream server: line by line with its line end
  restored when nothing is translated, otherwise what the translator makes of each non-empty
  line, with the state it threads through.
\<close>

fun chunk_events ::
  "'st sdk \<Rightarrow> Format \<Rightarrow> Format \<Rightarrow> bytes \<Rightarrow> bytes \<Rightarrow> bytes \<Rightarrow> 'st option \<Rightarrow> bytes list \<Rightarrow> bytes list" where
  "chunk_events sdk client up model body reqbody st [] = []"
| "chunk_events sdk client up model body reqbody st (content # chunks) =
     (if client = up
      then (content @ [newline]) # chunk_events sdk client up model body reqbody st chunks
      else if content = [] then chunk_events sdk client up model body reqbody st chunks
      else let (events, st') = TranslateStream sdk up client model body reqbody content st in
        filter (\<lambda>e. e \<noteq> []) (map (frame_event client) events)
          @ chunk_events sdk client up model body reqbody st' chunks)"

definition done_event :: bytes where
  "done_event = ''data: [DONE]'' @ blank_line"

text \<open>An upstream stream: the call fails, or gives lines and ends, with \<open>None\<close> for \<open>io.EOF\<close>.\<close>

type_synonym upstream_stream = "go_error + bytes list \<times> go_error option"

record Chat_Credential =
  Mode :: AuthMode
  Secret :: bytes

definition chatStream :: "(ChatRequest \<Rightarrow> 'r) \<Rightarrow> bytes \<Rightarrow> Chat_Credential \<Rightarrow> Route \<Rightarrow> 'r" where
  "chatStream rpc body credential route =
     rpc (chat_request body (Secret credential) (Mode credential) (Endpoint route)
       (AuthHeader route) (AuthPrefix route) (Headers route))"

text \<open>What the goroutine of \<open>ChatStream\<close> sends: the events in order, and at last an error or none.\<close>

definition ChatStreamEvents ::
  "'st sdk \<Rightarrow> (ChatRequest \<Rightarrow> upstream_stream) \<Rightarrow> bytes \<Rightarrow> Chat_Credential \<Rightarrow> Format \<Rightarrow> bytes
    \<Rightarrow> bytes list \<times> go_error option" where
  "ChatStreamEvents sdk rpc body credential client model =
     (case GetRoute model (Mode credential) client of
        Inl e \<Rightarrow> ([], Some e)
      | Inr route \<Rightarrow>
          let up = UpstreamFormat route; reqbody = TranslateRequest sdk client up model body True in
          (case chatStream rpc reqbody credential route of
             Inl e \<Rightarrow> ([], Some e)
           | Inr (chunks, ending) \<Rightarrow>
               let events = chunk_events sdk client up model body reqbody None chunks in
               (case ending of
                  None \<Rightarrow> (events @ (if client = FormatOpenAI \<and> up = FormatCodex then [done_event] else []), None)
                | Some e \<Rightarrow> (events, Some e))))"

section \<open>Aggregation\<close>

text \<open>The lines of the event being read, and the finished output items by index, each index once.\<close>

record aggregate =
  ag_data :: "bytes list"
  ag_items :: "(int \<times> bytes) list"

definition put_item :: "int \<Rightarrow> bytes \<Rightarrow> (int \<times> bytes) list \<Rightarrow> (int \<times> bytes) list" where
  "put_item i item items = (i, item) # filter (\<lambda>e. fst e \<noteq> i) items"

text \<open>The items from index \<open>i\<close> on, \<open>n\<close> of them; none when one is missing.\<close>

fun collect_items :: "(int \<times> bytes) list \<Rightarrow> nat \<Rightarrow> nat \<Rightarrow> bytes list option" where
  "collect_items items i 0 = Some []"
| "collect_items items i (Suc n) = (case map_of items (int i) of
       None \<Rightarrow> None
     | Some item \<Rightarrow> map_option ((#) item) (collect_items items (Suc i) n))"

text \<open>
  The final response: its own output if that is a non-empty array, or an empty one and no items
  were collected; otherwise the collected items.
\<close>

definition final_response :: "(bytes \<times> bytes) list \<Rightarrow> (int \<times> bytes) list \<Rightarrow> go_error + (bytes \<times> bytes) list" where
  "final_response response items =
     (let output = lookup_last ''output'' response;
          finalItems = (case output of None \<Rightarrow> Some [] | Some raw \<Rightarrow> json_elems raw) in
      case finalItems of
        None \<Rightarrow> Inl (Status Internal ''invalid final output'')
      | Some es \<Rightarrow>
          if output = None \<or> es = [] \<and> 0 < length items then
            (case collect_items items 0 (length items) of
               None \<Rightarrow> Inl (Status Internal ''incomplete output items'')
             | Some [] \<Rightarrow> Inl (Status Internal ''missing final output'')
             | Some list \<Rightarrow> Inr (response @ [(''output'', marshal (ListOut (map RawOut list)))]))
          else Inr response)"

text \<open>
  One event: an error, the final document, or nothing yet. The event is dropped in any case.
\<close>

definition consume_event ::
  "bytes \<Rightarrow> (int \<times> bytes) list \<Rightarrow> go_error + bytes option \<times> (int \<times> bytes) list" where
  "consume_event raw items = (case struct_members raw of
       None \<Rightarrow> Inl (Status Internal ''invalid upstream stream event'')
     | Some ms \<Rightarrow>
         let (kind, ok1) = string_field ''type'' ms; (response, ok2) = map_field ''response'' ms;
             (index, ok3) = int_field ''output_index'' ms; item = raw_field ''item'' ms in
         if \<not> (ok1 \<and> ok2 \<and> ok3) then Inl (Status Internal ''invalid upstream stream event'')
         else if kind = ''response.failed'' \<or> kind = ''error''
           then Inl (Status Internal ''upstream generation failed'')
         else if kind = ''response.output_item.done'' then
           (if index < 0 \<or> \<not> json_Valid item then Inl (Status Internal ''invalid output item'')
            else Inr (None, put_item index item items))
         else if kind = ''response.completed'' \<or> kind = ''response.incomplete'' then
           (case response of
              None \<Rightarrow> Inl (Status Internal ''missing final response'')
            | Some es \<Rightarrow> map_sum id (\<lambda>es. (Some (marshal (StructOut
                 [(''type'', StringOut kind), (''response'', raw_map_out es)])), items))
                (final_response es items))
         else Inr (None, items))"

definition consume :: "aggregate \<Rightarrow> go_error + bytes option \<times> aggregate" where
  "consume ag =
     (if ag_data ag = [] then Inr (None, ag)
      else map_sum id (\<lambda>(r, items). (r, \<lparr>ag_data = [], ag_items = items\<rparr>))
        (consume_event (Join (ag_data ag) [newline]) (ag_items ag)))"

fun aggregate_lines :: "bytes list \<Rightarrow> go_error option \<Rightarrow> aggregate \<Rightarrow> go_error + bytes" where
  "aggregate_lines [] (Some e) ag = Inl e"
| "aggregate_lines [] None ag = (case consume ag of
       Inl e \<Rightarrow> Inl e
     | Inr (Some result, _) \<Rightarrow> Inr result
     | Inr (None, _) \<Rightarrow> Inl (Status Unavailable ''upstream stream ended before final response''))"
| "aggregate_lines (content # chunks) ending ag =
     (if content = [] then (case consume ag of
          Inl e \<Rightarrow> Inl e
        | Inr (Some result, _) \<Rightarrow> Inr result
        | Inr (None, ag') \<Rightarrow> aggregate_lines chunks ending ag')
      else if HasPrefix content ''data:''
        then aggregate_lines chunks ending
          (ag\<lparr>ag_data := ag_data ag @ [TrimPrefix (TrimPrefix content ''data:'') '' '']\<rparr>)
      else aggregate_lines chunks ending ag)"

definition streamtoNonStream :: "bytes list \<times> go_error option \<Rightarrow> go_error + bytes" where
  "streamtoNonStream stream = aggregate_lines (fst stream) (snd stream) \<lparr>ag_data = [], ag_items = []\<rparr>"

section \<open>Requests without streaming\<close>

text \<open>The body with its field \<open>stream\<close> set to what the upstream is asked for.\<close>

definition set_stream :: "bool \<Rightarrow> bytes \<Rightarrow> bytes option" where
  "set_stream force reqbody = (case document reqbody of
       None \<Rightarrow> None
     | Some raw \<Rightarrow> map_option (\<lambda>ms.
         marshal (raw_map_out (ms @ [(''stream'', if force then ''true'' else ''false'')]))) (json_members raw))"

definition response_field :: "bytes \<Rightarrow> bytes" where
  "response_field raw = (case struct_members raw of None \<Rightarrow> [] | Some ms \<Rightarrow> raw_field ''response'' ms)"

definition object_document :: "bytes \<Rightarrow> bool" where
  "object_document raw \<longleftrightarrow> json_Valid raw \<and> HasPrefix (TrimSpace raw) ''{''"

definition ChatServiceNonStream ::
  "'st sdk \<Rightarrow> (ChatRequest \<Rightarrow> upstream_stream) \<Rightarrow> (ChatRequest \<Rightarrow> go_error + bytes option)
    \<Rightarrow> bytes \<Rightarrow> Chat_Credential \<Rightarrow> Format \<Rightarrow> bytes \<Rightarrow> go_error + bytes" where
  "ChatServiceNonStream sdk rpc_stream rpc_unary body credential client model =
     (case GetRoute model (Mode credential) client of
        Inl e \<Rightarrow> Inl e
      | Inr route \<Rightarrow>
          let up = UpstreamFormat route; force = ForceStream route in
          if force \<and> up \<noteq> FormatCodex \<and> up \<noteq> FormatOpenAIResponse
            then Inl (Status InvalidArgument ''stream aggregation is unsupported for this upstream format'')
          else (case set_stream force (TranslateRequest sdk client up model body force) of
              None \<Rightarrow> Inl (Status InvalidArgument ''invalid request JSON'')
            | Some reqbody \<Rightarrow>
                let raw = (if force
                  then (case chatStream rpc_stream reqbody credential route of
                      Inl e \<Rightarrow> Inl e
                    | Inr stream \<Rightarrow> map_sum id (\<lambda>raw. if up = FormatOpenAIResponse then response_field raw else raw)
                        (streamtoNonStream stream))
                  else dir_ChatNonStream (chatStream rpc_unary reqbody credential route)) in
                (case raw of
                   Inl e \<Rightarrow> Inl e
                 | Inr raw \<Rightarrow>
                     let raw = (if client \<noteq> up then TranslateNonStream sdk up client model body reqbody raw
                                else raw) in
                     if \<not> object_document raw then Inl (Status Internal ''invalid translated response'')
                     else Inr raw)))"

end
