(* ===== verification/ChatHandler.thy ===== *)
theory ChatHandler imports ChatService begin

text \<open>
  The HTTP handler of chat requests (\<open>internal/modules/chat/handler.go\<close>): errors before the first
  byte become JSON replies, later ones an event in the format of the client.
\<close>

text \<open>
  What the handler writes: a reply of the API, an event stream with its pieces in order, or a
  JSON document. A stream without a piece has written nothing at all.
\<close>

datatype chat_out = ChatReply "unit reply" | EventStream "bytes list" | JsonDocument bytes

definition chat_http_status :: "go_error \<Rightarrow> nat" where
  "chat_http_status err =
     (if errors_Is err ErrUnsupported then 400
      else case status_Code err of
        InvalidArgument \<Rightarrow> 400
      | Unauthenticated \<Rightarrow> 401
      | PermissionDenied \<Rightarrow> 403
      | ResourceExhausted \<Rightarrow> 429
      | Unavailable \<Rightarrow> 503
      | DeadlineExceeded \<Rightarrow> 504
      | _ \<Rightarrow> 502)"

text \<open>The same table for a request that is not a stream: the handler writes its switch out a second time.\<close>

definition chat_http_status_unary :: "go_error \<Rightarrow> nat" where
  "chat_http_status_unary err =
     (if errors_Is err ErrUnsupported then 400
      else case status_Code err of
        InvalidArgument \<Rightarrow> 400
      | Unauthenticated \<Rightarrow> 401
      | PermissionDenied \<Rightarrow> 403
      | ResourceExhausted \<Rightarrow> 429
      | Unavailable \<Rightarrow> 503
      | DeadlineExceeded \<Rightarrow> 504
      | _ \<Rightarrow> 502)"

definition error_payload :: "Format \<Rightarrow> json_out" where
  "error_payload client =
     (if client = FormatOpenAIResponse then
        MapOut [(''type'', StringOut ''error''), (''code'', StringOut ''server_error''),
          (''message'', StringOut ''upstream stream failed''), (''param'', NullOut)]
      else MapOut ([(''error'', MapOut [(''type'', StringOut ''api_error''),
             (''message'', StringOut ''upstream stream failed'')])]
        @ (if client = FormatClaude then [(''type'', StringOut ''error'')] else [])))"

text \<open>The pieces written for an error after the stream has started.\<close>

definition error_pieces :: "Format \<Rightarrow> bytes list" where
  "error_pieces client =
     (if client \<noteq> FormatOpenAI then [''event: error'' @ [newline]] else [])
     @ [''data: '' @ marshal (error_payload client) @ blank_line]"

text \<open>The response to events and a final error received in order.\<close>

definition stream_out :: "Format \<Rightarrow> bytes list \<Rightarrow> go_error option \<Rightarrow> chat_out" where
  "stream_out client events err =
     (let written = filter (\<lambda>e. e \<noteq> []) events in
      case err of
        None \<Rightarrow> EventStream written
      | Some e \<Rightarrow>
          if written = []
            then ChatReply (Error (chat_http_status e) (chat_http_status e) ''chat stream failed'')
          else EventStream (written @ error_pieces client))"

definition credential_status :: "go_error \<Rightarrow> nat" where
  "credential_status e =
     (if errors_Is e ErrOauthForbidden then 403
      else if errors_Is e ErrCredentialUnavailable then 503 else 500)"

text \<open>The request body: the model and whether the client wants a stream.\<close>

definition bind_chat :: "bytes \<Rightarrow> (bytes \<times> bool) option" where
  "bind_chat body = (case struct_members body of
       None \<Rightarrow> None
     | Some ms \<Rightarrow>
         let (model, ok1) = string_field ''model'' ms; (stream, ok2) = bool_field ''stream'' ms in
         if \<not> (ok1 \<and> ok2) \<or> TrimSpace model = [] then None else Some (model, stream))"

text \<open>
  \<open>Chat\<close> for a client that stays connected; the parameters are those of its parts. \<open>accounts\<close> is
  what \<open>ApikeyFilter\<close> put into the context.
\<close>

definition Chat ::
  "'st sdk \<Rightarrow> (ChatRequest \<Rightarrow> upstream_stream) \<Rightarrow> (ChatRequest \<Rightarrow> go_error + bytes option)
    \<Rightarrow> go_error option \<Rightarrow> (bytes \<Rightarrow> bytes option) \<Rightarrow> time \<Rightarrow> ApikeyAccountItem list
    \<Rightarrow> go_error + bytes \<Rightarrow> Format \<Rightarrow> chat_out" where
  "Chat sdk rpc_stream rpc_unary ctx_err decrypt now accounts body client =
     (case body of
        Inl _ \<Rightarrow> ChatReply (Error 400 400 ''invalid request body'')
      | Inr body \<Rightarrow>
      (case bind_chat body of
         None \<Rightarrow> ChatReply (Error 400 400 ''invalid chat request'')
       | Some (model, stream) \<Rightarrow>
      (case getCredential ctx_err decrypt now accounts of
         Inl e \<Rightarrow> ChatReply (Error (credential_status e) (credential_status e * 100)
                    ''unable to obtain upstream credential'')
       | Inr selected \<Rightarrow>
           let credential = \<lparr>Mode = cred_Mode selected, Secret = cred_Secret selected\<rparr> in
           if stream
           then (let (events, err) = ChatStreamEvents sdk rpc_stream body credential client model
                 in stream_out client events err)
           else (case ChatServiceNonStream sdk rpc_stream rpc_unary body credential client model of
               Inl e \<Rightarrow> ChatReply (Error (chat_http_status_unary e) (chat_http_status_unary e) ''chat request failed'')
             | Inr raw \<Rightarrow> JsonDocument raw))))"

section \<open>The two goroutines\<close>

text \<open>
  The stream as it runs: the producer sends its events over an unbuffered channel and then leaves
  its loop, puts a final error into a channel with one place, and closes the error channel and
  then the other; the consumer selects between the request's context and the two channels until
  it has seen both closed. A cancelled request makes the producer leave, at a send without an
  error or at a receive with the error of the call, also at the receive after the last event, and
  the consumer leave at any time; a failed write of an event or of the error stops the consumer,
  whose return cancels the request. An upstream that sends nothing more without ending its
  stream is not a state of its own: it is the producer at its receive.
\<close>

datatype consumer = Reading | Finished chat_out | Aborted

record relay =
  todo :: "bytes list"
  ended :: bool
  final :: "go_error option"
  buffered :: "go_error option"
  err_closed :: bool
  resp_closed :: bool
  err_seen_closed :: bool
  resp_seen_closed :: bool
  written :: "bytes list"
  cancelled :: bool
  consumer :: consumer

definition relay_start :: "bytes list \<Rightarrow> go_error option \<Rightarrow> relay" where
  "relay_start events err =
     \<lparr>todo = events, ended = False, final = err, buffered = None, err_closed = False, resp_closed = False,
      err_seen_closed = False, resp_seen_closed = False, written = [], cancelled = False,
      consumer = Reading\<rparr>"

inductive relay_step :: "Format \<Rightarrow> relay \<Rightarrow> relay \<Rightarrow> bool" for client where
  deliver: "todo s = e # es \<Longrightarrow> consumer s = Reading \<Longrightarrow> \<not> resp_seen_closed s \<Longrightarrow>
    relay_step client s (s\<lparr>todo := es, written := (if e = [] then written s else written s @ [e])\<rparr>)"
| leave: "todo s = [] \<Longrightarrow> \<not> ended s \<Longrightarrow> relay_step client s (s\<lparr>ended := True\<rparr>)"
| put_error: "ended s \<Longrightarrow> final s = Some e \<Longrightarrow> \<not> err_closed s \<Longrightarrow>
    relay_step client s (s\<lparr>final := None, buffered := Some e\<rparr>)"
| close_err: "ended s \<Longrightarrow> final s = None \<Longrightarrow> \<not> err_closed s \<Longrightarrow>
    relay_step client s (s\<lparr>err_closed := True\<rparr>)"
| close_resp: "err_closed s \<Longrightarrow> \<not> resp_closed s \<Longrightarrow> relay_step client s (s\<lparr>resp_closed := True\<rparr>)"
| read_error: "buffered s = Some e \<Longrightarrow> consumer s = Reading \<Longrightarrow> \<not> err_seen_closed s \<Longrightarrow>
    relay_step client s (s\<lparr>buffered := None, consumer := Finished (stream_out client (written s) (Some e))\<rparr>)"
| see_err_closed: "buffered s = None \<Longrightarrow> err_closed s \<Longrightarrow> consumer s = Reading \<Longrightarrow> \<not> err_seen_closed s \<Longrightarrow>
    relay_step client s (s\<lparr>err_seen_closed := True\<rparr>)"
| see_resp_closed: "resp_closed s \<Longrightarrow> consumer s = Reading \<Longrightarrow> \<not> resp_seen_closed s \<Longrightarrow>
    relay_step client s (s\<lparr>resp_seen_closed := True\<rparr>)"
| finish: "err_seen_closed s \<Longrightarrow> resp_seen_closed s \<Longrightarrow> consumer s = Reading \<Longrightarrow>
    relay_step client s (s\<lparr>consumer := Finished (stream_out client (written s) None)\<rparr>)"
| cancel: "\<not> cancelled s \<Longrightarrow> relay_step client s (s\<lparr>cancelled := True\<rparr>)"
| write_fails: "todo s = e # es \<Longrightarrow> consumer s = Reading \<Longrightarrow> \<not> resp_seen_closed s \<Longrightarrow>
    relay_step client s (s\<lparr>todo := es, cancelled := True, consumer := Aborted\<rparr>)"
| error_write_fails: "buffered s = Some e \<Longrightarrow> consumer s = Reading \<Longrightarrow> \<not> err_seen_closed s \<Longrightarrow> written s \<noteq> [] \<Longrightarrow>
    relay_step client s (s\<lparr>buffered := None, cancelled := True, consumer := Aborted\<rparr>)"
| abort: "cancelled s \<Longrightarrow> consumer s = Reading \<Longrightarrow> relay_step client s (s\<lparr>consumer := Aborted\<rparr>)"
| stop: "cancelled s \<Longrightarrow> \<not> ended s \<Longrightarrow> relay_step client s (s\<lparr>todo := [], final := r, ended := True\<rparr>)"

inductive_simps relay_step_iff: "relay_step client s s'"

text \<open>
  What holds in every reachable state. What has been written is a part of the events from the
  start, and the rest is still to come unless the request was cancelled; without a cancellation
  the error is on its way or in its place until the consumer has taken it.
\<close>

definition relay_order :: "bytes list \<Rightarrow> relay \<Rightarrow> bool" where
  "relay_order events s \<longleftrightarrow> (\<exists>sent rest. events = sent @ rest \<and> written s = filter (\<lambda>e. e \<noteq> []) sent
     \<and> (todo s = rest \<or> cancelled s \<and> (todo s = [] \<or> consumer s = Aborted)))"

definition relay_closing :: "relay \<Rightarrow> bool" where
  "relay_closing s \<longleftrightarrow> (err_closed s \<longrightarrow> ended s \<and> final s = None)
     \<and> (buffered s \<noteq> None \<longrightarrow> ended s \<and> final s = None) \<and> (ended s \<longrightarrow> todo s = [])
     \<and> (resp_closed s \<longrightarrow> err_closed s) \<and> (resp_seen_closed s \<longrightarrow> resp_closed s)
     \<and> (err_seen_closed s \<longrightarrow> err_closed s \<and> buffered s = None)
     \<and> (consumer s = Aborted \<longrightarrow> cancelled s)"

definition relay_error :: "go_error option \<Rightarrow> relay \<Rightarrow> bool" where
  "relay_error err s \<longleftrightarrow> cancelled s \<or>
     (case err of
        None \<Rightarrow> final s = None \<and> buffered s = None
      | Some e \<Rightarrow> \<not> err_seen_closed s
          \<and> (final s = Some e \<or> final s = None \<and> (buffered s = Some e \<or> buffered s = None \<and> consumer s \<noteq> Reading)))"

definition relay_result :: "Format \<Rightarrow> bytes list \<Rightarrow> go_error option \<Rightarrow> relay \<Rightarrow> bool" where
  "relay_result client events err s \<longleftrightarrow> cancelled s \<or>
     (\<forall>out. consumer s = Finished out \<longrightarrow> todo s = [] \<and> out = stream_out client events err)"

definition relay_inv :: "Format \<Rightarrow> bytes list \<Rightarrow> go_error option \<Rightarrow> relay \<Rightarrow> bool" where
  "relay_inv client events err s \<longleftrightarrow> relay_order events s \<and> relay_closing s \<and> relay_error err s
     \<and> relay_result client events err s"

lemma stream_out_filter: "stream_out client (filter (\<lambda>e. e \<noteq> []) events) err = stream_out client events err"
  by (simp add: stream_out_def)

lemma relay_inv_start: "relay_inv client events err (relay_start events err)"
  by (auto simp: relay_inv_def relay_order_def relay_closing_def relay_error_def relay_result_def
      relay_start_def split: option.splits)

lemma relay_order_step:
  assumes "relay_step client s s'" and "relay_order events s" and "relay_closing s"
  shows "relay_order events s'"
proof -
  from assms(2) obtain sent rest where o: "events = sent @ rest" "written s = filter (\<lambda>e. e \<noteq> []) sent"
    "todo s = rest \<or> cancelled s \<and> (todo s = [] \<or> consumer s = Aborted)"
    by (auto simp: relay_order_def)
  from assms(1) show ?thesis
  proof cases
    case (deliver e es)
    with o have "rest = e # es" by auto
    with o deliver show ?thesis
      by - (unfold relay_order_def, rule exI [of _ "sent @ [e]"], rule exI [of _ es], auto)
  qed (use o in \<open>auto simp: relay_order_def\<close>)
qed

lemma relay_closing_step:
  "relay_step client s s' \<Longrightarrow> relay_closing s \<Longrightarrow> relay_closing s'"
  by (induction rule: relay_step.cases) (auto simp: relay_closing_def)

lemma relay_error_step:
  "relay_step client s s' \<Longrightarrow> relay_closing s \<Longrightarrow> relay_error err s \<Longrightarrow> relay_error err s'"
  by (induction rule: relay_step.cases) (auto simp: relay_error_def relay_closing_def split: option.splits)

lemma relay_result_step:
  assumes "relay_step client s s'" and "relay_order events s" and "relay_closing s"
    and "relay_error err s" and "relay_result client events err s"
  shows "relay_result client events err s'"
proof (cases "cancelled s")
  case False
  have sent: "todo s = [] \<Longrightarrow> stream_out client (written s) r = stream_out client events r" for r
    using assms(2) False by (auto simp: relay_order_def stream_out_filter)
  from assms(1) show ?thesis
  proof cases
    case (read_error e)
    moreover have "err = Some e" "todo s = []"
      using assms(3,4) read_error False by (auto simp: relay_error_def relay_closing_def split: option.splits)
    ultimately show ?thesis using sent by (auto simp: relay_result_def)
  next
    case finish
    moreover have "err = None" "todo s = []"
      using assms(3,4) finish False by (auto simp: relay_error_def relay_closing_def split: option.splits)
    ultimately show ?thesis using sent by (auto simp: relay_result_def)
  qed (use assms(5) False in \<open>auto simp: relay_result_def\<close>)
next
  case True
  with assms(1) have "cancelled s'" by cases auto
  then show ?thesis by (simp add: relay_result_def)
qed

lemma relay_inv_step: "relay_step client s s' \<Longrightarrow> relay_inv client events err s \<Longrightarrow> relay_inv client events err s'"
  using relay_order_step relay_closing_step relay_error_step relay_result_step
  unfolding relay_inv_def by metis

lemma relay_inv_reachable:
  assumes "(relay_step client)\<^sup>*\<^sup>* (relay_start events err) s"
  shows "relay_inv client events err s"
  using assms by (induction rule: rtranclp_induct) (auto intro: relay_inv_start relay_inv_step)

section \<open>The relay neither blocks nor runs on\<close>

definition relay_size :: "relay \<Rightarrow> nat" where
  "relay_size s = 4 * length (todo s) + 3 * of_bool (\<not> ended s) + 2 * of_bool (final s \<noteq> None)
     + of_bool (buffered s \<noteq> None)
     + of_bool (\<not> err_closed s) + of_bool (\<not> resp_closed s) + of_bool (\<not> err_seen_closed s)
     + of_bool (\<not> resp_seen_closed s) + of_bool (consumer s = Reading) + of_bool (\<not> cancelled s)"

lemma relay_step_smaller: "relay_step client s s' \<Longrightarrow> relay_size s' < relay_size s"
  by (induction rule: relay_step.cases) (auto simp: relay_size_def)

text \<open>
  Both goroutines have returned: the producer has closed its channels, the consumer reads no
  more. Until then one of them has a step that leaves the request as it is and loses nothing, and
  after a cancellation one that needs neither the client nor the upstream.
\<close>

definition relay_over :: "relay \<Rightarrow> bool" where
  "relay_over s \<longleftrightarrow> err_closed s \<and> resp_closed s \<and> consumer s \<noteq> Reading"

lemma producer_progress:
  assumes "relay_closing s" and "\<not> resp_closed s" and "todo s = []"
  shows "\<exists>s'. relay_step client s s' \<and> cancelled s' = cancelled s \<and> consumer s' = consumer s \<and> written s' = written s"
proof -
  have go: "relay_step client s s' \<Longrightarrow> cancelled s' = cancelled s \<Longrightarrow> consumer s' = consumer s \<Longrightarrow>
      written s' = written s \<Longrightarrow> ?thesis" for s'
    by blast
  consider "\<not> ended s" | e where "ended s" "final s = Some e" "\<not> err_closed s"
    | "ended s" "final s = None" "\<not> err_closed s" | "err_closed s"
    using assms(1) by (cases "final s") (auto simp: relay_closing_def)
  then show ?thesis
  proof cases
    case 1
    show ?thesis by (rule go [OF relay_step.leave [OF assms(3) 1]]) simp_all
  next
    case (2 e)
    show ?thesis by (rule go [OF relay_step.put_error [OF 2]]) simp_all
  next
    case 3
    show ?thesis by (rule go [OF relay_step.close_err [OF 3]]) simp_all
  next
    case 4
    show ?thesis by (rule go [OF relay_step.close_resp [OF 4 assms(2)]]) simp_all
  qed
qed

lemma consumer_progress:
  assumes "relay_closing s" and "consumer s = Reading" and "resp_closed s"
  shows "\<exists>s'. relay_step client s s' \<and> cancelled s' = cancelled s"
proof -
  have go: "relay_step client s s' \<Longrightarrow> cancelled s' = cancelled s \<Longrightarrow> ?thesis" for s'
    by blast
  consider e where "buffered s = Some e" | "buffered s = None" "\<not> err_seen_closed s"
    | "err_seen_closed s" "\<not> resp_seen_closed s" | "err_seen_closed s" "resp_seen_closed s"
    by (cases "buffered s") auto
  then show ?thesis
  proof cases
    case (1 e)
    then have "\<not> err_seen_closed s" using assms(1) by (auto simp: relay_closing_def)
    then show ?thesis by (rule go [OF relay_step.read_error [OF 1 assms(2)]]) simp
  next
    case 2
    have "err_closed s" using assms(1,3) by (simp add: relay_closing_def)
    from relay_step.see_err_closed [OF 2(1) this assms(2) 2(2)] show ?thesis by (rule go) simp
  next
    case 3
    show ?thesis by (rule go [OF relay_step.see_resp_closed [OF assms(3,2) 3(2)]]) simp
  next
    case 4
    show ?thesis by (rule go [OF relay_step.finish [OF 4 assms(2)]]) simp
  qed
qed

lemma relay_progress:
  assumes "relay_inv client events err s" and "\<not> relay_over s"
  shows "\<exists>s'. relay_step client s s' \<and> cancelled s' = cancelled s"
proof -
  have go: "relay_step client s s' \<Longrightarrow> cancelled s' = cancelled s \<Longrightarrow> ?thesis" for s'
    by blast
  have c: "relay_closing s" using assms(1) by (simp add: relay_inv_def)
  consider "resp_closed s" | "\<not> resp_closed s" "todo s = []" | e es where "\<not> resp_closed s" "todo s = e # es"
    by (cases "todo s") auto
  then show ?thesis
  proof cases
    case 1
    with c assms(2) show ?thesis by (intro consumer_progress) (auto simp: relay_over_def relay_closing_def)
  next
    case 2
    from producer_progress [OF c this] show ?thesis by blast
  next
    case (3 e es)
    show ?thesis
    proof (cases "consumer s = Reading")
      case True
      moreover have "\<not> resp_seen_closed s" using c 3(1) by (auto simp: relay_closing_def)
      ultimately have "relay_step client s (s\<lparr>todo := es, written := (if e = [] then written s else written s @ [e])\<rparr>)"
        using 3(2) by (intro relay_step.deliver)
      then show ?thesis by (rule go) simp
    next
      case False
      then have "cancelled s"
        using assms(1) 3(2) by (cases "consumer s") (auto simp: relay_inv_def relay_result_def relay_closing_def)
      moreover have "\<not> ended s" using c 3(2) by (auto simp: relay_closing_def)
      ultimately have "relay_step client s (s\<lparr>todo := [], final := None, ended := True\<rparr>)"
        by (rule relay_step.stop)
      then show ?thesis by (rule go) simp
    qed
  qed
qed

lemma cancelled_progress:
  assumes "relay_closing s" and "cancelled s" and "\<not> relay_over s"
  shows "\<exists>s'. relay_step client s s' \<and> cancelled s' \<and> written s' = written s"
proof -
  have go: "relay_step client s s' \<Longrightarrow> cancelled s' \<Longrightarrow> written s' = written s \<Longrightarrow> ?thesis" for s'
    by blast
  consider "consumer s = Reading" | "consumer s \<noteq> Reading" "\<not> ended s" | "consumer s \<noteq> Reading" "ended s"
    by blast
  then show ?thesis
  proof cases
    case 1
    from relay_step.abort [OF assms(2) this] show ?thesis by (rule go) (simp_all add: assms(2))
  next
    case 2
    from relay_step.stop [OF assms(2) 2(2)] show ?thesis by (rule go) (simp_all add: assms(2))
  next
    case 3
    with assms have "todo s = []" "\<not> resp_closed s" by (auto simp: relay_over_def relay_closing_def)
    from producer_progress [OF assms(1) this(2,1)] show ?thesis using assms(2) by metis
  qed
qed

end
