(* ===== verification/ChatProps.thy ===== *)
theory ChatProps imports ChatHandler ApiKeyHttp ApiKeyProps begin

text \<open>
  The properties of the path of a chat request through the API: from the filter over the routes,
  the credential and the upstream server to what the client receives. With witnesses.
\<close>

section \<open>Routes\<close>

text \<open>The models that authentication knows and those that can be routed are the same: a request
  finds a route exactly when its model needs a Codex account, the credential is an access token and
  the client speaks one of the three formats; a model that no checklist knows has no route in any
  mode, and every route leads to the Codex endpoint.\<close>

lemma routes_match_checklist:
  "GetRoute model mode f = Inr route \<longleftrightarrow>
     GetNeedOauth model = ''codex'' \<and> mode = ''access_token'' \<and> f \<in> {FormatClaude, FormatOpenAIResponse, FormatOpenAI}
   \<and> route = codex_route"
  by (auto simp: GetRoute_eq GetNeedOauth_eq codex_models_def route_models_def AuthModeAccessToken_def
      client_formats_def)

section \<open>Admitted requests\<close>

lemma ApikeyFilter_NextD:
  assumes "ApikeyFilter ready io sha256 now authorization (Inr body) d = Next ctx"
  shows "\<exists>scheme model. Fields authorization = [scheme, ctx_apikey ctx] \<and> EqualFold scheme ''Bearer''
    \<and> request_model body = Some model
    \<and> checkOauth ready io sha256 now (ctx_apikey ctx) model d = Inr (ctx_accounts ctx)"
proof -
  let ?p = "Fields authorization"
  from assms have l: "length ?p = 2" and e: "EqualFold (?p ! 0) ''Bearer''"
    and c: "\<exists>model accs. request_model body = Some model \<and> checkOauth ready io sha256 now (?p ! 1) model d = Inr accs
      \<and> ctx = \<lparr>ctx_apikey = ?p ! 1, ctx_accounts = accs\<rparr>"
    by (auto simp: ApikeyFilter_def Let_def split: if_splits option.splits sum.splits)
  have "?p = [?p ! 0, ?p ! 1]" using l by (auto simp: list_eq_iff_nth_eq less_2_cases_iff)
  moreover from c have "ctx_apikey ctx = ?p ! 1" by auto
  ultimately show ?thesis using e c by auto
qed

lemma bind_chat_model: "bind_chat body = Some (model, stream) \<Longrightarrow> request_model body = Some model"
  by (auto simp: bind_chat_def request_model_def Let_def split: option.splits prod.splits if_splits)

lemma getCredential_InrD:
  assumes "getCredential ctx_err decrypt now accounts = Inr c"
  shows "cred_Mode c = ''access_token'' \<and> accounts \<noteq> [] \<and> decrypt (item_AccessToken (hd accounts)) = Some (cred_Secret c)
    \<and> \<not> item_Disabled (hd accounts) \<and> item_Type (hd accounts) = ''codex''
    \<and> \<not> expired_at (item_Expired (hd accounts)) now \<and> TrimSpace (cred_Secret c) \<noteq> []"
  using assms by (auto simp: getCredential_def split: option.splits list.splits if_splits)

text \<open>The request of a stream to the upstream server.\<close>

definition codex_request :: "'st sdk \<Rightarrow> Format \<Rightarrow> bytes \<Rightarrow> bytes \<Rightarrow> bytes \<Rightarrow> ChatRequest" where
  "codex_request sdk f model body secret =
     \<lparr>chat_Data = TranslateRequest sdk f FormatCodex model body True, chat_Secret = secret,
      chat_Endpoint = ''https://chatgpt.com/backend-api/codex/responses'', chat_Authmode = ''access_token'',
      chat_AuthHeader = ''Authorization'', chat_AuthPrefix = ''Bearer '', chat_Headers = []\<rparr>"

lemma ChatStreamEvents_codex:
  assumes "model \<in> set route_models" and "f \<in> set client_formats" and "Mode c = ''access_token''"
  shows "ChatStreamEvents sdk rpc body c f model =
    (case rpc (codex_request sdk f model body (Secret c)) of
       Inl e \<Rightarrow> ([], Some e)
     | Inr (chunks, ending) \<Rightarrow>
        (chunk_events sdk f FormatCodex model body (TranslateRequest sdk f FormatCodex model body True) None chunks
           @ (if ending = None \<and> f = FormatOpenAI then [done_event] else []), ending))"
  using assms
  by (auto simp: ChatStreamEvents_def GetRoute_eq AuthModeAccessToken_def codex_route_def chatStream_def
      chat_request_def codex_request_def Let_def split: sum.splits option.splits)

text \<open>What a streaming request for a supported model does once its credential is known.\<close>

lemma Chat_stream:
  assumes "bind_chat body = Some (model, True)" and "model \<in> set codex_models"
    and "f \<in> {FormatClaude, FormatOpenAIResponse, FormatOpenAI}" and "getCredential None decrypt now accounts = Inr c"
  shows "Chat sdk rpc_stream rpc_unary None decrypt now accounts (Inr body) f =
      (case rpc_stream (codex_request sdk f model body (cred_Secret c)) of
         Inl e \<Rightarrow> stream_out f [] (Some e)
       | Inr (chunks, ending) \<Rightarrow> stream_out f
          (chunk_events sdk f FormatCodex model body (TranslateRequest sdk f FormatCodex model body True) None chunks
           @ (if ending = None \<and> f = FormatOpenAI then [done_event] else [])) ending)"
proof -
  have r: "model \<in> set route_models" using assms(2) by (simp add: codex_models_def route_models_def)
  have f: "f \<in> set client_formats" using assms(3) by (simp add: client_formats_def)
  let ?c = "\<lparr>Mode = cred_Mode c, Secret = cred_Secret c\<rparr>"
  have "ChatStreamEvents sdk rpc_stream body ?c f model =
    (case rpc_stream (codex_request sdk f model body (cred_Secret c)) of
       Inl e \<Rightarrow> ([], Some e)
     | Inr (chunks, ending) \<Rightarrow>
        (chunk_events sdk f FormatCodex model body (TranslateRequest sdk f FormatCodex model body True) None chunks
           @ (if ending = None \<and> f = FormatOpenAI then [done_event] else []), ending))"
    using ChatStreamEvents_codex [OF r f, of ?c sdk rpc_stream body] getCredential_InrD [OF assms(4)] by simp
  then show ?thesis using assms(1,4) by (simp add: Chat_def split: sum.splits prod.splits)
qed

text \<open>C22: what a streaming request that passed the filter sends: the caller presented a key that is in
  the database, enabled and not expired, and one request goes to the Codex endpoint, with the
  decrypted token of the first Codex account the key is bound to; the reply depends on nothing else.\<close>

theorem admitted_stream_request:
  assumes "ApikeyFilter True no_faults sha256 now authorization (Inr body) d = Next ctx"
    and "bind_chat body = Some (model, True)" and "db_inv d"
    and "f \<in> {FormatClaude, FormatOpenAIResponse, FormatOpenAI}"
    and "getCredential None decrypt now (ctx_accounts ctx) = Inr c"
  shows "(\<exists>k \<in> set (api_keys d). key_KeyHash k = key_hash sha256 (ctx_apikey ctx) \<and> \<not> key_Disabled k
      \<and> \<not> expired_at (key_ExpiresAt k) now
      \<and> ctx_accounts ctx = filter (\<lambda>a. \<not> item_Disabled a \<and> item_Type a = ''codex'') (accounts_of_key k d))
    \<and> decrypt (item_AccessToken (hd (ctx_accounts ctx))) = Some (cred_Secret c)
    \<and> Chat sdk rpc_stream rpc_unary None decrypt now (ctx_accounts ctx) (Inr body) f =
      (case rpc_stream (codex_request sdk f model body (cred_Secret c)) of
         Inl e \<Rightarrow> stream_out f [] (Some e)
       | Inr (chunks, ending) \<Rightarrow> stream_out f
          (chunk_events sdk f FormatCodex model body (TranslateRequest sdk f FormatCodex model body True) None chunks
           @ (if ending = None \<and> f = FormatOpenAI then [done_event] else [])) ending)"
proof -
  from ApikeyFilter_NextD [OF assms(1)] obtain m where m: "request_model body = Some m"
    and check: "checkOauth True no_faults sha256 now (ctx_apikey ctx) m d = Inr (ctx_accounts ctx)" by blast
  from m bind_chat_model [OF assms(2)] have "m = model" by simp
  with check checkOauth_iff [OF assms(3)] have
    a: "model \<in> set codex_models" and b: "\<exists>k \<in> set (api_keys d). key_KeyHash k = key_hash sha256 (ctx_apikey ctx)
      \<and> \<not> key_Disabled k \<and> \<not> expired_at (key_ExpiresAt k) now
      \<and> ctx_accounts ctx = filter (\<lambda>a. \<not> item_Disabled a \<and> item_Type a = ''codex'') (accounts_of_key k d)"
    by blast+
  with Chat_stream [OF assms(2) a assms(4,5), of sdk rpc_stream rpc_unary] getCredential_InrD [OF assms(5)]
  show ?thesis by blast
qed

definition sample_body :: bytes where
  "sample_body = ''{\"model\":\"gpt-5.5\",\"stream\":true}''"

definition sample_auth :: bytes where
  "sample_auth = ''Bearer '' @ sample_raw"

definition sample_ctx :: apikey_context where
  "sample_ctx = \<lparr>ctx_apikey = sample_raw, ctx_accounts = [item_of (sample_account 1 1 False ''acc-a'')]\<rparr>"

definition sample_sdk :: "unit sdk" where
  "sample_sdk = \<lparr>sdk_request = \<lambda>_ _ _ raw _. raw, sdk_stream = \<lambda>_ _ _ _ _ raw s. ([raw], s),
     sdk_non_stream = \<lambda>_ _ _ _ _ raw. raw\<rparr>"

lemma sample_filter:
  "ApikeyFilter True no_faults sample_sha 10 sample_auth (Inr sample_body) sample_created
     = (Next sample_ctx :: (unit, apikey_context) middleware)"
  by code_simp

lemma sample_bind: "bind_chat sample_body = Some (''gpt-5.5'', True)"
  by code_simp

lemma sample_credential: "getCredential None Some 10 (ctx_accounts sample_ctx) = Inr \<lparr>cred_Mode = ''access_token'', cred_Secret = ''token''\<rparr>"
  by code_simp

lemma admitted_stream_request_witness:
  "Chat sample_sdk (\<lambda>r. if chat_Secret r = ''token'' then Inr ([''data: a''], None) else Inl ContextCanceled)
     (\<lambda>_. Inl ContextCanceled) None Some 10 (ctx_accounts sample_ctx) (Inr sample_body) FormatOpenAI
   = EventStream [''data: data: a'' @ blank_line, done_event]"
proof -
  note w = admitted_stream_request [OF sample_filter sample_bind sample_created_inv, of FormatOpenAI Some
    "\<lparr>cred_Mode = ''access_token'', cred_Secret = ''token''\<rparr>" sample_sdk
    "\<lambda>r. if chat_Secret r = ''token'' then Inr ([''data: a''], None) else Inl ContextCanceled" "\<lambda>_. Inl ContextCanceled"]
  from w sample_credential show ?thesis
    by (simp add: codex_request_def sample_sdk_def TranslateStream_def frame_event_def blank_line_def
        stream_out_def done_event_def newline_def)
qed

section \<open>Errors of a provider\<close>

text \<open>C23: the status of a provider's answer reaches the client of the API, through the upstream server
  and the gRPC call, as one fixed status each: errors of the request stay 400, a rejected or a
  forbidden credential stays 401 or 403, a rate limit 429; timeouts become 504, other failures of
  the provider 503, and everything else 502. No event is written before it.\<close>

theorem provider_status_to_client:
  assumes "bind_chat body = Some (model, True)" and "model \<in> set route_models"
    and "f \<in> {FormatClaude, FormatOpenAIResponse, FormatOpenAI}"
    and "getCredential None decrypt now accounts = Inr c"
    and "TrimSpace (TranslateRequest sdk f FormatCodex model body True) \<noteq> []"
    and "\<And>r. client r = Inr resp" and "resp_status resp < 200 \<or> 300 \<le> resp_status resp"
  shows "Chat sdk (\<lambda>r. Inr (ChatStream client (\<lambda>_. None) send None None (Some r))) rpc_unary None decrypt now
      accounts (Inr body) f =
    (let st = resp_status resp; code = (if st \<in> {400, 422} then 400
        else if st \<in> {401, 403, 429} then st else if st \<in> {408, 504} then 504
        else if 500 \<le> st then 503 else 502)
     in ChatReply (Error code code ''chat stream failed''))"
proof -
  note c = getCredential_InrD [OF assms(4)]
  have f: "f \<in> set client_formats" using assms(3) by (simp add: client_formats_def)
  let ?c = "\<lparr>Mode = cred_Mode c, Secret = cred_Secret c\<rparr>"
  let ?rpc = "\<lambda>r. Inr (ChatStream client (\<lambda>_. None) send None None (Some r)) :: upstream_stream"
  let ?r = "codex_request sdk f model body (cred_Secret c)"
  have blank: "TrimSpace ''Authorization'' \<noteq> []" by code_simp
  have ok: "chat_request_ok (Some ?r)"
    using assms(5) c blank by (simp add: chat_request_ok_def codex_request_def)
  have e: "ChatStream client (\<lambda>_. None) send None None (Some ?r) =
      ([], Some (Status (chatStreamErrorCode (HTTPError (resp_status resp))) ''upstream stream failed''))"
    using ok assms(6,7) by (simp add: ChatStream_def Stream_def)
  have "ChatStreamEvents sdk ?rpc body ?c f model =
      ([], Some (Status (chatStreamErrorCode (HTTPError (resp_status resp))) ''upstream stream failed''))"
    using ChatStreamEvents_codex [OF assms(2) f, of ?c sdk ?rpc body] c e by simp
  then have "Chat sdk ?rpc rpc_unary None decrypt now accounts (Inr body) f =
      stream_out f [] (Some (Status (chatStreamErrorCode (HTTPError (resp_status resp))) ''upstream stream failed''))"
    using assms(1,4) by (simp add: Chat_def)
  also have "chat_http_status (Status (chatStreamErrorCode (HTTPError (resp_status resp))) m) =
     (let st = resp_status resp in if st \<in> {400, 422} then 400
        else if st \<in> {401, 403, 429} then st else if st \<in> {408, 504} then 504
        else if 500 \<le> st then 503 else 502)" for m
    by (simp add: chat_http_status_def chatStreamErrorCode_def)
  ultimately show ?thesis by (simp add: stream_out_def Let_def)
qed

lemma provider_status_to_client_witness:
  "Chat sample_sdk (\<lambda>r. Inr (ChatStream (\<lambda>_. Inr \<lparr>resp_status = 429, resp_body = [], resp_read_error = None\<rparr>)
       (\<lambda>_. None) (\<lambda>_. None) None None (Some r))) (\<lambda>_. Inl ContextCanceled) None Some 10
     (ctx_accounts sample_ctx) (Inr sample_body) FormatClaude
   = ChatReply (Error 429 429 ''chat stream failed'')"
proof -
  have "''gpt-5.5'' \<in> set route_models" by (simp add: route_models_def)
  moreover have "FormatClaude \<in> {FormatClaude, FormatOpenAIResponse, FormatOpenAI}" by simp
  moreover have "TrimSpace (TranslateRequest sample_sdk FormatClaude FormatCodex ''gpt-5.5'' sample_body True) \<noteq> []"
    by code_simp
  ultimately show ?thesis
    using provider_status_to_client [where client = "\<lambda>_. Inr \<lparr>resp_status = 429, resp_body = [], resp_read_error = None\<rparr>"
        and resp = "\<lparr>resp_status = 429, resp_body = [], resp_read_error = None\<rparr>"
        and send = "\<lambda>_. None" and rpc_unary = "\<lambda>_. Inl ContextCanceled" and sdk = sample_sdk
        and f = FormatClaude, OF sample_bind _ _ sample_credential] by simp
qed

section \<open>Events to the client\<close>

lemma HasSuffix_append: "HasSuffix (s @ t) t"
  by (simp add: HasSuffix_def)

lemma frame_event_framed:
  "frame_event f e = [] \<or> HasSuffix (frame_event f e) blank_line
     \<and> (f = FormatOpenAI \<longrightarrow> HasPrefix (frame_event f e) ''data: '')"
proof -
  have "frame_event FormatOpenAI e = (if e = [] then [] else (''data: '' @ e) @ blank_line)"
    by (simp add: frame_event_def)
  moreover have "HasPrefix ((''data: '' @ e) @ blank_line) ''data: ''" by (simp add: HasPrefix_def)
  ultimately show ?thesis
    using HasSuffix_append [of "''data: '' @ e" blank_line] HasSuffix_append
    by (cases "f = FormatOpenAI") (simp_all add: frame_event_def)
qed

lemma chunk_events_framed:
  assumes "f \<noteq> up"
  shows "\<forall>e \<in> set (chunk_events sdk f up model body reqbody st chunks).
    e \<noteq> [] \<and> HasSuffix e blank_line \<and> (f = FormatOpenAI \<longrightarrow> HasPrefix e ''data: '')"
proof (induction chunks arbitrary: st)
  case (Cons content chunks)
  show ?case
    using Cons.IH assms frame_event_framed [of f] by (auto simp: Let_def split: prod.splits)
qed simp

text \<open>The lines of an untranslated stream reach the client byte for byte; every event of a
  translated one is non-empty, ends with a blank line and, for a client of the OpenAI format,
  starts a data field. Such a client gets the final marker exactly when the stream ended without
  an error, and then last.\<close>

theorem stream_events_framed:
  assumes "model \<in> set route_models" and "f \<in> {FormatClaude, FormatOpenAIResponse, FormatOpenAI}"
    and "Mode c = ''access_token''"
    and "ChatStreamEvents sdk rpc body c f model = (events, err)"
  shows "(\<forall>e \<in> set events. e \<noteq> [] \<and> HasSuffix e blank_line \<and> (f = FormatOpenAI \<longrightarrow> HasPrefix e ''data: ''))
    \<and> (f = FormatOpenAI \<and> err = None \<longrightarrow> events \<noteq> [] \<and> last events = done_event)
    \<and> concat (chunk_events sdk up up model body reqbody st chunks) = concat (map (\<lambda>l. l @ [newline]) chunks)"
proof -
  have f: "f \<in> set client_formats" and n: "f \<noteq> FormatCodex" using assms(2) by (auto simp: client_formats_def)
  note e = ChatStreamEvents_codex [OF assms(1) f assms(3), of sdk rpc body, unfolded assms(4)]
  have bytes: "concat (chunk_events sdk up up model body reqbody st chunks) = concat (map (\<lambda>l. l @ [newline]) chunks)"
    by (induction chunks) simp_all
  have d: "done_event \<noteq> [] \<and> HasSuffix done_event blank_line \<and> HasPrefix done_event ''data: ''"
    by code_simp
  have "(\<forall>e \<in> set events. e \<noteq> [] \<and> HasSuffix e blank_line \<and> (f = FormatOpenAI \<longrightarrow> HasPrefix e ''data: ''))
      \<and> (f = FormatOpenAI \<and> err = None \<longrightarrow> events \<noteq> [] \<and> last events = done_event)"
  proof (cases "rpc (codex_request sdk f model body (Secret c))")
    case (Inr r)
    obtain cs ending where r: "r = (cs, ending)" by (cases r)
    show ?thesis
      using e d chunk_events_framed [OF n, of sdk model body "TranslateRequest sdk f FormatCodex model body True" None cs]
      by (simp add: Inr r ball_Un)
  qed (use e in simp)
  with bytes show ?thesis by blast
qed

lemma stream_events_framed_witness:
  "\<exists>events. ChatStreamEvents sample_sdk (\<lambda>_. Inr ([''a''], None)) sample_body
       \<lparr>Mode = ''access_token'', Secret = ''s''\<rparr> FormatOpenAI ''gpt-5.5'' = (events, None) \<and> last events = done_event"
proof -
  let ?c = "\<lparr>Mode = ''access_token'', Secret = ''s''\<rparr>" and ?rpc = "\<lambda>_. Inr ([''a''], None) :: upstream_stream"
  have m: "''gpt-5.5'' \<in> set route_models" by (simp add: route_models_def)
  moreover have "FormatOpenAI \<in> set client_formats" by (simp add: client_formats_def)
  ultimately obtain events where e: "ChatStreamEvents sample_sdk ?rpc sample_body ?c FormatOpenAI ''gpt-5.5'' = (events, None)"
    using ChatStreamEvents_codex [of "''gpt-5.5''" FormatOpenAI ?c sample_sdk ?rpc sample_body] by simp
  with stream_events_framed [OF m _ _ e] show ?thesis by simp
qed

section \<open>The relay\<close>

text \<open>C25: however the two goroutines of a stream are interleaved, and even when the client leaves or a
  write fails, what has been written is, in order and unchanged, a part of the events from the
  first on; and when the handler of a request that was not cancelled finishes, it has written all
  of them, followed by the error if there was one.\<close>

theorem relay_delivers_in_order:
  assumes "(relay_step client)\<^sup>*\<^sup>* (relay_start events err) s"
  shows "(\<exists>n. written s = filter (\<lambda>e. e \<noteq> []) (take n events))
    \<and> (\<not> cancelled s \<and> consumer s = Finished out \<longrightarrow> out = stream_out client events err)"
proof -
  from relay_inv_reachable [OF assms] have o: "relay_order events s" and r: "relay_result client events err s"
    by (simp_all add: relay_inv_def)
  from o obtain sent rest where "events = sent @ rest" "written s = filter (\<lambda>e. e \<noteq> []) sent"
    by (auto simp: relay_order_def)
  then have "written s = filter (\<lambda>e. e \<noteq> []) (take (length sent) events)" by simp
  with r show ?thesis by (auto simp: relay_result_def)
qed

lemma relay_finishes:
  assumes "relay_inv client events err s" and "\<not> cancelled s"
  shows "\<exists>s'. (relay_step client)\<^sup>*\<^sup>* s s' \<and> \<not> cancelled s' \<and> consumer s' = Finished (stream_out client events err)"
  using assms
proof (induction s rule: measure_induct_rule [where f = relay_size])
  case (less s)
  show ?case
  proof (cases "consumer s")
    case Reading
    then have "\<not> relay_over s" by (simp add: relay_over_def)
    from relay_progress [OF less.prems(1) this] obtain s1 where
      s1: "relay_step client s s1" "cancelled s1 = cancelled s" by blast
    then have "\<exists>s'. (relay_step client)\<^sup>*\<^sup>* s1 s' \<and> \<not> cancelled s' \<and> consumer s' = Finished (stream_out client events err)"
      by (intro less.IH relay_step_smaller relay_inv_step [OF _ less.prems(1)]) (simp_all add: less.prems(2))
    with s1(1) show ?thesis by (meson converse_rtranclp_into_rtranclp)
  next
    case (Finished out)
    then have "consumer s = Finished (stream_out client events err)"
      using less.prems by (simp add: relay_inv_def relay_result_def)
    with less.prems(2) show ?thesis by blast
  next
    case Aborted
    then show ?thesis using less.prems by (simp add: relay_inv_def relay_closing_def)
  qed
qed

lemma relay_gives_up:
  assumes "relay_closing s" and "cancelled s"
  shows "\<exists>s'. (relay_step client)\<^sup>*\<^sup>* s s' \<and> relay_over s' \<and> written s' = written s"
  using assms
proof (induction s rule: measure_induct_rule [where f = relay_size])
  case (less s)
  show ?case
  proof (cases "relay_over s")
    case False
    from cancelled_progress [OF less.prems this] obtain s1 where
      s1: "relay_step client s s1" "cancelled s1" "written s1 = written s" by blast
    from less.IH [OF relay_step_smaller [OF s1(1)] relay_closing_step [OF s1(1) less.prems(1)] s1(2)]
    show ?thesis using s1(1,3) by (metis converse_rtranclp_into_rtranclp)
  qed auto
qed

text \<open>C26: no stream is left hanging. No sequence of steps of the two goroutines is infinite; they stop
  only where both have returned, the producer with its channels closed, whether or not the client
  left on the way, and for a request that was not cancelled the whole response has then been
  written; from every state of such a request it can still be, and once a request is cancelled
  both can return without a further event from the upstream or a further read by the client.\<close>

theorem relay_terminates:
  assumes "(relay_step client)\<^sup>*\<^sup>* (relay_start events err) s"
  shows "wfp (\<lambda>s' s. relay_step client s s')
    \<and> ((\<forall>s'. relay_step client s s' \<longrightarrow> \<not> cancelled s \<and> cancelled s')
        \<longrightarrow> err_closed s \<and> resp_closed s \<and> consumer s \<noteq> Reading
            \<and> (cancelled s \<or> consumer s = Finished (stream_out client events err)))
    \<and> (if cancelled s
       then \<exists>s'. (relay_step client)\<^sup>*\<^sup>* s s' \<and> relay_over s' \<and> written s' = written s
       else \<exists>s'. (relay_step client)\<^sup>*\<^sup>* s s' \<and> \<not> cancelled s' \<and> consumer s' = Finished (stream_out client events err))"
proof (intro conjI)
  show "wfp (\<lambda>s' s. relay_step client s s')"
    by (rule wfp_if_convertible_to_nat [where f = relay_size]) (rule relay_step_smaller)
next
  note inv = relay_inv_reachable [OF assms]
  show "(\<forall>s'. relay_step client s s' \<longrightarrow> \<not> cancelled s \<and> cancelled s')
        \<longrightarrow> err_closed s \<and> resp_closed s \<and> consumer s \<noteq> Reading
            \<and> (cancelled s \<or> consumer s = Finished (stream_out client events err))"
  proof
    assume "\<forall>s'. relay_step client s s' \<longrightarrow> \<not> cancelled s \<and> cancelled s'"
    then have over: "relay_over s" using relay_progress [OF inv] by blast
    moreover have "consumer s = Finished (stream_out client events err)" if "\<not> cancelled s"
      using inv over that
      by (cases "consumer s") (auto simp: relay_over_def relay_inv_def relay_result_def relay_closing_def)
    ultimately show "err_closed s \<and> resp_closed s \<and> consumer s \<noteq> Reading
            \<and> (cancelled s \<or> consumer s = Finished (stream_out client events err))"
      by (auto simp: relay_over_def)
  qed
  show "if cancelled s
       then \<exists>s'. (relay_step client)\<^sup>*\<^sup>* s s' \<and> relay_over s' \<and> written s' = written s
       else \<exists>s'. (relay_step client)\<^sup>*\<^sup>* s s' \<and> \<not> cancelled s' \<and> consumer s' = Finished (stream_out client events err)"
    using relay_finishes [OF inv] relay_gives_up [of s] inv by (simp add: relay_inv_def)
qed

lemma relay_started: "(relay_step client)\<^sup>*\<^sup>* (relay_start events err) (relay_start events err)"
  by simp

lemma relay_delivers_in_order_witness:
  "\<exists>s. (relay_step FormatClaude)\<^sup>*\<^sup>* (relay_start [''a''] None) s \<and> written s = [''a'']
     \<and> (\<exists>n. written s = filter (\<lambda>e. e \<noteq> []) (take n [''a'']))"
proof -
  let ?s = "(relay_start [''a''] None)\<lparr>todo := [], written := [''a'']\<rparr>"
  have "relay_step FormatClaude (relay_start [''a''] None) ?s"
    by (simp add: relay_step_iff relay_start_def)
  then have r: "(relay_step FormatClaude)\<^sup>*\<^sup>* (relay_start [''a''] None) ?s" by blast
  from relay_delivers_in_order [OF r] r show ?thesis by auto
qed

text \<open>A client that leaves before the only event is sent: the producer returns all the same.\<close>

lemma relay_terminates_witness:
  "\<exists>s s'. (relay_step FormatClaude)\<^sup>*\<^sup>* (relay_start [''a''] None) s \<and> cancelled s \<and> todo s = [''a'']
     \<and> (relay_step FormatClaude)\<^sup>*\<^sup>* s s' \<and> err_closed s' \<and> resp_closed s' \<and> written s' = []"
proof -
  let ?s = "(relay_start [''a''] None)\<lparr>cancelled := True\<rparr>"
  have "relay_step FormatClaude (relay_start [''a''] None) ?s"
    by (rule relay_step.cancel) (simp add: relay_start_def)
  then have r: "(relay_step FormatClaude)\<^sup>*\<^sup>* (relay_start [''a''] None) ?s" by blast
  from relay_terminates [OF r] obtain s' where
    "(relay_step FormatClaude)\<^sup>*\<^sup>* ?s s'" "relay_over s'" "written s' = written ?s" by auto
  with r show ?thesis
    by (intro exI [of _ ?s] exI [of _ s']) (simp add: relay_over_def relay_start_def)
qed

section \<open>Assembling a response\<close>

definition put_items :: "(int \<times> bytes) list \<Rightarrow> (int \<times> bytes) list" where
  "put_items es = foldl (\<lambda>items (i, item). put_item i item items) [] es"

lemma map_of_filter_ne: "map_of (filter (\<lambda>e. fst e \<noteq> i) xs) = (map_of xs)(i := None)"
  by (induction xs) auto

lemma put_items_snoc [simp]: "put_items (es @ [(i, x)]) = put_item i x (put_items es)"
  by (simp add: put_items_def)

lemma put_items_lookup: "map_of (put_items es) = map_of (rev es)"
proof (induction es rule: rev_induct)
  case (snoc e es)
  then show ?case by (cases e) (auto simp: put_item_def map_of_filter_ne fun_eq_iff)
qed (simp add: put_items_def)

lemma put_items_keys: "distinct (map fst (put_items es)) \<and> fst ` set (put_items es) = fst ` set es"
proof (induction es rule: rev_induct)
  case (snoc e es)
  then have "distinct (map fst (filter (\<lambda>x. fst x \<noteq> fst e) (put_items es)))"
    by (simp add: distinct_map_filter)
  with snoc show ?case by (cases e) (auto simp: put_item_def)
qed (simp add: put_items_def)

lemma length_put_items: "length (put_items es) = card (fst ` set es)"
  using put_items_keys [of es] distinct_card [of "map fst (put_items es)"] by simp

lemma collect_items_eq:
  "collect_items items i n = (if \<forall>j < n. int (i + j) \<in> fst ` set items
     then Some (map (\<lambda>j. the (map_of items (int (i + j)))) [0..<n]) else None)"
proof (induction n arbitrary: i)
  case (Suc n)
  have all: "(\<forall>j < Suc n. int (i + j) \<in> fst ` set items) \<longleftrightarrow>
      int i \<in> fst ` set items \<and> (\<forall>j < n. int (Suc i + j) \<in> fst ` set items)"
    unfolding All_less_Suc2 by simp
  show ?case
  proof (cases "map_of items (int i)")
    case None
    then have "int i \<notin> fst ` set items" by (simp add: map_of_eq_None_iff)
    then show ?thesis unfolding all using None by simp
  next
    case (Some x)
    then have "int i \<in> fst ` set items" by (metis map_of_eq_None_iff option.distinct(1))
    then show ?thesis unfolding all using Some Suc.IH [of "Suc i"]
      by (simp add: upt_conv_Cons map_Suc_upt [symmetric] add_ac del: upt_Suc map_Suc_upt)
  qed
qed simp

lemma indexes_contiguous:
  assumes "finite A"
  shows "(\<forall>j < card A. int j \<in> A) \<longleftrightarrow> (\<exists>n. A = int ` {0..<n})"
proof
  assume "\<forall>j < card A. int j \<in> A"
  then have "int ` {0..<card A} \<subseteq> A" by auto
  then have "int ` {0..<card A} = A" by (rule card_subset_eq [OF assms]) (simp add: card_image)
  then show "\<exists>n. A = int ` {0..<n}" by metis
qed (auto simp: card_image)

text \<open>C27: when the final event of a stream brings no output of its own, the response is made of the
  items received: of each index the last, in the order of the indexes, whatever the order in which
  they arrived; exactly when the indexes are those from 0 without a gap. Otherwise it is an error,
  never a response with a part of the output.\<close>

theorem output_assembled_by_index:
  assumes "lookup_last ''output'' response = None
    \<or> (\<exists>raw. lookup_last ''output'' response = Some raw \<and> json_elems raw = Some [] \<and> es \<noteq> [])"
  shows "final_response response (put_items es) =
    (if es = [] then Inl (Status Internal ''missing final output'')
     else if \<exists>n. fst ` set es = int ` {0..<n}
     then Inr (response @ [(''output'', marshal (ListOut
       (map (\<lambda>j. RawOut (the (map_of (rev es) (int j)))) [0..<card (fst ` set es)])))])
     else Inl (Status Internal ''incomplete output items''))"
proof -
  have n: "0 < length (put_items es) \<longleftrightarrow> es \<noteq> []" by (simp add: length_put_items card_gt_0_iff)
  have c: "collect_items (put_items es) 0 (length (put_items es)) =
      (if \<exists>n. fst ` set es = int ` {0..<n}
       then Some (map (\<lambda>j. the (map_of (rev es) (int j))) [0..<card (fst ` set es)]) else None)"
    unfolding collect_items_eq length_put_items indexes_contiguous [of "fst ` set es", OF finite_imageI [OF finite_set], symmetric]
    using put_items_keys [of es] by (simp add: put_items_lookup)
  have e: "[0..<card (fst ` set es)] = [] \<longleftrightarrow> es = []" by (simp add: card_eq_0_iff)
  have "final_response response (put_items es) =
    (case collect_items (put_items es) 0 (length (put_items es)) of
       None \<Rightarrow> Inl (Status Internal ''incomplete output items'')
     | Some [] \<Rightarrow> Inl (Status Internal ''missing final output'')
     | Some list \<Rightarrow> Inr (response @ [(''output'', marshal (ListOut (map RawOut list)))]))"
    using assms n by (auto simp: final_response_def)
  then show ?thesis
  proof (cases "es = []")
    case False
    with \<open>final_response _ _ = _\<close> c e show ?thesis
      by (auto simp: o_def split: list.splits)
  qed (simp add: put_items_def)
qed

lemma output_assembled_by_index_witness:
  "final_response [] (put_items [(1, ''b''), (0, ''x''), (0, ''a'')]) =
     Inr [(''output'', marshal (ListOut [RawOut ''a'', RawOut ''b'']))]"
proof -
  have "fst ` set [(1, ''b''), (0, ''x''), (0, ''a'')] = {0, 1 :: int}" by auto
  moreover have "int ` {0..<2} = {0, 1}" by (auto simp: image_iff)
  ultimately show ?thesis
    using output_assembled_by_index [of "[]" "[(1, ''b''), (0, ''x''), (0, ''a'')]"]
    by (auto simp: lookup_last_def numeral_2_eq_2)
qed

end
