(* ===== verification/Users.thy ===== *)
theory Users imports Tables Json begin

text \<open>
  \<open>internal/modules/user/repository.go\<close> on the table of users: accounts are added, looked up by name
  or identifier, and one administrator is created at startup when it is missing.
\<close>

section \<open>Text\<close>

text \<open>\<open>utf8.RuneCountInString\<close>: a byte that starts no valid sequence counts as one rune.\<close>

function rune_count :: "bytes \<Rightarrow> nat" where
  "rune_count s = (if s = [] then 0 else Suc (rune_count (drop (max 1 (utf8_len s)) s)))"
  by pat_completeness auto

termination
  by (relation "measure length") auto

declare rune_count.simps [simp del]

lemma rune_count_Nil [simp]: "rune_count [] = 0"
  by (simp add: rune_count.simps)

lemma rune_count_le: "rune_count s \<le> length s"
proof (induction s rule: rune_count.induct)
  case (1 s)
  show ?case
  proof (cases "s = []")
    case False
    then have "rune_count s = Suc (rune_count (drop (max 1 (utf8_len s)) s))" by (simp add: rune_count.simps)
    also have "\<dots> \<le> Suc (length (drop (max 1 (utf8_len s)) s))" using 1 [OF False] by simp
    also have "\<dots> \<le> length s" using False by (cases s) auto
    finally show ?thesis .
  qed simp
qed

text \<open>Text that PostgreSQL stores: valid UTF-8 without the zero byte.\<close>

function utf8_valid :: "bytes \<Rightarrow> bool" where
  "utf8_valid s = (if s = [] then True else 0 < utf8_len s \<and> utf8_valid (drop (max 1 (utf8_len s)) s))"
  by pat_completeness auto

termination
  by (relation "measure length") auto

declare utf8_valid.simps [simp del]

definition storable :: "bytes \<Rightarrow> bool" where
  "storable s \<longleftrightarrow> utf8_valid s \<and> CHR 0x00 \<notin> set s"

section \<open>Statements\<close>

definition text_error :: go_error where
  "text_error = Other ''invalid byte sequence for encoding''"

definition check_error :: go_error where
  "check_error = Other ''violates check constraint''"

definition roles :: "bytes list" where
  "roles = [''user'', ''admin'', ''test'']"

text \<open>
  \<open>Create\<close>: a zero value of a column with a default takes the default (an empty role code, and
  \<open>IsActive\<close>, which is then true in any case); the lengths count characters.
\<close>

definition insert_user :: "time \<Rightarrow> User \<Rightarrow> db \<Rightarrow> (go_error + User) \<times> db" where
  "insert_user now r d =
     (let role = (if user_RoleCode r = [] then ''user'' else user_RoleCode r) in
      if 2 ^ 63 \<le> users_seq d then (Inl sequence_error, d)
      else if \<not> storable (user_Username r) \<or> \<not> storable (user_PasswordHash r) \<or> \<not> storable role
        then (Inl text_error, d)
      else if 50 < rune_count (user_Username r) \<or> 255 < rune_count (user_PasswordHash r) \<or> 50 < rune_count role
        then (Inl length_error, d)
      else if rune_count (user_Username r) < 3 \<or> role \<notin> set roles then (Inl check_error, d)
      else if user_Username r \<in> set (map user_Username (users d)) then (Inl ErrDuplicatedKey, d)
      else let r' = r\<lparr>user_ID := of_nat (users_seq d), user_RoleCode := role, user_IsActive := True,
                      user_CreatedAt := now, user_UpdatedAt := now\<rparr>
           in (Inr r', d\<lparr>users := users d @ [r'], users_seq := Suc (users_seq d)\<rparr>))"

lemma insert_user_keeps [keeps]: "db_inv d \<Longrightarrow> db_inv (snd (insert_user now r d))"
  by (auto simp: insert_user_def db_inv_def table_defs Let_def identity_ok_fresh)

section \<open>The repository\<close>

datatype user_stmt = Q_InsertUser | Q_UserByName | Q_UserByID | Q_BootstrapFind | Q_BootstrapInsert

type_synonym user_faults = "user_stmt \<Rightarrow> fault option"

record UserAuth =
  ua_ID :: uint64
  ua_Username :: bytes
  ua_PasswordHash :: bytes
  ua_RoleCode :: bytes
  ua_IsActive :: bool

record CurrentUser =
  cu_ID :: uint64
  cu_Username :: bytes
  cu_RoleCode :: bytes
  cu_RoleName :: bytes
  cu_Roles :: "bytes list"
  cu_Permissions :: "bytes list"
  cu_IsActive :: bool
  cu_CreatedAt :: time
  cu_UpdatedAt :: time

definition new_user :: "bytes \<Rightarrow> bytes \<Rightarrow> bytes \<Rightarrow> User" where
  "new_user username passwordHash roleCode =
     \<lparr>user_ID = 0, user_Username = username, user_PasswordHash = passwordHash, user_RoleCode = roleCode,
      user_IsActive = True, user_CreatedAt = 0, user_UpdatedAt = 0\<rparr>"

definition AddUser ::
  "user_faults \<Rightarrow> time \<Rightarrow> bytes \<Rightarrow> bytes \<Rightarrow> bytes \<Rightarrow> db \<Rightarrow> (go_error + User) \<times> db" where
  "AddUser io now username passwordHash roleCode d =
     call (io Q_InsertUser) (insert_user now (new_user (TrimSpace username) passwordHash roleCode)) d"

definition user_auth :: "User \<Rightarrow> UserAuth" where
  "user_auth m = \<lparr>ua_ID = user_ID m, ua_Username = user_Username m, ua_PasswordHash = user_PasswordHash m,
     ua_RoleCode = user_RoleCode m, ua_IsActive = user_IsActive m\<rparr>"

text \<open>A missing row is the error of the package, any other error is passed on.\<close>

definition found_user :: "('u \<Rightarrow> 'v) \<Rightarrow> go_error + 'u \<Rightarrow> go_error + 'v" where
  "found_user f r = (case r of
       Inl e \<Rightarrow> Inl (if errors_Is e ErrRecordNotFound then ErrUserNotFound else e)
     | Inr m \<Rightarrow> Inr (f m))"

definition GetUserAuthByUsername :: "user_faults \<Rightarrow> bytes \<Rightarrow> db \<Rightarrow> go_error + UserAuth" where
  "GetUserAuthByUsername io username d =
     found_user user_auth (query (io Q_UserByName)
       (First user_ID (\<lambda>m. user_Username m = TrimSpace username) (users d)))"

text \<open>\<open>First(&model, userID)\<close> has the condition on the primary key, also for zero.\<close>

definition GetUserAuthByID :: "user_faults \<Rightarrow> uint64 \<Rightarrow> db \<Rightarrow> go_error + UserAuth" where
  "GetUserAuthByID io userID d =
     found_user user_auth (query (io Q_UserByID) (First user_ID (\<lambda>m. user_ID m = userID) (users d)))"

definition current_user :: "User \<Rightarrow> CurrentUser" where
  "current_user m = \<lparr>cu_ID = user_ID m, cu_Username = user_Username m, cu_RoleCode = user_RoleCode m,
     cu_RoleName = user_RoleCode m, cu_Roles = [user_RoleCode m], cu_Permissions = [],
     cu_IsActive = user_IsActive m, cu_CreatedAt = user_CreatedAt m, cu_UpdatedAt = user_UpdatedAt m\<rparr>"

definition repo_GetUserByID :: "user_faults \<Rightarrow> uint64 \<Rightarrow> db \<Rightarrow> go_error + CurrentUser" where
  "repo_GetUserByID io userID d =
     found_user current_user (query (io Q_UserByID) (First user_ID (\<lambda>m. user_ID m = userID) (users d)))"

text \<open>\<open>FirstOrCreate\<close> selects, and inserts when nothing was found.\<close>

definition CreateBootstrapUser ::
  "user_faults \<Rightarrow> time \<Rightarrow> bytes \<Rightarrow> bytes \<Rightarrow> bytes \<Rightarrow> db \<Rightarrow> (go_error + unit) \<times> db" where
  "CreateBootstrapUser io now username passwordHash roleCode d =
     (if username = [] then (Inr (), d)
      else case query (io Q_BootstrapFind) (First user_ID (\<lambda>m. user_Username m = username) (users d)) of
        Inr _ \<Rightarrow> (Inr (), d)
      | Inl e \<Rightarrow>
          if \<not> errors_Is e ErrRecordNotFound then (Inl (Wrap ''create bootstrap user'' e), d)
          else (case call (io Q_BootstrapInsert) (insert_user now (new_user username passwordHash roleCode)) d of
              (Inl e, d') \<Rightarrow> (Inl (Wrap ''create bootstrap user'' e), d')
            | (Inr _, d') \<Rightarrow> (Inr (), d')))"

section \<open>Facts\<close>

lemma AddUser_InrD:
  assumes "AddUser io now username hash ''user'' d = (Inr m, d')"
  shows "d' = d\<lparr>users := users d @ [m], users_seq := Suc (users_seq d)\<rparr>"
    and "m = (new_user (TrimSpace username) hash ''user'')\<lparr>user_ID := of_nat (users_seq d), user_CreatedAt := now, user_UpdatedAt := now\<rparr>"
    and "TrimSpace username \<notin> set (map user_Username (users d))" and "users_seq d < 2 ^ 63"
    and "storable (TrimSpace username)"
  using assms
  by (auto simp: AddUser_def insert_user_def new_user_def Let_def dest!: call_InrD split: if_splits)

lemma user_name_unique:
  assumes "db_inv d" and "m \<in> set (users d)"
  shows "First user_ID (\<lambda>m'. user_Username m' = user_Username m) (users d) = Inr m"
proof -
  have "inj_on user_Username (set (users d))"
    using assms(1) by (simp add: db_inv_def users_ok_def distinct_map)
  then show ?thesis using assms(2) by (intro First_unique) (auto dest: inj_onD)
qed

lemma user_id_unique:
  assumes "db_inv d" and "m \<in> set (users d)"
  shows "First user_ID (\<lambda>m'. user_ID m' = user_ID m) (users d) = Inr m"
proof -
  have "inj_on user_ID (set (users d))"
    using assms(1) by (simp add: db_inv_def users_ok_def identity_ok_def distinct_map)
  then show ?thesis using assms(2) by (intro First_unique) (auto dest: inj_onD)
qed

lemma found_user_InrD:
  "found_user f (query q (First pk p rows)) = Inr x \<Longrightarrow> \<exists>m \<in> set rows. p m \<and> x = f m"
  by (auto simp: found_user_def dest!: query_InrD First_InrD split: sum.splits)

lemma AddUser_keeps: "db_inv d \<Longrightarrow> db_inv (snd (AddUser io now u h r d))"
  unfolding AddUser_def by (rule schema.called) (simp_all add: insert_user_keeps)

lemma CreateBootstrapUser_keeps: "db_inv d \<Longrightarrow> db_inv (snd (CreateBootstrapUser io now u h r d))"
proof -
  assume inv: "db_inv d"
  have "db_inv (snd (call (io Q_BootstrapInsert) (insert_user now (new_user u h r)) d))"
    by (rule schema.called) (simp_all add: insert_user_keeps inv)
  with inv show ?thesis
    by (auto simp: CreateBootstrapUser_def split: sum.splits prod.splits)
qed

end
