(* ===== verification/Access.thy ===== *)
theory Access imports Users begin

text \<open>
  \<open>internal/middleware/casbin/casbin.go\<close>: the roles and permissions that go into access tokens. The
  Casbin enforcer is a parameter: its operations on a state of type \<open>'e\<close>. What the code relies on
  of them is \<open>casbin_laws\<close>, stated through the direct roles and the granted permissions of a subject.
\<close>

section \<open>The enforcer\<close>

record 'e casbin =
  GetRolesForUser :: "bytes \<Rightarrow> 'e \<Rightarrow> go_error + bytes list"
  DeleteRolesForUser :: "bytes \<Rightarrow> 'e \<Rightarrow> (go_error + bool) \<times> 'e"
  AddRoleForUser :: "bytes \<Rightarrow> bytes \<Rightarrow> 'e \<Rightarrow> (go_error + bool) \<times> 'e"
  GetImplicitRolesForUser :: "bytes \<Rightarrow> 'e \<Rightarrow> go_error + bytes list"
  GetImplicitPermissionsForUser :: "bytes \<Rightarrow> 'e \<Rightarrow> go_error + bytes list list"
  GetPermissionsForUser :: "bytes \<Rightarrow> 'e \<Rightarrow> go_error + bytes list list"
  DeletePermissionsForUser :: "bytes \<Rightarrow> 'e \<Rightarrow> (go_error + bool) \<times> 'e"
  AddPermissionForUser :: "bytes \<Rightarrow> bytes \<Rightarrow> 'e \<Rightarrow> (go_error + bool) \<times> 'e"

section \<open>Codes and subjects\<close>

definition supportedRoles :: "bytes list" where
  "supportedRoles = [''user'', ''admin'', ''test'']"

definition PermissionDashboardView :: bytes where
  "PermissionDashboardView = ''dashboard:view''"

definition userPrefix :: bytes where
  "userPrefix = ''user:''"

definition rolePrefix :: bytes where
  "rolePrefix = ''role:''"

definition IsSupportedRole :: "bytes \<Rightarrow> bool" where
  "IsSupportedRole roleCode \<longleftrightarrow> TrimSpace roleCode \<in> {''user'', ''admin'', ''test''}"

definition UserSubject :: "uint64 \<Rightarrow> bytes" where
  "UserSubject userID = userPrefix @ FormatUint userID"

definition RoleSubject :: "bytes \<Rightarrow> bytes" where
  "RoleSubject roleCode = rolePrefix @ TrimSpace roleCode"

definition RoleCodes :: "bytes list \<Rightarrow> bytes list" where
  "RoleCodes subjects =
     sort (map (\<lambda>s. TrimPrefix s rolePrefix) (filter (\<lambda>s. HasPrefix s rolePrefix) subjects))"

definition PermissionCodes :: "bytes list list \<Rightarrow> bytes list" where
  "PermissionCodes rules =
     sort (remdups (map (\<lambda>rule. rule ! 1) (filter (\<lambda>rule. 2 \<le> length rule \<and> TrimSpace (rule ! 1) \<noteq> []) rules)))"

section \<open>Operations\<close>

definition seed_role :: "'e casbin \<Rightarrow> bytes \<Rightarrow> 'e \<Rightarrow> (go_error + unit) \<times> 'e" where
  "seed_role cb roleCode e =
     (let subject = RoleSubject roleCode in
      case GetPermissionsForUser cb subject e of
        Inl err \<Rightarrow> (Inl (Wrap (''load permissions for '' @ roleCode) err), e)
      | Inr permissions \<Rightarrow>
          if length permissions = 1 \<and> 2 \<le> length (permissions ! 0) \<and> permissions ! 0 ! 1 = PermissionDashboardView
            then (Inr (), e)
          else (case DeletePermissionsForUser cb subject e of
              (Inl err, e) \<Rightarrow> (Inl (Wrap (''clear permissions for '' @ roleCode) err), e)
            | (Inr _, e) \<Rightarrow> (case AddPermissionForUser cb subject PermissionDashboardView e of
                (Inl err, e) \<Rightarrow> (Inl (Wrap (''grant dashboard permission to '' @ roleCode) err), e)
              | (Inr _, e) \<Rightarrow> (Inr (), e))))"

fun seed_roles :: "'e casbin \<Rightarrow> bytes list \<Rightarrow> 'e \<Rightarrow> (go_error + unit) \<times> 'e" where
  "seed_roles cb [] e = (Inr (), e)"
| "seed_roles cb (roleCode # rs) e = if_ok (seed_role cb roleCode e) (\<lambda>_ e. seed_roles cb rs e)"

definition SeedDefaultPolicies :: "'e casbin \<Rightarrow> 'e \<Rightarrow> (go_error + unit) \<times> 'e" where
  "SeedDefaultPolicies cb e = seed_roles cb supportedRoles e"

text \<open>The role of the database becomes the only direct role of the user.\<close>

definition sync_role :: "'e casbin \<Rightarrow> bytes \<Rightarrow> bytes \<Rightarrow> bytes list \<Rightarrow> 'e \<Rightarrow> (go_error + unit) \<times> 'e" where
  "sync_role cb subject desiredRole currentRoles e =
     (if length currentRoles \<noteq> 1 \<or> currentRoles ! 0 \<noteq> desiredRole
      then case DeleteRolesForUser cb subject e of
          (Inl err, e) \<Rightarrow> (Inl (Wrap ''clear user roles'' err), e)
        | (Inr _, e) \<Rightarrow> (case AddRoleForUser cb subject desiredRole e of
            (Inl err, e) \<Rightarrow> (Inl (Wrap ''assign user role'' err), e)
          | (Inr _, e) \<Rightarrow> (Inr (), e))
      else (Inr (), e))"

definition AuthorizationForUser ::
  "'e casbin \<Rightarrow> uint64 \<Rightarrow> bytes \<Rightarrow> 'e \<Rightarrow> (go_error + bytes list \<times> bytes list) \<times> 'e" where
  "AuthorizationForUser cb userID roleCode e =
     (let roleCode = TrimSpace roleCode in
      if \<not> IsSupportedRole roleCode then (Inl (Wrap roleCode ErrUnsupportedRole), e)
      else let subject = UserSubject userID; desiredRole = RoleSubject roleCode in
      case GetRolesForUser cb subject e of
        Inl err \<Rightarrow> (Inl (Wrap ''load direct user roles'' err), e)
      | Inr currentRoles \<Rightarrow>
          if_ok (sync_role cb subject desiredRole currentRoles e) (\<lambda>_ e.
            (case GetImplicitRolesForUser cb subject e of
               Inl err \<Rightarrow> Inl (Wrap ''load user roles'' err)
             | Inr roleSubjects \<Rightarrow>
                 (case GetImplicitPermissionsForUser cb subject e of
                    Inl err \<Rightarrow> Inl (Wrap ''load user permissions'' err)
                  | Inr permissionRules \<Rightarrow> Inr (RoleCodes roleSubjects, PermissionCodes permissionRules)), e)))"

section \<open>The laws of the enforcer\<close>

text \<open>
  What Casbin documents, as far as the code relies on it: an operation that succeeds has changed
  exactly the direct roles or the permissions it is about; the implicit roles of a subject whose
  roles have no roles of their own are its direct ones, and its implicit permissions are then its
  own and those of its roles. A permission rule is the subject and the object.
\<close>

definition casbin_laws ::
  "'e casbin \<Rightarrow> ('e \<Rightarrow> bytes \<Rightarrow> bytes list) \<Rightarrow> ('e \<Rightarrow> bytes \<Rightarrow> bytes list) \<Rightarrow> bool" where
  "casbin_laws cb direct granted \<longleftrightarrow>
     (\<forall>s e rs. GetRolesForUser cb s e = Inr rs \<longrightarrow> rs = direct e s)
   \<and> (\<forall>s e b e'. DeleteRolesForUser cb s e = (Inr b, e') \<longrightarrow>
        direct e' = (direct e)(s := []) \<and> granted e' = granted e)
   \<and> (\<forall>s r e b e'. AddRoleForUser cb s r e = (Inr b, e') \<longrightarrow> direct e s = [] \<longrightarrow>
        direct e' = (direct e)(s := [r]) \<and> granted e' = granted e)
   \<and> (\<forall>s e rs. GetImplicitRolesForUser cb s e = Inr rs \<longrightarrow> (\<forall>r \<in> set (direct e s). direct e r = []) \<longrightarrow>
        rs = direct e s)
   \<and> (\<forall>s e rules. GetImplicitPermissionsForUser cb s e = Inr rules \<longrightarrow> (\<forall>r \<in> set (direct e s). direct e r = []) \<longrightarrow>
        set rules = (\<Union>t \<in> set (s # direct e s). (\<lambda>obj. [t, obj]) ` set (granted e t)))
   \<and> (\<forall>s e rules. GetPermissionsForUser cb s e = Inr rules \<longrightarrow> rules = map (\<lambda>obj. [s, obj]) (granted e s))
   \<and> (\<forall>s e b e'. DeletePermissionsForUser cb s e = (Inr b, e') \<longrightarrow>
        granted e' = (granted e)(s := []) \<and> direct e' = direct e)
   \<and> (\<forall>s obj e b e'. AddPermissionForUser cb s obj e = (Inr b, e') \<longrightarrow> granted e s = [] \<longrightarrow>
        granted e' = (granted e)(s := [obj]) \<and> direct e' = direct e)"

section \<open>Facts\<close>

lemma casbin_lawsD:
  assumes "casbin_laws cb direct granted"
  shows "GetRolesForUser cb s e = Inr rs \<Longrightarrow> rs = direct e s"
    and "DeleteRolesForUser cb s e = (Inr b, e') \<Longrightarrow> direct e' = (direct e)(s := []) \<and> granted e' = granted e"
    and "AddRoleForUser cb s r e = (Inr b, e') \<Longrightarrow> direct e s = [] \<Longrightarrow>
      direct e' = (direct e)(s := [r]) \<and> granted e' = granted e"
    and "GetImplicitRolesForUser cb s e = Inr rs \<Longrightarrow> \<forall>r \<in> set (direct e s). direct e r = [] \<Longrightarrow> rs = direct e s"
    and "GetImplicitPermissionsForUser cb s e = Inr rules \<Longrightarrow> \<forall>r \<in> set (direct e s). direct e r = [] \<Longrightarrow>
      set rules = (\<Union>t \<in> set (s # direct e s). (\<lambda>obj. [t, obj]) ` set (granted e t))"
    and "GetPermissionsForUser cb s e = Inr rules \<Longrightarrow> rules = map (\<lambda>obj. [s, obj]) (granted e s)"
    and "DeletePermissionsForUser cb s e = (Inr b, e') \<Longrightarrow> granted e' = (granted e)(s := []) \<and> direct e' = direct e"
    and "AddPermissionForUser cb s obj e = (Inr b, e') \<Longrightarrow> granted e s = [] \<Longrightarrow>
      granted e' = (granted e)(s := [obj]) \<and> direct e' = direct e"
proof -
  note a = assms [unfolded casbin_laws_def]
  show "GetRolesForUser cb s e = Inr rs \<Longrightarrow> rs = direct e s"
    by (rule a [THEN conjunct1, THEN spec, THEN spec, THEN spec, THEN mp])
  show "DeleteRolesForUser cb s e = (Inr b, e') \<Longrightarrow> direct e' = (direct e)(s := []) \<and> granted e' = granted e"
    by (rule a [THEN conjunct2, THEN conjunct1, THEN spec, THEN spec, THEN spec, THEN spec, THEN mp])
  show "AddRoleForUser cb s r e = (Inr b, e') \<Longrightarrow> direct e s = [] \<Longrightarrow>
      direct e' = (direct e)(s := [r]) \<and> granted e' = granted e"
    by (rule a [THEN conjunct2, THEN conjunct2, THEN conjunct1, THEN spec, THEN spec, THEN spec, THEN spec, THEN spec, THEN mp, THEN mp])
  show "GetImplicitRolesForUser cb s e = Inr rs \<Longrightarrow> \<forall>r \<in> set (direct e s). direct e r = [] \<Longrightarrow> rs = direct e s"
    by (rule a [THEN conjunct2, THEN conjunct2, THEN conjunct2, THEN conjunct1, THEN spec, THEN spec, THEN spec, THEN mp, THEN mp])
  show "GetImplicitPermissionsForUser cb s e = Inr rules \<Longrightarrow> \<forall>r \<in> set (direct e s). direct e r = [] \<Longrightarrow>
      set rules = (\<Union>t \<in> set (s # direct e s). (\<lambda>obj. [t, obj]) ` set (granted e t))"
    by (rule a [THEN conjunct2, THEN conjunct2, THEN conjunct2, THEN conjunct2, THEN conjunct1, THEN spec, THEN spec, THEN spec, THEN mp, THEN mp])
  show "GetPermissionsForUser cb s e = Inr rules \<Longrightarrow> rules = map (\<lambda>obj. [s, obj]) (granted e s)"
    by (rule a [THEN conjunct2, THEN conjunct2, THEN conjunct2, THEN conjunct2, THEN conjunct2, THEN conjunct1, THEN spec, THEN spec, THEN spec, THEN mp])
  show "DeletePermissionsForUser cb s e = (Inr b, e') \<Longrightarrow> granted e' = (granted e)(s := []) \<and> direct e' = direct e"
    by (rule a [THEN conjunct2, THEN conjunct2, THEN conjunct2, THEN conjunct2, THEN conjunct2, THEN conjunct2, THEN conjunct1, THEN spec, THEN spec, THEN spec, THEN spec, THEN mp])
  show "AddPermissionForUser cb s obj e = (Inr b, e') \<Longrightarrow> granted e s = [] \<Longrightarrow>
      granted e' = (granted e)(s := [obj]) \<and> direct e' = direct e"
    by (rule a [THEN conjunct2, THEN conjunct2, THEN conjunct2, THEN conjunct2, THEN conjunct2, THEN conjunct2, THEN conjunct2, THEN spec, THEN spec, THEN spec, THEN spec, THEN spec, THEN mp, THEN mp])
qed

lemma user_not_role: "UserSubject u \<noteq> RoleSubject r"
  by (simp add: UserSubject_def RoleSubject_def userPrefix_def rolePrefix_def)

lemma RoleSubject_trim [simp]: "RoleSubject (TrimSpace r) = RoleSubject r"
  by (simp add: RoleSubject_def)

lemma RoleCodes_role [simp]: "RoleCodes [RoleSubject r] = [TrimSpace r]"
  by (simp add: RoleCodes_def RoleSubject_def)

lemma set_PermissionCodes:
  assumes "set rules = (\<Union>t \<in> T. (\<lambda>obj. [t, obj]) ` G t)"
  shows "set (PermissionCodes rules) = {obj. \<exists>t \<in> T. obj \<in> G t \<and> TrimSpace obj \<noteq> []}"
proof -
  have "set (PermissionCodes rules) = (\<lambda>rule. rule ! 1) ` {rule \<in> set rules. 2 \<le> length rule \<and> TrimSpace (rule ! 1) \<noteq> []}"
    by (simp add: PermissionCodes_def)
  also have "\<dots> = {obj. \<exists>t \<in> T. obj \<in> G t \<and> TrimSpace obj \<noteq> []}"
    unfolding assms by (auto simp: image_iff) (metis One_nat_def length_Cons nth_Cons_0 nth_Cons_Suc list.size(3) numeral_2_eq_2 order_refl)
  finally show ?thesis .
qed

lemma PermissionCodes_sorted: "sorted (PermissionCodes rules) \<and> distinct (PermissionCodes rules)"
  by (simp add: PermissionCodes_def)

lemma sync_role_effect:
  assumes l: "casbin_laws cb direct granted"
    and r: "sync_role cb s role (direct e s) e = (Inr (), e')"
  shows "direct e' = (direct e)(s := [role]) \<and> granted e' = granted e"
proof (cases "length (direct e s) \<noteq> 1 \<or> direct e s ! 0 \<noteq> role")
  case True
  from r True obtain b1 e1 b2 where d: "DeleteRolesForUser cb s e = (Inr b1, e1)"
    and a: "AddRoleForUser cb s role e1 = (Inr b2, e')"
    by (auto simp: sync_role_def split: prod.splits sum.splits)
  from casbin_lawsD(2) [OF l d] have e1: "direct e1 = (direct e)(s := []) \<and> granted e1 = granted e" .
  then have "direct e1 s = []" by simp
  with casbin_lawsD(3) [OF l a] have "direct e' = (direct e1)(s := [role]) \<and> granted e' = granted e1" by blast
  with e1 show ?thesis by simp
next
  case False
  then have "direct e s = [role]" by (auto simp: length_Suc_conv)
  with r False show ?thesis by (auto simp: sync_role_def)
qed

lemma AuthorizationForUser_effect:
  assumes l: "casbin_laws cb direct granted" and flat: "direct e (RoleSubject role) = []"
    and r: "AuthorizationForUser cb u role e = (Inr (rs, ps), e')"
  shows "IsSupportedRole role \<and> rs = [TrimSpace role] \<and> sorted ps \<and> distinct ps
    \<and> set ps = {p \<in> set (granted e (UserSubject u)) \<union> set (granted e (RoleSubject role)). TrimSpace p \<noteq> []}
    \<and> direct e' = (direct e)(UserSubject u := [RoleSubject role]) \<and> granted e' = granted e"
proof -
  let ?s = "UserSubject u" and ?r = "RoleSubject role"
  from r obtain cur rsub rules where sup: "IsSupportedRole (TrimSpace role)"
    and cur: "GetRolesForUser cb ?s e = Inr cur" and sync: "sync_role cb ?s ?r cur e = (Inr (), e')"
    and ir: "GetImplicitRolesForUser cb ?s e' = Inr rsub"
    and ip: "GetImplicitPermissionsForUser cb ?s e' = Inr rules"
    and out: "rs = RoleCodes rsub" "ps = PermissionCodes rules"
    by (auto simp: AuthorizationForUser_def Let_def dest!: if_ok_InrD split: sum.splits prod.splits if_splits)
  from casbin_lawsD(1) [OF l cur] have "cur = direct e ?s" .
  with sync_role_effect [OF l] sync have e': "direct e' = (direct e)(?s := [?r])" "granted e' = granted e" by blast+
  have d: "direct e' ?s = [?r]" and "direct e' ?r = []"
    using e' flat user_not_role [of u role] by auto
  then have flat': "\<forall>r \<in> set (direct e' ?s). direct e' r = []" by simp
  from casbin_lawsD(4) [OF l ir flat'] have "rsub = direct e' ?s" .
  moreover from set_PermissionCodes [OF casbin_lawsD(5) [OF l ip flat']] have "set ps = {p \<in> set (granted e ?s) \<union> set (granted e ?r). TrimSpace p \<noteq> []}"
    unfolding out d e' by auto
  ultimately show ?thesis
    using sup e' out d PermissionCodes_sorted [of rules] by (simp add: IsSupportedRole_def)
qed

lemma seed_role_effect:
  assumes l: "casbin_laws cb direct granted" and r: "seed_role cb role e = (Inr (), e')"
  shows "direct e' = direct e \<and> granted e' = (granted e)(RoleSubject role := [PermissionDashboardView])"
proof -
  let ?s = "RoleSubject role"
  from r obtain ps where ps: "GetPermissionsForUser cb ?s e = Inr ps"
    by (auto simp: seed_role_def Let_def split: sum.splits)
  from casbin_lawsD(6) [OF l ps] have p: "ps = map (\<lambda>obj. [?s, obj]) (granted e ?s)" .
  show ?thesis
  proof (cases "length ps = 1 \<and> 2 \<le> length (ps ! 0) \<and> ps ! 0 ! 1 = PermissionDashboardView")
    case True
    then have "granted e ?s = [PermissionDashboardView]" unfolding p by (auto simp: length_Suc_conv)
    with r ps True show ?thesis by (auto simp: seed_role_def Let_def)
  next
    case False
    with r ps obtain b1 e1 b2 where d: "DeletePermissionsForUser cb ?s e = (Inr b1, e1)"
      and a: "AddPermissionForUser cb ?s PermissionDashboardView e1 = (Inr b2, e')"
      by (auto simp: seed_role_def Let_def split: sum.splits prod.splits if_splits)
    from casbin_lawsD(7) [OF l d] have e1: "granted e1 = (granted e)(?s := []) \<and> direct e1 = direct e" .
    then have "granted e1 ?s = []" by simp
    with casbin_lawsD(8) [OF l a] have "granted e' = (granted e1)(?s := [PermissionDashboardView]) \<and> direct e' = direct e1"
      by blast
    with e1 show ?thesis by simp
  qed
qed

lemma seed_roles_effect:
  assumes l: "casbin_laws cb direct granted" and "seed_roles cb rs e = (Inr (), e')"
  shows "direct e' = direct e \<and> granted e' = (\<lambda>s. if s \<in> RoleSubject ` set rs then [PermissionDashboardView] else granted e s)"
  using assms(2)
proof (induction rs arbitrary: e)
  case (Cons r rs)
  from Cons.prems obtain e1 where "seed_role cb r e = (Inr (), e1)" and "seed_roles cb rs e1 = (Inr (), e')"
    by (auto dest!: if_ok_InrD)
  with seed_role_effect [OF l] Cons.IH show ?case by fastforce
qed simp

end
