(* ===== verification/Jwt.thy ===== *)
theory Jwt imports Users Http begin

text \<open>
  \<open>internal/middleware/jwt\<close>: access tokens and the filter that authenticates requests by them. The
  library \<open>golang-jwt\<close> is a parameter; \<open>jwt_laws\<close> is what the code relies on of it.
\<close>

section \<open>Claims and manager\<close>

record Claims =
  cl_Username :: bytes
  cl_Role :: "bytes list"
  cl_Permissions :: "bytes list"
  cl_Issuer :: bytes
  cl_Subject :: bytes
  cl_Audience :: "bytes list"
  cl_IssuedAt :: "time option"
  cl_ExpiresAt :: "time option"

record JWTManager =
  jm_secret :: bytes
  jm_issuer :: bytes
  jm_audience :: bytes
  jm_ttl :: time
  RefreshTTL :: time

text \<open>
  \<open>NewNumericDate\<close>; signing with HS256; and parsing with the options of the code: the method
  HS256 only, the issuer, the audience, an expiry required, and the time of issue checked.
\<close>

record jwt_lib =
  NewNumericDate :: "time \<Rightarrow> time"
  SignedString :: "bytes \<Rightarrow> Claims \<Rightarrow> go_error + bytes"
  ParseWithClaims :: "bytes \<Rightarrow> bytes \<Rightarrow> bytes \<Rightarrow> time \<Rightarrow> bytes \<Rightarrow> go_error + Claims"

definition access_claims ::
  "jwt_lib \<Rightarrow> JWTManager \<Rightarrow> time \<Rightarrow> uint64 \<Rightarrow> bytes \<Rightarrow> bytes list \<Rightarrow> bytes list \<Rightarrow> Claims" where
  "access_claims lib m now userID username rs permissions =
     \<lparr>cl_Username = username, cl_Role = rs, cl_Permissions = permissions, cl_Issuer = jm_issuer m,
      cl_Subject = FormatUint userID, cl_Audience = [jm_audience m],
      cl_IssuedAt = Some (NewNumericDate lib now), cl_ExpiresAt = Some (NewNumericDate lib (now + jm_ttl m))\<rparr>"

definition GenerateTokenWithPermissions ::
  "jwt_lib \<Rightarrow> JWTManager \<Rightarrow> time \<Rightarrow> uint64 \<Rightarrow> bytes \<Rightarrow> bytes list \<Rightarrow> bytes list \<Rightarrow> go_error + bytes" where
  "GenerateTokenWithPermissions lib m now userID username rs permissions =
     SignedString lib (jm_secret m) (access_claims lib m now userID username rs permissions)"

definition GenerateToken :: "jwt_lib \<Rightarrow> JWTManager \<Rightarrow> time \<Rightarrow> uint64 \<Rightarrow> bytes \<Rightarrow> bytes \<Rightarrow> go_error + bytes" where
  "GenerateToken lib m now userID username role = GenerateTokenWithPermissions lib m now userID username [role] []"

definition ParseToken :: "jwt_lib \<Rightarrow> JWTManager \<Rightarrow> time \<Rightarrow> bytes \<Rightarrow> go_error + Claims" where
  "ParseToken lib m now token =
     (case ParseWithClaims lib (jm_secret m) (jm_issuer m) (jm_audience m) now token of
        Inl _ \<Rightarrow> Inl ErrInvalidToken
      | Inr claims \<Rightarrow> Inr claims)"

section \<open>The filter\<close>

record jwt_context =
  ctx_userID :: uint64
  ctx_username :: bytes
  ctx_role :: "bytes list"
  ctx_permissions :: "bytes list"

definition JwtFilter :: "jwt_lib \<Rightarrow> JWTManager \<Rightarrow> time \<Rightarrow> bytes \<Rightarrow> ('d, jwt_context) middleware" where
  "JwtFilter lib m now authorization =
     (let parts = Fields authorization in
      if length parts \<noteq> 2 \<or> \<not> EqualFold (parts ! 0) ''Bearer''
        then Abort (Error 401 40100 ''missing or invalid authorization header'')
      else case ParseToken lib m now (parts ! 1) of
        Inl _ \<Rightarrow> Abort (Error 401 40100 ''invalid or expired token'')
      | Inr claims \<Rightarrow> (case ParseUint (cl_Subject claims) 64 of
            None \<Rightarrow> Abort (Error 401 40100 ''invalid user identity'')
          | Some userID \<Rightarrow>
              if userID = 0 then Abort (Error 401 40100 ''invalid user identity'')
              else Next \<lparr>ctx_userID = userID, ctx_username = cl_Username claims, ctx_role = cl_Role claims,
                         ctx_permissions = cl_Permissions claims\<rparr>))"

section \<open>The laws of the library\<close>

definition second :: time where
  "second = 1000000000"

definition claims_valid :: "bytes \<Rightarrow> bytes \<Rightarrow> time \<Rightarrow> Claims \<Rightarrow> bool" where
  "claims_valid issuer audience now c \<longleftrightarrow> cl_Issuer c = issuer \<and> audience \<in> set (cl_Audience c)
     \<and> (case cl_ExpiresAt c of None \<Rightarrow> False | Some t \<Rightarrow> now < t)
     \<and> (case cl_IssuedAt c of None \<Rightarrow> True | Some t \<Rightarrow> t \<le> now)"

text \<open>Text that survives its encoding in JSON.\<close>

definition claims_text :: "Claims \<Rightarrow> bool" where
  "claims_text c \<longleftrightarrow> list_all utf8_valid (cl_Username c # cl_Issuer c # cl_Subject c # cl_Role c @ cl_Permissions c @ cl_Audience c)"

text \<open>ASCII characters other than white space.\<close>

definition plain_char :: "char \<Rightarrow> bool" where
  "plain_char c \<longleftrightarrow> of_char c < (128 :: nat) \<and> \<not> space1 c"

text \<open>
  A numeric date is the time cut off to the second; a token that was signed parses under the same
  secret to its claims while they are valid; what parses has valid claims; and a token is a
  non-empty string of such characters.
\<close>

definition jwt_laws :: "jwt_lib \<Rightarrow> bool" where
  "jwt_laws lib \<longleftrightarrow>
     (\<forall>t. NewNumericDate lib t \<le> t \<and> t < NewNumericDate lib t + second)
   \<and> (\<forall>k c tok i a now. SignedString lib k c = Inr tok \<longrightarrow> claims_text c \<longrightarrow>
        claims_valid i a now c \<longrightarrow> ParseWithClaims lib k i a now tok = Inr c)
   \<and> (\<forall>k i a now tok c. ParseWithClaims lib k i a now tok = Inr c \<longrightarrow> claims_valid i a now c)
   \<and> (\<forall>k c tok i a now c'. SignedString lib k c = Inr tok \<longrightarrow> claims_text c \<longrightarrow>
        ParseWithClaims lib k i a now tok = Inr c' \<longrightarrow> c' = c)
   \<and> (\<forall>k c tok. SignedString lib k c = Inr tok \<longrightarrow> tok \<noteq> [] \<and> (\<forall>x \<in> set tok. plain_char x))"

lemma jwt_lawsD:
  assumes "jwt_laws lib"
  shows "NewNumericDate lib t \<le> t" and "t < NewNumericDate lib t + second"
    and "SignedString lib k c = Inr tok \<Longrightarrow> claims_text c \<Longrightarrow> claims_valid i a now c \<Longrightarrow>
      ParseWithClaims lib k i a now tok = Inr c"
    and "ParseWithClaims lib k i a now tok = Inr c \<Longrightarrow> claims_valid i a now c"
    and "SignedString lib k c = Inr tok \<Longrightarrow> claims_text c \<Longrightarrow> ParseWithClaims lib k i a now tok = Inr c' \<Longrightarrow> c' = c"
    and "SignedString lib k c = Inr tok \<Longrightarrow> tok \<noteq> [] \<and> (\<forall>x \<in> set tok. plain_char x)"
proof -
  note a = assms [unfolded jwt_laws_def]
  show "NewNumericDate lib t \<le> t" and "t < NewNumericDate lib t + second"
    using a [THEN conjunct1] by simp_all
  show "SignedString lib k c = Inr tok \<Longrightarrow> claims_text c \<Longrightarrow> claims_valid i a now c \<Longrightarrow>
      ParseWithClaims lib k i a now tok = Inr c"
    by (rule a [THEN conjunct2, THEN conjunct1, THEN spec, THEN spec, THEN spec, THEN spec, THEN spec, THEN spec, THEN mp, THEN mp, THEN mp])
  show "ParseWithClaims lib k i a now tok = Inr c \<Longrightarrow> claims_valid i a now c"
    by (rule a [THEN conjunct2, THEN conjunct2, THEN conjunct1, THEN spec, THEN spec, THEN spec, THEN spec, THEN spec, THEN spec, THEN mp])
  show "SignedString lib k c = Inr tok \<Longrightarrow> claims_text c \<Longrightarrow> ParseWithClaims lib k i a now tok = Inr c' \<Longrightarrow> c' = c"
    by (rule a [THEN conjunct2, THEN conjunct2, THEN conjunct2, THEN conjunct1, THEN spec, THEN spec, THEN spec, THEN spec, THEN spec, THEN spec, THEN spec, THEN mp, THEN mp, THEN mp])
  show "SignedString lib k c = Inr tok \<Longrightarrow> tok \<noteq> [] \<and> (\<forall>x \<in> set tok. plain_char x)"
    by (rule a [THEN conjunct2, THEN conjunct2, THEN conjunct2, THEN conjunct2, THEN spec, THEN spec, THEN spec, THEN mp])
qed

section \<open>Facts\<close>

text \<open>ASCII text is valid, and every character of a number is ASCII.\<close>

lemma utf8_len_ascii: "of_char c < (128 :: nat) \<Longrightarrow> utf8_len (c # s) = 1"
  by (simp add: utf8_len_def between_def)

lemma utf8_valid_ascii: "(\<forall>c \<in> set s. of_char c < (128 :: nat)) \<Longrightarrow> utf8_valid s"
proof (induction s)
  case (Cons c s)
  then show ?case by (subst utf8_valid.simps) (simp add: utf8_len_ascii)
qed (subst utf8_valid.simps, simp)

lemma is_digit_ascii: "is_digit c \<Longrightarrow> of_char c < (128 :: nat)"
  by (auto simp: is_digit_def)

lemma utf8_valid_FormatUint: "utf8_valid (FormatUint u)"
  using decimal_parses [of "unat u"] is_digit_ascii
  by (intro utf8_valid_ascii) (auto simp: FormatUint_def list_all_iff)

text \<open>Two words of plain characters with a space between them are the fields of a header.\<close>

lemma space_len_plain:
  assumes "plain_char c"
  shows "space_len (c # s) = 0"
proof -
  have "c \<noteq> CHR 0xC2" "c \<noteq> CHR 0xE1" "c \<noteq> CHR 0xE2" "c \<noteq> CHR 0xE3"
    using assms by (auto simp: plain_char_def)
  then show ?thesis using assms
    by (auto simp: space_len_def plain_char_def space2_def space3_def split: list.splits)
qed

lemma fields_from_plain:
  assumes "\<forall>c \<in> set s. plain_char c"
  shows "fields_from cur (s @ rest) = fields_from (cur @ s) rest"
  using assms
proof (induction s arbitrary: cur)
  case (Cons c s)
  then have "fields_from cur ((c # s) @ rest) = fields_from (cur @ [c]) (s @ rest)"
    by (subst fields_from.simps) (simp add: space_len_plain)
  with Cons show ?case by simp
qed simp

lemma fields_from_end: "fields_from cur [] = (if cur = [] then [] else [cur])"
  by (subst fields_from.simps) simp

lemma Fields_two_words:
  assumes "\<forall>c \<in> set s. plain_char c" and "\<forall>c \<in> set t. plain_char c" and "s \<noteq> []" and "t \<noteq> []"
  shows "Fields (s @ '' '' @ t) = [s, t]"
proof -
  have "Fields (s @ '' '' @ t) = fields_from s ('' '' @ t)"
    unfolding Fields_def using fields_from_plain [OF assms(1), of "[]" "'' '' @ t"] by simp
  also have "\<dots> = s # fields_from [] t"
    using assms(3) by (subst fields_from.simps) (simp add: space_len_def space1_def)
  also have "fields_from [] t = [t]"
    using fields_from_plain [OF assms(2), of "[]" "[]"] assms(4) by (simp add: fields_from_end)
  finally show ?thesis by simp
qed

lemma Fields_bearer:
  assumes "\<forall>c \<in> set t. plain_char c" and "t \<noteq> []"
  shows "Fields (''Bearer '' @ t) = [''Bearer'', t]"
proof -
  have "\<forall>c \<in> set ''Bearer''. plain_char c" by code_simp
  from Fields_two_words [OF this assms(1) _ assms(2)] show ?thesis by simp
qed

text \<open>A token that was issued passes the filter from its time of issue until its lifetime is over, up to
  the second, and then no longer.\<close>

lemma JwtFilter_issued:
  assumes l: "jwt_laws lib" and t: "GenerateTokenWithPermissions lib m issued u name rs ps = Inr tok"
    and utf: "list_all utf8_valid (name # jm_issuer m # jm_audience m # rs @ ps)" and u: "u \<noteq> 0"
    and now: "issued \<le> now" "now + second \<le> issued + jm_ttl m"
  shows "JwtFilter lib m now (''Bearer '' @ tok) =
    Next \<lparr>ctx_userID = u, ctx_username = name, ctx_role = rs, ctx_permissions = ps\<rparr>"
proof -
  let ?c = "access_claims lib m issued u name rs ps"
  have "claims_text ?c" using utf utf8_valid_FormatUint [of u] by (simp add: claims_text_def access_claims_def)
  moreover have "claims_valid (jm_issuer m) (jm_audience m) now ?c"
    using jwt_lawsD(1) [OF l, of issued] jwt_lawsD(2) [OF l, of "issued + jm_ttl m"] now
    by (simp add: claims_valid_def access_claims_def)
  moreover have "SignedString lib (jm_secret m) ?c = Inr tok" using t by (simp add: GenerateTokenWithPermissions_def)
  ultimately have "ParseToken lib m now tok = Inr ?c" using jwt_lawsD(3) [OF l] by (simp add: ParseToken_def)
  moreover have "Fields (''Bearer '' @ tok) = [''Bearer'', tok]"
    using Fields_bearer [of tok] jwt_lawsD(6) [OF l] t by (simp add: GenerateTokenWithPermissions_def)
  ultimately show ?thesis using u by (simp add: JwtFilter_def EqualFold_def) (simp add: access_claims_def)
qed

lemma JwtFilter_expired:
  assumes l: "jwt_laws lib" and t: "GenerateTokenWithPermissions lib m issued u name rs ps = Inr tok"
    and utf: "list_all utf8_valid (name # jm_issuer m # jm_audience m # rs @ ps)"
    and now: "issued + jm_ttl m \<le> now" and f: "Fields authorization = [scheme, tok]"
  shows "\<exists>r. JwtFilter lib m now authorization = Abort r \<and> reply_status r = 401"
proof -
  let ?c = "access_claims lib m issued u name rs ps"
  have utf8: "claims_text ?c" using utf utf8_valid_FormatUint [of u] by (simp add: claims_text_def access_claims_def)
  have s: "SignedString lib (jm_secret m) ?c = Inr tok" using t by (simp add: GenerateTokenWithPermissions_def)
  have "ParseWithClaims lib (jm_secret m) (jm_issuer m) (jm_audience m) now tok \<noteq> Inr c" for c
  proof
    assume p: "ParseWithClaims lib (jm_secret m) (jm_issuer m) (jm_audience m) now tok = Inr c"
    with jwt_lawsD(5) [OF l s utf8] have "c = ?c" by blast
    with jwt_lawsD(4) [OF l p] have "now < NewNumericDate lib (issued + jm_ttl m)"
      by (simp add: claims_valid_def access_claims_def)
    with jwt_lawsD(1) [OF l, of "issued + jm_ttl m"] now show False by simp
  qed
  then have "ParseToken lib m now tok = Inl ErrInvalidToken"
    by (simp add: ParseToken_def split: sum.splits)
  then show ?thesis by (simp add: JwtFilter_def f)
qed

end
