(* ===== verification/Auth.thy ===== *)
theory Auth imports Access Jwt Sessions begin

text \<open>
  \<open>internal/modules/auth\<close>: login, registration, refresh and logout (\<open>service.go\<close>) and their HTTP
  handlers (\<open>handler.go\<close>), with the current user (\<open>internal/modules/user\<close>, \<open>service.go\<close> and
  \<open>handler.go\<close>). Password hashing (bcrypt) is a parameter.
\<close>

section \<open>The service\<close>

text \<open>
  The service with what it calls: the faults of its statements, the token library and manager, the
  enforcer, and bcrypt: \<open>HashPassword\<close> is a salted hash or an error, \<open>VerifyPassword\<close> the comparison.
  A request sees one time; \<open>rnd\<close> is what \<open>crypto/rand\<close> gives it.
\<close>

record 'e AuthService =
  userRepository :: user_faults
  jwtLibrary :: jwt_lib
  jwtManager :: JWTManager
  redisClient :: session_faults
  enforcer :: "'e casbin"
  HashPassword :: "bytes \<Rightarrow> go_error + bytes"
  VerifyPassword :: "bytes \<Rightarrow> bytes \<Rightarrow> bool"
  sha256Sum :: "bytes \<Rightarrow> bytes"

text \<open>The state: the tables, Redis and the policies.\<close>

record 'e auth_state =
  st_db :: db
  st_redis :: redis
  st_policies :: 'e

definition accessTokenForUser ::
  "'e AuthService \<Rightarrow> time \<Rightarrow> UserAuth \<Rightarrow> 'e auth_state \<Rightarrow> (go_error + bytes) \<times> 'e auth_state" where
  "accessTokenForUser s now userAuth st =
     (let (r, policies) = AuthorizationForUser (enforcer s) (ua_ID userAuth) (ua_RoleCode userAuth) (st_policies st);
          st = st\<lparr>st_policies := policies\<rparr> in
      case r of
        Inl e \<Rightarrow> (Inl e, st)
      | Inr (rs, permissions) \<Rightarrow>
          (GenerateTokenWithPermissions (jwtLibrary s) (jwtManager s) now (ua_ID userAuth)
             (ua_Username userAuth) rs permissions, st))"

definition issueTokensForUser ::
  "'e AuthService \<Rightarrow> time \<Rightarrow> go_error + bytes \<Rightarrow> UserAuth \<Rightarrow> 'e auth_state
    \<Rightarrow> (go_error + bytes \<times> bytes) \<times> 'e auth_state" where
  "issueTokensForUser s now rnd userAuth st =
     if_ok (accessTokenForUser s now userAuth st) (\<lambda>accessToken st.
       let (r, rd) = CreateRefreshToken (redisClient s) (sha256Sum s) now rnd (ua_ID userAuth)
                          (RefreshTTL (jwtManager s)) (st_redis st);
           st = st\<lparr>st_redis := rd\<rparr> in
       case r of
         Inl e \<Rightarrow> (Inl e, st)
       | Inr refreshToken \<Rightarrow> (Inr (accessToken, refreshToken), st))"

text \<open>
  \<open>Login\<close> returns the tokens, whether the user exists with that password, and the error. For an
  unknown user it compares with a dummy hash, for the time that takes, and ignores the outcome.
\<close>

definition Login ::
  "'e AuthService \<Rightarrow> time \<Rightarrow> go_error + bytes \<Rightarrow> bytes \<Rightarrow> bytes \<Rightarrow> 'e auth_state
    \<Rightarrow> ((bytes \<times> bytes) option \<times> bool \<times> go_error option) \<times> 'e auth_state" where
  "Login s now rnd username password st =
     (case GetUserAuthByUsername (userRepository s) username (st_db st) of
        Inl e \<Rightarrow> if errors_Is e ErrUserNotFound then ((None, False, None), st) else ((None, False, Some e), st)
      | Inr userAuth \<Rightarrow>
          if \<not> VerifyPassword s password (ua_PasswordHash userAuth) then ((None, False, None), st)
          else if \<not> ua_IsActive userAuth then ((None, True, Some ErrAuthUserDisabled), st)
          else (case issueTokensForUser s now rnd userAuth st of
              (Inl e, st) \<Rightarrow> ((None, True, Some e), st)
            | (Inr tokens, st) \<Rightarrow> ((Some tokens, True, None), st)))"

record RegisterRequest =
  rr_Username :: bytes
  rr_Password :: bytes
  rr_CheckPassword :: bytes
  rr_Code :: bytes
  rr_IAgree :: bool

definition register_request_ok :: "RegisterRequest \<Rightarrow> bool" where
  "register_request_ok r =
     (let username = TrimSpace (rr_Username r); passwordLength = length (rr_Password r) in
      \<not> (rune_count username < 3 \<or> 50 < rune_count username \<or> passwordLength < 8 \<or> 72 < passwordLength
         \<or> rr_Password r \<noteq> rr_CheckPassword r \<or> TrimSpace (rr_Code r) = [] \<or> \<not> rr_IAgree r))"

definition Register ::
  "'e AuthService \<Rightarrow> time \<Rightarrow> RegisterRequest \<Rightarrow> 'e auth_state \<Rightarrow> (go_error + User) \<times> 'e auth_state" where
  "Register s now r st =
     (if \<not> register_request_ok r then (Inl ErrInvalidRequest, st)
      else case HashPassword s (rr_Password r) of
        Inl e \<Rightarrow> (Inl e, st)
      | Inr passwordHash \<Rightarrow>
          (let (added, d) = AddUser (userRepository s) now (TrimSpace (rr_Username r)) passwordHash ''user'' (st_db st);
               st = st\<lparr>st_db := d\<rparr> in
           case added of
             Inl e \<Rightarrow> (Inl (if errors_Is e ErrDuplicatedKey then ErrUserExists else e), st)
           | Inr registeredUser \<Rightarrow>
               let (a, policies) = AuthorizationForUser (enforcer s) (user_ID registeredUser)
                                     (user_RoleCode registeredUser) (st_policies st);
                   st = st\<lparr>st_policies := policies\<rparr> in
               case a of Inl e \<Rightarrow> (Inl e, st) | Inr _ \<Rightarrow> (Inr registeredUser, st)))"

definition Refresh ::
  "'e AuthService \<Rightarrow> time \<Rightarrow> go_error + bytes \<Rightarrow> bytes \<Rightarrow> 'e auth_state
    \<Rightarrow> (go_error + bytes \<times> bytes) \<times> 'e auth_state" where
  "Refresh s now rnd refreshToken st =
     (let (r, rd) = RotateRefreshToken (redisClient s) (sha256Sum s) now rnd refreshToken
                         (RefreshTTL (jwtManager s)) (st_redis st);
          st = st\<lparr>st_redis := rd\<rparr> in
      case r of
        Inl e \<Rightarrow> (Inl (if errors_Is e ErrRefreshTokenNotFound then ErrInvalidRefreshToken else e), st)
      | Inr (newToken, userID) \<Rightarrow>
          (case GetUserAuthByID (userRepository s) userID (st_db st) of
             Inl e \<Rightarrow> (Inl (if errors_Is e ErrUserNotFound then ErrInvalidRefreshToken else e), st)
           | Inr userAuth \<Rightarrow>
               if \<not> ua_IsActive userAuth then (Inl ErrAuthUserDisabled, st)
               else if_ok (accessTokenForUser s now userAuth st) (\<lambda>accessToken st.
                 (Inr (accessToken, newToken), st))))"

definition Logout :: "'e AuthService \<Rightarrow> bytes \<Rightarrow> 'e auth_state \<Rightarrow> (go_error + unit) \<times> 'e auth_state" where
  "Logout s refreshToken st =
     (let (r, rd) = DeleteRefreshToken (redisClient s) (sha256Sum s) refreshToken (st_redis st)
      in (r, st\<lparr>st_redis := rd\<rparr>))"

section \<open>The current user\<close>

definition GetUserByID ::
  "'e AuthService \<Rightarrow> uint64 \<Rightarrow> 'e auth_state \<Rightarrow> (go_error + CurrentUser) \<times> 'e auth_state" where
  "GetUserByID s userID st =
     (case repo_GetUserByID (userRepository s) userID (st_db st) of
        Inl e \<Rightarrow> (Inl (if errors_Is e ErrUserNotFound then ErrUserNotExists else e), st)
      | Inr currentUser \<Rightarrow>
          if \<not> cu_IsActive currentUser then (Inl ErrUserDisabled, st)
          else (let (r, policies) = AuthorizationForUser (enforcer s) (cu_ID currentUser) (cu_RoleCode currentUser)
                                      (st_policies st);
                    st = st\<lparr>st_policies := policies\<rparr> in
                case r of
                  Inl e \<Rightarrow> (Inl e, st)
                | Inr (rs, permissions) \<Rightarrow>
                    (Inr (currentUser\<lparr>cu_Roles := rs, cu_Permissions := permissions\<rparr>), st)))"

section \<open>Handlers\<close>

text \<open>A cookie a handler sets; a negative age deletes it.\<close>

record cookie =
  ck_Name :: bytes
  ck_Value :: bytes
  ck_MaxAge :: int
  ck_Path :: bytes
  ck_Secure :: bool
  ck_HttpOnly :: bool
  ck_SameSiteLax :: bool

text \<open>What a client gets to see of its user.\<close>

record UserInfo =
  ui_ID :: uint64
  ui_Username :: bytes
  ui_RoleCode :: bytes
  ui_RoleName :: bytes
  ui_Roles :: "bytes list"
  ui_Permissions :: "bytes list"
  ui_IsActive :: bool
  ui_CreatedAt :: time
  ui_UpdatedAt :: time

definition ToUserInfoResponse :: "CurrentUser \<Rightarrow> UserInfo" where
  "ToUserInfoResponse u = \<lparr>ui_ID = cu_ID u, ui_Username = cu_Username u, ui_RoleCode = cu_RoleCode u,
     ui_RoleName = cu_RoleName u, ui_Roles = cu_Roles u, ui_Permissions = cu_Permissions u, ui_IsActive = cu_IsActive u,
     ui_CreatedAt = cu_CreatedAt u, ui_UpdatedAt = cu_UpdatedAt u\<rparr>"

datatype auth_data = LoginData bytes | RefreshData bytes | CurrentUserData UserInfo

type_synonym auth_reply = "auth_data reply \<times> cookie list"

definition refreshCookiePath :: bytes where
  "refreshCookiePath = ''/api/v1/auth''"

definition setRefreshCookie :: "'e AuthService \<Rightarrow> bool \<Rightarrow> bytes \<Rightarrow> cookie" where
  "setRefreshCookie s cookieSecure refreshToken =
     \<lparr>ck_Name = ''refresh_token'', ck_Value = refreshToken, ck_MaxAge = RefreshTTL (jwtManager s) div second,
      ck_Path = refreshCookiePath, ck_Secure = cookieSecure, ck_HttpOnly = True, ck_SameSiteLax = True\<rparr>"

definition clearRefreshCookie :: "bool \<Rightarrow> cookie" where
  "clearRefreshCookie cookieSecure =
     \<lparr>ck_Name = ''refresh_token'', ck_Value = [], ck_MaxAge = -1, ck_Path = refreshCookiePath,
      ck_Secure = cookieSecure, ck_HttpOnly = True, ck_SameSiteLax = True\<rparr>"

text \<open>The bindings \<open>required\<close>, \<open>min\<close> and \<open>max\<close> of a string count its runes; fields are looked up by their
  folded names.\<close>

definition bind_login :: "bytes \<Rightarrow> (bytes \<times> bytes) option" where
  "bind_login body = Option.bind (decoder_members body) (\<lambda>ms.
     let (username, ok1) = string_field ''username'' ms; (password, ok2) = string_field ''password'' ms in
     if ok1 \<and> ok2 \<and> username \<noteq> [] \<and> 3 \<le> rune_count username \<and> rune_count username \<le> 50
        \<and> password \<noteq> [] \<and> 8 \<le> rune_count password \<and> rune_count password \<le> 72
     then Some (username, password) else None)"

definition bind_register :: "bytes \<Rightarrow> RegisterRequest option" where
  "bind_register body = Option.bind (decoder_members body) (\<lambda>ms.
     let (username, ok1) = string_field ''username'' ms; (password, ok2) = string_field ''password'' ms;
         (check, ok3) = string_field ''check_password'' ms; (c, ok4) = string_field ''code'' ms;
         (agree, ok5) = bool_field ''iagree'' ms in
     if ok1 \<and> ok2 \<and> ok3 \<and> ok4 \<and> ok5
     then Some \<lparr>rr_Username = username, rr_Password = password, rr_CheckPassword = check, rr_Code = c,
                rr_IAgree = agree\<rparr>
     else None)"

definition LoginHandler ::
  "'e AuthService \<Rightarrow> bool \<Rightarrow> time \<Rightarrow> go_error + bytes \<Rightarrow> bytes \<Rightarrow> 'e auth_state \<Rightarrow> auth_reply \<times> 'e auth_state" where
  "LoginHandler s cookieSecure now rnd body st =
     (case bind_login body of
        None \<Rightarrow> ((Error 400 40000 ''invalid request'', []), st)
      | Some (username, password) \<Rightarrow>
          let ((tokens, exists, err), st) = Login s now rnd username password st in
          (case err of
             None \<Rightarrow>
               if exists then let (accessToken, refreshToken) = the tokens in
                 (Success (Some (LoginData accessToken)), [setRefreshCookie s cookieSecure refreshToken])
               else (Error 401 40100 ''invalid username or password'', [])
           | Some e \<Rightarrow>
               if errors_Is e ErrAuthUserDisabled then (Error 403 40301 ''user is disabled'', [])
               else (Error 500 50000 ''internal server error'', []),
           st))"

definition RegisterHandler ::
  "'e AuthService \<Rightarrow> time \<Rightarrow> bytes \<Rightarrow> 'e auth_state \<Rightarrow> auth_reply \<times> 'e auth_state" where
  "RegisterHandler s now body st =
     (case bind_register body of
        None \<Rightarrow> ((Error 400 10001 ''invalid request'', []), st)
      | Some r \<Rightarrow>
          let (result, st) = Register s now r st in
          ((case result of
              Inr _ \<Rightarrow> SuccessWithStatus 201 None ''register successful''
            | Inl e \<Rightarrow>
                if errors_Is e ErrInvalidRequest then Error 400 10001 ''invalid request''
                else if errors_Is e ErrUserExists then Error 409 10002 ''username already exists''
                else Error 500 10500 ''internal server error'', []), st))"

text \<open>\<open>cookie\<close> is \<open>c.Cookie("refresh_token")\<close>, none when it is missing.\<close>

definition RefreshHandler ::
  "'e AuthService \<Rightarrow> bool \<Rightarrow> time \<Rightarrow> go_error + bytes \<Rightarrow> bytes option \<Rightarrow> 'e auth_state
    \<Rightarrow> auth_reply \<times> 'e auth_state" where
  "RefreshHandler s cookieSecure now rnd cookie st =
     (if cookie = None \<or> cookie = Some [] then ((Error 401 40101 ''missing refresh token'', []), st)
      else let (result, st) = Refresh s now rnd (the cookie) st in
      ((case result of
          Inr (accessToken, newToken) \<Rightarrow>
            (Success (Some (RefreshData accessToken)), [setRefreshCookie s cookieSecure newToken])
        | Inl e \<Rightarrow>
            if errors_Is e ErrInvalidRefreshToken
              then (Error 401 40101 ''invalid or expired refresh token'', [clearRefreshCookie cookieSecure])
            else if errors_Is e ErrAuthUserDisabled
              then (Error 403 40301 ''user is disabled'', [clearRefreshCookie cookieSecure])
            else (Error 500 50000 ''internal server error'', [])), st))"

definition LogoutHandler ::
  "'e AuthService \<Rightarrow> bool \<Rightarrow> bytes option \<Rightarrow> 'e auth_state \<Rightarrow> auth_reply \<times> 'e auth_state" where
  "LogoutHandler s cookieSecure cookie st =
     (if cookie \<noteq> None \<and> cookie \<noteq> Some []
      then let (result, st) = Logout s (the cookie) st in
        ((case result of
            Inl e \<Rightarrow> (Error 500 50000 ''internal server error'', [clearRefreshCookie cookieSecure])
          | Inr _ \<Rightarrow> (Success None, [clearRefreshCookie cookieSecure])), st)
      else ((Success None, [clearRefreshCookie cookieSecure]), st))"

definition GetCurrentUser ::
  "'e AuthService \<Rightarrow> uint64 option \<Rightarrow> 'e auth_state \<Rightarrow> auth_data reply \<times> 'e auth_state" where
  "GetCurrentUser s user st =
     (if user = None \<or> user = Some 0 then (Error 401 40100 ''invalid user identity'', st)
      else let (result, st) = GetUserByID s (the user) st in
      ((case result of
          Inr currentUser \<Rightarrow> Success (Some (CurrentUserData (ToUserInfoResponse currentUser)))
        | Inl e \<Rightarrow>
            if errors_Is e ErrUserNotExists then Error 404 40401 ''user not found''
            else if errors_Is e ErrUserDisabled then Error 403 40301 ''user is disabled''
            else Error 500 50000 ''internal server error''), st))"

end
