(* ===== verification/AuthProps.thy ===== *)
theory AuthProps imports Auth "HOL-Library.Countable" begin

text \<open>
  The properties of login, registration and refresh: what a session carries, from the request that
  registers an account to the filter that admits its access token, and who gets no session.
\<close>

section \<open>The parts the service calls\<close>

text \<open>The enforcer and the token library serve every request.\<close>

definition enforcer_up :: "'e casbin \<Rightarrow> bool" where
  "enforcer_up cb \<longleftrightarrow> (\<forall>s r e. (\<exists>x. GetRolesForUser cb s e = Inr x)
     \<and> (\<exists>x e'. DeleteRolesForUser cb s e = (Inr x, e')) \<and> (\<exists>x e'. AddRoleForUser cb s r e = (Inr x, e'))
     \<and> (\<exists>x. GetImplicitRolesForUser cb s e = Inr x) \<and> (\<exists>x. GetImplicitPermissionsForUser cb s e = Inr x))"

definition signer_up :: "jwt_lib \<Rightarrow> bool" where
  "signer_up lib \<longleftrightarrow> (\<forall>k c. \<exists>tok. SignedString lib k c = Inr tok)"

text \<open>Everything the service relies on: a password has the hash that was made of it, and the names
  of the configuration are text.\<close>

definition auth_laws ::
  "'e AuthService \<Rightarrow> ('e \<Rightarrow> bytes \<Rightarrow> bytes list) \<Rightarrow> ('e \<Rightarrow> bytes \<Rightarrow> bytes list) \<Rightarrow> bool" where
  "auth_laws s direct granted \<longleftrightarrow> jwt_laws (jwtLibrary s) \<and> signer_up (jwtLibrary s)
     \<and> casbin_laws (enforcer s) direct granted \<and> enforcer_up (enforcer s)
     \<and> (\<forall>p h. HashPassword s p = Inr h \<longrightarrow> VerifyPassword s p h)
     \<and> utf8_valid (jm_issuer (jwtManager s)) \<and> utf8_valid (jm_audience (jwtManager s))"

text \<open>Roles have no roles of their own, and what is granted is text.\<close>

definition policies_ok ::
  "('e \<Rightarrow> bytes \<Rightarrow> bytes list) \<Rightarrow> ('e \<Rightarrow> bytes \<Rightarrow> bytes list) \<Rightarrow> 'e \<Rightarrow> bool" where
  "policies_ok direct granted e \<longleftrightarrow>
     (\<forall>r. direct e (RoleSubject r) = []) \<and> (\<forall>s p. p \<in> set (granted e s) \<longrightarrow> utf8_valid p)"

text \<open>What the user of a role may do.\<close>

definition permissions_of :: "('e \<Rightarrow> bytes \<Rightarrow> bytes list) \<Rightarrow> 'e \<Rightarrow> uint64 \<Rightarrow> bytes \<Rightarrow> bytes list" where
  "permissions_of granted e u role =
     sort (remdups (filter (\<lambda>p. TrimSpace p \<noteq> []) (granted e (UserSubject u) @ granted e (RoleSubject role))))"

lemma AuthorizationForUser_up:
  assumes "enforcer_up cb" and "IsSupportedRole role"
  shows "\<exists>rs ps e'. AuthorizationForUser cb u role e = (Inr (rs, ps), e')"
proof -
  let ?s = "UserSubject u" and ?r = "RoleSubject (TrimSpace role)"
  have up: "(\<exists>x. GetRolesForUser cb s e = Inr x)"
    "(\<exists>x e'. DeleteRolesForUser cb s e = (Inr x, e'))" "(\<exists>x e'. AddRoleForUser cb s r e = (Inr x, e'))"
    "(\<exists>x. GetImplicitRolesForUser cb s e = Inr x)" "(\<exists>x. GetImplicitPermissionsForUser cb s e = Inr x)" for s r e
    using assms(1) unfolding enforcer_up_def by blast+
  obtain cur where cur: "GetRolesForUser cb ?s e = Inr cur" using up(1) by blast
  have "\<exists>e'. sync_role cb ?s ?r cur e = (Inr (), e')"
  proof -
    obtain b e1 where d: "DeleteRolesForUser cb ?s e = (Inr b, e1)" using up(2) by blast
    obtain b' e2 where a: "AddRoleForUser cb ?s ?r e1 = (Inr b', e2)" using up(3) by blast
    show ?thesis using d a by (simp add: sync_role_def)
  qed
  then obtain e' where sync: "sync_role cb ?s ?r cur e = (Inr (), e')" by blast
  obtain ir where ir: "GetImplicitRolesForUser cb ?s e' = Inr ir" using up(4) by blast
  obtain ip where ip: "GetImplicitPermissionsForUser cb ?s e' = Inr ip" using up(5) by blast
  have "IsSupportedRole (TrimSpace role)" using assms(2) by (simp add: IsSupportedRole_def)
  with cur sync ir ip show ?thesis by (simp add: AuthorizationForUser_def)
qed

lemma sorted_set_eq: "sorted xs \<Longrightarrow> distinct xs \<Longrightarrow> set xs = set ys \<Longrightarrow> xs = sort (remdups (ys :: bytes list))"
  by (metis distinct_remdups distinct_sort set_remdups set_sort sorted_distinct_set_unique sorted_sort)

text \<open>The access token of a user carries the identity and the role of the database.\<close>

lemma accessTokenForUser_admits:
  assumes laws: "auth_laws s direct granted" and pol: "policies_ok direct granted (st_policies st)"
    and role: "IsSupportedRole (ua_RoleCode ua)" and u: "ua_ID ua \<noteq> 0" and name: "utf8_valid (ua_Username ua)"
  shows "\<exists>tok e'. accessTokenForUser s now ua st = (Inr tok, st\<lparr>st_policies := e'\<rparr>)
    \<and> direct e' = (direct (st_policies st))(UserSubject (ua_ID ua) := [RoleSubject (ua_RoleCode ua)])
    \<and> granted e' = granted (st_policies st)
    \<and> (\<forall>later. now \<le> later \<longrightarrow> later + second \<le> now + jm_ttl (jwtManager s) \<longrightarrow>
         JwtFilter (jwtLibrary s) (jwtManager s) later (''Bearer '' @ tok) =
           Next \<lparr>ctx_userID = ua_ID ua, ctx_username = ua_Username ua, ctx_role = [TrimSpace (ua_RoleCode ua)],
                 ctx_permissions = permissions_of granted (st_policies st) (ua_ID ua) (ua_RoleCode ua)\<rparr>)"
proof -
  let ?e = "st_policies st" and ?m = "jwtManager s" and ?lib = "jwtLibrary s"
  from laws have cb: "casbin_laws (enforcer s) direct granted" and up: "enforcer_up (enforcer s)"
    and jwt: "jwt_laws ?lib" and sign: "signer_up ?lib"
    and conf: "utf8_valid (jm_issuer ?m)" "utf8_valid (jm_audience ?m)" by (auto simp: auth_laws_def)
  from AuthorizationForUser_up [OF up role] obtain rs ps e'
    where a: "AuthorizationForUser (enforcer s) (ua_ID ua) (ua_RoleCode ua) ?e = (Inr (rs, ps), e')" by blast
  have flat: "direct ?e (RoleSubject (ua_RoleCode ua)) = []" using pol by (simp add: policies_ok_def)
  note eff = AuthorizationForUser_effect [OF cb flat a]
  have ps: "ps = permissions_of granted ?e (ua_ID ua) (ua_RoleCode ua)"
    unfolding permissions_of_def using eff by (intro sorted_set_eq) auto
  obtain tok where tok: "GenerateTokenWithPermissions ?lib ?m now (ua_ID ua) (ua_Username ua) rs ps = Inr tok"
    using sign unfolding signer_up_def GenerateTokenWithPermissions_def by blast
  have "list_all utf8_valid ps"
    unfolding list_all_iff using eff pol unfolding policies_ok_def by blast
  moreover have "utf8_valid (TrimSpace (ua_RoleCode ua))"
    using role by (auto simp: IsSupportedRole_def intro!: utf8_valid_ascii)
  ultimately have utf: "list_all utf8_valid (ua_Username ua # jm_issuer ?m # jm_audience ?m # rs @ ps)"
    using name conf eff by simp
  have "accessTokenForUser s now ua st = (Inr tok, st\<lparr>st_policies := e'\<rparr>)"
    using a tok by (simp add: accessTokenForUser_def)
  moreover have "JwtFilter ?lib ?m later (''Bearer '' @ tok) =
      Next \<lparr>ctx_userID = ua_ID ua, ctx_username = ua_Username ua, ctx_role = rs, ctx_permissions = ps\<rparr>"
    if "now \<le> later" and "later + second \<le> now + jm_ttl ?m" for later
    by (rule JwtFilter_issued [OF jwt tok utf u that])
  ultimately show ?thesis using eff ps by blast
qed

section \<open>Sessions\<close>

lemma user_auth_simps [simp]:
  "ua_ID (user_auth m) = user_ID m" "ua_Username (user_auth m) = user_Username m"
  "ua_PasswordHash (user_auth m) = user_PasswordHash m" "ua_RoleCode (user_auth m) = user_RoleCode m"
  "ua_IsActive (user_auth m) = user_IsActive m"
  by (simp_all add: user_auth_def)

lemma user_ID_positive: "db_inv d \<Longrightarrow> m \<in> set (users d) \<Longrightarrow> user_ID m \<noteq> 0"
  by (force simp: db_inv_def users_ok_def identity_ok_def)

lemma GetUserAuthByUsername_found:
  assumes "db_inv d" and "m \<in> set (users d)" and "TrimSpace name = user_Username m" and "io Q_UserByName = None"
  shows "GetUserAuthByUsername io name d = Inr (user_auth m)"
  using user_name_unique [OF assms(1,2)] assms(3,4)
  by (simp add: GetUserAuthByUsername_def found_user_def)

lemma GetUserAuthByID_found:
  assumes "db_inv d" and "m \<in> set (users d)" and "io Q_UserByID = None"
  shows "GetUserAuthByID io (user_ID m) d = Inr (user_auth m)"
  using user_id_unique [OF assms(1,2)] assms(3) by (simp add: GetUserAuthByID_def found_user_def)

lemma CreateRefreshToken_ok:
  assumes "io R_Set = None" and "newRefreshToken rnd = Inr t"
  shows "\<exists>r'. CreateRefreshToken io sha256 now rnd u ttl r = (Inr t, r')"
  using assms by (simp add: CreateRefreshToken_def redis_set_def)

text \<open>The session that a login and a refresh give: the token admits the user, whose role and permissions
  are those of the database and the policies.\<close>

definition admits_as :: "'e AuthService \<Rightarrow> time \<Rightarrow> bytes \<Rightarrow> User \<Rightarrow> bytes list \<Rightarrow> bool" where
  "admits_as s now access m permissions \<longleftrightarrow>
     (\<forall>later. now \<le> later \<longrightarrow> later + second \<le> now + jm_ttl (jwtManager s) \<longrightarrow>
        JwtFilter (jwtLibrary s) (jwtManager s) later (''Bearer '' @ access) =
          (Next :: jwt_context \<Rightarrow> (auth_data, jwt_context) middleware) \<lparr>ctx_userID = user_ID m, ctx_username = user_Username m, ctx_role = [TrimSpace (user_RoleCode m)],
                ctx_permissions = permissions\<rparr>)"

lemma Login_ok:
  assumes laws: "auth_laws s direct granted" and pol: "policies_ok direct granted (st_policies st)"
    and inv: "db_inv (st_db st)" and m: "m \<in> set (users (st_db st))" and active: "user_IsActive m"
    and name: "TrimSpace name = user_Username m" "utf8_valid (user_Username m)"
    and role: "IsSupportedRole (user_RoleCode m)" and pw: "VerifyPassword s password (user_PasswordHash m)"
    and up: "userRepository s Q_UserByName = None" "redisClient s R_Set = None" and rnd: "newRefreshToken rnd = Inr t"
  shows "\<exists>access st'. Login s now rnd name password st = ((Some (access, t), True, None), st')
    \<and> admits_as s now access m (permissions_of granted (st_policies st) (user_ID m) (user_RoleCode m))
    \<and> CreateRefreshToken (redisClient s) (sha256Sum s) now rnd (user_ID m) (RefreshTTL (jwtManager s)) (st_redis st)
        = (Inr t, st_redis st') \<and> st_db st' = st_db st"
proof -
  from GetUserAuthByUsername_found [OF inv m name(1), where io = "userRepository s"] up
  have g: "GetUserAuthByUsername (userRepository s) name (st_db st) = Inr (user_auth m)" by simp
  from accessTokenForUser_admits [where ua = "user_auth m" and now = now, OF laws pol] role user_ID_positive [OF inv m] name(2)
  obtain access e' where a: "accessTokenForUser s now (user_auth m) st = (Inr access, st\<lparr>st_policies := e'\<rparr>)"
    and adm: "admits_as s now access m (permissions_of granted (st_policies st) (user_ID m) (user_RoleCode m))"
    by (auto simp: admits_as_def)
  obtain rd where c: "CreateRefreshToken (redisClient s) (sha256Sum s) now rnd (user_ID m) (RefreshTTL (jwtManager s)) (st_redis st) = (Inr t, rd)"
    using CreateRefreshToken_ok [where io = "redisClient s" and rnd = rnd and t = t] up(2) rnd by blast
  have "Login s now rnd name password st = ((Some (access, t), True, None), st\<lparr>st_policies := e', st_redis := rd\<rparr>)"
    using g a c pw active by (simp add: Login_def issueTokensForUser_def)
  with adm c show ?thesis by simp
qed

lemma Register_InrD:
  assumes "Register s now r st = (Inr m, st')"
  shows "register_request_ok r" and "\<exists>h. HashPassword s (rr_Password r) = Inr h \<and> (\<exists>d.
      AddUser (userRepository s) now (TrimSpace (rr_Username r)) h ''user'' (st_db st) = (Inr m, d) \<and>
      (\<exists>a e. AuthorizationForUser (enforcer s) (user_ID m) (user_RoleCode m) (st_policies st) = (Inr a, e)
         \<and> st' = st\<lparr>st_db := d, st_policies := e\<rparr>))"
  using assms by (auto simp: Register_def Let_def split: if_splits sum.splits prod.splits)

text \<open>What a registration leaves: a row for an active user of the default role.\<close>

lemma Register_effect:
  assumes laws: "auth_laws s direct granted" and pol: "policies_ok direct granted (st_policies st)"
    and inv: "db_inv (st_db st)" and r: "Register s now r st = (Inr m, st')"
  shows "st_db st' = (st_db st)\<lparr>users := users (st_db st) @ [m], users_seq := Suc (users_seq (st_db st))\<rparr>"
    and "db_inv (st_db st')" and "policies_ok direct granted (st_policies st')"
    and "granted (st_policies st') = granted (st_policies st)"
    and "user_Username m = TrimSpace (rr_Username r)" and "utf8_valid (user_Username m)"
    and "user_RoleCode m = ''user''" and "user_IsActive m" and "VerifyPassword s (rr_Password r) (user_PasswordHash m)"
    and "TrimSpace (rr_Username r) \<notin> set (map user_Username (users (st_db st)))" and "st_redis st' = st_redis st"
proof -
  from Register_InrD(2) [OF r] obtain h d a e where h: "HashPassword s (rr_Password r) = Inr h"
    and add: "AddUser (userRepository s) now (TrimSpace (rr_Username r)) h ''user'' (st_db st) = (Inr m, d)"
    and au: "AuthorizationForUser (enforcer s) (user_ID m) (user_RoleCode m) (st_policies st) = (Inr a, e)"
    and st': "st' = st\<lparr>st_db := d, st_policies := e\<rparr>" by blast
  note added = AddUser_InrD [OF add]
  have cb: "casbin_laws (enforcer s) direct granted" using laws by (simp add: auth_laws_def)
  have flat: "direct (st_policies st) (RoleSubject (user_RoleCode m)) = []" using pol by (simp add: policies_ok_def)
  obtain rs ps where aeq: "a = (rs, ps)" by (cases a)
  from AuthorizationForUser_effect [OF cb flat au [unfolded aeq]]
  have e: "direct e = (direct (st_policies st))(UserSubject (user_ID m) := [RoleSubject (user_RoleCode m)])"
    "granted e = granted (st_policies st)" by blast+
  show "st_db st' = (st_db st)\<lparr>users := users (st_db st) @ [m], users_seq := Suc (users_seq (st_db st))\<rparr>"
    using added(1) st' by simp
  show "db_inv (st_db st')"
    using AddUser_keeps [OF inv, where io = "userRepository s" and now = now and u = "TrimSpace (rr_Username r)"
        and h = h and r = "''user''"] add st' by simp
  show "policies_ok direct granted (st_policies st')"
    using pol e by (auto simp: policies_ok_def st' user_not_role [symmetric])
  show "granted (st_policies st') = granted (st_policies st)" by (simp add: st' e)
  show "user_Username m = TrimSpace (rr_Username r)" and "user_RoleCode m = ''user''" and "user_IsActive m"
    by (simp_all add: added(2) new_user_def)
  then show "utf8_valid (user_Username m)" using added(5) by (simp add: storable_def)
  have "user_PasswordHash m = h" by (simp add: added(2) new_user_def)
  then show "VerifyPassword s (rr_Password r) (user_PasswordHash m)" using laws h by (simp add: auth_laws_def)
  show "TrimSpace (rr_Username r) \<notin> set (map user_Username (users (st_db st)))" using added(3) by simp
  show "st_redis st' = st_redis st" by (simp add: st')
qed

lemma RegisterHandler_created:
  assumes "RegisterHandler s now body st = (reply, st')" and "reply_status (fst reply) = 201" and "bind_register body = Some r"
  shows "\<exists>m. Register s now r st = (Inr m, st')"
  using assms by (auto simp: RegisterHandler_def Let_def split: sum.splits prod.splits if_splits)

text \<open>Seeding grants every supported role the dashboard and nothing else.\<close>

lemma seeded_grants:
  assumes "casbin_laws cb direct granted" and "SeedDefaultPolicies cb e0 = (Inr (), e)"
    and "IsSupportedRole role"
  shows "granted e (RoleSubject role) = [PermissionDashboardView]"
    and "granted e (UserSubject u) = granted e0 (UserSubject u)"
proof -
  from seed_roles_effect [OF assms(1)] assms(2)
  have g: "granted e = (\<lambda>s. if s \<in> RoleSubject ` set supportedRoles then [PermissionDashboardView] else granted e0 s)"
    unfolding SeedDefaultPolicies_def by blast
  have "RoleSubject role \<in> RoleSubject ` set supportedRoles"
  proof
    show "RoleSubject role = RoleSubject (TrimSpace role)" by simp
    show "TrimSpace role \<in> set supportedRoles" using assms(3) by (simp add: IsSupportedRole_def supportedRoles_def)
  qed
  then show "granted e (RoleSubject role) = [PermissionDashboardView]" by (simp add: g)
  show "granted e (UserSubject u) = granted e0 (UserSubject u)" using user_not_role by (auto simp: g)
qed

lemma default_role: "IsSupportedRole ''user''"
  unfolding IsSupportedRole_def by code_simp

lemma dashboard_permissions:
  assumes "granted e (UserSubject u) = []" and "granted e (RoleSubject role) = [PermissionDashboardView]"
  shows "permissions_of granted e u role = [PermissionDashboardView]"
proof -
  have "TrimSpace PermissionDashboardView \<noteq> []" by code_simp
  with assms show ?thesis by (simp add: permissions_of_def)
qed

text \<open>C32: an account that was registered can log in. From the moment of the registration, a login with
  the same name, up to surrounding white space, and the same password returns an access token that
  the filter of the protected routes admits, until its lifetime is over up to a second, as the
  registered user with the role \<open>user\<close> and the permissions seeded for it; and it sets a refresh
  cookie that stands for the same user. The name was not taken before.\<close>

theorem registered_user_can_log_in:
  assumes "auth_laws s direct granted" and "db_inv (st_db st)"
    and "SeedDefaultPolicies (enforcer s) before = (Inr (), seeded)" and "\<And>u. granted before (UserSubject u) = []"
    and "granted (st_policies st) = granted seeded" and "policies_ok direct granted (st_policies st)"
    and "bind_register body = Some r" and "RegisterHandler s issued body st = (reply, st1)" and "reply_status (fst reply) = 201"
    and "bind_login body' = Some (name, rr_Password r)" and "TrimSpace name = TrimSpace (rr_Username r)"
    and "userRepository s Q_UserByName = None" and "redisClient s R_Set = None" and "newRefreshToken rnd = Inr t"
  shows "\<exists>m access st2. users (st_db st1) = users (st_db st) @ [m] \<and> user_Username m = TrimSpace name
    \<and> TrimSpace name \<notin> set (map user_Username (users (st_db st)))
    \<and> LoginHandler s cookieSecure now rnd body' st1
        = ((Success (Some (LoginData access)), [setRefreshCookie s cookieSecure t]), st2)
    \<and> admits_as s now access m [PermissionDashboardView] \<and> user_RoleCode m = ''user''
    \<and> (\<forall>later. now \<le> later \<longrightarrow> later < now + RefreshTTL (jwtManager s) div millisecond * millisecond \<longrightarrow>
         token_user (sha256Sum s) (later, st_redis st2) t = Some (user_ID m))"
proof -
  from RegisterHandler_created [OF assms(8,9,7)] obtain m where r: "Register s issued r st = (Inr m, st1)" by blast
  note eff = Register_effect [OF assms(1,6,2) r]
  have cb: "casbin_laws (enforcer s) direct granted" using assms(1) by (simp add: auth_laws_def)
  have m: "m \<in> set (users (st_db st1))" by (simp add: eff(1))
  have role: "IsSupportedRole (user_RoleCode m)" using default_role by (simp add: eff(7))
  have name: "TrimSpace name = user_Username m" using assms(11) by (simp add: eff(5))
  have "permissions_of granted (st_policies st1) (user_ID m) (user_RoleCode m) = [PermissionDashboardView]"
    using seeded_grants [OF cb assms(3) role] assms(4,5) eff(4) by (intro dashboard_permissions) simp_all
  with Login_ok [OF assms(1) eff(3,2) m eff(8) name eff(6) role eff(9) assms(12-14), where now = now]
  obtain access st2 where l: "Login s now rnd name (rr_Password r) st1 = ((Some (access, t), True, None), st2)"
    and adm: "admits_as s now access m [PermissionDashboardView]"
    and c: "CreateRefreshToken (redisClient s) (sha256Sum s) now rnd (user_ID m) (RefreshTTL (jwtManager s)) (st_redis st1)
        = (Inr t, st_redis st2)" by auto
  have "LoginHandler s cookieSecure now rnd body' st1
      = ((Success (Some (LoginData access)), [setRefreshCookie s cookieSecure t]), st2)"
    using assms(10) l by (simp add: LoginHandler_def)
  moreover have "token_user (sha256Sum s) (later, st_redis st2) t = Some (user_ID m)"
    if "now \<le> later" and "later < now + RefreshTTL (jwtManager s) div millisecond * millisecond" for later
    by (rule token_user_created [OF c user_ID_positive [OF eff(2) m] that])
  moreover have "users (st_db st1) = users (st_db st) @ [m]" by (simp add: eff(1))
  ultimately show ?thesis using adm name eff(7,10) assms(11) by (metis (no_types, lifting))
qed

section \<open>A service to try the properties on\<close>

type_synonym toy_policy = "(bytes \<Rightarrow> bytes list) \<times> (bytes \<Rightarrow> bytes list)"

definition toy_enforcer :: "toy_policy casbin" where
  "toy_enforcer = \<lparr>
     GetRolesForUser = (\<lambda>s (d, g). Inr (d s)),
     DeleteRolesForUser = (\<lambda>s (d, g). (Inr True, (d(s := []), g))),
     AddRoleForUser = (\<lambda>s r (d, g). (Inr True, (d(s := d s @ [r]), g))),
     GetImplicitRolesForUser = (\<lambda>s (d, g). Inr (d s)),
     GetImplicitPermissionsForUser = (\<lambda>s (d, g). Inr (concat (map (\<lambda>t. map (\<lambda>obj. [t, obj]) (g t)) (s # d s)))),
     GetPermissionsForUser = (\<lambda>s (d, g). Inr (map (\<lambda>obj. [s, obj]) (g s))),
     DeletePermissionsForUser = (\<lambda>s (d, g). (Inr True, (d, g(s := [])))),
     AddPermissionForUser = (\<lambda>s obj (d, g). (Inr True, (d, g(s := g s @ [obj]))))\<rparr>"

lemma toy_enforcer_ok: "casbin_laws toy_enforcer fst snd" and toy_enforcer_up: "enforcer_up toy_enforcer"
  by (auto simp: casbin_laws_def enforcer_up_def toy_enforcer_def)

text \<open>Tokens are numbers that encode the claims.\<close>

definition claims_fields where
  "claims_fields c = (cl_Username c, cl_Role c, cl_Permissions c, cl_Issuer c, cl_Subject c,
     cl_Audience c, cl_IssuedAt c, cl_ExpiresAt (c :: Claims))"

definition claims_number :: "Claims \<Rightarrow> nat" where
  "claims_number c = to_nat (claims_fields c)"

lemma claims_number_inj:
  assumes "claims_number c = claims_number c'"
  shows "c = c'"
proof -
  have "claims_fields c = claims_fields c'"
    using assms unfolding claims_number_def by (rule injD [OF inj_to_nat])
  then show ?thesis unfolding claims_fields_def prod.inject by (intro Claims.equality) simp_all
qed

definition toy_jwt :: jwt_lib where
  "toy_jwt = \<lparr>NewNumericDate = (\<lambda>t. t div second * second),
     SignedString = (\<lambda>k c. Inr (decimal (claims_number c))),
     ParseWithClaims = (\<lambda>k i a now tok.
       let c = inv claims_number (decimal_value tok) in
       if decimal (claims_number c) = tok \<and> claims_valid i a now c then Inr c else Inl ErrInvalidToken)\<rparr>"

lemma digit_plain: "is_digit c \<Longrightarrow> plain_char c"
  by (auto simp: plain_char_def is_digit_def space1_def)

lemma decimal_plain: "x \<in> set (decimal n) \<Longrightarrow> plain_char x"
  using decimal_parses [of n] digit_plain unfolding list_all_iff by blast

lemma toy_jwt_ok: "jwt_laws toy_jwt" and toy_jwt_up: "signer_up toy_jwt"
proof -
  have i [simp]: "inv claims_number (claims_number c) = c" for c
    using claims_number_inj by (auto intro: inv_f_f injI)
  have "t div second * second \<le> t \<and> t < t div second * second + second" for t :: int
    unfolding second_def by presburger
  then show "jwt_laws toy_jwt"
    using decimal_plain decimal_parses
    by (auto simp: jwt_laws_def toy_jwt_def Let_def i split: if_splits)
  show "signer_up toy_jwt" by (simp add: signer_up_def toy_jwt_def)
qed

definition toy_service :: "toy_policy AuthService" where
  "toy_service = \<lparr>userRepository = (\<lambda>_. None), jwtLibrary = toy_jwt,
     jwtManager = \<lparr>jm_secret = ''secret'', jm_issuer = ''erent'', jm_audience = ''api'',
       jm_ttl = 900 * second, RefreshTTL = 3600 * second\<rparr>,
     redisClient = (\<lambda>_. None), enforcer = toy_enforcer, HashPassword = (\<lambda>p. Inr (''#'' @ p)),
     VerifyPassword = (\<lambda>p h. h = ''#'' @ p), sha256Sum = (\<lambda>x. x)\<rparr>"

lemma toy_service_ok: "auth_laws toy_service fst snd"
proof -
  have "utf8_valid ''erent''" and "utf8_valid ''api''" by code_simp+
  then show ?thesis
    by (simp add: auth_laws_def toy_service_def toy_jwt_ok toy_jwt_up toy_enforcer_ok toy_enforcer_up)
qed

definition toy_policies :: toy_policy where
  "toy_policies = snd (SeedDefaultPolicies toy_enforcer (\<lambda>_. [], \<lambda>_. []))"

lemma toy_seeds: "\<exists>e'. seed_roles toy_enforcer rs e = (Inr (), e')"
proof (induction rs arbitrary: e)
  case (Cons r rs)
  have "\<exists>e'. seed_role toy_enforcer r e = (Inr (), e')"
    by (cases e) (simp add: seed_role_def toy_enforcer_def Let_def)
  with Cons show ?case by force
qed simp

lemma toy_seed: "SeedDefaultPolicies toy_enforcer (\<lambda>_. [], \<lambda>_. []) = (Inr (), toy_policies)"
  unfolding toy_policies_def SeedDefaultPolicies_def using toy_seeds by (metis snd_conv)

lemma toy_policies_ok: "policies_ok fst snd toy_policies"
proof -
  from seed_roles_effect [OF toy_enforcer_ok toy_seed [unfolded SeedDefaultPolicies_def]]
  have "fst toy_policies = (\<lambda>_. []) \<and> snd toy_policies =
      (\<lambda>s. if s \<in> RoleSubject ` set supportedRoles then [PermissionDashboardView] else [])"
    by (simp cong: if_cong)
  moreover have "utf8_valid PermissionDashboardView" by code_simp
  ultimately show ?thesis by (simp add: policies_ok_def)
qed

definition toy_start :: "toy_policy auth_state" where
  "toy_start = \<lparr>st_db = empty_db, st_redis = Map.empty, st_policies = toy_policies\<rparr>"

lemma toy_simps [simp]:
  "st_db toy_start = empty_db" "st_redis toy_start = Map.empty" "st_policies toy_start = toy_policies"
  "userRepository toy_service io = None" "redisClient toy_service rio = None" "enforcer toy_service = toy_enforcer"
  by (simp_all add: toy_start_def toy_service_def)

definition register_body :: bytes where
  "register_body = ''{\"username\":\" ada \",\"password\":\"lovelace\",\"check_password\":\"lovelace\",\"code\":\"1\",\"iAgree\":true}''"

definition login_body :: bytes where
  "login_body = ''{\"username\":\"ada\",\"password\":\"lovelace\"}''"

lemma toy_bodies:
  "bind_register register_body = Some \<lparr>rr_Username = '' ada '', rr_Password = ''lovelace'',
     rr_CheckPassword = ''lovelace'', rr_Code = ''1'', rr_IAgree = True\<rparr>"
  "bind_login login_body = Some (''ada'', ''lovelace'')"
  by code_simp+

lemma toy_registers:
  assumes "bind_register body = Some r" and "register_request_ok r"
    and "fst (AddUser (\<lambda>_. None) 0 (TrimSpace (rr_Username r)) (''#'' @ rr_Password r) ''user'' empty_db) = Inr m"
  shows "\<exists>reply st1. RegisterHandler toy_service 0 body toy_start = (reply, st1) \<and> reply_status (fst reply) = 201"
proof -
  obtain d where add: "AddUser (\<lambda>_. None) 0 (TrimSpace (rr_Username r)) (''#'' @ rr_Password r) ''user'' empty_db = (Inr m, d)"
    using assms(3) by (metis prod.collapse)
  have "user_RoleCode m = ''user''" using AddUser_InrD(2) [OF add] by (simp add: new_user_def)
  with AuthorizationForUser_up [OF toy_enforcer_up default_role, of "user_ID m" toy_policies] obtain a e
    where "AuthorizationForUser toy_enforcer (user_ID m) (user_RoleCode m) toy_policies = (Inr a, e)" by auto
  with assms(1,2) add show ?thesis
    by (simp add: RegisterHandler_def Register_def toy_service_def toy_start_def)
qed

theorem registered_user_can_log_in_witness:
  "\<exists>m access reply st1 st2. RegisterHandler toy_service 0 register_body toy_start = (reply, st1)
    \<and> users (st_db st1) = [m] \<and> user_Username m = ''ada''
    \<and> LoginHandler toy_service True 5 (Inr ''one'') login_body st1
        = ((Success (Some (LoginData access)), [setRefreshCookie toy_service True (RawURLEncode (fill_bytes 32 ''one''))]), st2)
    \<and> admits_as toy_service 5 access m [PermissionDashboardView]"
proof -
  let ?r = "\<lparr>rr_Username = '' ada '', rr_Password = ''lovelace'', rr_CheckPassword = ''lovelace'', rr_Code = ''1'', rr_IAgree = True\<rparr>"
  have ok: "register_request_ok ?r" by code_simp
  have add: "\<exists>m. fst (AddUser (\<lambda>_. None) 0 (TrimSpace (rr_Username ?r)) (''#'' @ rr_Password ?r) ''user'' empty_db) = Inr m"
    by (rule exI, code_simp)
  from add toy_registers [OF toy_bodies(1) ok] obtain reply st1
    where reg: "RegisterHandler toy_service 0 register_body toy_start = (reply, st1)" "reply_status (fst reply) = 201"
    by blast
  have trim: "TrimSpace ''ada'' = ''ada''" "TrimSpace '' ada '' = ''ada''" by code_simp+
  have "\<exists>m access st2. users (st_db st1) = users (st_db toy_start) @ [m] \<and> user_Username m = TrimSpace ''ada''
    \<and> TrimSpace ''ada'' \<notin> set (map user_Username (users (st_db toy_start)))
    \<and> LoginHandler toy_service True 5 (Inr ''one'') login_body st1
        = ((Success (Some (LoginData access)), [setRefreshCookie toy_service True (RawURLEncode (fill_bytes 32 ''one''))]), st2)
    \<and> admits_as toy_service 5 access m [PermissionDashboardView] \<and> user_RoleCode m = ''user''
    \<and> (\<forall>later. 5 \<le> later \<longrightarrow> later < 5 + RefreshTTL (jwtManager toy_service) div millisecond * millisecond \<longrightarrow>
         token_user (sha256Sum toy_service) (later, st_redis st2) (RawURLEncode (fill_bytes 32 ''one'')) = Some (user_ID m))"
    by (rule registered_user_can_log_in [where before = "(\<lambda>_. [], \<lambda>_. [])" and seeded = toy_policies and issued = 0 and reply = reply
          and body = register_body and r = ?r and name = "''ada''", OF toy_service_ok])
      (simp_all add: toy_seed toy_policies_ok toy_bodies reg trim newRefreshToken_def)
  then show ?thesis using reg(1) trim by (auto simp: empty_db_def)
qed

text \<open>C33: a refresh continues the session of the user its token stands for with what the database says
  now. Whatever roles the policies held before, the new access token carries the role of the
  database with its permissions, and that role is the only direct role of the user from then on;
  the old refresh token is spent and the new one stands for the same user.\<close>

theorem refresh_follows_database_role:
  assumes "auth_laws s direct granted" and "policies_ok direct granted (st_policies st)" and "db_inv (st_db st)"
    and "m \<in> set (users (st_db st))" and "user_IsActive m" and "IsSupportedRole (user_RoleCode m)"
    and "utf8_valid (user_Username m)" and "t \<noteq> []"
    and "token_user (sha256Sum s) (now, st_redis st) t = Some (user_ID m)" and "newRefreshToken rnd = Inr new"
    and "refreshTokenKey (sha256Sum s) new \<noteq> refreshTokenKey (sha256Sum s) t"
    and "0 < RefreshTTL (jwtManager s) div millisecond"
    and "userRepository s Q_UserByID = None" and "redisClient s = (\<lambda>_. None)"
  shows "\<exists>access st'. RefreshHandler s cookieSecure now rnd (Some t) st
        = ((Success (Some (RefreshData access)), [setRefreshCookie s cookieSecure new]), st')
    \<and> admits_as s now access m (permissions_of granted (st_policies st) (user_ID m) (user_RoleCode m))
    \<and> direct (st_policies st') = (direct (st_policies st))(UserSubject (user_ID m) := [RoleSubject (user_RoleCode m)])
    \<and> token_user (sha256Sum s) (now, st_redis st') t = None
    \<and> token_user (sha256Sum s) (now, st_redis st') new = Some (user_ID m) \<and> st_db st' = st_db st"
proof -
  obtain rd where rot: "RotateRefreshToken (\<lambda>_. None) (sha256Sum s) now rnd t (RefreshTTL (jwtManager s)) (st_redis st)
      = (Inr (new, user_ID m), rd)"
    using RotateRefreshToken_ok [OF assms(9,12,10)] by (metis prod.collapse)
  note ok = rotate_success [OF rot]
  let ?st = "st\<lparr>st_redis := rd\<rparr>"
  have u: "GetUserAuthByID (userRepository s) (user_ID m) (st_db st) = Inr (user_auth m)"
    by (rule GetUserAuthByID_found [where io = "userRepository s", OF assms(3,4,13)])
  from accessTokenForUser_admits [where ua = "user_auth m" and now = now and st = ?st, OF assms(1)] assms(2,6,7)
    user_ID_positive [OF assms(3,4)]
  obtain access e' where a: "accessTokenForUser s now (user_auth m) ?st = (Inr access, ?st\<lparr>st_policies := e'\<rparr>)"
    and e': "direct e' = (direct (st_policies st))(UserSubject (user_ID m) := [RoleSubject (user_RoleCode m)])"
    and adm: "admits_as s now access m (permissions_of granted (st_policies st) (user_ID m) (user_RoleCode m))"
    by (auto simp: admits_as_def)
  have "Refresh s now rnd t st = (Inr (access, new), ?st\<lparr>st_policies := e'\<rparr>)"
    using rot u a assms(5,14) by (simp add: Refresh_def)
  then have "RefreshHandler s cookieSecure now rnd (Some t) st
      = ((Success (Some (RefreshData access)), [setRefreshCookie s cookieSecure new]), ?st\<lparr>st_policies := e'\<rparr>)"
    using assms(8) by (simp add: RefreshHandler_def)
  moreover have "token_user (sha256Sum s) (now, rd) new = Some (user_ID m)"
    using ok(3,4) assms(12) by (subst ok(5)) (simp add: token_user_def millisecond_def)
  moreover have "token_user (sha256Sum s) (now, rd) t = None"
    using assms(11) by (subst ok(5)) (simp add: token_user_def redis_get_other [OF assms(11) [symmetric]])
  ultimately show ?thesis using adm e' by fastforce
qed

text \<open>A user whose role was changed in the database after it was assigned in the policies.\<close>

definition toy_user :: User where
  "toy_user = \<lparr>user_ID = 7, user_Username = ''ada'', user_PasswordHash = ''#lovelace'', user_RoleCode = ''admin'',
     user_IsActive = True, user_CreatedAt = 0, user_UpdatedAt = 0\<rparr>"

definition toy_session :: "toy_policy auth_state" where
  "toy_session = \<lparr>st_db = empty_db\<lparr>users := [toy_user], users_seq := 8\<rparr>,
     st_redis = snd (CreateRefreshToken (\<lambda>_. None) (\<lambda>x. x) 0 (Inr ''one'') 7 5000000000 Map.empty),
     st_policies = ((\<lambda>_. [])(UserSubject 7 := [RoleSubject ''user'']), snd toy_policies)\<rparr>"

lemma toy_session_ok:
  "db_inv (st_db toy_session)" "users (st_db toy_session) = [toy_user]"
  "policies_ok fst snd (st_policies toy_session)" "utf8_valid (user_Username toy_user)"
  "IsSupportedRole (user_RoleCode toy_user)"
proof -
  show "db_inv (st_db toy_session)" and "users (st_db toy_session) = [toy_user]"
    by (simp_all add: toy_session_def toy_user_def db_inv_def table_defs empty_db_def identity_ok_def)
  show "policies_ok fst snd (st_policies toy_session)"
    using toy_policies_ok by (simp add: policies_ok_def toy_session_def user_not_role [symmetric])
  show "utf8_valid (user_Username toy_user)" and "IsSupportedRole (user_RoleCode toy_user)" by code_simp+
qed

lemma toy_session_token: "token_user (\<lambda>x. x) (1, st_redis toy_session) (RawURLEncode (fill_bytes 32 ''one'')) = Some 7"
proof (rule token_user_created)
  show "CreateRefreshToken (\<lambda>_. None) (\<lambda>x. x) 0 (Inr ''one'') 7 5000000000 Map.empty = (Inr (RawURLEncode (fill_bytes 32 ''one'')), st_redis toy_session)"
    unfolding prod_eq_iff
    by (simp add: toy_session_def CreateRefreshToken_def newRefreshToken_def redis_set_def)
qed (simp_all add: millisecond_def)

lemma toy_keys_differ:
  "refreshTokenKey (\<lambda>x. x) (RawURLEncode (fill_bytes 32 ''two'')) \<noteq> refreshTokenKey (\<lambda>x. x) (RawURLEncode (fill_bytes 32 ''one''))"
  unfolding refreshTokenKey_def by (simp, code_simp)

theorem refresh_follows_database_role_witness:
  "\<exists>access st'. RefreshHandler toy_service True 1 (Inr ''two'') (Some (RawURLEncode (fill_bytes 32 ''one''))) toy_session
      = ((Success (Some (RefreshData access)), [setRefreshCookie toy_service True (RawURLEncode (fill_bytes 32 ''two''))]), st')
    \<and> fst (st_policies st') (UserSubject 7) = [RoleSubject ''admin'']"
proof -
  have id: "user_ID toy_user = 7" and role: "user_RoleCode toy_user = ''admin''" by (simp_all add: toy_user_def)
  have "\<exists>access st'. RefreshHandler toy_service True 1 (Inr ''two'') (Some (RawURLEncode (fill_bytes 32 ''one''))) toy_session
        = ((Success (Some (RefreshData access)), [setRefreshCookie toy_service True (RawURLEncode (fill_bytes 32 ''two''))]), st')
    \<and> admits_as toy_service 1 access toy_user (permissions_of snd (st_policies toy_session) (user_ID toy_user) (user_RoleCode toy_user))
    \<and> fst (st_policies st') = (fst (st_policies toy_session))(UserSubject (user_ID toy_user) := [RoleSubject (user_RoleCode toy_user)])
    \<and> token_user (sha256Sum toy_service) (1, st_redis st') (RawURLEncode (fill_bytes 32 ''one'')) = None
    \<and> token_user (sha256Sum toy_service) (1, st_redis st') (RawURLEncode (fill_bytes 32 ''two'')) = Some (user_ID toy_user) \<and> st_db st' = st_db toy_session"
  proof (rule refresh_follows_database_role [OF toy_service_ok toy_session_ok(3,1)])
    show "RawURLEncode (fill_bytes 32 ''one'') \<noteq> []" by code_simp
  qed (use toy_session_token toy_keys_differ in \<open>simp_all add: toy_session_ok toy_session_ok [unfolded toy_user_def, simplified] id toy_service_def newRefreshToken_def
         toy_user_def millisecond_def second_def\<close>)
  then show ?thesis by (auto simp: id role)
qed

lemma Login_tokens:
  assumes "Login s now rnd name pw st = ((Some toks, ex, err), st')"
  shows "\<exists>m \<in> set (users (st_db st)). user_Username m = TrimSpace name \<and> user_IsActive m \<and> VerifyPassword s pw (user_PasswordHash m)"
  using assms unfolding Login_def GetUserAuthByUsername_def
  by (auto split: sum.splits if_splits prod.splits dest!: found_user_InrD)

lemma Login_exists:
  assumes "Login s now rnd name pw st = ((toks, True, None), st')"
  shows "toks \<noteq> None"
  using assms unfolding Login_def by (auto split: sum.splits if_splits prod.splits)

lemma LoginHandler_data:
  assumes "reply_data (fst (fst (LoginHandler s sec now rnd body st))) \<noteq> None \<or> snd (fst (LoginHandler s sec now rnd body st)) \<noteq> []"
  shows "\<exists>name pw toks st'. bind_login body = Some (name, pw) \<and> Login s now rnd name pw st = ((Some toks, True, None), st')"
proof (cases "bind_login body")
  case (Some b)
  obtain name pw where b: "b = (name, pw)" by (cases b)
  obtain toks ex err st' where l: "Login s now rnd name pw st = ((toks, ex, err), st')" by (metis prod.collapse)
  have "err = None \<and> ex" using assms Some b l by (auto simp: LoginHandler_def split: if_splits option.splits)
  with l Login_exists [of s now rnd name pw st toks st'] Some b show ?thesis by auto
qed (use assms in \<open>simp add: LoginHandler_def\<close>)

lemma Refresh_InrD:
  assumes "Refresh s now rnd t st = (Inr x, st')"
  shows "\<exists>m \<in> set (users (st_db st)). token_user (sha256Sum s) (now, st_redis st) t = Some (user_ID m) \<and> user_IsActive m"
proof -
  obtain r rd where rot: "RotateRefreshToken (redisClient s) (sha256Sum s) now rnd t (RefreshTTL (jwtManager s)) (st_redis st) = (r, rd)"
    by (metis prod.collapse)
  from assms rot obtain new u ua where r: "r = Inr (new, u)" and ua: "GetUserAuthByID (userRepository s) u (st_db st) = Inr ua"
    and act: "ua_IsActive ua"
    by (auto simp: Refresh_def Let_def split: sum.splits prod.splits if_splits)
  from found_user_InrD [OF ua [unfolded GetUserAuthByID_def]] obtain m
    where "m \<in> set (users (st_db st))" "user_ID m = u" "ua = user_auth m" by blast
  moreover have "token_user (sha256Sum s) (now, st_redis st) t = Some u"
    using rotate_success [OF rot [unfolded r]] by (auto simp: token_user_def)
  ultimately show ?thesis using act by auto
qed

lemma RefreshHandler_data:
  assumes "reply_data (fst (fst (RefreshHandler s sec now rnd ck st))) \<noteq> None
    \<or> (\<exists>c \<in> set (snd (fst (RefreshHandler s sec now rnd ck st))). ck_Value c \<noteq> [])"
  shows "\<exists>t x st'. ck = Some t \<and> Refresh s now rnd t st = (Inr x, st')"
  using assms
  by (auto simp: RefreshHandler_def clearRefreshCookie_def Let_def split: sum.splits prod.splits if_splits)

lemma GetCurrentUser_data:
  assumes "reply_data (fst (GetCurrentUser s u st)) \<noteq> None"
  shows "\<exists>m \<in> set (users (st_db st)). u = Some (user_ID m) \<and> user_IsActive m"
proof -
  obtain r st' where g: "GetUserByID s (the u) st = (r, st')" by (metis prod.collapse)
  from assms g obtain x cu where "r = Inr x" and u: "u \<noteq> None"
    and cu: "repo_GetUserByID (userRepository s) (the u) (st_db st) = Inr cu" and act: "cu_IsActive cu"
    by (auto simp: GetCurrentUser_def GetUserByID_def split: sum.splits prod.splits if_splits)
  from found_user_InrD [OF cu [unfolded repo_GetUserByID_def]] act u show ?thesis
    by (auto simp: current_user_def)
qed

lemma accessTokenForUser_st: "\<exists>x e. accessTokenForUser s now ua st = (x, st\<lparr>st_policies := e\<rparr>)"
  by (auto simp: accessTokenForUser_def Let_def split: prod.splits sum.splits)

lemma handlers_keep_db:
  "st_db (snd (LoginHandler s sec now rnd body st)) = st_db st"
  "st_db (snd (RefreshHandler s sec now rnd ck st)) = st_db st"
  "st_db (snd (GetCurrentUser s u st)) = st_db st"
proof -
  have i: "st_db (snd (issueTokensForUser s now rnd ua st)) = st_db st" for ua
    using accessTokenForUser_st [of s now ua st]
    by (auto simp: issueTokensForUser_def if_ok_def Let_def split: prod.splits sum.splits)
  have "st_db (snd (Login s now rnd name pw st)) = st_db st" for name pw
    using i by (auto simp: Login_def split: sum.splits prod.splits) ((metis snd_conv)+)?
  then show "st_db (snd (LoginHandler s sec now rnd body st)) = st_db st"
    by (auto simp: LoginHandler_def Let_def split: option.splits prod.splits) ((metis snd_conv)+)?
  have "st_db (snd (Refresh s now rnd t st)) = st_db st" for t
  proof -
    have "st_db (snd (if_ok (accessTokenForUser s now ua (st\<lparr>st_redis := r\<rparr>)) (\<lambda>a st. (Inr (a, n), st)))) = st_db st" for ua r n
      using accessTokenForUser_st [of s now ua "st\<lparr>st_redis := r\<rparr>"] by (auto simp: if_ok_def split: sum.splits)
    then show ?thesis by (auto simp: Refresh_def Let_def split: prod.splits sum.splits)
  qed
  then show "st_db (snd (RefreshHandler s sec now rnd ck st)) = st_db st"
    by (auto simp: RefreshHandler_def Let_def split: prod.splits) ((metis snd_conv)+)?
  have "st_db (snd (GetUserByID s v st)) = st_db st" for v
    by (auto simp: GetUserByID_def Let_def split: sum.splits prod.splits)
  then show "st_db (snd (GetCurrentUser s u st)) = st_db st"
    by (auto simp: GetCurrentUser_def Let_def split: prod.splits) ((metis snd_conv)+)?
qed

text \<open>C34: whatever the services behind it do, a session is given and the profile shown only to an active
  user of the database: a login needs the user's name and a password that matches its hash, a
  refresh a refresh token that stands for it. Every other request changes no table and sets no
  session cookie.\<close>

theorem sessions_need_active_user:
  assumes "login = LoginHandler s cookieSecure now rnd body st"
    and "refresh = RefreshHandler s cookieSecure now rnd cookie st"
    and "profile = GetCurrentUser s u st"
  shows "(reply_data (fst (fst login)) \<noteq> None \<or> snd (fst login) \<noteq> [] \<longrightarrow>
      (\<exists>name pw. bind_login body = Some (name, pw) \<and> (\<exists>m \<in> set (users (st_db st)).
         user_Username m = TrimSpace name \<and> user_IsActive m \<and> VerifyPassword s pw (user_PasswordHash m))))
    \<and> (reply_data (fst (fst refresh)) \<noteq> None \<or> (\<exists>c \<in> set (snd (fst refresh)). ck_Value c \<noteq> []) \<longrightarrow>
      (\<exists>t. cookie = Some t \<and> (\<exists>m \<in> set (users (st_db st)).
         token_user (sha256Sum s) (now, st_redis st) t = Some (user_ID m) \<and> user_IsActive m)))
    \<and> (reply_data (fst profile) \<noteq> None \<longrightarrow>
      (\<exists>m \<in> set (users (st_db st)). u = Some (user_ID m) \<and> user_IsActive m))
    \<and> st_db (snd login) = st_db st \<and> st_db (snd refresh) = st_db st \<and> st_db (snd profile) = st_db st"
proof (intro conjI impI)
  assume "reply_data (fst (fst login)) \<noteq> None \<or> snd (fst login) \<noteq> []"
  with LoginHandler_data show "\<exists>name pw. bind_login body = Some (name, pw) \<and> (\<exists>m \<in> set (users (st_db st)).
      user_Username m = TrimSpace name \<and> user_IsActive m \<and> VerifyPassword s pw (user_PasswordHash m))"
    unfolding assms(1) by (metis Login_tokens)
next
  assume "reply_data (fst (fst refresh)) \<noteq> None \<or> (\<exists>c \<in> set (snd (fst refresh)). ck_Value c \<noteq> [])"
  with RefreshHandler_data show "\<exists>t. cookie = Some t \<and> (\<exists>m \<in> set (users (st_db st)).
      token_user (sha256Sum s) (now, st_redis st) t = Some (user_ID m) \<and> user_IsActive m)"
    unfolding assms(2) by (metis Refresh_InrD)
next
  assume "reply_data (fst profile) \<noteq> None"
  then show "\<exists>m \<in> set (users (st_db st)). u = Some (user_ID m) \<and> user_IsActive m"
    unfolding assms(3) by (rule GetCurrentUser_data)
qed (simp_all add: assms handlers_keep_db)

theorem sessions_need_active_user_witness:
  "\<exists>access st'. LoginHandler toy_service True 5 (Inr ''two'') login_body toy_session
      = ((Success (Some (LoginData access)), [setRefreshCookie toy_service True (RawURLEncode (fill_bytes 32 ''two''))]), st')
    \<and> (\<exists>name pw. bind_login login_body = Some (name, pw) \<and> (\<exists>m \<in> set (users (st_db toy_session)).
         user_Username m = TrimSpace name \<and> user_IsActive m \<and> VerifyPassword toy_service pw (user_PasswordHash m)))"
proof -
  have "TrimSpace ''ada'' = user_Username toy_user" by code_simp
  from Login_ok [where now = 5 and password = "''lovelace''" and m = toy_user and name = "''ada''" and rnd = "Inr ''two''"
      and t = "RawURLEncode (fill_bytes 32 ''two'')", OF toy_service_ok toy_session_ok(3,1) _ _ this toy_session_ok(4,5)]
  obtain access st' where "Login toy_service 5 (Inr ''two'') ''ada'' ''lovelace'' toy_session = ((Some (access, RawURLEncode (fill_bytes 32 ''two'')), True, None), st')"
    by (auto simp: toy_session_ok newRefreshToken_def toy_user_def toy_service_def [THEN arg_cong [where f = VerifyPassword]])
  then have l: "LoginHandler toy_service True 5 (Inr ''two'') login_body toy_session
      = ((Success (Some (LoginData access)), [setRefreshCookie toy_service True (RawURLEncode (fill_bytes 32 ''two''))]), st')"
    by (simp add: LoginHandler_def toy_bodies)
  from sessions_need_active_user [OF refl refl refl, where s = toy_service and st = toy_session and body = login_body
      and cookieSecure = True and now = 5 and rnd = "Inr ''two''" and cookie = None and u = None] l
  have "\<exists>name pw. bind_login login_body = Some (name, pw) \<and> (\<exists>m \<in> set (users (st_db toy_session)).
      user_Username m = TrimSpace name \<and> user_IsActive m \<and> VerifyPassword toy_service pw (user_PasswordHash m))" by simp
  with l show ?thesis by blast
qed

text \<open>C35: a password of at least eight bytes but fewer than eight characters locks its user out. The
  registration counts bytes and accepts it, but the binding of the login counts characters: every
  login with that password is answered with an invalid request, before the account is looked at.\<close>

theorem short_password_locks_out:
  assumes "bind_register body = Some r" and "RegisterHandler s issued body st = (reply, st1)"
    and "reply_status (fst reply) = 201" and "rune_count (rr_Password r) < 8"
    and "decoder_members body' = Some ms" and "fst (string_field ''password'' ms) = rr_Password r"
  shows "8 \<le> length (rr_Password r) \<and> (\<exists>m \<in> set (users (st_db st1)). user_Username m = TrimSpace (rr_Username r))
    \<and> LoginHandler s cookieSecure now rnd body' st' = ((Error 400 40000 ''invalid request'', []), st')"
proof -
  from RegisterHandler_created [OF assms(2,3,1)] obtain m where reg: "Register s issued r st = (Inr m, st1)" by blast
  note d = Register_InrD [OF reg]
  have "8 \<le> length (rr_Password r)" using d(1) by (auto simp: register_request_ok_def Let_def)
  moreover from d(2) obtain h db where "AddUser (userRepository s) issued (TrimSpace (rr_Username r)) h ''user'' (st_db st) = (Inr m, db)"
    and "st_db st1 = db" by auto
  then have "m \<in> set (users (st_db st1)) \<and> user_Username m = TrimSpace (rr_Username r)"
    using AddUser_InrD(1,2) by (fastforce simp: new_user_def)
  moreover have "bind_login body' = None"
    using assms(4-6) by (cases "string_field ''username'' ms"; cases "string_field ''password'' ms") (simp add: bind_login_def)
  ultimately show ?thesis by (auto simp: LoginHandler_def)
qed

definition short_password :: bytes where
  "short_password = concat (replicate 4 [CHR 0xC3, CHR 0xA9])"

definition short_register :: bytes where
  "short_register = ''{\"username\":\"ada\",\"password\":\"'' @ short_password @ ''\",\"check_password\":\"'' @ short_password
     @ ''\",\"code\":\"1\",\"iAgree\":true}''"

definition short_login :: bytes where
  "short_login = ''{\"username\":\"ada\",\"password\":\"'' @ short_password @ ''\"}''"

theorem short_password_locks_out_witness:
  "\<exists>reply st1. RegisterHandler toy_service 0 short_register toy_start = (reply, st1) \<and> reply_status (fst reply) = 201
    \<and> LoginHandler toy_service True 5 (Inr ''one'') short_login st1 = ((Error 400 40000 ''invalid request'', []), st1)"
proof -
  let ?r = "\<lparr>rr_Username = ''ada'', rr_Password = short_password, rr_CheckPassword = short_password, rr_Code = ''1'', rr_IAgree = True\<rparr>"
  have b: "bind_register short_register = Some ?r" by code_simp
  have "register_request_ok ?r" by code_simp
  moreover have "\<exists>m. fst (AddUser (\<lambda>_. None) 0 (TrimSpace (rr_Username ?r)) (''#'' @ rr_Password ?r) ''user'' empty_db) = Inr m"
    by (rule exI, code_simp)
  ultimately obtain reply st1
    where reg: "RegisterHandler toy_service 0 short_register toy_start = (reply, st1)" "reply_status (fst reply) = 201"
    using toy_registers [OF b] by blast
  have "rune_count (rr_Password ?r) < 8" by code_simp
  moreover have "\<exists>ms. decoder_members short_login = Some ms \<and> fst (string_field ''password'' ms) = rr_Password ?r"
  proof -
    have "(case decoder_members short_login of None \<Rightarrow> False | Some ms \<Rightarrow> fst (string_field ''password'' ms) = rr_Password ?r)"
      by code_simp
    then show ?thesis by (simp split: option.splits)
  qed
  ultimately show ?thesis
    using short_password_locks_out [OF b reg, where body' = short_login and st' = st1] reg by blast
qed

end
