(* ===== verification/GoUrl.thy ===== *)
theory GoUrl imports GoLib begin

text \<open>
  The part of Go's \<open>net/url\<close> the sources use: \<open>url.Parse\<close> and the methods \<open>IsAbs\<close>,
  \<open>EscapedPath\<close> and \<open>Hostname\<close>. What counts as a host differs between releases of Go (IP
  literals, several colons), so \<open>parseHost\<close> is a parameter: for a scheme and the text of a host
  the decoded host, or none when it is malformed.
\<close>

section \<open>Text\<close>

definition letters :: bytes where
  "letters = ''abcdefghijklmnopqrstuvwxyzABCDEFGHIJKLMNOPQRSTUVWXYZ''"

definition Contains :: "bytes \<Rightarrow> char \<Rightarrow> bool" where
  "Contains s c \<longleftrightarrow> c \<in> set s"

text \<open>\<open>strings.Cut\<close> at a character, without the flag.\<close>

definition Cut :: "bytes \<Rightarrow> char \<Rightarrow> bytes \<times> bytes" where
  "Cut s c = (takeWhile (\<lambda>x. x \<noteq> c) s, drop 1 (dropWhile (\<lambda>x. x \<noteq> c) s))"

fun Split :: "bytes \<Rightarrow> char \<Rightarrow> bytes list" where
  "Split [] c = [[]]"
| "Split (x # s) c = (if x = c then [] # Split s c
     else case Split s c of [] \<Rightarrow> [[x]] | t # ts \<Rightarrow> (x # t) # ts)"

definition ContainsAny :: "bytes \<Rightarrow> bytes \<Rightarrow> bool" where
  "ContainsAny s chars \<longleftrightarrow> (\<exists>c \<in> set s. c \<in> set chars)"

definition is_hex_char :: "char \<Rightarrow> bool" where
  "is_hex_char c \<longleftrightarrow> c \<in> set ''0123456789abcdefABCDEF''"

definition unhex :: "char \<Rightarrow> nat" where
  "unhex c = (let n = of_char c in if n \<le> 57 then n - 48 else if n \<le> 70 then n - 55 else n - 87)"

definition hex_upper :: "nat \<Rightarrow> char" where
  "hex_upper n = ''0123456789ABCDEF'' ! n"

definition ctl_byte :: "char \<Rightarrow> bool" where
  "ctl_byte c \<longleftrightarrow> of_char c < (32 :: nat) \<or> c = CHR 0x7F"

section \<open>Escapes\<close>

text \<open>\<open>unescape\<close> in the modes where every escape is allowed (path, user information, fragment).\<close>

fun unescape :: "bytes \<Rightarrow> bytes option" where
  "unescape [] = Some []"
| "unescape (c # s) =
     (if c = CHR ''%'' then
        (case s of
           a # b # r \<Rightarrow> if is_hex_char a \<and> is_hex_char b
             then map_option (\<lambda>t. char_of (unhex a * 16 + unhex b) # t) (unescape r) else None
         | _ \<Rightarrow> None)
      else map_option (\<lambda>t. c # t) (unescape s))"

text \<open>\<open>shouldEscape\<close> in a path\<close>

definition should_escape :: "char \<Rightarrow> bool" where
  "should_escape c \<longleftrightarrow> c \<notin> set (letters @ ''0123456789-_.~$&+,/:;=@'')"

definition escape :: "bytes \<Rightarrow> bytes" where
  "escape s = concat (map (\<lambda>c. if should_escape c
     then [CHR ''%'', hex_upper (of_char c div 16), hex_upper (of_char c mod 16)] else [c]) s)"

definition validEncoded :: "bytes \<Rightarrow> bool" where
  "validEncoded s \<longleftrightarrow> (\<forall>c \<in> set s. c \<in> set ''!$&()*+,;=:@[]%'' \<or> c = CHR 0x27 \<or> \<not> should_escape c)"

section \<open>Parsing\<close>

record URL =
  Scheme :: bytes
  Opaque :: bytes
  UserSet :: bool
  Host :: bytes
  Path :: bytes
  RawPath :: bytes
  RawQuery :: bytes
  ForceQuery :: bool
  Fragment :: bytes

definition empty_url :: URL where
  "empty_url = \<lparr>Scheme = [], Opaque = [], UserSet = False, Host = [], Path = [], RawPath = [], RawQuery = [],
     ForceQuery = False, Fragment = []\<rparr>"

text \<open>\<open>getScheme\<close>: what was read of the scheme is \<open>acc\<close>; none for a missing one.\<close>

fun getScheme :: "bytes \<Rightarrow> bytes \<Rightarrow> bytes \<Rightarrow> (bytes \<times> bytes) option" where
  "getScheme raw acc [] = Some ([], raw)"
| "getScheme raw acc (c # s) =
     (if c \<in> set letters then getScheme raw (acc @ [c]) s
      else if is_digit c \<or> c \<in> set ''+-.'' then (if acc = [] then Some ([], raw) else getScheme raw (acc @ [c]) s)
      else if c = CHR '':'' then (if acc = [] then None else Some (acc, s))
      else Some ([], raw))"

type_synonym host_parser = "bytes \<Rightarrow> bytes \<Rightarrow> bytes option"

definition validUserinfo :: "bytes \<Rightarrow> bool" where
  "validUserinfo s \<longleftrightarrow> (\<forall>c \<in> set s. c \<in> set (letters @ ''0123456789-._:~!$&()*+,;=%@'') \<or> c = CHR 0x27)"

text \<open>\<open>parseAuthority\<close>: whether there is user information, and the host. Of the user information
  both parts must decode.\<close>

definition parseAuthority :: "host_parser \<Rightarrow> bytes \<Rightarrow> bytes \<Rightarrow> (bool \<times> bytes) option" where
  "parseAuthority parseHost scheme authority =
     (let host = rev (takeWhile (\<lambda>c. c \<noteq> CHR ''@'') (rev authority));
          userinfo = take (length authority - length host - 1) authority in
      case parseHost scheme host of
        None \<Rightarrow> None
      | Some h \<Rightarrow>
          if \<not> Contains authority (CHR ''@'') then Some (False, h)
          else if \<not> validUserinfo userinfo then None
          else (case (unescape (fst (Cut userinfo (CHR '':''))), unescape (snd (Cut userinfo (CHR '':'')))) of
              (Some _, Some _) \<Rightarrow> Some (True, h)
            | _ \<Rightarrow> None))"

definition setPath :: "bytes \<Rightarrow> URL \<Rightarrow> URL option" where
  "setPath p u = (case unescape p of
       None \<Rightarrow> None
     | Some path \<Rightarrow> Some (u\<lparr>Path := path, RawPath := if p = escape path then [] else p\<rparr>))"

definition slash :: char where
  "slash = CHR 0x2F"

text \<open>The part after the query was cut off.\<close>

definition parse_rest :: "host_parser \<Rightarrow> bytes \<Rightarrow> URL \<Rightarrow> URL option" where
  "parse_rest parseHost rest u =
     (if \<not> HasPrefix rest [slash] \<and> Scheme u \<noteq> [] then Some (u\<lparr>Opaque := rest\<rparr>)
      else if \<not> HasPrefix rest [slash] \<and> Contains (fst (Cut rest slash)) (CHR '':'') then None
      else if (Scheme u \<noteq> [] \<or> \<not> HasPrefix rest [slash, slash, slash]) \<and> HasPrefix rest [slash, slash]
        then (let authority = takeWhile (\<lambda>c. c \<noteq> slash) (drop 2 rest);
                  rest = dropWhile (\<lambda>c. c \<noteq> slash) (drop 2 rest) in
              case parseAuthority parseHost (Scheme u) authority of
                None \<Rightarrow> None
              | Some (user, host) \<Rightarrow> setPath rest (u\<lparr>UserSet := user, Host := host\<rparr>))
      else setPath rest u)"

definition parse_url :: "host_parser \<Rightarrow> bytes \<Rightarrow> URL option" where
  "parse_url parseHost raw =
     (if \<exists>c \<in> set raw. ctl_byte c then None
      else if raw = ''*'' then Some (empty_url\<lparr>Path := ''*''\<rparr>)
      else case getScheme raw [] raw of
        None \<Rightarrow> None
      | Some (scheme, rest) \<Rightarrow>
          let u = empty_url\<lparr>Scheme := map ascii_lower scheme\<rparr> in
          if HasSuffix rest ''?'' \<and> length (filter (\<lambda>c. c = CHR ''?'') rest) = 1
            then parse_rest parseHost (butlast rest) (u\<lparr>ForceQuery := True\<rparr>)
          else parse_rest parseHost (fst (Cut rest (CHR ''?''))) (u\<lparr>RawQuery := snd (Cut rest (CHR ''?''))\<rparr>))"

definition Parse :: "host_parser \<Rightarrow> bytes \<Rightarrow> URL option" where
  "Parse parseHost raw =
     (let (u, frag) = Cut raw (CHR ''#'') in
      case parse_url parseHost u of
        None \<Rightarrow> None
      | Some url \<Rightarrow> if frag = [] then Some url else map_option (\<lambda>f. url\<lparr>Fragment := f\<rparr>) (unescape frag))"

section \<open>Methods\<close>

definition IsAbs :: "URL \<Rightarrow> bool" where
  "IsAbs u \<longleftrightarrow> Scheme u \<noteq> []"

definition EscapedPath :: "URL \<Rightarrow> bytes" where
  "EscapedPath u =
     (if RawPath u \<noteq> [] \<and> validEncoded (RawPath u) \<and> unescape (RawPath u) = Some (Path u) then RawPath u
      else if Path u = ''*'' then ''*'' else escape (Path u))"

definition validOptionalPort :: "bytes \<Rightarrow> bool" where
  "validOptionalPort port \<longleftrightarrow> (case port of [] \<Rightarrow> True | c # ds \<Rightarrow> c = CHR '':'' \<and> list_all is_digit ds)"

text \<open>\<open>Hostname\<close>: the host without a port and the brackets of an IP literal.\<close>

definition Hostname :: "URL \<Rightarrow> bytes" where
  "Hostname u =
     (let host = Host u; port = rev (takeWhile (\<lambda>c. c \<noteq> CHR '':'') (rev host));
          n = length host - length port - 1;
          host = (if Contains host (CHR '':'') \<and> validOptionalPort (drop n host) then take n host else host) in
      if HasPrefix host ''['' \<and> HasSuffix host '']'' then drop 1 (butlast host) else host)"

section \<open>Facts\<close>

text \<open>Escapes of a text whose first part is complete decode part by part.\<close>

lemma unescape_append:
  "unescape s = Some x \<Longrightarrow> unescape (s @ t) = map_option (\<lambda>y. x @ y) (unescape t)"
proof (induction s arbitrary: x rule: unescape.induct)
  case (2 c s)
  then show ?case by (cases "unescape t") (auto simp: option.map_comp comp_def split: if_splits list.splits)
next
  case 1
  then show ?case by (cases "unescape t") simp_all
qed

lemma unescape_prefix:
  "unescape (s @ t) \<noteq> None \<Longrightarrow> \<forall>c \<in> set t. \<not> is_hex_char c \<Longrightarrow> unescape s \<noteq> None"
proof (induction s rule: unescape.induct)
  case (2 c s)
  show ?case
  proof (cases "c = CHR ''%''")
    case True
    with 2(3,4) obtain a b r where s: "s @ t = a # b # r" and h: "is_hex_char a" "is_hex_char b" "unescape r \<noteq> None"
      by (auto split: list.splits if_splits)
    obtain r' where r': "s = a # b # r'"
      using s h(1,2) 2(4) by (cases s; cases "tl s") (auto simp: Cons_eq_append_conv)
    with s have "r = r' @ t" by simp
    with 2(1) [OF True r', of b r'] h r' 2(4) True show ?thesis by auto
  next
    case False
    with 2(2-4) show ?thesis by auto
  qed
qed simp

lemma unescape_slashes:
  "(\<forall>c \<in> set t. c = slash) \<Longrightarrow> unescape t = Some t"
  by (induction t) (auto simp: slash_def)

lemma hex_not_slash: "\<not> is_hex_char slash"
  by code_simp

lemma unescape_colon_at [simp]:
  "unescape (CHR '':'' # s) = map_option (\<lambda>t. CHR '':'' # t) (unescape s)"
  "unescape (CHR ''@'' # s) = map_option (\<lambda>t. CHR ''@'' # t) (unescape s)"
  "unescape (slash # s) = map_option (\<lambda>t. slash # t) (unescape s)"
  by (simp_all add: slash_def)

lemma unescape_both: "unescape s \<noteq> None \<Longrightarrow> unescape t \<noteq> None \<Longrightarrow> unescape (s @ t) \<noteq> None"
  using unescape_append by fastforce

text \<open>A scheme that was found is found in every text that goes on differently after the colon.\<close>

lemma getScheme_found:
  "getScheme raw acc s = Some (scheme, rest) \<Longrightarrow> scheme \<noteq> [] \<Longrightarrow>
    \<exists>p. s = p @ CHR '':'' # rest \<and> scheme = acc @ p \<and> (\<forall>raw t. getScheme raw acc (p @ CHR '':'' # t) = Some (scheme, t))"
proof (induction raw acc s rule: getScheme.induct)
  case (2 raw acc c s)
  consider (letter) "c \<in> set letters" | (digit) "c \<notin> set letters" "is_digit c \<or> c \<in> set ''+-.''"
    | (colon) "c = CHR '':''" "c \<notin> set letters" "\<not> (is_digit c \<or> c \<in> set ''+-.'')"
    | (other) "c \<notin> set letters" "\<not> (is_digit c \<or> c \<in> set ''+-.'')" "c \<noteq> CHR '':''" by blast
  then show ?case
  proof cases
    case letter
    with 2(1) [OF letter] 2(3,4) obtain p where p: "s = p @ CHR '':'' # rest" "scheme = (acc @ [c]) @ p"
      "\<forall>raw t. getScheme raw (acc @ [c]) (p @ CHR '':'' # t) = Some (scheme, t)" by auto
    with letter show ?thesis by (intro exI [of _ "c # p"]) simp
  next
    case digit
    with 2(3,4) have acc: "acc \<noteq> []" by (auto split: if_splits)
    with 2(2) [OF digit] 2(3,4) digit obtain p where p: "s = p @ CHR '':'' # rest" "scheme = (acc @ [c]) @ p"
      "\<forall>raw t. getScheme raw (acc @ [c]) (p @ CHR '':'' # t) = Some (scheme, t)" by auto
    with digit acc show ?thesis by (intro exI [of _ "c # p"]) simp
  next
    case colon
    with 2(3,4) show ?thesis by (intro exI [of _ "[]"]) (auto split: if_splits)
  next
    case other
    with 2(3,4) show ?thesis by auto
  qed
qed simp

lemma Cut_none: "c \<notin> set s \<Longrightarrow> Cut s c = (s, [])"
proof -
  assume a: "c \<notin> set s"
  have t: "takeWhile (\<lambda>x. x \<noteq> c) s = s" using a by (auto simp: takeWhile_eq_all_conv)
  have d: "dropWhile (\<lambda>x. x \<noteq> c) s = []" using a by auto
  show ?thesis by (simp only: Cut_def t d drop_Nil)
qed

lemma Cut_cases: "fst (Cut s c) @ (if c \<in> set s then c # snd (Cut s c) else []) = s"
proof (cases "c \<in> set s")
  case True
  then have "dropWhile (\<lambda>x. x \<noteq> c) s \<noteq> []" by (simp add: dropWhile_eq_Nil_conv)
  then have "dropWhile (\<lambda>x. x \<noteq> c) s = c # drop 1 (dropWhile (\<lambda>x. x \<noteq> c) s)"
    using hd_dropWhile [of "\<lambda>x. x \<noteq> c" s] by (metis drop0 drop_Suc_Cons list.collapse list.exhaust_sel One_nat_def)
  with True show ?thesis unfolding Cut_def fst_conv snd_conv by (simp add: takeWhile_dropWhile_id)
qed (simp add: Cut_none)

lemma Split_append: "Split (s @ c # t) c = Split s c @ Split t c"
proof (induction s)
  case (Cons x s)
  have "Split s c \<noteq> []" for s by (induction s) (auto split: list.splits)
  with Cons show ?case by (auto split: list.splits)
qed simp

lemma not_suffix_without: "CHR ''?'' \<notin> set s \<Longrightarrow> \<not> HasSuffix s ''?''"
  by (auto simp: HasSuffix_def) (metis in_set_dropD list.set_intros(1))

text \<open>Text without the characters that end a path, and with a scheme.\<close>

lemma parse_with_scheme:
  assumes "\<forall>c \<in> set raw. \<not> ctl_byte c \<and> c \<noteq> CHR ''?'' \<and> c \<noteq> CHR ''#''"
    and "getScheme raw [] raw = Some (scheme, rest)" and "set rest \<subseteq> set raw" and "raw \<noteq> ''*''"
  shows "Parse hosts raw = parse_rest hosts rest (empty_url\<lparr>Scheme := map ascii_lower scheme\<rparr>)"
proof -
  have "CHR ''?'' \<notin> set rest" using assms(1,3) by blast
  then have "Cut rest (CHR ''?'') = (rest, [])" and "\<not> HasSuffix rest ''?''" by (simp_all add: Cut_none not_suffix_without)
  moreover have "Cut raw (CHR ''#'') = (raw, [])" using assms(1) by (intro Cut_none) blast
  moreover have "empty_url\<lparr>Scheme := map ascii_lower scheme, RawQuery := []\<rparr> = empty_url\<lparr>Scheme := map ascii_lower scheme\<rparr>"
    by (simp add: empty_url_def)
  moreover have "\<not> (\<exists>c \<in> set raw. ctl_byte c)" using assms(1) by blast
  ultimately show ?thesis using assms(2,4) by (simp add: Parse_def parse_url_def Let_def split: option.splits)
qed

text \<open>An empty host, and only that, is the empty text.\<close>

definition host_laws :: "host_parser \<Rightarrow> bool" where
  "host_laws hosts \<longleftrightarrow> (\<forall>scheme h. hosts scheme h = Some [] \<longleftrightarrow> h = [])"

text \<open>A URL with a scheme and an authority, and its parts.\<close>

definition url_text :: "bytes \<Rightarrow> bytes \<Rightarrow> bytes \<Rightarrow> bytes" where
  "url_text scheme authority path = scheme @ CHR '':'' # slash # slash # authority @ path"

definition path_text :: "bytes \<Rightarrow> bool" where
  "path_text path \<longleftrightarrow> path = [] \<or> hd path = slash"

lemma authority_of:
  assumes "slash \<notin> set authority" and "path_text path"
  shows "takeWhile (\<lambda>c. c \<noteq> slash) (authority @ path) = authority"
    and "dropWhile (\<lambda>c. c \<noteq> slash) (authority @ path) = path"
proof -
  have a: "\<forall>c \<in> set authority. c \<noteq> slash" using assms(1) by blast
  with assms(2) show "takeWhile (\<lambda>c. c \<noteq> slash) (authority @ path) = authority"
    by (cases path) (auto simp: path_text_def takeWhile_append takeWhile_eq_all_conv)
  from a assms(2) show "dropWhile (\<lambda>c. c \<noteq> slash) (authority @ path) = path"
    by (cases path) (auto simp: path_text_def dropWhile_append)
qed

lemma parse_rest_authority:
  assumes "slash \<notin> set authority" and "path_text path" and "Scheme u \<noteq> []"
  shows "parse_rest hosts (slash # slash # authority @ path) u =
    (case parseAuthority hosts (Scheme u) authority of
       None \<Rightarrow> None
     | Some (user, host) \<Rightarrow> setPath path (u\<lparr>UserSet := user, Host := host\<rparr>))"
  using authority_of [OF assms(1,2)] assms(3) by (simp add: parse_rest_def HasPrefix_def Let_def)

text \<open>Putting a URL together from a scheme, an authority and a path that decodes.\<close>

lemma Parse_url_text:
  assumes "\<forall>c \<in> set (url_text scheme authority path). \<not> ctl_byte c \<and> c \<noteq> CHR ''?'' \<and> c \<noteq> CHR ''#''"
    and "\<forall>raw t. getScheme raw [] (scheme @ CHR '':'' # t) = Some (scheme, t)" and "scheme \<noteq> []"
    and "slash \<notin> set authority" and "path_text path"
    and "parseAuthority hosts (map ascii_lower scheme) authority = Some (user, host)" and "unescape path = Some x"
  shows "Parse hosts (url_text scheme authority path) = Some (empty_url\<lparr>Scheme := map ascii_lower scheme,
    UserSet := user, Host := host, Path := x, RawPath := if path = escape x then [] else path\<rparr>)"
proof -
  have "getScheme (url_text scheme authority path) [] (url_text scheme authority path) = Some (scheme, slash # slash # authority @ path)"
    unfolding url_text_def using assms(2) by blast
  from parse_with_scheme [OF assms(1) this] have "Parse hosts (url_text scheme authority path)
      = parse_rest hosts (slash # slash # authority @ path) (empty_url\<lparr>Scheme := map ascii_lower scheme\<rparr>)"
    using assms(3) by (cases scheme) (auto simp: url_text_def)
  also have "\<dots> = setPath path (empty_url\<lparr>Scheme := map ascii_lower scheme, UserSet := user, Host := host\<rparr>)"
    using parse_rest_authority [OF assms(4,5), of "empty_url\<lparr>Scheme := map ascii_lower scheme\<rparr>" hosts] assms(3,6) by simp
  finally show ?thesis using assms(7) by (simp add: setPath_def)
qed

text \<open>Taking a URL with a host apart.\<close>

lemma parse_rest_host:
  assumes "parse_rest hosts rest u = Some v" and "Host v \<noteq> []" and "Host u = []"
  shows "\<exists>authority path. rest = slash # slash # authority @ path \<and> slash \<notin> set authority \<and> path_text path
    \<and> (\<exists>user x. parseAuthority hosts (Scheme u) authority = Some (user, Host v) \<and> UserSet v = user
         \<and> unescape path = Some x \<and> Path v = x \<and> Scheme v = Scheme u)"
proof -
  let ?a = "takeWhile (\<lambda>c. c \<noteq> slash) (drop 2 rest)" and ?p = "dropWhile (\<lambda>c. c \<noteq> slash) (drop 2 rest)"
  have "HasPrefix rest [slash, slash]"
    using assms by (auto simp: parse_rest_def setPath_def split: if_splits option.splits)
  then have r: "rest = slash # slash # drop 2 rest"
    by (cases rest; cases "tl rest") (auto simp: HasPrefix_def)
  have one: "HasPrefix rest [slash]" by (subst r) (simp add: HasPrefix_def)
  have path: "path_text ?p" using hd_dropWhile [of "\<lambda>c. c \<noteq> slash" "drop 2 rest"] by (auto simp: path_text_def)
  have "slash \<notin> set ?a" by (auto dest: set_takeWhileD)
  moreover have "parse_rest hosts rest u = (case parseAuthority hosts (Scheme u) ?a of None \<Rightarrow> None
      | Some (user, host) \<Rightarrow> setPath ?p (u\<lparr>UserSet := user, Host := host\<rparr>)) \<or> parse_rest hosts rest u = setPath rest u"
    using \<open>HasPrefix rest [slash, slash]\<close> one by (auto simp: parse_rest_def Let_def)
  moreover have "setPath rest u \<noteq> Some v" using assms(2,3) by (auto simp: setPath_def split: option.splits)
  ultimately have "slash \<notin> set ?a" and s: "(case parseAuthority hosts (Scheme u) ?a of None \<Rightarrow> None
      | Some (user, host) \<Rightarrow> setPath ?p (u\<lparr>UserSet := user, Host := host\<rparr>)) = Some v" using assms(1) by auto
  moreover have "rest = slash # slash # ?a @ ?p" using r by simp
  ultimately show ?thesis using path
    by (intro exI [of _ ?a] exI [of _ ?p]) (auto simp: setPath_def split: option.splits)
qed

lemma Parse_no_fragment: "CHR ''#'' \<notin> set raw \<Longrightarrow> Parse hosts raw = parse_url hosts raw"
  by (simp add: Parse_def Cut_none split: option.splits)

lemma setPath_keeps: "setPath p u = Some v \<Longrightarrow> Scheme v = Scheme u \<and> Host v = Host u \<and> UserSet v = UserSet u"
  by (auto simp: setPath_def split: option.splits)

lemma parse_rest_Scheme: "parse_rest hosts rest u = Some v \<Longrightarrow> Scheme v = Scheme u"
  by (auto simp: parse_rest_def Let_def dest!: setPath_keeps split: if_splits option.splits)

text \<open>Without a question mark there is no query to cut off.\<close>

lemma parse_url_plain:
  assumes "parse_url hosts raw = Some v" and "raw \<noteq> ''*''" and "getScheme raw [] raw = Some (scheme, rest)"
    and "CHR ''?'' \<notin> set rest"
  shows "parse_rest hosts rest (empty_url\<lparr>Scheme := map ascii_lower scheme\<rparr>) = Some v"
proof -
  let ?u = "empty_url\<lparr>Scheme := map ascii_lower scheme\<rparr>"
  have q: "?u\<lparr>RawQuery := []\<rparr> = ?u" by (simp add: empty_url_def)
  have "parse_url hosts raw = parse_rest hosts rest (?u\<lparr>RawQuery := []\<rparr>)"
    using assms not_suffix_without [OF assms(4)] by (simp add: parse_url_def Cut_none Let_def split: if_splits)
  with assms(1) q show ?thesis by simp
qed

lemma parse_url_Some:
  assumes "parse_url hosts raw = Some v"
  shows "(\<forall>c \<in> set raw. \<not> ctl_byte c) \<and> (raw = ''*'' \<and> v = empty_url\<lparr>Path := ''*''\<rparr>
    \<or> raw \<noteq> ''*'' \<and> (\<exists>scheme rest. getScheme raw [] raw = Some (scheme, rest)))"
  using assms by (auto simp: parse_url_def split: if_splits option.splits)

lemma getScheme_none: "getScheme raw acc s = Some ([], rest) \<Longrightarrow> rest = raw"
  by (induction raw acc s rule: getScheme.induct) (auto split: if_splits)

lemma Parse_host_parts:
  assumes "Parse hosts raw = Some v" and "CHR ''?'' \<notin> set raw" and "CHR ''#'' \<notin> set raw"
    and "Scheme v \<noteq> []" and "Host v \<noteq> []"
  shows "\<exists>scheme authority path. raw = url_text scheme authority path \<and> scheme \<noteq> [] \<and> slash \<notin> set authority
    \<and> path_text path \<and> (\<forall>raw t. getScheme raw [] (scheme @ CHR '':'' # t) = Some (scheme, t))
    \<and> parseAuthority hosts (map ascii_lower scheme) authority = Some (UserSet v, Host v)
    \<and> unescape path = Some (Path v) \<and> Scheme v = map ascii_lower scheme"
proof -
  from assms(1,3) have p: "parse_url hosts raw = Some v" by (simp add: Parse_no_fragment)
  have star: "raw \<noteq> ''*''" using assms(4) parse_url_Some [OF p] by (auto simp: empty_url_def)
  with parse_url_Some [OF p] obtain scheme rest where g: "getScheme raw [] raw = Some (scheme, rest)" by blast
  have "scheme \<noteq> []"
  proof
    assume s: "scheme = []"
    with g have "rest = raw" using getScheme_none by blast
    with parse_url_plain [OF p star g] assms(2) have "parse_rest hosts rest (empty_url\<lparr>Scheme := map ascii_lower scheme\<rparr>) = Some v" by simp
    from parse_rest_Scheme [OF this] s assms(4) show False by simp
  qed
  with getScheme_found [OF g] have raw: "raw = scheme @ CHR '':'' # rest"
    and any: "\<forall>raw t. getScheme raw [] (scheme @ CHR '':'' # t) = Some (scheme, t)" by auto
  have "CHR ''?'' \<notin> set rest" using assms(2) raw by simp
  from parse_rest_host [OF parse_url_plain [OF p star g this] assms(5)] obtain authority path
    where "rest = slash # slash # authority @ path" "slash \<notin> set authority" "path_text path"
      "parseAuthority hosts (map ascii_lower scheme) authority = Some (UserSet v, Host v)"
      "unescape path = Some (Path v)" "Scheme v = map ascii_lower scheme"
    by (auto simp: empty_url_def)
  with raw any \<open>scheme \<noteq> []\<close> show ?thesis unfolding url_text_def by blast
qed

text \<open>The user information of a URL decodes.\<close>

lemma authority_decodes:
  assumes "parseAuthority hosts scheme authority = Some (user, [])" and "host_laws hosts"
  shows "unescape authority \<noteq> None \<and> (\<not> user \<longrightarrow> authority = [])"
proof -
  let ?h = "rev (takeWhile (\<lambda>c. c \<noteq> CHR ''@'') (rev authority))"
  let ?i = "take (length authority - length ?h - 1) authority"
  have "hosts scheme ?h = Some []" using assms(1) by (auto simp: parseAuthority_def Let_def split: option.splits if_splits)
  then have h: "?h = []" using assms(2) by (simp add: host_laws_def)
  show ?thesis
  proof (cases "CHR ''@'' \<in> set authority")
    case False
    then have "\<forall>c \<in> set (rev authority). c \<noteq> CHR ''@''" by auto
    then have "takeWhile (\<lambda>c. c \<noteq> CHR ''@'') (rev authority) = rev authority" by (simp add: takeWhile_eq_all_conv)
    with h show ?thesis by simp
  next
    case True
    with assms(1) h have u: user and d: "unescape (fst (Cut ?i (CHR '':''))) \<noteq> None" "unescape (snd (Cut ?i (CHR '':''))) \<noteq> None"
      by (auto simp: parseAuthority_def Let_def Contains_def split: option.splits if_splits)
    have "unescape ?i \<noteq> None"
      using unescape_both [OF d(1), of "if CHR '':'' \<in> set ?i then CHR '':'' # snd (Cut ?i (CHR '':'')) else []"] d(2)
      by (simp only: Cut_cases [of ?i "CHR '':''"] split: if_splits) simp_all
    moreover have "authority = ?i @ ''@''"
    proof -
      from h have "last authority = CHR ''@''" and ne: "authority \<noteq> []"
        using True by (cases "rev authority", auto split: if_splits)+
      then have "authority = butlast authority @ ''@''" by (metis append_butlast_last_id)
      moreover have "?i = butlast authority" unfolding h by (simp add: butlast_conv_take)
      ultimately show ?thesis by simp
    qed
    moreover have "unescape ''@'' \<noteq> None" by simp
    ultimately have "unescape authority \<noteq> None" using unescape_both [of ?i "''@''"] by simp
    with u show ?thesis by simp
  qed
qed

text \<open>A relative reference without a host: the text decodes, and without user information the path is
  that text up to slashes it starts with.\<close>

lemma unescape_TrimLeft: "unescape s \<noteq> None \<Longrightarrow> unescape (TrimLeftSet s [slash]) \<noteq> None"
proof (induction s)
  case (Cons c s)
  show ?case
  proof (cases "c = slash")
    case True
    then have "unescape s \<noteq> None" using Cons.prems by (simp only: unescape_colon_at) simp
    with Cons.IH True show ?thesis by (simp add: TrimLeftSet_def)
  qed (use Cons.prems in \<open>simp add: TrimLeftSet_def\<close>)
qed (simp add: TrimLeftSet_def)

lemma unescape_replicate: "unescape (replicate n slash @ s) = map_option (\<lambda>y. replicate n slash @ y) (unescape s)"
  by (rule unescape_append) (simp add: unescape_slashes)

lemma slashes_and_rest: "\<exists>n. s = replicate n slash @ TrimLeftSet s [slash]"
proof -
  have "takeWhile (\<lambda>c. c = slash) s = replicate (length (takeWhile (\<lambda>c. c = slash) s)) slash"
    by (intro replicate_eqI) (auto dest: set_takeWhileD)
  then show ?thesis
    by (intro exI [of _ "length (takeWhile (\<lambda>c. c = slash) s)"]) (simp add: TrimLeftSet_def takeWhile_dropWhile_id)
qed

lemma Split_slashes: "Split (replicate n slash @ s) slash = replicate n [] @ Split s slash"
  by (induction n) simp_all

lemma Parse_reference:
  assumes "Parse hosts s = Some v" and "CHR ''?'' \<notin> set s" and "CHR ''#'' \<notin> set s"
    and "Scheme v = []" and "Host v = []" and "host_laws hosts"
  shows "(\<forall>c \<in> set s. \<not> ctl_byte c) \<and> (\<exists>y. unescape (TrimLeftSet s [slash]) = Some y
    \<and> (\<not> UserSet v \<longrightarrow> (\<forall>t \<in> set (Split y slash). t \<in> set (Split (Path v) slash) \<or> t = [])))"
proof (cases "s = ''*''")
  case True
  have p: "parse_url hosts s = Some v" using assms(1,3) by (simp add: Parse_no_fragment)
  then have "Path v = ''*''" using True parse_url_Some [OF p] by (auto simp: empty_url_def)
  moreover have "TrimLeftSet ''*'' [slash] = ''*''" and "unescape ''*'' = Some ''*''" by code_simp+
  ultimately show ?thesis using True parse_url_Some [OF p] by simp
next
  case star: False
  have p: "parse_url hosts s = Some v" using assms(1,3) by (simp add: Parse_no_fragment)
  with parse_url_Some [OF p] star obtain scheme rest where ctl: "\<forall>c \<in> set s. \<not> ctl_byte c"
    and g: "getScheme s [] s = Some (scheme, rest)" by blast
  have q: "CHR ''?'' \<notin> set rest"
    using g assms(2) getScheme_none [of s "[]" s rest] getScheme_found [OF g] by (cases "scheme = []") auto
  let ?u = "empty_url\<lparr>Scheme := map ascii_lower scheme\<rparr>"
  have r: "parse_rest hosts rest ?u = Some v" by (rule parse_url_plain [OF p star g q])
  have "scheme = []" using parse_rest_Scheme [OF r] assms(4) by simp
  with g have rest: "rest = s" using getScheme_none by blast
  let ?a = "takeWhile (\<lambda>c. c \<noteq> slash) (drop 2 s)" and ?p = "dropWhile (\<lambda>c. c \<noteq> slash) (drop 2 s)"
  obtain n where s: "s = replicate n slash @ TrimLeftSet s [slash]" using slashes_and_rest by blast
  have direct: "\<exists>y. unescape (TrimLeftSet s [slash]) = Some y \<and> (\<forall>t \<in> set (Split y slash). t \<in> set (Split (Path v) slash) \<or> t = [])"
    if "setPath s u = Some v" for u
  proof -
    from that have "unescape s = Some (Path v)" by (auto simp: setPath_def split: option.splits)
    with unescape_replicate [of n "TrimLeftSet s [slash]"] s obtain y
      where y: "unescape (TrimLeftSet s [slash]) = Some y" and pv: "Path v = replicate n slash @ y" by (metis map_option_eq_Some option.inject)
    from Split_slashes [of n y] pv have "set (Split y slash) \<subseteq> set (Split (Path v) slash)" by auto
    with y show ?thesis by blast
  qed
  show ?thesis
  proof (cases "\<not> HasPrefix s [slash, slash, slash] \<and> HasPrefix s [slash, slash]")
    case False
    with r rest \<open>scheme = []\<close> have "setPath s ?u = Some v" by (auto simp: parse_rest_def empty_url_def split: if_splits)
    with direct ctl show ?thesis by blast
  next
    case True
    then have s2: "s = slash # slash # drop 2 s" by (cases s; cases "tl s") (auto simp: HasPrefix_def)
    then have "HasPrefix s [slash]" by (cases s) (auto simp: HasPrefix_def)
    with True r rest \<open>scheme = []\<close> obtain user host where a: "parseAuthority hosts [] ?a = Some (user, host)"
      and v: "setPath ?p (empty_url\<lparr>UserSet := user, Host := host\<rparr>) = Some v"
      by (auto simp: parse_rest_def Let_def empty_url_def split: option.splits if_splits)
    from setPath_keeps [OF v] assms(5) have h: "host = []" and uv: "UserSet v = user" by simp_all
    note d = authority_decodes [OF a [unfolded h] assms(6)]
    have "unescape ?p \<noteq> None" using v by (auto simp: setPath_def split: option.splits)
    then have "unescape (drop 2 s) \<noteq> None" using unescape_both [of ?a ?p] d by (metis takeWhile_dropWhile_id)
    then have "unescape s \<noteq> None" by (subst s2) (simp del: unescape.simps)
    then obtain y where y: "unescape (TrimLeftSet s [slash]) = Some y" using unescape_TrimLeft by blast
    have "\<not> user \<Longrightarrow> Split y slash = [[]]"
    proof -
      assume "\<not> user"
      with d have "?a = []" by blast
      then have "drop 2 s = [] \<or> hd (drop 2 s) = slash" by (cases "drop 2 s") (auto split: if_splits)
      moreover have "\<not> (drop 2 s \<noteq> [] \<and> hd (drop 2 s) = slash)"
        using True s2 by (cases "drop 2 s") (auto simp: HasPrefix_def numeral_3_eq_3)
      ultimately have "s = [slash, slash]" using s2 by auto
      with y show "Split y slash = [[]]" by (simp add: TrimLeftSet_def)
    qed
    with y uv ctl show ?thesis by auto
  qed
qed

end
