(* ===== verification/Crypto.thy ===== *)
theory Crypto imports GoLib begin

text \<open>
  \<open>internal/security/encryption.go\<close>: credentials are sealed with AES-GCM under a random nonce and
  stored as Base64 text; and the loading of the key (\<open>internal/config/oauth.go\<close>). The cipher
  of the library is a parameter: \<open>Seal\<close> and \<open>Open\<close> for a key, a nonce and a text.
\<close>

section \<open>Base64\<close>

definition b64std_char :: "nat \<Rightarrow> char" where
  "b64std_char n = (if n = 62 then CHR 0x2B else if n = 63 then CHR 0x2F else b64url_char n)"

definition b64std_value :: "char \<Rightarrow> nat option" where
  "b64std_value c = (let n = of_char c in
     if 65 \<le> n \<and> n \<le> 90 then Some (n - 65) else if 97 \<le> n \<and> n \<le> 122 then Some (n - 71)
     else if 48 \<le> n \<and> n \<le> 57 then Some (n + 4)
     else if n = 43 then Some 62 else if n = 47 then Some 63 else None)"

definition pad :: char where
  "pad = CHR 0x3D"

text \<open>\<open>base64.StdEncoding.Encode\<close>\<close>

definition StdEncode :: "bytes \<Rightarrow> bytes" where
  "StdEncode s = map b64std_char (sextets (map of_char s)) @ replicate ((3 - length s mod 3) mod 3) pad"

text \<open>
  \<open>base64.StdEncoding.Decode\<close>: line breaks are skipped wherever they are; the rest are groups of
  four characters, the last of which may be padded; the bits past the last byte are ignored.
\<close>

definition byte1 :: "nat \<Rightarrow> nat \<Rightarrow> char" where
  "byte1 a b = char_of (a * 4 + b div 16)"

definition byte2 :: "nat \<Rightarrow> nat \<Rightarrow> char" where
  "byte2 b c = char_of (b mod 16 * 16 + c div 4)"

definition byte3 :: "nat \<Rightarrow> nat \<Rightarrow> char" where
  "byte3 c d = char_of (c mod 4 * 64 + d)"

fun decode_quanta :: "bytes \<Rightarrow> bytes option" where
  "decode_quanta [] = Some []"
| "decode_quanta (a # b # c # d # r) =
     (case (b64std_value a, b64std_value b) of
        (Some x, Some y) \<Rightarrow>
          (case b64std_value c of
             None \<Rightarrow> if c = pad \<and> d = pad \<and> r = [] then Some [byte1 x y] else None
           | Some z \<Rightarrow>
               (case b64std_value d of
                  None \<Rightarrow> if d = pad \<and> r = [] then Some [byte1 x y, byte2 y z] else None
                | Some w \<Rightarrow> map_option (\<lambda>t. byte1 x y # byte2 y z # byte3 z w # t) (decode_quanta r)))
      | _ \<Rightarrow> None)"
| "decode_quanta _ = None"

definition StdDecode :: "bytes \<Rightarrow> bytes option" where
  "StdDecode s = decode_quanta (filter (\<lambda>c. c \<noteq> CHR 0x0A \<and> c \<noteq> CHR 0x0D) s)"

text \<open>What was encoded decodes to itself.\<close>

lemma std_alphabet: "\<forall>n \<in> set [0..<64]. b64std_value (b64std_char n) = Some n
    \<and> b64std_char n \<noteq> CHR 0x0A \<and> b64std_char n \<noteq> CHR 0x0D \<and> of_char (b64std_char n) < (128 :: nat)"
  by code_simp

lemma b64std_char [simp]: "n < 64 \<Longrightarrow> b64std_value (b64std_char n) = Some n"
  using std_alphabet by simp

lemma pad_value [simp]: "b64std_value pad = None"
  by code_simp

lemma quantum_bytes:
  assumes "a < 256" and "b < 256" and "c < (256 :: nat)"
  shows "byte1 (a div 4) (a mod 4 * 16 + b div 16) = char_of a"
    and "byte2 (a mod 4 * 16 + b div 16) (b mod 16 * 4 + c div 64) = char_of b"
    and "byte3 (b mod 16 * 4 + c div 64) (c mod 64) = char_of c"
    and "byte1 (a div 4) (a mod 4 * 16) = char_of a"
    and "byte2 (a mod 4 * 16 + b div 16) (b mod 16 * 4) = char_of b"
proof -
  have q: "a div 4 * 4 + a mod 4 = a" "b div 16 * 16 + b mod 16 = b" "c div 64 * 64 + c mod 64 = c" by simp_all
  have d: "(a mod 4 * 16 + b div 16) div 16 = a mod 4" "(a mod 4 * 16 + b div 16) mod 16 = b div 16"
    "(b mod 16 * 4 + c div 64) div 4 = b mod 16" "(b mod 16 * 4 + c div 64) mod 4 = c div 64"
    using assms by auto
  show "byte1 (a div 4) (a mod 4 * 16 + b div 16) = char_of a"
    and "byte2 (a mod 4 * 16 + b div 16) (b mod 16 * 4 + c div 64) = char_of b"
    and "byte3 (b mod 16 * 4 + c div 64) (c mod 64) = char_of c"
    and "byte1 (a div 4) (a mod 4 * 16) = char_of a"
    and "byte2 (a mod 4 * 16 + b div 16) (b mod 16 * 4) = char_of b"
    unfolding byte1_def byte2_def byte3_def d using q d by simp_all
qed

lemma quantum_bounds:
  "a < 256 \<Longrightarrow> a div 4 < (64 :: nat)" "b < 256 \<Longrightarrow> a mod 4 * 16 + b div 16 < (64 :: nat)"
  "c < 256 \<Longrightarrow> b mod 16 * 4 + c div 64 < (64 :: nat)" "c mod 64 < (64 :: nat)"
  "b mod 16 * 4 < (64 :: nat)" "a mod 4 * 16 < (64 :: nat)"
proof -
  have d: "a < 256 \<Longrightarrow> a div 4 < 64" "b < 256 \<Longrightarrow> b div 16 < 16" "c < 256 \<Longrightarrow> c div 64 < 4"
    by (simp_all add: less_mult_imp_div_less)
  have m: "a mod 4 < 4" "b mod 16 < 16" "c mod 64 < 64" by simp_all
  show "a < 256 \<Longrightarrow> a div 4 < 64" by (rule d(1))
  show "b < 256 \<Longrightarrow> a mod 4 * 16 + b div 16 < 64" using d(2) m(1) by linarith
  show "c < 256 \<Longrightarrow> b mod 16 * 4 + c div 64 < 64" using d(3) m(2) by linarith
  show "c mod 64 < 64" by (rule m(3))
  show "b mod 16 * 4 < 64" and "a mod 4 * 16 < 64" using m(1,2) by linarith+
qed

lemma decode_quantum3:
  assumes "x < 64" and "y < 64" and "z < 64" and "w < 64"
  shows "decode_quanta (b64std_char x # b64std_char y # b64std_char z # b64std_char w # r) =
    map_option (\<lambda>t. byte1 x y # byte2 y z # byte3 z w # t) (decode_quanta r)"
  using assms by simp

lemma decode_quantum2:
  assumes "x < 64" and "y < 64" and "z < 64"
  shows "decode_quanta [b64std_char x, b64std_char y, b64std_char z, pad] = Some [byte1 x y, byte2 y z]"
    and "decode_quanta [b64std_char x, b64std_char y, pad, pad] = Some [byte1 x y]"
  using assms by simp_all

lemma decode_encode_quanta:
  "\<forall>x \<in> set s. x < 256 \<Longrightarrow>
    decode_quanta (map b64std_char (sextets s) @ replicate ((3 - length s mod 3) mod 3) pad) = Some (map char_of s)"
proof (induction s rule: sextets.induct)
  case (1 a b c r)
  then have lim: "a < 256" "b < 256" "c < 256" and r: "\<forall>x \<in> set r. x < 256" by simp_all
  have "length (a # b # c # r) = length r + 3" by simp
  then have "length (a # b # c # r) mod 3 = length r mod 3" by (simp only: mod_add_self2)
  then show ?case
    by (simp only: sextets.simps list.map append_Cons quantum_bytes(1-3) [OF lim] option.map 1(1) [OF r]
        decode_quantum3 [OF quantum_bounds(1) [OF lim(1)] quantum_bounds(2) [OF lim(2), of a]
          quantum_bounds(3) [OF lim(3), of b] quantum_bounds(4) [of c]])
next
  case (2 a b)
  then have lim: "a < 256" "b < 256" by simp_all
  have p: "replicate ((3 - length [a, b] mod 3) mod 3) pad = [pad]" by simp
  show ?case
    by (simp only: p sextets.simps list.map append_Cons append_Nil quantum_bytes(1,5) [OF lim, of 0, simplified]
        decode_quantum2(1) [OF quantum_bounds(1) [OF lim(1)] quantum_bounds(2) [OF lim(2), of a] quantum_bounds(5) [of b]])
next
  case (3 a)
  then have lim: "a < 256" by simp
  have p: "replicate ((3 - length [a] mod 3) mod 3) pad = [pad, pad]" by (simp add: numeral_2_eq_2)
  show ?case
    by (simp only: p sextets.simps list.map append_Cons append_Nil quantum_bytes(4) [OF lim, of 0 0, simplified]
        decode_quantum2(2) [OF quantum_bounds(1) [OF lim] quantum_bounds(6) [of a] quantum_bounds(4)])
qed simp

lemma StdEncode_chars: "c \<in> set (StdEncode s) \<Longrightarrow> c \<noteq> CHR 0x0A \<and> c \<noteq> CHR 0x0D \<and> of_char c < (128 :: nat)"
  using std_alphabet sextets_bound [of "map of_char s :: nat list"]
  by (auto simp: StdEncode_def pad_def)

lemma StdEncode_nonzero: "CHR 0x00 \<notin> set (StdEncode s)"
proof -
  have "\<forall>n \<in> set [0..<64]. b64std_char n \<noteq> CHR 0x00" by code_simp
  then show ?thesis using sextets_bound [of "map of_char s :: nat list"]
    by (fastforce simp: StdEncode_def pad_def)
qed

lemma StdDecode_StdEncode [simp]: "StdDecode (StdEncode s) = Some s"
proof -
  have "filter (\<lambda>c. c \<noteq> CHR 0x0A \<and> c \<noteq> CHR 0x0D) (StdEncode s) = StdEncode s"
    using StdEncode_chars by (simp add: filter_id_conv)
  then have "StdDecode (StdEncode s) = decode_quanta (StdEncode s)" by (simp add: StdDecode_def)
  also have "\<dots> = Some (map char_of (map of_char s :: nat list))"
    unfolding StdEncode_def using decode_encode_quanta [of "map of_char s :: nat list"] by simp
  finally show ?thesis by (simp add: map_idI)
qed

section \<open>Encrypt and Decrypt\<close>

text \<open>\<open>Seal\<close> appends a tag of 16 bytes; \<open>Open\<close> is none when the tag does not authenticate the text.\<close>

record aead =
  Seal :: "bytes \<Rightarrow> bytes \<Rightarrow> bytes \<Rightarrow> bytes"
  Open :: "bytes \<Rightarrow> bytes \<Rightarrow> bytes \<Rightarrow> bytes option"

definition NonceSize :: nat where
  "NonceSize = 12"

definition Overhead :: nat where
  "Overhead = 16"

text \<open>\<open>aes.NewCipher\<close> accepts keys of 16, 24 and 32 bytes; a cipher of AES always has a GCM.\<close>

definition NewCipher :: "bytes \<Rightarrow> go_error option" where
  "NewCipher key = (if length key \<in> {16, 24, 32} then None else Some (Other ''crypto/aes: invalid key size''))"

text \<open>\<open>rnd\<close> is the random source, of which the nonce takes its bytes.\<close>

definition Encrypt :: "aead \<Rightarrow> go_error + bytes \<Rightarrow> bytes \<Rightarrow> bytes \<Rightarrow> go_error + bytes" where
  "Encrypt gcm rnd key plaintext =
     (case NewCipher key of
        Some e \<Rightarrow> Inl (Wrap ''create AES cipher'' e)
      | None \<Rightarrow> (case rnd of
            Inl e \<Rightarrow> Inl (Wrap ''generate AES-GCM nonce'' e)
          | Inr random \<Rightarrow> let nonce = fill_bytes NonceSize random in
              Inr (StdEncode (nonce @ Seal gcm key nonce plaintext))))"

definition Decrypt :: "aead \<Rightarrow> bytes \<Rightarrow> bytes \<Rightarrow> go_error + bytes" where
  "Decrypt gcm key encodedCiphertext =
     (case NewCipher key of
        Some e \<Rightarrow> Inl (Wrap ''create AES cipher'' e)
      | None \<Rightarrow> (case StdDecode encodedCiphertext of
            None \<Rightarrow> Inl (Wrap ''decode AES-GCM ciphertext'' (Other ''illegal base64 data''))
          | Some ciphertext \<Rightarrow>
              if length ciphertext < NonceSize + Overhead then Inl (Other ''invalid AES-GCM ciphertext'')
              else (case Open gcm key (take NonceSize ciphertext) (drop NonceSize ciphertext) of
                  None \<Rightarrow> Inl (Wrap ''decrypt AES-GCM ciphertext'' (Other ''cipher: message authentication failed''))
                | Some plaintext \<Rightarrow> Inr plaintext)))"

text \<open>The laws of an authenticated cipher: a sealed text opens under its key and nonce only to itself,
  and nothing opens that was not sealed.\<close>

definition aead_laws :: "aead \<Rightarrow> bool" where
  "aead_laws gcm \<longleftrightarrow>
     (\<forall>key nonce plaintext. Open gcm key nonce (Seal gcm key nonce plaintext) = Some plaintext)
   \<and> (\<forall>key nonce plaintext. length (Seal gcm key nonce plaintext) = length plaintext + Overhead)
   \<and> (\<forall>key nonce data plaintext. Open gcm key nonce data = Some plaintext \<longrightarrow> data = Seal gcm key nonce plaintext)"

section \<open>The key\<close>

text \<open>\<open>LoadOAuthEncryptionKey\<close> on the value of \<open>OAUTH_ENCRYPTION_KEY\<close>.\<close>

definition LoadOAuthEncryptionKey :: "bytes \<Rightarrow> go_error + bytes" where
  "LoadOAuthEncryptionKey env = (case StdDecode (TrimSpace env) of
       None \<Rightarrow> Inl (Other ''OAUTH_ENCRYPTION_KEY must be a Base64-encoded 32-byte key when OAuth is enabled'')
     | Some key \<Rightarrow> if length key \<noteq> 32
         then Inl (Other ''OAUTH_ENCRYPTION_KEY must be a Base64-encoded 32-byte key when OAuth is enabled'')
         else Inr key)"

section \<open>Facts\<close>

lemma aead_lawsD:
  assumes "aead_laws gcm"
  shows "Open gcm key nonce (Seal gcm key nonce p) = Some p"
    and "length (Seal gcm key nonce p) = length p + Overhead"
    and "Open gcm key nonce data = Some p \<Longrightarrow> data = Seal gcm key nonce p"
proof -
  note a = assms [unfolded aead_laws_def]
  show "Open gcm key nonce (Seal gcm key nonce p) = Some p" by (simp add: a [THEN conjunct1])
  show "length (Seal gcm key nonce p) = length p + Overhead" by (simp add: a [THEN conjunct2, THEN conjunct1])
  show "Open gcm key nonce data = Some p \<Longrightarrow> data = Seal gcm key nonce p"
    by (rule a [THEN conjunct2, THEN conjunct2, THEN spec, THEN spec, THEN spec, THEN spec, THEN mp])
qed

lemma Decrypt_Encrypt:
  assumes "aead_laws gcm" and "Encrypt gcm rnd key p = Inr c"
  shows "Decrypt gcm key c = Inr p"
proof -
  from assms(2) obtain random where k: "NewCipher key = None"
    and c: "c = StdEncode (fill_bytes NonceSize random @ Seal gcm key (fill_bytes NonceSize random) p)"
    by (auto simp: Encrypt_def Let_def split: option.splits sum.splits)
  from aead_lawsD(1,2) [OF assms(1), of key "fill_bytes NonceSize random" p] k show ?thesis
    by (simp add: Decrypt_def c)
qed

lemma Encrypt_ok: "length key \<in> {16, 24, 32} \<Longrightarrow> \<exists>c. Encrypt gcm (Inr nonce) key p = Inr c"
  by (simp add: Encrypt_def NewCipher_def Let_def)

lemma LoadOAuthEncryptionKey_InrD: "LoadOAuthEncryptionKey env = Inr key \<Longrightarrow> length key = 32"
  by (auto simp: LoadOAuthEncryptionKey_def split: option.splits if_splits)

text \<open>A text that decrypts was encrypted under this key, up to line breaks and stray bits of the
  encoding: its bytes are a nonce and the sealed text.\<close>

lemma Decrypt_InrD:
  assumes "aead_laws gcm" and "Decrypt gcm key c = Inr p"
  shows "\<exists>nonce. length nonce = NonceSize \<and> StdDecode c = Some (nonce @ Seal gcm key nonce p)"
proof -
  from assms(2) obtain s where s: "StdDecode c = Some s" "NonceSize + Overhead \<le> length s"
    and o: "Open gcm key (take NonceSize s) (drop NonceSize s) = Some p"
    by (auto simp: Decrypt_def split: option.splits if_splits)
  have "take NonceSize s @ Seal gcm key (take NonceSize s) p = s"
    using aead_lawsD(3) [OF assms(1) o] by (metis append_take_drop_id)
  with s show ?thesis by (intro exI [of _ "take NonceSize s"]) simp
qed

text \<open>A cipher with these laws, which hides nothing.\<close>

definition toy_cipher :: aead where
  "toy_cipher = \<lparr>Seal = (\<lambda>k n p. p @ replicate 16 pad), Open = (\<lambda>k n c.
     if 16 \<le> length c \<and> drop (length c - 16) c = replicate 16 pad then Some (take (length c - 16) c) else None)\<rparr>"

lemma toy_cipher_ok: "aead_laws toy_cipher"
  by (auto simp: aead_laws_def toy_cipher_def Overhead_def) (metis append_take_drop_id)

end
