(* ===== verification/ExternalKeys.thy ===== *)
theory ExternalKeys imports Tables GoUrl Crypto Json Http begin

text \<open>
  \<open>internal/modules/external_apikey\<close>: keys of other providers, stored encrypted with the endpoint they
  are for. The repository (\<open>repository.go\<close>), the service (\<open>service.go\<close>) and the handlers (\<open>handler.go\<close>).
\<close>

section \<open>The repository\<close>

datatype ext_stmt = X_Insert | X_List | X_ByHash | X_Update | X_Delete

type_synonym ext_faults = "ext_stmt \<Rightarrow> fault option"

definition keyHash :: "(bytes \<Rightarrow> bytes) \<Rightarrow> bytes \<Rightarrow> bytes" where
  "keyHash sha256 key = hex_encode (sha256 key)"

definition ext_Add :: "ext_faults \<Rightarrow> time \<Rightarrow> ExternalApikey \<Rightarrow> db \<Rightarrow> (go_error + ExternalApikey) \<times> db" where
  "ext_Add io now key d = call (io X_Insert) (insert_external now key) d"

definition GetUsersApiKey :: "ext_faults \<Rightarrow> uint64 \<Rightarrow> db \<Rightarrow> go_error + ExternalApikey list" where
  "GetUsersApiKey io userID d =
     query (io X_List) (Inr (asc ext_ID (filter (\<lambda>k. ext_UserID k = userID) (external_api_keys d))))"

definition QueryByApiKey :: "ext_faults \<Rightarrow> (bytes \<Rightarrow> bytes) \<Rightarrow> uint64 \<Rightarrow> bytes \<Rightarrow> db \<Rightarrow> go_error + ExternalApikey list" where
  "QueryByApiKey io sha256 userID raw d =
     query (io X_ByHash) (Inr (asc ext_ID
       (filter (\<lambda>k. ext_UserID k = userID \<and> ext_KeyHash k = keyHash sha256 raw) (external_api_keys d))))"

text \<open>A result without rows is \<open>ErrRecordNotFound\<close>.\<close>

definition some_row :: "(go_error + nat) \<times> db \<Rightarrow> (go_error + unit) \<times> db" where
  "some_row r = if_ok r (\<lambda>n d. (if n = 0 then Inl ErrRecordNotFound else Inr (), d))"

definition ext_Update :: "ext_faults \<Rightarrow> time \<Rightarrow> uint64 \<Rightarrow> uint64 \<Rightarrow> ExternalApikey \<Rightarrow> db \<Rightarrow> (go_error + unit) \<times> db" where
  "ext_Update io now userID i key d =
     some_row (call (io X_Update) (update_external (\<lambda>k. ext_UserID k = userID \<and> ext_ID k = i)
       (\<lambda>k. k\<lparr>ext_KeyHash := ext_KeyHash key, ext_Ciphertext := ext_Ciphertext key, ext_Endpoint := ext_Endpoint key,
              ext_Suffix := ext_Suffix key, ext_UpdatedAt := now\<rparr>)) d)"

definition ext_Delete :: "ext_faults \<Rightarrow> uint64 \<Rightarrow> uint64 \<Rightarrow> db \<Rightarrow> (go_error + unit) \<times> db" where
  "ext_Delete io userID i d =
     some_row (call (io X_Delete) (delete_external (\<lambda>k. ext_UserID k = userID \<and> ext_ID k = i)) d)"

section \<open>The service\<close>

record ExternalService =
  repository :: ext_faults
  encryptionKey :: bytes
  cipher :: aead
  urlHosts :: host_parser
  sha256_of :: "bytes \<Rightarrow> bytes"

record ExternalApikeyRequest =
  req_ExternalApikey :: bytes
  req_Endpoint :: bytes
  req_Suffix :: ExternalApikeySuffix

definition validPath :: "host_parser \<Rightarrow> bytes \<Rightarrow> bool" where
  "validPath hosts path =
     (case Parse hosts path of
        None \<Rightarrow> False
      | Some u \<Rightarrow>
          \<not> (IsAbs u \<or> Host u \<noteq> [] \<or> RawQuery u \<noteq> [] \<or> ForceQuery u \<or> Fragment u \<noteq> []
             \<or> ContainsAny path (CHR 0x5C # CHR 0x0D # CHR 0x0A # ''?#''))
          \<and> list_all (\<lambda>segment. segment \<noteq> ''..'' \<and> segment \<noteq> ''.'') (Split (Path u) slash))"

definition valid_endpoint :: "host_parser \<Rightarrow> bytes \<Rightarrow> bool" where
  "valid_endpoint hosts endpoint =
     (case Parse hosts endpoint of
        None \<Rightarrow> False
      | Some u \<Rightarrow> \<not> (Scheme u \<noteq> ''http'' \<and> Scheme u \<noteq> ''https'' \<or> Hostname u = [] \<or> UserSet u \<or> RawQuery u \<noteq> []
           \<or> ForceQuery u \<or> Fragment u \<noteq> [] \<or> ContainsAny endpoint (CHR 0x5C # ''?#'')
           \<or> \<not> validPath hosts (EscapedPath u)))"

definition valid_suffix :: "host_parser \<Rightarrow> bytes \<Rightarrow> bool" where
  "valid_suffix hosts suffix \<longleftrightarrow>
     \<not> (\<not> validPath hosts suffix
        \<or> suffix \<noteq> [] \<and> TrimRightSet (TrimLeftSet suffix [slash, CHR '' '']) [slash, CHR '' ''] = []
        \<or> ContainsAny suffix [CHR '' '', CHR 0x09])"

definition prepare :: "ExternalService \<Rightarrow> go_error + bytes \<Rightarrow> ExternalApikeyRequest \<Rightarrow> go_error + ExternalApikey" where
  "prepare s rnd req =
     (let endpoint = TrimSpace (req_Endpoint req) in
      if \<not> valid_endpoint (urlHosts s) endpoint then Inl ErrInvalidExternalKey
      else if TrimSpace (req_ExternalApikey req) = [] \<or> ContainsAny (req_ExternalApikey req) [CHR 0x0D, CHR 0x0A]
        then Inl ErrInvalidExternalKey
      else if \<not> list_all (valid_suffix (urlHosts s))
          [ChatCompletions (req_Suffix req), Responses (req_Suffix req), Messages (req_Suffix req)]
        then Inl ErrInvalidExternalKey
      else case Encrypt (cipher s) rnd (encryptionKey s) (req_ExternalApikey req) of
        Inl e \<Rightarrow> Inl e
      | Inr encrypted \<Rightarrow>
          Inr \<lparr>ext_ID = 0, ext_UserID = 0, ext_KeyHash = keyHash (sha256_of s) (req_ExternalApikey req),
               ext_Ciphertext = encrypted, ext_Endpoint = TrimRightSet endpoint [slash],
               ext_Suffix = req_Suffix req, ext_CreatedAt = 0, ext_UpdatedAt = 0\<rparr>)"

record ListItem =
  li_ID :: uint64
  li_Endpoint :: bytes
  li_Suffix :: ExternalApikeySuffix
  li_CreatedAt :: time
  li_UpdatedAt :: time

definition listItem :: "ExternalApikey \<Rightarrow> ListItem" where
  "listItem key = \<lparr>li_ID = ext_ID key, li_Endpoint = ext_Endpoint key, li_Suffix = ext_Suffix key,
     li_CreatedAt = ext_CreatedAt key, li_UpdatedAt = ext_UpdatedAt key\<rparr>"

definition ext_Create ::
  "ExternalService \<Rightarrow> time \<Rightarrow> go_error + bytes \<Rightarrow> uint64 \<Rightarrow> ExternalApikeyRequest \<Rightarrow> db \<Rightarrow> (go_error + ListItem) \<times> db" where
  "ext_Create s now rnd userID req d =
     (if userID = 0 then (Inl ErrInvalidExternalKey, d)
      else case prepare s rnd req of
        Inl e \<Rightarrow> (Inl e, d)
      | Inr key \<Rightarrow> if_ok (ext_Add (repository s) now (key\<lparr>ext_UserID := userID\<rparr>) d) (\<lambda>key d. (Inr (listItem key), d)))"

definition svc_Update ::
  "ExternalService \<Rightarrow> time \<Rightarrow> go_error + bytes \<Rightarrow> uint64 \<Rightarrow> uint64 \<Rightarrow> ExternalApikeyRequest \<Rightarrow> db \<Rightarrow> (go_error + unit) \<times> db" where
  "svc_Update s now rnd userID i req d =
     (if userID = 0 \<or> i = 0 then (Inl ErrInvalidExternalKey, d)
      else case prepare s rnd req of
        Inl e \<Rightarrow> (Inl e, d)
      | Inr key \<Rightarrow> ext_Update (repository s) now userID i key d)"

definition svc_Delete :: "ExternalService \<Rightarrow> uint64 \<Rightarrow> uint64 \<Rightarrow> db \<Rightarrow> (go_error + unit) \<times> db" where
  "svc_Delete s userID i d =
     (if userID = 0 \<or> i = 0 then (Inl ErrInvalidExternalKey, d) else ext_Delete (repository s) userID i d)"

definition svc_List :: "ExternalService \<Rightarrow> uint64 \<Rightarrow> db \<Rightarrow> go_error + ListItem list" where
  "svc_List s userID d =
     (if userID = 0 then Inl ErrInvalidExternalKey
      else case GetUsersApiKey (repository s) userID d of Inl e \<Rightarrow> Inl e | Inr keys \<Rightarrow> Inr (map listItem keys))"

definition ResolveURL :: "ExternalService \<Rightarrow> ExternalApikey \<Rightarrow> bytes \<Rightarrow> go_error + bytes" where
  "ResolveURL s key currentPath =
     (let suffix = (if currentPath = ''/v1/chat/completions'' then Some (ChatCompletions (ext_Suffix key))
                    else if currentPath = ''/v1/responses'' then Some (Responses (ext_Suffix key))
                    else if currentPath = ''/v1/messages'' then Some (Messages (ext_Suffix key)) else None) in
      case suffix of
        None \<Rightarrow> Inl ErrInvalidExternalKey
      | Some suffix \<Rightarrow>
          let suffix = (if suffix = [] then currentPath else suffix) in
          if \<not> validPath (urlHosts s) suffix then Inl ErrInvalidExternalKey
          else Inr (TrimRightSet (ext_Endpoint key) [slash] @ [slash] @ TrimLeftSet suffix [slash]))"

section \<open>The handlers\<close>

datatype ext_data = ExtItem ListItem | ExtList "ListItem list"

type_synonym ext_reply = "ext_data reply"

text \<open>\<open>requestIDs\<close>: the user of the context, and the parameter of the route if it has one.\<close>

definition requestIDs :: "uint64 option \<Rightarrow> bytes option \<Rightarrow> ext_reply + uint64 \<times> uint64" where
  "requestIDs user param =
     (case user of
        None \<Rightarrow> Inl (Error 401 40100 ''invalid user identity'')
      | Some userID \<Rightarrow>
          if userID = 0 \<or> max_bigint < userID then Inl (Error 401 40100 ''invalid user identity'')
          else (case param of
              None \<Rightarrow> Inr (userID, 0)
            | Some p \<Rightarrow> (case ParseUint p 63 of
                  None \<Rightarrow> Inl (Error 400 40000 ''invalid external api key id'')
                | Some i \<Rightarrow> if i = 0 then Inl (Error 400 40000 ''invalid external api key id'') else Inr (userID, i))))"

definition respondError :: "go_error \<Rightarrow> ext_reply" where
  "respondError e =
     (if errors_Is e ErrInvalidExternalKey then Error 400 40000 ''invalid external api key request''
      else if errors_Is e ErrRecordNotFound then Error 404 40400 ''external api key not found''
      else Error 500 50000 ''internal server error'')"

definition bind_external :: "bytes \<Rightarrow> ExternalApikeyRequest option" where
  "bind_external body = Option.bind (decoder_members body) (\<lambda>ms.
     let (key, ok1) = string_field ''external_apikey'' ms; (endpoint, ok2) = string_field ''endpoint'' ms;
         (suffix, ok3) = object_field ''suffix'' ms;
         (chat, ok4) = string_field ''chat_completions'' suffix; (responses, ok5) = string_field ''responses'' suffix;
         (messages, ok6) = string_field ''messages'' suffix in
     if ok1 \<and> ok2 \<and> ok3 \<and> ok4 \<and> ok5 \<and> ok6 \<and> key \<noteq> [] \<and> endpoint \<noteq> []
     then Some \<lparr>req_ExternalApikey = key, req_Endpoint = endpoint,
                req_Suffix = \<lparr>ChatCompletions = chat, Responses = responses, Messages = messages\<rparr>\<rparr>
     else None)"

definition CreatExternalApiKey ::
  "ExternalService \<Rightarrow> time \<Rightarrow> go_error + bytes \<Rightarrow> uint64 option \<Rightarrow> bytes \<Rightarrow> db \<Rightarrow> ext_reply \<times> db" where
  "CreatExternalApiKey s now rnd user body d =
     (case requestIDs user None of
        Inl r \<Rightarrow> (r, d)
      | Inr (userID, _) \<Rightarrow> (case bind_external body of
            None \<Rightarrow> (respondError ErrInvalidExternalKey, d)
          | Some req \<Rightarrow> (case ext_Create s now rnd userID req d of
                (Inl e, d) \<Rightarrow> (respondError e, d)
              | (Inr item, d) \<Rightarrow> (no_store (SuccessWithStatus 201 (Some (ExtItem item)) ''success''), d))))"

definition unit_reply :: "(go_error + unit) \<times> db \<Rightarrow> ext_reply \<times> db" where
  "unit_reply r = (case r of (Inl e, d) \<Rightarrow> (respondError e, d) | (Inr _, d) \<Rightarrow> (Success None, d))"

definition DeleteExternalApiKey ::
  "ExternalService \<Rightarrow> uint64 option \<Rightarrow> bytes \<Rightarrow> db \<Rightarrow> ext_reply \<times> db" where
  "DeleteExternalApiKey s user param d =
     (case requestIDs user (Some param) of
        Inl r \<Rightarrow> (r, d)
      | Inr (userID, i) \<Rightarrow> unit_reply (svc_Delete s userID i d))"

definition UpdateExternalApiKey ::
  "ExternalService \<Rightarrow> time \<Rightarrow> go_error + bytes \<Rightarrow> uint64 option \<Rightarrow> bytes \<Rightarrow> bytes \<Rightarrow> db \<Rightarrow> ext_reply \<times> db" where
  "UpdateExternalApiKey s now rnd user param body d =
     (case requestIDs user (Some param) of
        Inl r \<Rightarrow> (r, d)
      | Inr (userID, i) \<Rightarrow> (case bind_external body of
            None \<Rightarrow> (respondError ErrInvalidExternalKey, d)
          | Some req \<Rightarrow> unit_reply (svc_Update s now rnd userID i req d)))"

definition ListHandler :: "ExternalService \<Rightarrow> uint64 option \<Rightarrow> db \<Rightarrow> ext_reply" where
  "ListHandler s user d =
     (case requestIDs user None of
        Inl r \<Rightarrow> r
      | Inr (userID, _) \<Rightarrow> (case svc_List s userID d of
            Inl e \<Rightarrow> respondError e
          | Inr items \<Rightarrow> no_store (Success (Some (ExtList items)))))"

end
