(* ===== verification/ExternalProps.thy ===== *)
theory ExternalProps imports ExternalKeys begin

text \<open>
  The properties of external API keys, with witnesses: a key that was stored is recovered, owners
  are kept apart, and a request is sent to the host of its endpoint.
\<close>

section \<open>Stored keys\<close>

lemma prepare_InrD:
  assumes "prepare s rnd req = Inr key"
  shows "Encrypt (cipher s) rnd (encryptionKey s) (req_ExternalApikey req) = Inr (ext_Ciphertext key)"
    and "ext_KeyHash key = keyHash (sha256_of s) (req_ExternalApikey req)"
    and "ext_Endpoint key = TrimRightSet (TrimSpace (req_Endpoint req)) [slash]"
    and "valid_endpoint (urlHosts s) (TrimSpace (req_Endpoint req))" and "ext_Suffix key = req_Suffix req"
    and "list_all (valid_suffix (urlHosts s)) [ChatCompletions (ext_Suffix key), Responses (ext_Suffix key), Messages (ext_Suffix key)]"
    and "ext_ID key = 0" and "ext_UserID key = 0"
  using assms by (auto simp: prepare_def Let_def split: if_splits sum.splits)

lemma insert_external_InrD:
  assumes "insert_external now r d = (Inr k, d')"
  shows "k = r\<lparr>ext_ID := of_nat (external_api_keys_seq d), ext_CreatedAt := now, ext_UpdatedAt := now\<rparr>
    \<and> d' = d\<lparr>external_api_keys := external_api_keys d @ [k], external_api_keys_seq := Suc (external_api_keys_seq d)\<rparr>"
  using assms by (auto simp: insert_external_def Let_def split: if_splits)

lemma ext_Create_InrD:
  assumes "ext_Create s now rnd u req d = (Inr item, d')"
  shows "\<exists>key k. prepare s rnd req = Inr key \<and> u \<noteq> 0 \<and> item = listItem k
    \<and> k = key\<lparr>ext_UserID := u, ext_ID := of_nat (external_api_keys_seq d), ext_CreatedAt := now, ext_UpdatedAt := now\<rparr>
    \<and> d' = d\<lparr>external_api_keys := external_api_keys d @ [k], external_api_keys_seq := Suc (external_api_keys_seq d)\<rparr>"
  using assms unfolding ext_Create_def ext_Add_def
  by (auto dest!: if_ok_InrD call_InrD insert_external_InrD split: if_splits sum.splits)

lemma CreatExternalApiKey_created:
  assumes "CreatExternalApiKey s now rnd user body d = (reply, d')" and "reply_status reply = 201"
  shows "\<exists>u req item. user = Some u \<and> bind_external body = Some req \<and> ext_Create s now rnd u req d = (Inr item, d')
    \<and> reply = no_store (SuccessWithStatus 201 (Some (ExtItem item)) ''success'')"
  using assms by (auto simp: CreatExternalApiKey_def requestIDs_def respondError_def
      split: sum.splits option.splits prod.splits if_splits)

text \<open>C36: a key that was accepted is stored for its owner so that it can be recovered. One row is
  added, with an identifier that was not in use; its text decrypts under the key of the service to
  exactly the key of the request, and it is found by that key. The reply carries the endpoint and
  the suffixes as they were stored, and neither the key nor its hash; the tables stay consistent.\<close>

theorem external_key_recovered:
  assumes "aead_laws (cipher s)" and "db_inv d"
    and "CreatExternalApiKey s now rnd user body d = (reply, d')" and "reply_status reply = 201"
  shows "\<exists>u req k. user = Some u \<and> bind_external body = Some req \<and> external_api_keys d' = external_api_keys d @ [k]
    \<and> ext_UserID k = u \<and> ext_ID k \<notin> set (map ext_ID (external_api_keys d))
    \<and> Decrypt (cipher s) (encryptionKey s) (ext_Ciphertext k) = Inr (req_ExternalApikey req)
    \<and> (\<exists>rows. QueryByApiKey (\<lambda>_. None) (sha256_of s) u (req_ExternalApikey req) d' = Inr rows \<and> k \<in> set rows)
    \<and> reply_data reply = Some (ExtItem (listItem k)) \<and> db_inv d'"
proof -
  from CreatExternalApiKey_created [OF assms(3,4)] obtain u req item where u: "user = Some u" "bind_external body = Some req"
    and c: "ext_Create s now rnd u req d = (Inr item, d')"
    and reply: "reply = no_store (SuccessWithStatus 201 (Some (ExtItem item)) ''success'')" by blast
  from ext_Create_InrD [OF c] obtain key k where p: "prepare s rnd req = Inr key" and item: "item = listItem k"
    and k: "k = key\<lparr>ext_UserID := u, ext_ID := of_nat (external_api_keys_seq d), ext_CreatedAt := now, ext_UpdatedAt := now\<rparr>"
    and d': "d' = d\<lparr>external_api_keys := external_api_keys d @ [k], external_api_keys_seq := Suc (external_api_keys_seq d)\<rparr>"
    by blast
  note prep = prepare_InrD [OF p]
  have "Decrypt (cipher s) (encryptionKey s) (ext_Ciphertext k) = Inr (req_ExternalApikey req)"
    unfolding k by simp (rule Decrypt_Encrypt [OF assms(1) prep(1)])
  moreover have inv: "db_inv d'"
  proof -
    have "u \<noteq> 0 \<and> (\<exists>r. snd (call (repository s X_Insert) (insert_external now r) d) = d')"
      using c p unfolding ext_Create_def ext_Add_def
      by (auto dest!: if_ok_InrD split: if_splits) (metis snd_conv)
    then obtain r where "snd (call (repository s X_Insert) (insert_external now r) d) = d'" by blast
    with schema.called [OF assms(2), of "insert_external now r" "repository s X_Insert"] insert_external_keeps [OF assms(2)]
    show ?thesis by simp
  qed
  moreover have "ext_ID k \<notin> set (map ext_ID (external_api_keys d))"
    using inv by (simp add: d' db_inv_def external_ok_def identity_ok_def)
  moreover have "\<exists>rows. QueryByApiKey (\<lambda>_. None) (sha256_of s) u (req_ExternalApikey req) d' = Inr rows \<and> k \<in> set rows"
    using prep(2) by (simp add: QueryByApiKey_def d' k)
  moreover have "ext_UserID k = u" by (simp add: k)
  moreover have "external_api_keys d' = external_api_keys d @ [k]" by (simp add: d')
  ultimately show ?thesis using u by (auto simp: reply item)
qed

section \<open>Owners\<close>

text \<open>What the other users have: their keys, and which API keys use them.\<close>

definition others :: "uint64 \<Rightarrow> db \<Rightarrow> ExternalApikey list \<times> ApikeyExternalKey list" where
  "others u d = (filter (\<lambda>k. ext_UserID k \<noteq> u) (external_api_keys d), filter (\<lambda>k. ek_UserID k \<noteq> u) (api_key_external_keys d))"

interpretation owners: kept "\<lambda>d. others u d = x" for u x .

lemma others_insert: "ext_UserID r = u \<Longrightarrow> others u (snd (insert_external now r d)) = others u d"
  by (simp add: others_def insert_external_def Let_def)

lemma others_update:
  assumes "\<And>k. ext_UserID (f k) = ext_UserID k"
  shows "others u (snd (update_external (\<lambda>k. ext_UserID k = u \<and> ext_ID k = i) f d)) = others u d"
proof -
  have "filter (\<lambda>k. ext_UserID k \<noteq> u) (update_where (\<lambda>k. ext_UserID k = u \<and> ext_ID k = i) f rows)
      = filter (\<lambda>k. ext_UserID k \<noteq> u) rows" for rows
    using assms by (induction rows) (auto simp: update_where_def)
  then show ?thesis by (simp add: others_def update_external_def)
qed

lemma others_delete: "others u (snd (delete_external (\<lambda>k. ext_UserID k = u \<and> ext_ID k = i) d)) = others u d"
  by (auto simp: others_def delete_external_def Let_def intro!: filter_cong)

lemma some_row_snd [simp]: "snd (some_row r) = snd r"
  by (auto simp: some_row_def if_ok_def split: prod.splits sum.splits)

lemma unit_reply_snd [simp]: "snd (unit_reply r) = snd r"
  by (auto simp: unit_reply_def split: prod.splits sum.splits)

lemma others_kept:
  "others u (snd (ext_Create s now rnd u req d)) = others u d"
  "others u (snd (svc_Update s now rnd u i req d)) = others u d"
  "others u (snd (svc_Delete s u i d)) = others u d"
proof -
  have c: "others u (snd (call f op d)) = others u d" if "others u (snd (op d)) = others u d"
    for f and op :: "db \<Rightarrow> (go_error + 'b) \<times> db"
    by (rule owners.called) (simp_all add: that)
  have "others u (snd (ext_Add (repository s) now (key\<lparr>ext_UserID := u\<rparr>) d)) = others u d" for key
    unfolding ext_Add_def by (rule c) (rule others_insert, simp)
  then have "others u (snd (if_ok (ext_Add (repository s) now (key\<lparr>ext_UserID := u\<rparr>) d) (\<lambda>key d. (Inr (listItem key), d)))) = others u d" for key
    by (rule owners.sequenced) simp
  then show "others u (snd (ext_Create s now rnd u req d)) = others u d"
    by (simp add: ext_Create_def split: sum.splits)
  have "others u (snd (ext_Update (repository s) now u i key d)) = others u d" for key
    unfolding ext_Update_def some_row_snd by (rule c) (rule others_update, simp)
  then show "others u (snd (svc_Update s now rnd u i req d)) = others u d"
    by (simp add: svc_Update_def split: sum.splits)
  have "others u (snd (ext_Delete (repository s) u i d)) = others u d"
    unfolding ext_Delete_def some_row_snd by (rule c) (rule others_delete)
  then show "others u (snd (svc_Delete s u i d)) = others u d" by (simp add: svc_Delete_def)
qed

text \<open>C37: a user reaches only the keys of his own. Whatever a request asks for and however its
  statements fare, creating, replacing and deleting leave the keys of all other users, and the API
  keys that use them, as they were; a list holds only keys of the user; and without a user nothing
  changes and the answer is 401.\<close>

theorem external_keys_of_others_untouched:
  assumes "user = Some u"
  shows "others u (snd (CreatExternalApiKey s now rnd user body d)) = others u d
    \<and> others u (snd (UpdateExternalApiKey s now rnd user param body d)) = others u d
    \<and> others u (snd (DeleteExternalApiKey s user param d)) = others u d
    \<and> (\<forall>items. reply_data (ListHandler s user d) = Some (ExtList items) \<longrightarrow>
         set items \<subseteq> listItem ` {k \<in> set (external_api_keys d). ext_UserID k = u})
    \<and> CreatExternalApiKey s now rnd None body d = (Error 401 40100 ''invalid user identity'', d)
    \<and> UpdateExternalApiKey s now rnd None param body d = (Error 401 40100 ''invalid user identity'', d)
    \<and> DeleteExternalApiKey s None param d = (Error 401 40100 ''invalid user identity'', d)"
proof (intro conjI)
  have ids: "requestIDs user p = Inr (v, i) \<Longrightarrow> v = u" for p v i
    using assms by (auto simp: requestIDs_def split: option.splits if_splits)
  show "others u (snd (CreatExternalApiKey s now rnd user body d)) = others u d"
  proof (cases "requestIDs user None")
    case (Inr vi)
    obtain v i where "vi = (v, i)" by (cases vi)
    with Inr ids have "requestIDs user None = Inr (u, i)" by blast
    then show ?thesis using others_kept(1) [of u s now rnd _ d]
      by (auto simp: CreatExternalApiKey_def split: option.splits sum.splits prod.splits) (metis snd_conv)+
  qed (simp add: CreatExternalApiKey_def)
  show "others u (snd (UpdateExternalApiKey s now rnd user param body d)) = others u d"
    using ids others_kept(2) [of u s now rnd]
    by (auto simp: UpdateExternalApiKey_def split: sum.splits option.splits)
  show "others u (snd (DeleteExternalApiKey s user param d)) = others u d"
    using ids others_kept(3) [of u s] by (auto simp: DeleteExternalApiKey_def split: sum.splits)
  show "\<forall>items. reply_data (ListHandler s user d) = Some (ExtList items) \<longrightarrow>
      set items \<subseteq> listItem ` {k \<in> set (external_api_keys d). ext_UserID k = u}"
    using ids by (auto simp: ListHandler_def svc_List_def GetUsersApiKey_def respondError_def requestIDs_def
        dest!: query_InrD split: sum.splits if_splits option.splits)
qed (simp_all add: CreatExternalApiKey_def UpdateExternalApiKey_def DeleteExternalApiKey_def requestIDs_def)

section \<open>Where requests go\<close>

lemma TrimRightSet_slashes: "\<exists>n. s = TrimRightSet s [slash] @ replicate n slash"
proof -
  obtain n where "rev s = replicate n slash @ TrimLeftSet (rev s) [slash]" using slashes_and_rest by blast
  then have "s = rev (TrimLeftSet (rev s) [slash]) @ replicate n slash" by (metis rev_append rev_replicate rev_rev_ident)
  then show ?thesis by (auto simp: TrimRightSet_def TrimLeftSet_def)
qed

lemma TrimRightSet_append: "s \<noteq> [] \<Longrightarrow> last s \<noteq> slash \<Longrightarrow> TrimRightSet (s @ t) [slash] = s @ TrimRightSet t [slash]"
  by (auto simp: TrimRightSet_def dropWhile_append dropWhile_eq_Nil_conv) (cases "rev s"; auto)+

lemma TrimRightSet_idem: "TrimRightSet (TrimRightSet s [slash]) [slash] = TrimRightSet s [slash]"
  by (simp add: TrimRightSet_def)

text \<open>The authority of a URL is not shortened with its path.\<close>

lemma TrimRightSet_url:
  assumes "authority \<noteq> []" and "slash \<notin> set authority"
  shows "TrimRightSet (url_text scheme authority path) [slash] = url_text scheme authority (TrimRightSet path [slash])"
proof -
  have "last (scheme @ CHR '':'' # slash # slash # authority) \<noteq> slash"
    using assms by (auto simp: last_in_set) (metis last_in_set)
  from TrimRightSet_append [OF _ this, of path] show ?thesis by (simp add: url_text_def)
qed

lemma path_text_append: "path_text (TrimRightSet path [slash]) \<Longrightarrow> path_text (TrimRightSet path [slash] @ slash # t)"
  by (cases "TrimRightSet path [slash]") (auto simp: path_text_def)

lemma path_text_trim: "path_text path \<Longrightarrow> path_text (TrimRightSet path [slash])"
  using TrimRightSet_slashes [of path] by (cases "TrimRightSet path [slash]") (auto simp: path_text_def)

lemma set_TrimRightSet: "set (TrimRightSet s cs) \<subseteq> set s"
  by (auto simp: TrimRightSet_def dest: set_dropWhileD)

lemma set_TrimLeftSet: "set (TrimLeftSet s cs) \<subseteq> set s"
  by (auto simp: TrimLeftSet_def dest: set_dropWhileD)

definition path_characters :: "bytes \<Rightarrow> bool" where
  "path_characters s \<longleftrightarrow> (\<forall>c \<in> set s. \<not> ctl_byte c \<and> c \<noteq> CHR ''?'' \<and> c \<noteq> CHR ''#'')"

lemma path_characters_joined:
  assumes "path_characters s" and "path_characters t" and "set r \<subseteq> set s \<union> {slash} \<union> set t"
  shows "path_characters r"
  unfolding path_characters_def
proof
  fix c
  assume "c \<in> set r"
  with assms(3) consider "c \<in> set s" | "c = slash" | "c \<in> set t" by blast
  then show "\<not> ctl_byte c \<and> c \<noteq> CHR ''?'' \<and> c \<noteq> CHR ''#''"
  proof cases
    case 2
    have "\<not> ctl_byte slash \<and> slash \<noteq> CHR ''?'' \<and> slash \<noteq> CHR ''#''" by code_simp
    with 2 show ?thesis by simp
  qed (use assms(1,2) in \<open>simp_all add: path_characters_def\<close>)
qed

lemma validPath_parts:
  assumes "validPath hosts s" and "host_laws hosts"
  shows "path_characters s \<and> (\<exists>v y. Parse hosts s = Some v \<and> unescape (TrimLeftSet s [slash]) = Some y
    \<and> (\<not> UserSet v \<longrightarrow> (\<forall>t \<in> set (Split y slash). t \<noteq> ''..'' \<and> t \<noteq> ''.'')))"
proof -
  from assms(1) obtain v where v: "Parse hosts s = Some v" "Scheme v = []" "Host v = []"
    and chars: "CHR ''?'' \<notin> set s" "CHR ''#'' \<notin> set s"
    and seg: "\<forall>t \<in> set (Split (Path v) slash). t \<noteq> ''..'' \<and> t \<noteq> ''.''"
    by (auto simp: validPath_def IsAbs_def ContainsAny_def list_all_iff split: option.splits)
  from Parse_reference [OF v(1) chars v(2,3) assms(2)] seg chars v(1) show ?thesis
    by (force simp: path_characters_def)
qed

text \<open>C38: a request with a stored key goes to the host its owner chose. Whatever suffixes were given,
  as long as they pass the validation of the service, the URL that a protocol path resolves to
  parses: to the scheme and host of the endpoint, without user information, query and fragment, and
  its path continues that of the endpoint with the decoded suffix; and unless the suffix has the
  form of an authority with user information it brings no dot segment.\<close>

theorem resolved_url_stays_on_host:
  assumes "host_laws (urlHosts s)" and "prepare s rnd req = Inr key" and "ResolveURL s key path = Inr url"
  shows "\<exists>u v w sfx x y n. Parse (urlHosts s) (TrimSpace (req_Endpoint req)) = Some u \<and> Parse (urlHosts s) url = Some v
    \<and> Scheme v = Scheme u \<and> Host v = Host u \<and> \<not> UserSet v \<and> RawQuery v = [] \<and> \<not> ForceQuery v \<and> Fragment v = []
    \<and> Path u = x @ replicate n slash \<and> Path v = x @ slash # y
    \<and> sfx \<in> {path, ChatCompletions (req_Suffix req), Responses (req_Suffix req), Messages (req_Suffix req)}
    \<and> Parse (urlHosts s) sfx = Some w \<and> unescape (TrimLeftSet sfx [slash]) = Some y
    \<and> (\<not> UserSet w \<longrightarrow> (\<forall>t \<in> set (Split y slash). t \<noteq> ''..'' \<and> t \<noteq> ''.''))"
proof -
  let ?hosts = "urlHosts s" and ?e = "TrimSpace (req_Endpoint req)"
  note prep = prepare_InrD [OF assms(2)]
  from prep(4) obtain u where u: "Parse ?hosts ?e = Some u" "Scheme u = ''http'' \<or> Scheme u = ''https''" "Hostname u \<noteq> []"
      "\<not> UserSet u" and chars: "CHR ''?'' \<notin> set ?e" "CHR ''#'' \<notin> set ?e"
    by (auto simp: valid_endpoint_def ContainsAny_def split: option.splits)
  have host: "Host u \<noteq> []" using u(3) by (auto simp: Hostname_def Let_def Contains_def HasPrefix_def)
  from assms(3) obtain sfx where sfx: "sfx \<in> {path, ChatCompletions (req_Suffix req), Responses (req_Suffix req), Messages (req_Suffix req)}"
    and valid: "validPath ?hosts sfx" and url: "url = TrimRightSet (ext_Endpoint key) [slash] @ [slash] @ TrimLeftSet sfx [slash]"
    using prep(5) by (auto simp: ResolveURL_def Let_def split: if_splits)
  from validPath_parts [OF valid assms(1)] obtain w y where schars: "path_characters sfx" and w: "Parse ?hosts sfx = Some w"
      and y: "unescape (TrimLeftSet sfx [slash]) = Some y" "\<not> UserSet w \<longrightarrow> (\<forall>t \<in> set (Split y slash). t \<noteq> ''..'' \<and> t \<noteq> ''.'')" by blast
  have "Scheme u \<noteq> []" using u(2) by auto
  from Parse_host_parts [OF u(1) chars this host] obtain scheme authority p where e: "?e = url_text scheme authority p"
    and sch: "scheme \<noteq> []" "\<forall>raw t. getScheme raw [] (scheme @ CHR '':'' # t) = Some (scheme, t)" "Scheme u = map ascii_lower scheme"
    and au: "slash \<notin> set authority" "parseAuthority ?hosts (map ascii_lower scheme) authority = Some (UserSet u, Host u)"
    and p: "path_text p" "unescape p = Some (Path u)" by blast
  have "?hosts (map ascii_lower scheme) [] = Some []" using assms(1) by (simp add: host_laws_def)
  then have ne: "authority \<noteq> []"
    using au(2) host by (auto simp: parseAuthority_def Contains_def)
  let ?p = "TrimRightSet p [slash]" and ?q = "TrimLeftSet sfx [slash]"
  have url': "url = url_text scheme authority (?p @ slash # ?q)"
    unfolding url prep(3) TrimRightSet_idem e TrimRightSet_url [OF ne au(1)] by (simp add: url_text_def)
  obtain n where n: "p = ?p @ replicate n slash" using TrimRightSet_slashes by blast
  have "unescape ?p \<noteq> None"
    using unescape_prefix [of ?p "replicate n slash"] p(2) n hex_not_slash by (metis in_set_replicate option.simps(3))
  then obtain x where x: "unescape ?p = Some x" by blast
  have pu: "Path u = x @ replicate n slash"
    using unescape_append [OF x, of "replicate n slash"] unescape_slashes [of "replicate n slash"] n p(2) by simp
  have pv: "unescape (?p @ slash # ?q) = Some (x @ slash # y)"
    using unescape_append [OF x, of "slash # ?q"] y(1) by (simp del: unescape.simps)
  have "path_characters ?e"
    using parse_url_Some [of ?hosts ?e u] u(1) chars by (auto simp: path_characters_def Parse_no_fragment)
  moreover have "set url \<subseteq> set ?e \<union> {slash} \<union> set sfx"
    unfolding url' e url_text_def set_append list.set(2)
    using set_TrimRightSet [of p "[slash]"] set_TrimLeftSet [of sfx "[slash]"] by blast
  ultimately have "path_characters url" by (rule path_characters_joined [OF _ schars])
  from Parse_url_text [OF this [unfolded path_characters_def url'] sch(2,1) au(1) path_text_append [OF path_text_trim [OF p(1)]] au(2) pv]
  obtain v where "Parse ?hosts url = Some v" "Scheme v = Scheme u" "Host v = Host u" "\<not> UserSet v" "RawQuery v = []"
      "\<not> ForceQuery v" "Fragment v = []" "Path v = x @ slash # y"
    unfolding url' sch(3) using u(4) by (auto simp: empty_url_def)
  with u(1) pu sfx w y show ?thesis
    by - (rule exI [of _ u], rule exI [of _ v], rule exI [of _ w], rule exI [of _ sfx], rule exI [of _ x], rule exI [of _ y],
        rule exI [of _ n], intro conjI, assumption+)
qed

text \<open>
  The exception is real: a suffix that has the form of an authority with user information and no host
  passes the validation, which looks at the host and the path of the reference only. Joined to the
  endpoint it is a path, whose decoding leaves the endpoint's.
\<close>

definition odd_suffix :: bytes where
  "odd_suffix = ''//..%2f@/x''"

lemma odd_suffix_accepted:
  assumes "host_laws hosts"
  shows "valid_suffix hosts odd_suffix \<and> unescape (TrimLeftSet odd_suffix [slash]) = Some ''../@/x''"
proof -
  have h: "hosts [] [] = Some []" using assms by (simp add: host_laws_def)
  have ctl: "\<not> (\<exists>c \<in> set odd_suffix. ctl_byte c)" by code_simp
  have "parseAuthority hosts [] ''..%2f@'' = (case hosts [] [] of None \<Rightarrow> None | Some h \<Rightarrow>
      if \<not> Contains ''..%2f@'' (CHR ''@'') then Some (False, h)
      else if \<not> validUserinfo ''..%2f'' then None
      else case (unescape (fst (Cut ''..%2f'' (CHR '':''))), unescape (snd (Cut ''..%2f'' (CHR '':'')))) of
        (Some _, Some _) \<Rightarrow> Some (True, h) | _ \<Rightarrow> None)" by code_simp
  moreover have "Contains ''..%2f@'' (CHR ''@'')" and "validUserinfo ''..%2f''"
    and "unescape (fst (Cut ''..%2f'' (CHR '':''))) = Some ''../''" and "unescape (snd (Cut ''..%2f'' (CHR '':''))) = Some []" by code_simp+
  ultimately have "parseAuthority hosts [] ''..%2f@'' = Some (True, [])" using h by simp
  moreover have "getScheme odd_suffix [] odd_suffix = Some ([], odd_suffix)" and "odd_suffix \<noteq> ''*''"
    and "HasPrefix odd_suffix [slash]" and "\<not> HasPrefix odd_suffix [slash, slash, slash]" and "HasPrefix odd_suffix [slash, slash]"
    and "takeWhile (\<lambda>c. c \<noteq> slash) (drop 2 odd_suffix) = ''..%2f@''" and "dropWhile (\<lambda>c. c \<noteq> slash) (drop 2 odd_suffix) = ''/x''"
    and "\<not> HasSuffix odd_suffix ''?''" and "Cut odd_suffix (CHR ''?'') = (odd_suffix, [])"
    and "unescape ''/x'' = Some ''/x''" and "escape ''/x'' = ''/x''" and f: "CHR ''#'' \<notin> set odd_suffix" by code_simp+
  ultimately have "parse_url hosts odd_suffix = Some (empty_url\<lparr>UserSet := True, Path := ''/x''\<rparr>)"
    using ctl by (simp add: parse_url_def parse_rest_def setPath_def empty_url_def Let_def)
  then have p: "Parse hosts odd_suffix = Some (empty_url\<lparr>UserSet := True, Path := ''/x''\<rparr>)" using f by (simp add: Parse_no_fragment)
  have "\<not> ContainsAny odd_suffix (CHR 0x5C # CHR 0x0D # CHR 0x0A # ''?#'')" and "Split ''/x'' slash = [[], ''x'']"
    and t: "TrimRightSet (TrimLeftSet odd_suffix [slash, CHR '' '']) [slash, CHR '' ''] \<noteq> []"
    and s: "\<not> ContainsAny odd_suffix [CHR '' '', CHR 0x09]" and u: "unescape (TrimLeftSet odd_suffix [slash]) = Some ''../@/x''" by code_simp+
  with p have "validPath hosts odd_suffix" by (simp add: validPath_def IsAbs_def empty_url_def)
  with t s u show ?thesis by (simp add: valid_suffix_def)
qed

section \<open>Witnesses\<close>

definition toy_external :: ExternalService where
  "toy_external = \<lparr>repository = (\<lambda>_. None), encryptionKey = replicate 32 CHR ''k'', cipher = toy_cipher,
     urlHosts = (\<lambda>scheme h. Some h), sha256_of = (\<lambda>x. take 32 x)\<rparr>"

definition external_body :: bytes where
  "external_body = ''{\"external_apikey\":\"secret\",\"endpoint\":\"https://example.com/base/\",\"suffix\":{\"responses\":\"custom/responses\"}}''"

definition one_user :: db where
  "one_user = empty_db\<lparr>users := [\<lparr>user_ID = 1, user_Username = ''ada'', user_PasswordHash = [], user_RoleCode = ''user'',
     user_IsActive = True, user_CreatedAt = 0, user_UpdatedAt = 0\<rparr>], users_seq := 2\<rparr>"

lemma one_user_ok: "db_inv one_user"
  by (simp add: one_user_def db_inv_def table_defs empty_db_def identity_ok_def)

lemma external_created:
  "reply_status (fst (CreatExternalApiKey toy_external 5 (Inr (replicate 12 CHR ''n'')) (Some 1) external_body one_user)) = 201"
  by code_simp

theorem external_key_recovered_witness:
  "\<exists>k. external_api_keys (snd (CreatExternalApiKey toy_external 5 (Inr (replicate 12 CHR ''n'')) (Some 1) external_body one_user)) = [k]
    \<and> Decrypt toy_cipher (replicate 32 CHR ''k'') (ext_Ciphertext k) = Inr ''secret''"
proof -
  let ?r = "CreatExternalApiKey toy_external 5 (Inr (replicate 12 CHR ''n'')) (Some 1) external_body one_user"
  have b: "map_option req_ExternalApikey (bind_external external_body) = Some ''secret''" by code_simp
  have "aead_laws (cipher toy_external)" by (simp add: toy_external_def toy_cipher_ok)
  from external_key_recovered [where d' = "snd ?r", OF this one_user_ok prod.collapse [symmetric] external_created] obtain req k
    where "bind_external external_body = Some req" "external_api_keys (snd ?r) = external_api_keys one_user @ [k]"
      "Decrypt (cipher toy_external) (encryptionKey toy_external) (ext_Ciphertext k) = Inr (req_ExternalApikey req)"
    by auto
  with b show ?thesis by (auto simp: toy_external_def one_user_def empty_db_def)
qed

theorem external_keys_of_others_untouched_witness:
  "others 1 (snd (CreatExternalApiKey toy_external 5 (Inr (replicate 12 CHR ''n'')) (Some 1) external_body one_user)) = others 1 one_user
    \<and> length (external_api_keys (snd (CreatExternalApiKey toy_external 5 (Inr (replicate 12 CHR ''n'')) (Some 1) external_body one_user))) = 1"
proof -
  have "length (external_api_keys (snd (CreatExternalApiKey toy_external 5 (Inr (replicate 12 CHR ''n'')) (Some 1) external_body one_user))) = 1"
    by code_simp
  with external_keys_of_others_untouched [OF refl, where s = toy_external and now = 5 and u = 1
      and rnd = "Inr (replicate 12 CHR ''n'')" and body = external_body and d = one_user] show ?thesis by blast
qed

theorem resolved_url_stays_on_host_witness:
  "\<exists>key v. prepare toy_external (Inr (replicate 12 CHR ''n'')) (the (bind_external external_body)) = Inr key
    \<and> ResolveURL toy_external key ''/v1/responses'' = Inr ''https://example.com/base/custom/responses''
    \<and> Parse (urlHosts toy_external) ''https://example.com/base/custom/responses'' = Some v \<and> Host v = ''example.com''"
proof -
  let ?req = "the (bind_external external_body)"
  have laws: "host_laws (urlHosts toy_external)" by (simp add: host_laws_def toy_external_def)
  have "case prepare toy_external (Inr (replicate 12 CHR ''n'')) ?req of Inl _ \<Rightarrow> False
      | Inr key \<Rightarrow> ResolveURL toy_external key ''/v1/responses'' = Inr ''https://example.com/base/custom/responses''" by code_simp
  then obtain key where key: "prepare toy_external (Inr (replicate 12 CHR ''n'')) ?req = Inr key"
    "ResolveURL toy_external key ''/v1/responses'' = Inr ''https://example.com/base/custom/responses''" by (auto split: sum.splits)
  have "map_option Host (Parse (urlHosts toy_external) (TrimSpace (req_Endpoint ?req))) = Some ''example.com''" by code_simp
  with resolved_url_stays_on_host [OF laws key] key show ?thesis by fastforce
qed

end
