(* ===== verification/JsonRoundtrip.thy ===== *)
theory JsonRoundtrip imports Users begin

text \<open>
  What \<open>json.Marshal\<close> writes for a struct of strings, numbers and booleans is read back by
  \<open>json.Unmarshal\<close>: the members are found again, and the strings are the same when they are UTF-8.
\<close>

section \<open>Strings\<close>

lemma hex_digits: "\<forall>n \<in> set [0..<16]. hex_value (hex_digit n) = n \<and> is_hex (hex_digit n)"
  by code_simp

lemma hex_digit [simp]: "n < 16 \<Longrightarrow> hex_value (hex_digit n) = n" "n < 16 \<Longrightarrow> is_hex (hex_digit n)"
  using hex_digits by simp_all

lemma nibbles [simp]: "of_char (c :: char) div 16 < (16 :: nat)" "of_char (c :: char) mod 16 < (16 :: nat)"
proof -
  have "of_char c < (256 :: nat)" by simp
  then show "of_char c div 16 < (16 :: nat)" by (simp add: less_mult_imp_div_less)
  show "of_char c mod 16 < (16 :: nat)" by simp
qed

lemma is_hex_zero: "is_hex (CHR ''0'')" and hex_zero: "hex_value (CHR ''0'') = 0"
  by code_simp+

lemma char_distinct [simp]: "quote_mark \<noteq> backslash" "backslash \<noteq> quote_mark"
  by code_simp+

text \<open>The bytes of a sequence of more than one byte, which are all above ASCII.\<close>

lemma between_high [dest]: "between a b c \<Longrightarrow> a \<le> of_char c"
  by (simp add: between_def)

lemma utf8_len_shape:
  assumes "utf8_len (c # s) = n" and "2 \<le> n"
  shows "\<not> between 0 127 c \<and>
     (n = 2 \<and> between 194 223 c \<and> (\<exists>d t. s = d # t \<and> between 128 191 d)
    \<or> n = 3 \<and> \<not> between 194 223 c \<and> between 224 239 c \<and> (\<exists>d e t. s = d # e # t \<and> between 128 191 e
        \<and> between (if of_char c = (224 :: nat) then 160 else 128) (if of_char c = (237 :: nat) then 159 else 191) d)
    \<or> n = 4 \<and> \<not> between 194 223 c \<and> \<not> between 224 239 c \<and> between 240 244 c \<and> (\<exists>d e f t. s = d # e # f # t
        \<and> between 128 191 e \<and> between 128 191 f
        \<and> between (if of_char c = (240 :: nat) then 144 else 128) (if of_char c = (244 :: nat) then 143 else 191) d))"
  using assms unfolding utf8_len_def
  by (simp split: if_split_asm list.split_asm)

lemma utf8_len_high:
  assumes "utf8_len (c # s) = n" and "2 \<le> n"
  shows "length (take n (c # s)) = n \<and> (\<forall>x \<in> set (take n (c # s)). 128 \<le> (of_char x :: nat)) \<and> utf8_len (take n (c # s) @ t) = n"
proof -
  from utf8_len_shape [OF assms] have a: "\<not> between 0 127 c" and shape:
    "n = 2 \<and> between 194 223 c \<and> (\<exists>d t. s = d # t \<and> between 128 191 d)
    \<or> n = 3 \<and> \<not> between 194 223 c \<and> between 224 239 c \<and> (\<exists>d e t. s = d # e # t \<and> between 128 191 e
        \<and> between (if of_char c = (224 :: nat) then 160 else 128) (if of_char c = (237 :: nat) then 159 else 191) d)
    \<or> n = 4 \<and> \<not> between 194 223 c \<and> \<not> between 224 239 c \<and> between 240 244 c \<and> (\<exists>d e f t. s = d # e # f # t
        \<and> between 128 191 e \<and> between 128 191 f
        \<and> between (if of_char c = (240 :: nat) then 144 else 128) (if of_char c = (244 :: nat) then 143 else 191) d)" by blast+
  from a have c: "128 \<le> (of_char c :: nat)" by (simp add: between_def)
  from shape show ?thesis
  proof (elim disjE conjE exE)
    fix d u
    assume "n = 2" "between 194 223 c" "s = d # u" "between 128 191 d"
    with a c show ?thesis by (auto simp: utf8_len_def numeral_2_eq_2)
  next
    fix d e u
    let ?lo = "if of_char c = (224 :: nat) then 160 else 128 :: nat"
    assume h: "n = 3" "\<not> between 194 223 c" "between 224 239 c" "s = d # e # u" "between 128 191 e"
      "between ?lo (if of_char c = (237 :: nat) then 159 else 191) d"
    then have "128 \<le> (of_char d :: nat)" by (auto simp: between_def split: if_splits)
    with a c h show ?thesis by (auto simp: utf8_len_def numeral_3_eq_3 simp del: One_nat_def)
  next
    fix d e f u
    let ?lo = "if of_char c = (240 :: nat) then 144 else 128 :: nat"
    assume h: "n = 4" "\<not> between 194 223 c" "\<not> between 224 239 c" "between 240 244 c" "s = d # e # f # u" "between 128 191 e"
      "between 128 191 f" "between ?lo (if of_char c = (244 :: nat) then 143 else 191) d"
    then have "128 \<le> (of_char d :: nat)" by (auto simp: between_def split: if_splits)
    with a c h show ?thesis by (auto simp: utf8_len_def)
  qed
qed

lemma utf8_len_one: "utf8_len (c # s) = 1 \<Longrightarrow> of_char c < (128 :: nat)"
  by (auto simp: utf8_len_def between_def split: if_splits list.splits)

text \<open>A character of a string as it is written, read by the scanner and by the decoder.\<close>

lemma scan_high: "\<forall>x \<in> set xs. 128 \<le> (of_char x :: nat) \<Longrightarrow> scan_string (xs @ t) = scan_string t"
proof (induction xs)
  case (Cons x xs)
  have "of_char quote_mark = (34 :: nat)" and "of_char backslash = (92 :: nat)" by code_simp+
  then have "x \<noteq> quote_mark" and "x \<noteq> backslash" and "\<not> of_char x < (32 :: nat)" using Cons.prems by auto
  with Cons show ?case by simp
qed simp

lemma scan_u: "list_all is_hex [a, b, c, d] \<Longrightarrow> scan_string (backslash # CHR ''u'' # a # b # c # d # t) = scan_string t"
proof -
  assume h: "list_all is_hex [a, b, c, d]"
  have "CHR ''u'' \<notin> set [quote_mark, backslash, CHR ''/'', CHR ''b'', CHR ''f'', CHR ''n'', CHR ''r'', CHR ''t'']" by code_simp
  with h show ?thesis by (simp add: numeral_eq_Suc)
qed

lemma scan_quote_ascii: "of_char c < (128 :: nat) \<Longrightarrow> scan_string (quote_ascii c @ t) = scan_string t"
  using scan_u [of "CHR ''0''" "CHR ''0''" "hex_digit (of_char c div 16)" "hex_digit (of_char c mod 16)" t]
  by (auto simp: quote_ascii_def escape_byte_def is_hex_zero split: if_splits)

lemma scan_quote_body: "scan_string (quote_body s @ quote_mark # r) = Some r"
proof (induction s rule: quote_body.induct)
  case (2 c s)
  let ?n = "utf8_len (c # s)"
  consider "?n = 0" | "?n = 1" | "2 \<le> ?n" by linarith
  then show ?case
  proof cases
    case 1
    have "list_all is_hex ''fffd''" by code_simp
    with scan_u [of "CHR ''f''" "CHR ''f''" "CHR ''f''" "CHR ''d''"] 2(1) [OF 1] 1 show ?thesis by simp
  next
    case 2
    then show ?thesis using "2.IH"(2) scan_quote_ascii [OF utf8_len_one] by simp
  next
    case 3
    note high = utf8_len_high [OF refl 3, of "[]"]
    show ?thesis
    proof (cases "line_separator (c # s)")
      case True
      have "list_all is_hex ''2028''" and "list_all is_hex ''2029''" by code_simp+
      then have "list_all is_hex [CHR ''2'', CHR ''0'', CHR ''2'', if (c # s) ! 2 = CHR 0xA8 then CHR ''8'' else CHR ''9'']" by simp
      from scan_u [OF this] 
        "2.IH"(3) [OF _ _ True] True 3
      show ?thesis by (simp add: escape_separator_def)
    next
      case False
      with "2.IH"(4) [OF _ _ False] scan_high [of "take ?n (c # s)"] high 3 show ?thesis by simp
    qed
  qed
qed simp

lemma unquote_u: "n < 128 \<Longrightarrow> hex4 [a, b, x, y] = n \<Longrightarrow>
    unquote_body (backslash # CHR ''u'' # a # b # x # y # t) = char_of n # unquote_body t"
proof -
  assume n: "n < 128" "hex4 [a, b, x, y] = n"
  have "hex4 (a # b # x # y # t) = n" using n(2) by (simp add: hex4_def)
  moreover have "utf8_encode n = [char_of n]" using n(1) by (simp add: utf8_encode_def)
  ultimately have "unicode_escape (a # b # x # y # t) = ([char_of n], 4)" using n(1) by (simp add: unicode_escape_def)
  then show ?thesis by simp
qed

lemma unquote_quote_ascii:
  assumes "of_char c < (128 :: nat)"
  shows "unquote_body (quote_ascii c @ t) = c # unquote_body t"
proof -
  have plain: "utf8_len (c # t) = 1" using assms by (simp add: utf8_len_def between_def)
  have "hex4 [CHR ''0'', CHR ''0'', hex_digit (of_char c div 16), hex_digit (of_char c mod 16)] = of_char c"
    by (simp add: hex4_def hex_zero)
  from unquote_u [OF assms this, of t] have e: "unquote_body (escape_byte c @ t) = c # unquote_body t"
    by (simp add: escape_byte_def)
  have v: "escape_value quote_mark = quote_mark" "escape_value backslash = backslash" "CHR ''u'' \<noteq> quote_mark" "CHR ''u'' \<noteq> backslash"
    by code_simp+
  show ?thesis
    using e plain v by (auto simp: quote_ascii_def escape_value_def)
qed

lemma unquote_high:
  assumes "utf8_len xs = length xs" and "2 \<le> length xs" and "\<forall>x \<in> set xs. 128 \<le> (of_char x :: nat)" and "utf8_len (xs @ t) = length xs"
  shows "unquote_body (xs @ t) = xs @ unquote_body t"
proof -
  obtain c s where xs: "xs = c # s" using assms(2) by (cases xs) auto
  have "of_char quote_mark = (34 :: nat)" and "of_char backslash = (92 :: nat)" by code_simp+
  then have "c \<noteq> quote_mark" and "c \<noteq> backslash" using assms(3) xs by auto
  with assms(2,4) show ?thesis by (simp add: xs)
qed

text \<open>Valid text comes back as it was.\<close>

lemma utf8_valid_step: "utf8_valid (c # s) \<longleftrightarrow> 0 < utf8_len (c # s) \<and> utf8_valid (drop (utf8_len (c # s) - 1) s)"
  by (subst utf8_valid.simps) (auto simp: max_def drop_Cons' not_less_eq_eq)

lemma line_separator_shape:
  assumes "line_separator (c # s)"
  shows "\<exists>e u. c # s = [CHR 0xE2, CHR 0x80, e] @ u \<and> (e = CHR 0xA8 \<or> e = CHR 0xA9)"
proof -
  have "c # s = take 3 (c # s) @ drop 3 (c # s)" by simp
  with assms show ?thesis unfolding line_separator_def by metis
qed

lemma line_separator_high:
  assumes "line_separator (c # s)"
  shows "unquote_body (escape_separator (c # s) @ t) = take 3 (c # s) @ unquote_body t"
proof -
  from line_separator_shape [OF assms] obtain e u
    where cs: "c # s = [CHR 0xE2, CHR 0x80, e] @ u" and e: "e = CHR 0xA8 \<or> e = CHR 0xA9" by blast
  have x: "unicode_escape (''2028'' @ t) = ([CHR 0xE2, CHR 0x80, CHR 0xA8], 4)"
    and y: "unicode_escape (''2029'' @ t) = ([CHR 0xE2, CHR 0x80, CHR 0xA9], 4)"
  proof -
    have "hex4 ''2028'' = 8232" and "hex4 ''2029'' = 8233" and "utf8_encode 8232 = [CHR 0xE2, CHR 0x80, CHR 0xA8]"
      and "utf8_encode 8233 = [CHR 0xE2, CHR 0x80, CHR 0xA9]" by code_simp+
    moreover have "hex4 (''2028'' @ t) = hex4 ''2028''" and "hex4 (''2029'' @ t) = hex4 ''2029''" by (simp_all add: hex4_def)
    ultimately show "unicode_escape (''2028'' @ t) = ([CHR 0xE2, CHR 0x80, CHR 0xA8], 4)"
      and "unicode_escape (''2029'' @ t) = ([CHR 0xE2, CHR 0x80, CHR 0xA9], 4)" by (simp_all add: unicode_escape_def)
  qed
  have v: "CHR ''u'' \<noteq> quote_mark" "CHR ''u'' \<noteq> backslash" by code_simp+
  from e show ?thesis unfolding cs using x y by (auto simp: escape_separator_def)
qed

lemma unquote_quote_body: "utf8_valid s \<Longrightarrow> unquote_body (quote_body s @ quote_mark # r) = s"
proof (induction s rule: quote_body.induct)
  case (2 c s)
  let ?n = "utf8_len (c # s)"
  from 2(5) have n: "0 < ?n" and v: "utf8_valid (drop (?n - 1) s)" unfolding utf8_valid_step by blast+
  consider "?n = 1" | "2 \<le> ?n" using n by linarith
  then show ?case
  proof cases
    case 1
    with v have "utf8_valid s" by simp
    then show ?thesis using "2.IH"(2) [OF _ 1] 1 unquote_quote_ascii [OF utf8_len_one [OF 1]] by simp
  next
    case 2
    note high = utf8_len_high [OF refl 2]
    show ?thesis
    proof (cases "line_separator (c # s)")
      case True
      then obtain e u where cs: "c # s = [CHR 0xE2, CHR 0x80, e] @ u" using line_separator_shape by blast
      then have c: "c = CHR 0xE2" and s: "s = [CHR 0x80, e] @ u" by simp_all
      have "\<not> between 0 127 (CHR 0xE2) \<and> \<not> between 194 223 (CHR 0xE2) \<and> \<not> between 240 244 (CHR 0xE2)" by code_simp
      with utf8_len_shape [OF refl 2] c have n3: "?n = 3" by auto
      then have "utf8_valid (drop 2 s)" using v by simp
      from "2.IH"(3) [OF _ _ True this] n3 have "unquote_body (quote_body (drop 2 s) @ quote_mark # r) = drop 2 s" by simp
      moreover have "quote_body (c # s) = escape_separator (c # s) @ quote_body (drop 2 s)" using n3 True by simp
      ultimately show ?thesis using line_separator_high [OF True, of "quote_body (drop 2 s) @ quote_mark # r"]
        by (simp add: cs s c)
    next
      case False
      have "unquote_body (take ?n (c # s) @ quote_body (drop (?n - 1) s) @ quote_mark # r) = take ?n (c # s) @ unquote_body (quote_body (drop (?n - 1) s) @ quote_mark # r)"
        by (rule unquote_high) (use high [of "[]"] high 2 in simp_all)
      with "2.IH"(4) [OF _ _ False v] False 2 show ?thesis by (simp add: take_Cons' drop_Cons')
    qed
  qed
qed (simp add: quote_mark_def)

lemma unquote_json_quote: "utf8_valid s \<Longrightarrow> unquote (json_quote s) = s"
  using unquote_quote_body [of s "[]"] by (simp add: unquote_def json_quote_def)

section \<open>Structs\<close>

text \<open>A number is followed by what cannot go on with it.\<close>

lemma decimal_leading: "decimal n = CHR ''0'' # t \<Longrightarrow> t = []"
proof (induction n arbitrary: t rule: decimal.induct)
  case (1 n)
  show ?case
  proof (cases "n < 10")
    case False
    then obtain s where s: "decimal (n div 10) = CHR ''0'' # s"
      using 1(2) decimal_parses [of "n div 10"] by (subst (asm) decimal.simps) (cases "decimal (n div 10)", auto)
    from 1(1) [OF False s] s have "decimal_value (decimal (n div 10)) = decimal_value ''0''" by simp
    moreover have "decimal_value ''0'' = 0" by code_simp
    ultimately have "n div 10 = 0" using decimal_parses [of "n div 10"] by simp
    with False show ?thesis by simp
  qed (use 1(2) in \<open>subst (asm) decimal.simps, simp\<close>)
qed

definition ends_value :: "char \<Rightarrow> bool" where
  "ends_value c \<longleftrightarrow> c = CHR '','' \<or> c = CHR ''}''"

lemma ends_value_chars: "ends_value c \<Longrightarrow> \<not> is_digit c \<and> c \<noteq> CHR ''.'' \<and> c \<noteq> CHR ''e'' \<and> c \<noteq> CHR ''E'' \<and> \<not> is_ws c"
  by (auto simp: ends_value_def is_digit_def is_ws_def)

lemma dropWhile_digits: "list_all is_digit s \<Longrightarrow> \<not> is_digit c \<Longrightarrow> dropWhile is_digit (s @ c # r) = c # r"
  by (induction s) auto

lemma scan_decimal:
  assumes "ends_value c"
  shows "scan_number (decimal n @ c # r) = Some (c # r)"
proof -
  note c = ends_value_chars [OF assms]
  obtain d s where d: "decimal n = d # s" and dd: "is_digit d" "list_all is_digit s" using decimal_parses [of n] by (cases "decimal n") auto
  have "d \<noteq> CHR ''-''" using dd(1) by (auto simp: is_digit_def)
  then have "\<not> HasPrefix (decimal n @ c # r) ''-''" by (simp add: d HasPrefix_def)
  moreover have "scan_integer (decimal n @ c # r) = Some (c # r)"
    using decimal_leading [of n s] dd dropWhile_digits [OF dd(2), of c r] c by (auto simp: d scan_integer_def scan_digits_def)
  ultimately show ?thesis using c by (simp add: scan_number_def scan_fraction_def scan_exponent_def)
qed

fun flat :: "json_out \<Rightarrow> bool" where
  "flat (StringOut s) \<longleftrightarrow> True"
| "flat (IntOut n) \<longleftrightarrow> True"
| "flat (BoolOut b) \<longleftrightarrow> True"
| "flat NullOut \<longleftrightarrow> True"
| "flat _ \<longleftrightarrow> False"

lemma digit_not_word: "is_digit d \<Longrightarrow> d \<noteq> quote_mark \<and> d \<noteq> CHR ''t'' \<and> d \<noteq> CHR ''f'' \<and> d \<noteq> CHR ''n'' \<and> d \<noteq> CHR ''{'' \<and> d \<noteq> CHR ''['' \<and> \<not> is_ws d"
  by (auto simp: is_digit_def quote_mark_def is_ws_def)

lemma scan_word_append [simp]: "scan_word w (w @ s) = Some s"
  by (simp add: scan_word_def)

lemma quote_mark_chars: "quote_mark \<noteq> CHR ''{''" "quote_mark \<noteq> CHR ''[''" "\<not> is_ws quote_mark" "quote_mark \<noteq> CHR ''}''"
  by code_simp+

lemma scan_flat_marshal:
  assumes "flat v" and "ends_value c"
  shows "scan_flat (marshal v @ c # r) = Some (c # r)
    \<and> (\<exists>x t. marshal v = x # t \<and> x \<noteq> CHR ''{'' \<and> x \<noteq> CHR ''['' \<and> \<not> is_ws x)"
proof (cases v)
  case (StringOut s)
  then show ?thesis using scan_quote_body [of s "c # r"] quote_mark_chars by (simp add: scan_flat_def json_quote_def)
next
  case (IntOut n)
  obtain d s where d: "decimal n = d # s" and dd: "is_digit d" using decimal_parses [of n] by (cases "decimal n") auto
  from digit_not_word [OF dd] scan_decimal [OF assms(2), of n r] show ?thesis by (simp add: IntOut d scan_flat_def)
next
  case (BoolOut b)
  have q: "CHR ''t'' \<noteq> quote_mark" "CHR ''f'' \<noteq> quote_mark" "\<not> is_ws (CHR ''t'')" "\<not> is_ws (CHR ''f'')" by code_simp+
  from q scan_word_append [of "''true''" "c # r"] scan_word_append [of "''false''" "c # r"] show ?thesis
    by (simp add: BoolOut scan_flat_def)
next
  case NullOut
  have q: "CHR ''n'' \<noteq> quote_mark" "\<not> is_ws (CHR ''n'')" by code_simp+
  with scan_word_append [of "''null''" "c # r"] show ?thesis by (simp add: NullOut scan_flat_def)
qed (use assms in simp_all)

lemma scan_value_marshal:
  assumes "flat v" and "ends_value c"
  shows "scan_value d (marshal v @ c # r) = Some (c # r)" and "skip_ws (marshal v @ s) = marshal v @ s"
proof -
  from scan_flat_marshal [OF assms, of r] obtain x t where f: "scan_flat (marshal v @ c # r) = Some (c # r)"
    and m: "marshal v = x # t" "x \<noteq> CHR ''{''" "x \<noteq> CHR ''[''" "\<not> is_ws x" by blast
  from m have "\<not> HasPrefix (marshal v @ c # r) ''{''" and "\<not> HasPrefix (marshal v @ c # r) ''[''" by (simp_all add: HasPrefix_def)
  then show "scan_value d (marshal v @ c # r) = Some (c # r)" using f by (cases d) simp_all
  show "skip_ws (marshal v @ s) = marshal v @ s" using m by (simp add: skip_ws_def)
qed

definition field_text :: "bytes \<times> json_out \<Rightarrow> bytes" where
  "field_text f = json_quote (fst f) @ '':'' @ marshal (snd f)"

lemma upto_append [simp]: "upto (s @ r) r = s"
  by (simp add: upto_def)

lemma scan_key_field:
  assumes "flat v" and "ends_value c"
  shows "scan_key (field_text (k, v) @ c # r) = Some (json_quote k, marshal v @ c # r)"
proof -
  let ?v = "marshal v @ c # r"
  have s: "scan_string (quote_body k @ quote_mark # CHR '':'' # ?v) = Some (CHR '':'' # ?v)" by (rule scan_quote_body)
  have t: "field_text (k, v) @ c # r = json_quote k @ CHR '':'' # ?v" by (simp add: field_text_def)
  have "\<not> is_ws (CHR '':'')" by code_simp
  then have "skip_ws (CHR '':'' # ?v) = CHR '':'' # ?v" by (simp add: skip_ws_def)
  with s scan_value_marshal(2) [OF assms] show ?thesis
    unfolding t by (simp add: scan_key_def json_quote_def) (metis append_Cons append_assoc append_Nil upto_append)
qed

lemma scan_members_fields:
  assumes "fs \<noteq> []" and "list_all (\<lambda>f. flat (snd f)) fs" and "length fs \<le> n"
  shows "scan_members n (scan_value d) (Join (map field_text fs) '','' @ CHR ''}'' # r)
    = Some (map (\<lambda>(k, v). (json_quote k, marshal v)) fs, r)"
  using assms
proof (induction fs arbitrary: n)
  case (Cons f fs)
  obtain k v where f: "f = (k, v)" by (cases f)
  from Cons.prems obtain m where n: "n = Suc m" and v: "flat v" by (cases n) (auto simp: f)
  have e: "ends_value (CHR '','')" "ends_value (CHR ''}'')" by (simp_all add: ends_value_def)
  have w: "skip_ws (CHR '','' # s) = CHR '','' # s" "skip_ws (CHR ''}'' # s) = CHR ''}'' # s" for s
    using ends_value_chars e by (auto simp: skip_ws_def)
  show ?case
  proof (cases fs)
    case Nil
    with n v show ?thesis
      using scan_key_field [OF v e(2), of k r] scan_value_marshal(1) [OF v e(2), of d r] w(2) [of r]
      by (simp add: f)
  next
    case (Cons f' fs')
    let ?rest = "Join (map field_text fs) '','' @ CHR ''}'' # r"
    have "skip_ws ?rest = ?rest" using quote_mark_chars
      by (cases fs') (simp_all add: Cons field_text_def json_quote_def skip_ws_def)
    moreover have "Join (map field_text (f # fs)) '','' @ CHR ''}'' # r = field_text (k, v) @ CHR '','' # ?rest"
      by (simp add: Cons f)
    moreover have "scan_members m (scan_value d) ?rest = Some (map (\<lambda>(k, v). (json_quote k, marshal v)) fs, r)"
      using Cons.IH [of m] Cons.prems n Cons by simp
    ultimately show ?thesis
      using scan_key_field [OF v e(1), of k ?rest] scan_value_marshal(1) [OF v e(1), of d ?rest] w(1) [of ?rest] n
      by (simp add: f)
  qed
qed simp

lemma length_Join_fields: "length fs \<le> length (Join (map field_text fs) '','')"
proof (induction fs)
  case (Cons f fs)
  then show ?case by (cases fs) (auto simp: field_text_def json_quote_def)
qed simp

lemma scan_object_fields:
  assumes "list_all (\<lambda>f. flat (snd f)) fs"
  shows "scan_object (scan_value d) (Join (map field_text fs) '','' @ ''}'') = Some (map (\<lambda>(k, v). (json_quote k, marshal v)) fs, [])"
proof (cases fs)
  case Nil
  have "skip_ws ''}'' = ''}''" by code_simp
  then show ?thesis by (simp add: Nil scan_object_def HasPrefix_def)
next
  case (Cons f fs')
  let ?s = "Join (map field_text fs) '','' @ ''}''"
  have "skip_ws ?s = ?s" and "\<not> HasPrefix ?s ''}''" using quote_mark_chars
    by (cases fs'; simp add: Cons field_text_def json_quote_def skip_ws_def HasPrefix_def)+
  moreover have "length fs \<le> length ?s" using length_Join_fields [of fs] by simp
  ultimately show ?thesis
    using scan_members_fields [OF _ assms, where n = "length ?s" and r = "[]"] Cons by (simp add: scan_object_def)
qed

text \<open>What was marshalled from a struct is read back field by field.\<close>

lemma struct_members_marshal:
  assumes "list_all (\<lambda>f. flat (snd f)) fs" and "list_all (\<lambda>f. utf8_valid (fst f)) fs"
  shows "struct_members (marshal (StructOut fs)) = Some (map (\<lambda>(k, v). (k, marshal v)) fs)"
proof -
  let ?t = "Join (map field_text fs) '','' @ ''}''"
  have "marshal (StructOut fs) = bracket (CHR ''{'') (map field_text fs) (CHR ''}'')"
    by (simp only: marshal.simps) (intro arg_cong [where f = "\<lambda>x. bracket (CHR ''{'') x (CHR ''}'')"] map_cong refl, auto simp: field_text_def)
  also have "\<dots> = CHR ''{'' # ?t" by (simp only: bracket_def append.simps)
  finally have m: "marshal (StructOut fs) = CHR ''{'' # ?t" .
  note o = scan_object_fields [OF assms(1)]
  have "skip_ws (CHR ''{'' # ?t) = CHR ''{'' # ?t" by (simp add: skip_ws_def is_ws_def)
  moreover have n: "max_nesting = Suc 9999" by (simp add: max_nesting_def)
  have "scan_value (Suc d) (CHR ''{'' # ?t) = Some []" for d using o [of d] by (simp add: HasPrefix_def)
  then have "scan_value max_nesting (CHR ''{'' # ?t) = Some []" unfolding n by blast
  ultimately have "document (CHR ''{'' # ?t) = Some (CHR ''{'' # ?t)"
    using upto_append [of "CHR ''{'' # ?t" "[]"] by (simp add: document_def skip_ws_def)
  moreover have "json_members (CHR ''{'' # ?t) = Some (map (\<lambda>(k, v). (k, marshal v)) fs)"
    using o assms(2) by (auto simp: json_members_def HasPrefix_def unquote_json_quote list_all_iff)
  ultimately show ?thesis unfolding struct_members_def m by (simp add: is_null_def)
qed

text \<open>The decoder of a request body reads the same document.\<close>

lemma decoder_members_document: "struct_members s = Some ms \<Longrightarrow> decoder_members s = Some ms"
  by (auto simp: struct_members_def decoder_members_def document_def first_document_def Let_def
      split: option.splits if_splits bind_splits)

text \<open>The fields of the struct types decode to the values they were made of.\<close>

lemma not_null_quote: "\<not> is_null (json_quote s)" "HasPrefix (json_quote s) [quote_mark]"
proof -
  have "quote_mark \<noteq> CHR ''n''" by code_simp
  then show "\<not> is_null (json_quote s)" by (simp add: is_null_def json_quote_def)
  show "HasPrefix (json_quote s) [quote_mark]" by (simp add: json_quote_def HasPrefix_def)
qed

lemma string_field_one:
  assumes "field_values name ms = [json_quote s]" and "utf8_valid s"
  shows "string_field name ms = (s, True)"
  using assms not_null_quote [of s] by (simp add: string_field_def unquote_json_quote)

end
