(* ===== verification/OAuth.thy ===== *)
theory OAuth imports JsonRoundtrip Directory Sessions Crypto GoUrl Http begin

text \<open>
  \<open>internal/modules/oauth\<close>: accounts of an identity provider that a user links. The login flow in a
  browser and with a device code, the exchange and the refresh of tokens, and the stored credentials:
  \<open>oauth_service.go\<close> and \<open>oauth_repository.go\<close>. The upstream server that talks to the provider is
  reached through the directory; its answers are a parameter.
\<close>

section \<open>The repository\<close>

datatype oauth_stmt = O_Insert | O_Lock | O_Update | O_List | O_Delete | O_Commit

type_synonym oauth_faults = "oauth_stmt \<Rightarrow> fault option"

text \<open>PostgreSQL rejects text with a zero byte or that is not UTF-8.\<close>

definition oauth_storable :: "OAuthInfo \<Rightarrow> bool" where
  "oauth_storable r \<longleftrightarrow> list_all storable [oa_AccessToken r, oa_AccountID r, oa_Email r, oa_IDToken r, oa_RefreshToken r, oa_Type r]"

definition repo_SaveToken :: "oauth_faults \<Rightarrow> time \<Rightarrow> OAuthInfo \<Rightarrow> db \<Rightarrow> (go_error + OAuthInfo) \<times> db" where
  "repo_SaveToken io now model d =
     call (io O_Insert) (\<lambda>d. if oauth_storable model then insert_oauth now model d else (Inl text_error, d)) d"

definition owned_oauth :: "uint64 \<Rightarrow> uint64 \<Rightarrow> OAuthInfo \<Rightarrow> bool" where
  "owned_oauth ownerID i r \<longleftrightarrow> oa_ID r = i \<and> oa_UserID r = ownerID"

definition GetOwnedTokenForUpdate :: "oauth_faults \<Rightarrow> uint64 \<Rightarrow> uint64 \<Rightarrow> db \<Rightarrow> go_error + OAuthInfo" where
  "GetOwnedTokenForUpdate io ownerID i d =
     (case query (io O_Lock) (First oa_ID (owned_oauth ownerID i) (oauth_infos d)) of
        Inl e \<Rightarrow> Inl (if errors_Is e ErrRecordNotFound then ErrOAuthNotFound else e)
      | Inr model \<Rightarrow> Inr model)"

definition UpdateToken :: "oauth_faults \<Rightarrow> time \<Rightarrow> uint64 \<Rightarrow> uint64 \<Rightarrow> OAuthInfo \<Rightarrow> db \<Rightarrow> (go_error + unit) \<times> db" where
  "UpdateToken io now ownerID i model d =
     if_ok (call (io O_Update) (update_oauth (owned_oauth ownerID i)
         (\<lambda>r. r\<lparr>oa_AccessToken := oa_AccessToken model, oa_RefreshToken := oa_RefreshToken model,
                oa_IDToken := oa_IDToken model, oa_Expired := oa_Expired model, oa_LastRefresh := oa_LastRefresh model,
                oa_UpdatedAt := now\<rparr>)) d)
       (\<lambda>n d. (if n \<noteq> 1 then Inl ErrOAuthNotFound else Inr (), d))"

record OAuthListItem =
  ol_ID :: uint64
  ol_AccountID :: bytes
  ol_Email :: bytes
  ol_Type :: bytes
  ol_Disabled :: bool
  ol_Expired :: "time option"
  ol_LastRefresh :: "time option"
  ol_CreatedAt :: time
  ol_UpdatedAt :: time

definition oauth_item :: "OAuthInfo \<Rightarrow> OAuthListItem" where
  "oauth_item r = \<lparr>ol_ID = oa_ID r, ol_AccountID = oa_AccountID r, ol_Email = oa_Email r, ol_Type = oa_Type r,
     ol_Disabled = oa_Disabled r, ol_Expired = oa_Expired r, ol_LastRefresh = oa_LastRefresh r,
     ol_CreatedAt = oa_CreatedAt r, ol_UpdatedAt = oa_UpdatedAt r\<rparr>"

definition repo_getUserOauth :: "oauth_faults \<Rightarrow> uint64 \<Rightarrow> db \<Rightarrow> go_error + OAuthListItem list" where
  "repo_getUserOauth io userid d =
     query (io O_List) (Inr (map oauth_item (desc oa_ID (filter (\<lambda>r. oa_UserID r = userid) (oauth_infos d)))))"

definition repo_deleteUserOauth :: "oauth_faults \<Rightarrow> uint64 \<Rightarrow> uint64 \<Rightarrow> db \<Rightarrow> (go_error + unit) \<times> db" where
  "repo_deleteUserOauth io i ownerID d =
     if_ok (call (io O_Delete) (delete_oauth (owned_oauth ownerID i)) d)
       (\<lambda>n d. (if n = 0 then Inl ErrOAuthNotFound else Inr (), d))"

section \<open>Flows\<close>

text \<open>
  Times in JSON: \<open>FormatTime\<close> is the text \<open>time.Time\<close> marshals to, without its quotes, and \<open>ParseTime\<close>
  its inverse. A value without a time is the zero time, the start of year 1.
\<close>

record time_codec =
  FormatTime :: "time \<Rightarrow> go_error + bytes"
  ParseTime :: "bytes \<Rightarrow> time option"

definition zero_time :: time where
  "zero_time = - 62135596800 * 1000000000"

definition time_field :: "time_codec \<Rightarrow> bytes \<Rightarrow> (bytes \<times> bytes) list \<Rightarrow> time \<times> bool" where
  "time_field codec name ms = foldl (\<lambda>(v, ok) raw.
       if is_null raw then (v, ok)
       else if HasPrefix raw [quote_mark] then
         (case ParseTime codec (butlast (tl raw)) of Some t \<Rightarrow> (t, ok) | None \<Rightarrow> (v, False))
       else (v, False)) (zero_time, True) (field_values name ms)"

record LoginFlow =
  lf_Provider :: bytes
  lf_UserID :: uint64
  lf_Nonce :: bytes
  lf_Verifier :: bytes
  lf_ExpiresAt :: time

definition flow_json :: "LoginFlow \<Rightarrow> bytes \<Rightarrow> bytes" where
  "flow_json flow expires = marshal (StructOut
     [(''Provider'', StringOut (lf_Provider flow)), (''UserID'', IntOut (unat (lf_UserID flow))),
      (''Nonce'', StringOut (lf_Nonce flow)), (''Verifier'', StringOut (lf_Verifier flow)),
      (''ExpiresAt'', StringOut expires)])"

definition flow_of :: "time_codec \<Rightarrow> bytes \<Rightarrow> LoginFlow option" where
  "flow_of codec data = Option.bind (struct_members data) (\<lambda>ms.
     let (provider, ok1) = string_field ''provider'' ms; (user, ok2) = uint_field 64 ''userid'' ms;
         (nonce, ok3) = string_field ''nonce'' ms; (verifier, ok4) = string_field ''verifier'' ms;
         (expires, ok5) = time_field codec ''expiresat'' ms in
     if ok1 \<and> ok2 \<and> ok3 \<and> ok4 \<and> ok5
     then Some \<lparr>lf_Provider = provider, lf_UserID = user, lf_Nonce = nonce, lf_Verifier = verifier, lf_ExpiresAt = expires\<rparr>
     else None)"

record DeviceFlow =
  dl_Provider :: bytes
  dl_UserID :: uint64
  dl_DeviceAuthID :: bytes
  dl_UserCode :: bytes
  dl_Interval :: uint64
  dl_ExpiresAt :: time

definition device_json :: "DeviceFlow \<Rightarrow> bytes \<Rightarrow> bytes" where
  "device_json flow expires = marshal (StructOut
     [(''Provider'', StringOut (dl_Provider flow)), (''UserID'', IntOut (unat (dl_UserID flow))),
      (''DeviceAuthID'', StringOut (dl_DeviceAuthID flow)), (''UserCode'', StringOut (dl_UserCode flow)),
      (''Interval'', IntOut (unat (dl_Interval flow))), (''ExpiresAt'', StringOut expires)])"

definition device_of :: "time_codec \<Rightarrow> bytes \<Rightarrow> DeviceFlow option" where
  "device_of codec data = Option.bind (struct_members data) (\<lambda>ms.
     let (provider, ok1) = string_field ''provider'' ms; (user, ok2) = uint_field 64 ''userid'' ms;
         (auth, ok3) = string_field ''deviceauthid'' ms; (ucode, ok4) = string_field ''usercode'' ms;
         (interval, ok5) = uint_field 32 ''interval'' ms; (expires, ok6) = time_field codec ''expiresat'' ms in
     if ok1 \<and> ok2 \<and> ok3 \<and> ok4 \<and> ok5 \<and> ok6
     then Some \<lparr>dl_Provider = provider, dl_UserID = user, dl_DeviceAuthID = auth, dl_UserCode = ucode,
                dl_Interval = interval, dl_ExpiresAt = expires\<rparr>
     else None)"

section \<open>The service\<close>

text \<open>The upstream server as the directory calls it: each call answers a message, none for a nil one.\<close>

record upstream_client =
  rpc_GetDeviceFlowCode :: "bytes \<Rightarrow> go_error + DeviceFlowResponse option"
  rpc_PollDeviceFlow :: "bytes \<Rightarrow> bytes \<Rightarrow> bytes \<Rightarrow> uint64 \<Rightarrow> go_error + DeviceAuthorization option"
  rpc_Verifier :: "bytes \<Rightarrow> bytes \<Rightarrow> go_error + VerifyResponse option"
  rpc_ExchangeCode :: "bytes \<Rightarrow> bytes \<Rightarrow> bytes \<Rightarrow> bytes \<Rightarrow> go_error + TokenResponse option"
  rpc_RefreshToken :: "bytes \<Rightarrow> bytes \<Rightarrow> go_error + TokenResponse option"

text \<open>The options of an authorization URL, which the library \<open>oauth2\<close> builds.\<close>

datatype auth_code_option = S256ChallengeOption bytes | SetAuthURLParam bytes bytes | NonceOption bytes

datatype device_stmt = D_Set | D_Get | D_Eval

text \<open>The service; a nil pointer is none.\<close>

record OauthService =
  stateRedis :: "state_stmt \<Rightarrow> fault option"
  deviceRedis :: "(device_stmt \<Rightarrow> fault option) option"
  oidcAuth :: "bytes \<Rightarrow> OIDCAuth option option"
  directory :: "upstream_client option"
  oauthRepository :: "oauth_faults option"
  oauthKey :: bytes
  oauthCipher :: aead
  codec :: time_codec
  buildAuthCodeURL :: "oauth2_config \<Rightarrow> bytes \<Rightarrow> auth_code_option list \<Rightarrow> bytes"

text \<open>The state of the API that the flows change.\<close>

record oauth_state =
  os_db :: db
  os_redis :: redis

definition flow_ttl :: time where
  "flow_ttl = 5 * 60 * 1000000000"

definition device_ttl :: time where
  "device_ttl = 15 * 60 * 1000000000"

definition StoreFlow :: "OauthService \<Rightarrow> time \<Rightarrow> bytes \<Rightarrow> LoginFlow \<Rightarrow> redis \<Rightarrow> (go_error + unit) \<times> redis" where
  "StoreFlow s now state flow r =
     (case FormatTime (codec s) (lf_ExpiresAt flow) of
        Inl e \<Rightarrow> (Inl e, r)
      | Inr expires \<Rightarrow> SetState (stateRedis s) now state (flow_json flow expires) flow_ttl r)"

definition PopFlow :: "OauthService \<Rightarrow> time \<Rightarrow> bytes \<Rightarrow> redis \<Rightarrow> (go_error + LoginFlow) \<times> redis" where
  "PopFlow s now state r =
     (case DeleteState (stateRedis s) now state r of
        (Inl e, r) \<Rightarrow> (Inl (if errors_Is e RedisNil then ErrInvalidOAuthState else Wrap ''delete OAuth state'' e), r)
      | (Inr data, r) \<Rightarrow> (case flow_of (codec s) data of
            None \<Rightarrow> (Inl (Wrap ''decode OAuth state'' (Other ''json'')), r)
          | Some flow \<Rightarrow> (Inr flow, r)))"

text \<open>A map is iterated in any order; the library sorts the parameters of a query.\<close>

definition toAuthCodeOptions :: "(bytes \<times> bytes) list \<Rightarrow> auth_code_option list" where
  "toAuthCodeOptions params = map (\<lambda>(key, value). SetAuthURLParam key value) params"

definition authFor :: "OauthService \<Rightarrow> bytes \<Rightarrow> go_error + oauth2_config \<times> (bytes \<times> bytes) list" where
  "authFor s provider =
     (case oidcAuth s provider of
        None \<Rightarrow> Inl ErrProviderUnavailable
      | Some None \<Rightarrow> Inl ErrUpstreamUnavailable
      | Some (Some auth) \<Rightarrow> (case OauthConfig auth of
            None \<Rightarrow> Inl ErrUpstreamUnavailable
          | Some config \<Rightarrow> Inr (config, AuthURLParams auth)))"

definition AuthCodeURL :: "OauthService \<Rightarrow> bytes \<Rightarrow> bytes \<Rightarrow> bytes \<Rightarrow> bytes \<Rightarrow> go_error + bytes" where
  "AuthCodeURL s provider state verifier nonce =
     (case authFor s provider of
        Inl e \<Rightarrow> Inl e
      | Inr (config, params) \<Rightarrow>
          Inr (buildAuthCodeURL s config state (S256ChallengeOption verifier # toAuthCodeOptions params @ [NonceOption nonce])))"

definition svc_Exchange :: "OauthService \<Rightarrow> bytes \<Rightarrow> bytes \<Rightarrow> bytes \<Rightarrow> bytes \<Rightarrow> go_error + Token" where
  "svc_Exchange s c verifier provider flowType =
     (case authFor s provider of
        Inl e \<Rightarrow> Inl e
      | Inr _ \<Rightarrow> (case directory s of
            None \<Rightarrow> Inl ErrUpstreamUnavailable
          | Some dir \<Rightarrow> dir_Exchange (rpc_ExchangeCode dir c verifier provider flowType)))"

definition verifyIDToken :: "upstream_client option \<Rightarrow> bytes \<Rightarrow> bytes \<Rightarrow> go_error + VerifyResponse" where
  "verifyIDToken dir raw provider =
     (case dir of None \<Rightarrow> Inl ErrUpstreamUnavailable | Some dir \<Rightarrow> dir_Verifier (rpc_Verifier dir raw provider))"

text \<open>The claims of an ID token: the e-mail address and the account.\<close>

definition IDTokenClaims :: "bytes \<Rightarrow> (bytes \<times> bytes) option" where
  "IDTokenClaims json = Option.bind (struct_members json) (\<lambda>ms.
     let (email, ok1) = string_field ''email'' ms; (auth, ok2) = object_field ''https://api.openai.com/auth'' ms;
         (account, ok3) = string_field ''chatgpt_account_id'' auth in
     if ok1 \<and> ok2 \<and> ok3 then Some (email, account) else None)"

text \<open>An access token that is not blank and not expired.\<close>

definition token_usable :: "time \<Rightarrow> Token \<Rightarrow> bool" where
  "token_usable now token \<longleftrightarrow> TrimSpace (AccessToken token) \<noteq> []
     \<and> (case Expiry token of None \<Rightarrow> True | Some t \<Rightarrow> now < t)"

text \<open>\<open>rnd\<close> is what each reading of \<open>crypto/rand\<close> gives.\<close>

definition toOauthInfo ::
  "OauthService \<Rightarrow> time \<Rightarrow> (nat \<Rightarrow> go_error + bytes) \<Rightarrow> uint64 \<Rightarrow> uint64 \<Rightarrow> bytes \<Rightarrow> bytes \<Rightarrow> bytes \<Rightarrow> bytes \<Rightarrow> bytes
    \<Rightarrow> time option \<Rightarrow> go_error + OAuthInfo" where
  "toOauthInfo s now rnd i userid accountid email accesstoken refreshtoken idtoken expired =
     (case Encrypt (oauthCipher s) (rnd 0) (oauthKey s) accesstoken of
        Inl e \<Rightarrow> Inl e
      | Inr access \<Rightarrow> (case Encrypt (oauthCipher s) (rnd 1) (oauthKey s) refreshtoken of
            Inl e \<Rightarrow> Inl e
          | Inr refresh \<Rightarrow> (case Encrypt (oauthCipher s) (rnd 2) (oauthKey s) idtoken of
                Inl e \<Rightarrow> Inl e
              | Inr idEncrypted \<Rightarrow>
                  Inr \<lparr>oa_ID = i, oa_UserID = userid, oa_AccessToken = access, oa_AccountID = accountid,
                       oa_Disabled = False, oa_Email = email, oa_Expired = expired, oa_IDToken = idEncrypted,
                       oa_LastRefresh = Some now, oa_RefreshToken = refresh, oa_Type = ''codex'',
                       oa_CreatedAt = 0, oa_UpdatedAt = 0\<rparr>)))"

definition svc_SaveToken ::
  "OauthService \<Rightarrow> time \<Rightarrow> (nat \<Rightarrow> go_error + bytes) \<Rightarrow> Token \<Rightarrow> LoginFlow \<Rightarrow> bool \<Rightarrow> db \<Rightarrow> (go_error + unit) \<times> db" where
  "svc_SaveToken s now rnd token flow isbrowser d =
     (if lf_UserID flow = 0 \<or> lf_Nonce flow = [] \<and> isbrowser \<or> lf_Provider flow = [] then (Inl ErrInvalidOAuthState, d)
      else if \<not> token_usable now token then (Inl ErrInvalidIDToken, d)
      else if IdToken token = [] then (Inl ErrInvalidIDToken, d)
      else case verifyIDToken (directory s) (IdToken token) (lf_Provider flow) of
        Inl e \<Rightarrow> (Inl (if errors_Is e ErrUpstreamUnavailable \<or> errors_Is e ErrProviderUnavailable then e else ErrInvalidIDToken), d)
      | Inr idToken \<Rightarrow>
          if vr_Nonce idToken \<noteq> lf_Nonce flow \<and> isbrowser then (Inl ErrInvalidIDToken, d)
          else (case IDTokenClaims (vr_ClaimsJson idToken) of
            None \<Rightarrow> (Inl ErrInvalidIDToken, d)
          | Some (email, account) \<Rightarrow>
              if TrimSpace account = [] then (Inl ErrInvalidIDToken, d)
              else (case oauthRepository s of
                None \<Rightarrow> (Inl ErrProviderUnavailable, d)
              | Some io \<Rightarrow>
                  if lf_Provider flow \<noteq> ''oai'' then (Inl ErrProviderUnavailable, d)
                  else (case toOauthInfo s now rnd 0 (lf_UserID flow) account email (AccessToken token) (TokenRefresh token)
                        (IdToken token) (Expiry token) of
                      Inl e \<Rightarrow> (Inl e, d)
                    | Inr model \<Rightarrow> if_ok (repo_SaveToken io now model d) (\<lambda>_ d. (Inr (), d))))))"

section \<open>Refresh\<close>

text \<open>The provider of a type of account.\<close>

definition refresh_provider :: "OAuthInfo \<Rightarrow> bytes option" where
  "refresh_provider model = (if oa_Type model = ''codex'' then Some ''oai'' else None)"

text \<open>A new ID token, if there is one, must be for the same account.\<close>

definition refreshed_identity ::
  "OauthService \<Rightarrow> (nat \<Rightarrow> go_error + bytes) \<Rightarrow> bytes \<Rightarrow> bytes \<Rightarrow> OAuthInfo \<Rightarrow> go_error + OAuthInfo" where
  "refreshed_identity s rnd provider raw model =
     (if raw = [] then Inr model
      else case verifyIDToken (directory s) raw provider of
        Inl _ \<Rightarrow> Inl ErrInvalidIDToken
      | Inr verified \<Rightarrow> (case IDTokenClaims (vr_ClaimsJson verified) of
            None \<Rightarrow> Inl ErrInvalidIDToken
          | Some (_, account) \<Rightarrow>
              if account \<noteq> oa_AccountID model then Inl ErrInvalidIDToken
              else (case Encrypt (oauthCipher s) (rnd 0) (oauthKey s) raw of
                  Inl e \<Rightarrow> Inl e
                | Inr encrypted \<Rightarrow> Inr (model\<lparr>oa_IDToken := encrypted\<rparr>))))"

definition refreshed_secrets ::
  "OauthService \<Rightarrow> time \<Rightarrow> (nat \<Rightarrow> go_error + bytes) \<Rightarrow> Token \<Rightarrow> OAuthInfo \<Rightarrow> go_error + OAuthInfo" where
  "refreshed_secrets s now rnd token model =
     (case Encrypt (oauthCipher s) (rnd 1) (oauthKey s) (AccessToken token) of
        Inl e \<Rightarrow> Inl e
      | Inr access \<Rightarrow>
          (let model = model\<lparr>oa_AccessToken := access\<rparr>;
               times = (\<lambda>m. m\<lparr>oa_Expired := Expiry token, oa_LastRefresh := Some now\<rparr>) in
           if TokenRefresh token = [] then Inr (times model)
           else (case Encrypt (oauthCipher s) (rnd 2) (oauthKey s) (TokenRefresh token) of
               Inl e \<Rightarrow> Inl e
             | Inr refresh \<Rightarrow> Inr (times (model\<lparr>oa_RefreshToken := refresh\<rparr>)))))"

definition refreshTokenCredentials ::
  "OauthService \<Rightarrow> time \<Rightarrow> (nat \<Rightarrow> go_error + bytes) \<Rightarrow> upstream_client \<Rightarrow> OAuthInfo \<Rightarrow> go_error + OAuthInfo" where
  "refreshTokenCredentials s now rnd dir model =
     (case refresh_provider model of
        None \<Rightarrow> Inl ErrProviderUnavailable
      | Some provider \<Rightarrow> (case authFor s provider of
            Inl e \<Rightarrow> Inl e
          | Inr _ \<Rightarrow> (case Decrypt (oauthCipher s) (oauthKey s) (oa_RefreshToken model) of
                Inl e \<Rightarrow> Inl e
              | Inr plain \<Rightarrow>
                  if TrimSpace plain = [] then Inl ErrRefreshRejected
                  else (case dir_RefreshToken (rpc_RefreshToken dir plain provider) of
                      Inl e \<Rightarrow> Inl e
                    | Inr token \<Rightarrow>
                        if \<not> token_usable now token then Inl ErrRefreshFailed
                        else (case refreshed_identity s rnd provider (IdToken token) model of
                            Inl e \<Rightarrow> Inl e
                          | Inr model \<Rightarrow> refreshed_secrets s now rnd token model)))))"

definition svc_RefreshToken ::
  "OauthService \<Rightarrow> time \<Rightarrow> (nat \<Rightarrow> go_error + bytes) \<Rightarrow> uint64 \<Rightarrow> uint64 \<Rightarrow> db \<Rightarrow> (go_error + unit) \<times> db" where
  "svc_RefreshToken s now rnd ownerID i d =
     (if ownerID = 0 \<or> i = 0 then (Inl ErrInvalidRefresh, d)
      else case (oauthRepository s, directory s) of
        (Some io, Some dir) \<Rightarrow>
          transaction (io O_Commit) (\<lambda>d.
            case GetOwnedTokenForUpdate io ownerID i d of
              Inl e \<Rightarrow> (Inl e, d)
            | Inr model \<Rightarrow> (case refreshTokenCredentials s now rnd dir model of
                Inl e \<Rightarrow> (Inl e, d)
              | Inr model \<Rightarrow> UpdateToken io now ownerID i model d)) d
      | _ \<Rightarrow> (Inl ErrUpstreamUnavailable, d))"

definition getUserOauth :: "OauthService \<Rightarrow> uint64 \<Rightarrow> db \<Rightarrow> go_error + OAuthListItem list" where
  "getUserOauth s userid d =
     (case oauthRepository s of None \<Rightarrow> Inl ErrUpstreamUnavailable | Some io \<Rightarrow> repo_getUserOauth io userid d)"

text \<open>Without a repository the code panics, which the recovery of the server answers with a 500.\<close>

definition deleteUserOauth :: "OauthService \<Rightarrow> uint64 \<Rightarrow> uint64 \<Rightarrow> db \<Rightarrow> (go_error + unit) \<times> db" where
  "deleteUserOauth s i userid d =
     (case oauthRepository s of
        None \<Rightarrow> (Inl (Other ''panic: nil repository''), d)
      | Some io \<Rightarrow> repo_deleteUserOauth io i userid d)"

section \<open>Device flows\<close>

definition svc_GetDeviceFlowCode :: "OauthService \<Rightarrow> bytes \<Rightarrow> go_error + DeviceFlowResponse" where
  "svc_GetDeviceFlowCode s provider =
     (case authFor s provider of
        Inl e \<Rightarrow> Inl e
      | Inr _ \<Rightarrow> (case directory s of
            None \<Rightarrow> Inl ErrUpstreamUnavailable
          | Some dir \<Rightarrow> dir_GetDeviceFlowCode (rpc_GetDeviceFlowCode dir provider)))"

definition svc_Poll :: "OauthService \<Rightarrow> bytes \<Rightarrow> bytes \<Rightarrow> uint64 \<Rightarrow> bytes \<Rightarrow> go_error + DeviceAuthorization" where
  "svc_Poll s authID userCode intervalSeconds provider =
     (case authFor s provider of
        Inl e \<Rightarrow> Inl e
      | Inr _ \<Rightarrow> (case directory s of
            None \<Rightarrow> Inl ErrUpstreamUnavailable
          | Some dir \<Rightarrow> dir_PollDeviceFlow (rpc_PollDeviceFlow dir provider authID userCode intervalSeconds)))"

definition deviceKey :: "bytes \<Rightarrow> bytes" where
  "deviceKey authID = ''oidc:device:'' @ authID"

definition storeDeviceFlow :: "OauthService \<Rightarrow> time \<Rightarrow> DeviceFlow \<Rightarrow> redis \<Rightarrow> (go_error + unit) \<times> redis" where
  "storeDeviceFlow s now flow r =
     (case deviceRedis s of
        None \<Rightarrow> (Inl ErrUpstreamUnavailable, r)
      | Some io \<Rightarrow> (case FormatTime (codec s) (dl_ExpiresAt flow) of
            Inl e \<Rightarrow> (Inl e, r)
          | Inr expires \<Rightarrow>
              call (io D_Set) (redis_set now (deviceKey (dl_DeviceAuthID flow)) (device_json flow expires) (dl_ExpiresAt flow - now)) r))"

text \<open>The script deletes the key if it still holds what was read.\<close>

definition compare_delete :: "time \<Rightarrow> bytes \<Rightarrow> bytes \<Rightarrow> redis \<Rightarrow> (go_error + nat) \<times> redis" where
  "compare_delete now key raw r =
     (if redis_get now key r = Some raw then (Inr 1, r(key := None)) else (Inr 0, r))"

definition device_flow_ok :: "DeviceFlow \<Rightarrow> time \<Rightarrow> bytes \<Rightarrow> bytes \<Rightarrow> uint64 \<Rightarrow> bool" where
  "device_flow_ok flow now authID provider ownerID \<longleftrightarrow>
     dl_UserID flow = ownerID \<and> dl_Provider flow = provider \<and> dl_DeviceAuthID flow = authID \<and> now < dl_ExpiresAt flow"

text \<open>Reading and deleting are two commands; \<open>meanwhile\<close> is what Redis does for others in the meantime.\<close>

definition popDeviceFlow ::
  "OauthService \<Rightarrow> time \<Rightarrow> (redis \<Rightarrow> redis) \<Rightarrow> bytes \<Rightarrow> bytes \<Rightarrow> uint64 \<Rightarrow> redis \<Rightarrow> (go_error + DeviceFlow) \<times> redis" where
  "popDeviceFlow s now meanwhile authID provider ownerID r =
     (case deviceRedis s of
        None \<Rightarrow> (Inl ErrUpstreamUnavailable, r)
      | Some io \<Rightarrow> (case query (io D_Get) (case redis_get now (deviceKey authID) r of None \<Rightarrow> Inl RedisNil | Some v \<Rightarrow> Inr v) of
            Inl e \<Rightarrow> (Inl (if errors_Is e RedisNil then ErrInvalidOAuthState else e), r)
          | Inr raw \<Rightarrow> (case device_of (codec s) raw of
                None \<Rightarrow> (Inl ErrInvalidOAuthState, r)
              | Some flow \<Rightarrow>
                  if \<not> device_flow_ok flow now authID provider ownerID then (Inl ErrInvalidOAuthState, r)
                  else if_ok (call (io D_Eval) (compare_delete now (deviceKey authID) raw) (meanwhile r))
                    (\<lambda>consumed r. (if consumed \<noteq> 1 then Inl ErrInvalidOAuthState else Inr flow, r)))))"

section \<open>Handlers\<close>

text \<open>What a handler answers: a document, or a redirection to an address.\<close>

datatype oauth_data = UrlData bytes | DeviceData DeviceFlowResponse | OAuthListData "OAuthListItem list" | MessageData bytes

datatype oauth_out = Doc "oauth_data reply" | Redirect nat "(bytes \<times> bytes) list" bytes

fun out_headers :: "(bytes \<times> bytes) list \<Rightarrow> oauth_out \<Rightarrow> oauth_out" where
  "out_headers hs (Doc r) = Doc (r\<lparr>reply_headers := hs @ reply_headers r\<rparr>)"
| "out_headers hs (Redirect st hs' url) = Redirect st (hs @ hs') url"

definition no_store_header :: "bytes \<times> bytes" where
  "no_store_header = (''Cache-Control'', ''no-store'')"

fun ContainsText :: "bytes \<Rightarrow> bytes \<Rightarrow> bool" where
  "ContainsText [] p \<longleftrightarrow> p = []"
| "ContainsText (c # s) p \<longleftrightarrow> HasPrefix (c # s) p \<or> ContainsText s p"

definition wants_json :: "bytes \<Rightarrow> bool" where
  "wants_json accept \<longleftrightarrow> ContainsText accept ''application/json''"

text \<open>The two messages that are not in English, in UTF-8.\<close>

definition state_failed :: bytes where
  "state_failed = map char_of [0xE7, 0x94, 0x9F, 0xE6, 0x88, 0x90 :: nat] @ '' state '' @ map char_of [0xE5, 0xA4, 0xB1, 0xE8, 0xB4, 0xA5 :: nat]"

definition store_failed :: bytes where
  "store_failed = map char_of [0xE4, 0xBF, 0x9D, 0xE5, 0xAD, 0x98, 0xE7, 0x99, 0xBB, 0xE5, 0xBD, 0x95, 0xE7, 0x8A, 0xB6, 0xE6,
     0x80, 0x81, 0xE5, 0xA4, 0xB1, 0xE8, 0xB4, 0xA5 :: nat]"

definition randomValue :: "go_error + bytes \<Rightarrow> go_error + bytes" where
  "randomValue rnd = (case rnd of Inl e \<Rightarrow> Inl e | Inr data \<Rightarrow> Inr (RawURLEncode (fill_bytes 32 data)))"

definition getUserid :: "uint64 option \<Rightarrow> go_error + uint64" where
  "getUserid user = (if user = None \<or> user = Some 0 then Inl AuthenticationRequired else Inr (the user))"

definition auth_required :: oauth_out where
  "auth_required = Doc (Error 401 40100 ''authentication required'')"

text \<open>\<open>verifier\<close> is what \<open>oauth2.GenerateVerifier\<close> gives.\<close>

definition OAuthLoginHandler ::
  "OauthService \<Rightarrow> time \<Rightarrow> go_error + bytes \<Rightarrow> go_error + bytes \<Rightarrow> bytes \<Rightarrow> uint64 option \<Rightarrow> bytes \<Rightarrow> bytes \<Rightarrow> oauth_state
    \<Rightarrow> oauth_out \<times> oauth_state" where
  "OAuthLoginHandler s now rnd1 rnd2 verifier user provider accept st =
     (case getUserid user of
        Inl _ \<Rightarrow> (auth_required, st)
      | Inr ownerID \<Rightarrow> (case authFor s provider of
            Inl e \<Rightarrow> (Doc (if errors_Is e ErrProviderUnavailable then Error 400 400 ''invalid_provider''
                          else Error 503 503 ''oauth service unavailable''), st)
          | Inr _ \<Rightarrow> (case randomValue rnd1 of
                Inl _ \<Rightarrow> (Doc (Error 500 500 state_failed), st)
              | Inr state \<Rightarrow> (case randomValue rnd2 of
                    Inl _ \<Rightarrow> (Doc (Error 500 500 ''generate nonce failed''), st)
                  | Inr nonce \<Rightarrow> (case AuthCodeURL s provider state verifier nonce of
                        Inl _ \<Rightarrow> (Doc (Error 503 503 ''oauth service unavailable''), st)
                      | Inr authURL \<Rightarrow>
                          (case StoreFlow s now state \<lparr>lf_Provider = provider, lf_UserID = ownerID, lf_Nonce = nonce,
                              lf_Verifier = verifier, lf_ExpiresAt = now + flow_ttl\<rparr> (os_redis st) of
                             (Inl _, rd) \<Rightarrow> (Doc (Error 500 500 store_failed), st\<lparr>os_redis := rd\<rparr>)
                           | (Inr _, rd) \<Rightarrow>
                               (if wants_json accept then out_headers [no_store_header] (Doc (Success (Some (UrlData authURL))))
                                else Redirect 302 [] authURL, st\<lparr>os_redis := rd\<rparr>)))))))"

definition exchange_reply :: "go_error \<Rightarrow> oauth_out" where
  "exchange_reply e = Doc
     (if errors_Is e ErrInvalidExchange \<or> errors_Is e ErrExchangeRejected then Error 400 400 ''token exchange rejected''
      else if errors_Is e ErrProviderUnavailable \<or> errors_Is e ErrUpstreamUnavailable
        then Error 503 503 ''oauth service unavailable''
      else if errors_Is e ErrExchangeTimeout then Error 504 504 ''token exchange timed out''
      else Error 502 502 ''token exchange failed'')"

definition save_reply :: "go_error \<Rightarrow> oauth_out" where
  "save_reply e = Doc
     (if errors_Is e ErrInvalidIDToken then Error 502 502 ''invalid provider identity''
      else if errors_Is e ErrInvalidOAuthState then Error 400 400 ''invalid_state''
      else if errors_Is e ErrUpstreamUnavailable \<or> errors_Is e ErrProviderUnavailable
        then Error 503 503 ''oauth service unavailable''
      else Error 500 500 ''save token failed'')"

definition saved_reply :: "bytes \<Rightarrow> oauth_out" where
  "saved_reply accept =
     (if ContainsText accept ''text/html'' \<and> \<not> wants_json accept then Redirect 303 [] ''/authorized-accounts''
      else Doc (SuccessWithStatus 200 None ''oauth credentials saved''))"

text \<open>Exchange and save, which both callbacks end with.\<close>

definition exchange_and_save ::
  "OauthService \<Rightarrow> time \<Rightarrow> (nat \<Rightarrow> go_error + bytes) \<Rightarrow> bytes \<Rightarrow> bytes \<Rightarrow> bytes \<Rightarrow> bytes \<Rightarrow> LoginFlow \<Rightarrow> bool \<Rightarrow> bytes
    \<Rightarrow> oauth_state \<Rightarrow> oauth_out \<times> oauth_state" where
  "exchange_and_save s now rnd c verifier provider flowType flow isbrowser accept st =
     (case svc_Exchange s c verifier provider flowType of
        Inl e \<Rightarrow> (exchange_reply e, st)
      | Inr token \<Rightarrow> (case svc_SaveToken s now rnd token flow isbrowser (os_db st) of
            (Inl e, d) \<Rightarrow> (save_reply e, st\<lparr>os_db := d\<rparr>)
          | (Inr _, d) \<Rightarrow> (saved_reply accept, st\<lparr>os_db := d\<rparr>)))"

text \<open>The query of the provider's redirection: state, error and code, empty when they are missing.\<close>

definition Callback_body ::
  "OauthService \<Rightarrow> time \<Rightarrow> (nat \<Rightarrow> go_error + bytes) \<Rightarrow> bytes \<Rightarrow> bytes \<Rightarrow> bytes \<Rightarrow> bytes \<Rightarrow> oauth_state \<Rightarrow> oauth_out \<times> oauth_state" where
  "Callback_body s now rnd state err c accept st =
     (if state = [] then (Doc (Error 400 400 ''invalid_state''), st)
      else let (popped, rd) = PopFlow s now state (os_redis st); st = st\<lparr>os_redis := rd\<rparr> in
      case popped of
        Inl e \<Rightarrow> (Doc (if errors_Is e ErrInvalidOAuthState then Error 400 400 ''invalid_state''
                      else Error 500 500 ''load login state failed''), st)
      | Inr flow \<Rightarrow>
          if lf_ExpiresAt flow < now \<or> lf_UserID flow = 0 \<or> lf_Nonce flow = [] \<or> lf_Provider flow = []
            then (Doc (Error 400 400 ''invalid_state''), st)
          else if err \<noteq> [] then (Doc (Error 400 400 ''provider denied''), st)
          else if c = [] then (Doc (Error 400 400 ''missing code''), st)
          else exchange_and_save s now rnd c (lf_Verifier flow) (lf_Provider flow) ''browser'' flow True accept st)"

definition CallbackHandler ::
  "OauthService \<Rightarrow> time \<Rightarrow> (nat \<Rightarrow> go_error + bytes) \<Rightarrow> bytes \<Rightarrow> bytes \<Rightarrow> bytes \<Rightarrow> bytes \<Rightarrow> oauth_state \<Rightarrow> oauth_out \<times> oauth_state" where
  "CallbackHandler s now rnd state err c accept st =
     (let (out, st) = Callback_body s now rnd state err c accept st in
      (out_headers [no_store_header, (''Referrer-Policy'', ''no-referrer'')] out, st))"

definition deviceFlowErrorResponse :: "go_error \<Rightarrow> oauth_out" where
  "deviceFlowErrorResponse e = Doc
     (if errors_Is e ErrInvalidDeviceFlow \<or> errors_Is e ErrDeviceFlowRejected then Error 400 400 ''device authorization rejected''
      else if errors_Is e ErrDeviceFlowTimeout \<or> errors_Is e ContextDeadlineExceeded
        then Error 504 504 ''device authorization timed out''
      else if errors_Is e ContextCanceled then Error 408 408 ''device authorization canceled''
      else if errors_Is e ErrProviderUnavailable \<or> errors_Is e ErrUpstreamUnavailable
        then Error 503 503 ''oauth service unavailable''
      else Error 502 502 ''device authorization failed'')"

text \<open>The flow expires 15 minutes after \<open>now\<close>; the call for the code is taken to take no time.\<close>

definition LoginDeviceFlow ::
  "OauthService \<Rightarrow> time \<Rightarrow> uint64 option \<Rightarrow> bytes \<Rightarrow> oauth_state \<Rightarrow> oauth_out \<times> oauth_state" where
  "LoginDeviceFlow s now user provider st =
     (case getUserid user of
        Inl _ \<Rightarrow> (out_headers [no_store_header] auth_required, st)
      | Inr ownerID \<Rightarrow> (case svc_GetDeviceFlowCode s provider of
            Inl e \<Rightarrow> (out_headers [no_store_header] (deviceFlowErrorResponse e), st)
          | Inr info \<Rightarrow>
              (case storeDeviceFlow s now \<lparr>dl_Provider = provider, dl_UserID = ownerID, dl_DeviceAuthID = df_DeviceAuthId info,
                  dl_UserCode = df_UserCode info, dl_Interval = df_IntervalSeconds info, dl_ExpiresAt = now + device_ttl\<rparr> (os_redis st) of
                 (Inl _, rd) \<Rightarrow> (out_headers [no_store_header] (Doc (Error 500 500 ''save device login state failed'')), st\<lparr>os_redis := rd\<rparr>)
               | (Inr _, rd) \<Rightarrow> (out_headers [no_store_header] (Doc (Success (Some (DeviceData info)))), st\<lparr>os_redis := rd\<rparr>))))"

text \<open>The request of a poll: of its fields only the identifier is used.\<close>

definition bind_poll :: "bytes \<Rightarrow> bytes option" where
  "bind_poll body = Option.bind (decoder_members body) (\<lambda>ms.
     let (auth, ok1) = string_field ''device_auth_id'' ms; (ucode, ok2) = string_field ''user_code'' ms;
         (interval, ok3) = uint_field 32 ''interval'' ms in
     if ok1 \<and> ok2 \<and> ok3 \<and> auth \<noteq> [] then Some auth else None)"

text \<open>Polling takes minutes: \<open>now\<close> is when the flow is popped, \<open>later\<close> when the tokens are saved.\<close>

definition CallbackDeviceFlow ::
  "OauthService \<Rightarrow> time \<Rightarrow> time \<Rightarrow> (nat \<Rightarrow> go_error + bytes) \<Rightarrow> (redis \<Rightarrow> redis) \<Rightarrow> uint64 option \<Rightarrow> bytes \<Rightarrow> bytes \<Rightarrow> bytes
    \<Rightarrow> oauth_state \<Rightarrow> oauth_out \<times> oauth_state" where
  "CallbackDeviceFlow s now later rnd meanwhile user provider body accept st =
     (let (out, st) =
       (case getUserid user of
          Inl _ \<Rightarrow> (auth_required, st)
        | Inr ownerID \<Rightarrow> (case bind_poll body of
              None \<Rightarrow> (Doc (Error 400 400 ''invalid poll request''), st)
            | Some authID \<Rightarrow>
                (let (popped, rd) = popDeviceFlow s now meanwhile authID provider ownerID (os_redis st);
                     st = st\<lparr>os_redis := rd\<rparr> in
                 case popped of
                   Inl e \<Rightarrow> (Doc (if errors_Is e ErrInvalidOAuthState then Error 400 400 ''invalid_state''
                                 else Error 500 500 ''load device login state failed''), st)
                 | Inr flow \<Rightarrow>
                     (case svc_Poll s (dl_DeviceAuthID flow) (dl_UserCode flow) (dl_Interval flow) (dl_Provider flow) of
                        Inl e \<Rightarrow> (deviceFlowErrorResponse e, st)
                      | Inr info \<Rightarrow>
                          exchange_and_save s later rnd (AuthorizationCode info) (CodeVerifier info) provider ''device''
                            \<lparr>lf_Provider = provider, lf_UserID = ownerID, lf_Nonce = [], lf_Verifier = [], lf_ExpiresAt = zero_time\<rparr>
                            False accept st))))
      in (out_headers [no_store_header] out, st))"

text \<open>\<open>OAuthRefreshRequest\<close>: an identifier that is not zero.\<close>

definition bind_id :: "bytes \<Rightarrow> uint64 option" where
  "bind_id body = Option.bind (decoder_members body) (\<lambda>ms.
     let (i, ok) = uint_field 64 ''id'' ms in if ok \<and> i \<noteq> 0 then Some i else None)"

definition refresh_reply :: "go_error \<Rightarrow> oauth_out" where
  "refresh_reply e = Doc
     (if errors_Is e ErrOAuthNotFound then Error 404 404 ''oauth credential not found''
      else if errors_Is e ErrInvalidRefresh then Error 400 400 ''invalid refresh request''
      else if errors_Is e ErrRefreshRejected then Error 400 400 ''refresh token rejected; reauthorize account''
      else if errors_Is e ErrProviderUnavailable \<or> errors_Is e ErrUpstreamUnavailable
        then Error 503 503 ''oauth service unavailable''
      else if errors_Is e ErrRefreshTimeout \<or> errors_Is e ContextDeadlineExceeded then Error 504 504 ''token refresh timed out''
      else if errors_Is e ContextCanceled then Error 408 408 ''token refresh canceled''
      else if errors_Is e ErrRefreshFailed \<or> errors_Is e ErrInvalidIDToken
        then Error 502 502 ''invalid provider refresh response''
      else Error 500 500 ''save refreshed credentials failed'')"

definition RefreshTokenHandler ::
  "OauthService \<Rightarrow> time \<Rightarrow> (nat \<Rightarrow> go_error + bytes) \<Rightarrow> uint64 option \<Rightarrow> bytes \<Rightarrow> oauth_state \<Rightarrow> oauth_out \<times> oauth_state" where
  "RefreshTokenHandler s now rnd user body st =
     (case getUserid user of
        Inl _ \<Rightarrow> (auth_required, st)
      | Inr ownerID \<Rightarrow> (case bind_id body of
            None \<Rightarrow> (Doc (Error 400 400 ''invalid refresh request''), st)
          | Some i \<Rightarrow> (case svc_RefreshToken s now rnd ownerID i (os_db st) of
                (Inl e, d) \<Rightarrow> (refresh_reply e, st\<lparr>os_db := d\<rparr>)
              | (Inr _, d) \<Rightarrow>
                  (out_headers [no_store_header] (Doc (Success (Some (MessageData ''refresh success'')))), st\<lparr>os_db := d\<rparr>))))"

definition OauthList :: "OauthService \<Rightarrow> uint64 option \<Rightarrow> oauth_state \<Rightarrow> oauth_out" where
  "OauthList s user st =
     (case getUserid user of
        Inl _ \<Rightarrow> auth_required
      | Inr ownerID \<Rightarrow> (case getUserOauth s ownerID (os_db st) of
            Inl _ \<Rightarrow> Doc (Error 500 500 ''load oauth list failed'')
          | Inr oauthlist \<Rightarrow> out_headers [no_store_header] (Doc (Success (Some (OAuthListData oauthlist))))))"

definition DeleteHandler :: "OauthService \<Rightarrow> uint64 option \<Rightarrow> bytes \<Rightarrow> oauth_state \<Rightarrow> oauth_out \<times> oauth_state" where
  "DeleteHandler s user body st =
     (case getUserid user of
        Inl _ \<Rightarrow> (auth_required, st)
      | Inr ownerID \<Rightarrow> (case bind_id body of
            None \<Rightarrow> (Doc (Error 400 400 ''invalid delete request''), st)
          | Some i \<Rightarrow> (case deleteUserOauth s i ownerID (os_db st) of
                (Inl e, d) \<Rightarrow>
                  (Doc (if errors_Is e ErrOAuthNotFound then Error 404 404 ''oauth credential not found''
                        else Error 500 500 ''delete oauth failed''), st\<lparr>os_db := d\<rparr>)
              | (Inr _, d) \<Rightarrow> (Doc (Success None), st\<lparr>os_db := d\<rparr>))))"

section \<open>The provider's configuration\<close>

text \<open>\<open>buildOAuthConfig\<close>: how the client authenticates at the token endpoint.\<close>

record OIDCConfig =
  oc_Provider :: bytes
  oc_Issuer :: bytes
  oc_ClientID :: bytes
  oc_ClientSecret :: bytes
  oc_RedirectURL :: bytes

fun pick_style :: "bytes list \<Rightarrow> auth_style option \<Rightarrow> auth_style option" where
  "pick_style [] found = found"
| "pick_style (m # ms) found =
     (if m = ''client_secret_basic'' then Some InHeader
      else pick_style ms (if m = ''client_secret_post'' then Some InParams else found))"

definition auth_style_of :: "bytes \<Rightarrow> bytes \<Rightarrow> go_error + auth_style" where
  "auth_style_of clientSecret rawClaims =
     (if clientSecret = [] then Inr InParams
      else case Option.bind (struct_members rawClaims) (\<lambda>ms.
          let (methods, ok) = strings_field ''token_endpoint_auth_methods_supported'' ms in if ok then Some methods else None) of
        None \<Rightarrow> Inl (Wrap ''read OIDC authentication methods'' (Other ''json''))
      | Some methods \<Rightarrow>
          if methods = [] then Inr InHeader
          else (case pick_style methods None of
              None \<Rightarrow> Inl (Other ''OIDC provider has no supported client secret authentication method'')
            | Some style \<Rightarrow> Inr style))"

definition buildOAuthConfig ::
  "OIDCConfig \<Rightarrow> bytes \<Rightarrow> bytes \<Rightarrow> bytes \<Rightarrow> bytes \<Rightarrow> bytes list \<Rightarrow> go_error + oauth2_config" where
  "buildOAuthConfig cfg authURL tokenURL deviceAuthURL rawClaims scopes =
     (case auth_style_of (oc_ClientSecret cfg) rawClaims of
        Inl e \<Rightarrow> Inl e
      | Inr style \<Rightarrow> Inr \<lparr>ClientID = oc_ClientID cfg, ClientSecret = oc_ClientSecret cfg, RedirectURL = oc_RedirectURL cfg,
          AuthURL = authURL, TokenURL = tokenURL, DeviceAuthURL = deviceAuthURL, AuthStyle = style, Scopes = scopes\<rparr>)"

definition OaiAuthURLParams :: "(bytes \<times> bytes) list" where
  "OaiAuthURLParams = [(''prompt'', ''login''), (''id_token_add_organizations'', ''true''), (''codex_cli_simplified_flow'', ''true'')]"

definition OaiScopes :: "bytes list" where
  "OaiScopes = [''openid'', ''profile'', ''email'', ''offline_access'']"

definition remote_endpoint_ok :: "host_parser \<Rightarrow> bytes \<Rightarrow> bool" where
  "remote_endpoint_ok hosts endpoint =
     (case Parse hosts endpoint of
        None \<Rightarrow> False
      | Some u \<Rightarrow> \<not> (Host u = [] \<or> UserSet u \<or> Scheme u \<noteq> ''https'' \<and> Scheme u \<noteq> ''http''))"

text \<open>\<open>NewRemoteOIDCAuth\<close>; a missing directory is none, otherwise its call \<open>GetProvider\<close>.\<close>

definition NewRemoteOIDCAuth ::
  "host_parser \<Rightarrow> OIDCConfig \<Rightarrow> (bytes \<Rightarrow> go_error + ProviderResponse option) option \<Rightarrow> (bytes \<times> bytes) list \<Rightarrow> bytes list
    \<Rightarrow> go_error + OIDCAuth" where
  "NewRemoteOIDCAuth hosts cfg getProvider params scopes =
     (case getProvider of
        None \<Rightarrow> Inl (Other ''upstream directory is required'')
      | Some rpc \<Rightarrow> (case dir_GetProvider (rpc (oc_Issuer cfg)) of
            Inl e \<Rightarrow> Inl e
          | Inr r \<Rightarrow>
              if pr_Issuer r \<noteq> oc_Issuer cfg then Inl (Other ''upstream issuer mismatch'')
              else if \<not> list_all (remote_endpoint_ok hosts) [pr_AuthURL r, pr_TokenURL r] then Inl (Other ''invalid upstream endpoint'')
              else (case buildOAuthConfig cfg (pr_AuthURL r) (pr_TokenURL r) (pr_DeviceAuthURL r) (pr_RawClaims r) scopes of
                  Inl e \<Rightarrow> Inl e
                | Inr config \<Rightarrow> Inr \<lparr>Provider = None, OauthConfig = Some config, AuthURLParams = params, IDVerifier = None\<rparr>)))"

end
