(* ===== verification/OAuthProps.thy ===== *)
theory OAuthProps imports OAuth Jwt begin

text \<open>
  The properties of linked accounts, with witnesses: a login in a browser ends with the verified
  account stored for the user who started it, a device login is completed once and by its user, and
  a refresh keeps whose account it is.
\<close>

section \<open>Flows in Redis\<close>

text \<open>The text of a time: the characters of RFC 3339, and the time can be read back from it.\<close>

definition time_char :: "char \<Rightarrow> bool" where
  "time_char c \<longleftrightarrow> is_digit c \<or> c \<in> set ''-:.+TZ''"

definition codec_laws :: "time_codec \<Rightarrow> bool" where
  "codec_laws cd \<longleftrightarrow> (\<forall>t s. FormatTime cd t = Inr s \<longrightarrow> ParseTime cd s = Some t \<and> list_all time_char s)"

lemma codec_lawsD: "codec_laws cd \<Longrightarrow> FormatTime cd t = Inr s \<Longrightarrow> ParseTime cd s = Some t \<and> list_all time_char s"
  by (simp add: codec_laws_def)

lemma time_chars: "\<forall>c \<in> set ''0123456789-:.+TZ''. of_char c < (128 :: nat) \<and> quote_ascii c = [c]"
  by code_simp

lemma time_digits: "is_digit c \<Longrightarrow> c \<in> set ''0123456789''"
proof -
  assume "is_digit c"
  then have "of_char c \<in> set [48..<58 :: nat]" by (auto simp: is_digit_def)
  then have "c \<in> set (map char_of [48..<58 :: nat])" by (metis char_of_char image_eqI list.set_map)
  also have "map char_of [48..<58 :: nat] = ''0123456789''" by code_simp
  finally show ?thesis .
qed

lemma time_char_plain: "time_char c \<Longrightarrow> of_char c < (128 :: nat) \<and> quote_ascii c = [c]"
  using time_chars time_digits [of c] unfolding time_char_def by fastforce

lemma quote_body_time: "list_all time_char s \<Longrightarrow> quote_body s = s"
proof (induction s)
  case (Cons c s)
  then have "of_char c < (128 :: nat)" and "quote_ascii c = [c]" using time_char_plain [of c] by simp_all
  with Cons utf8_len_ascii [of c s] show ?case by simp
qed simp

lemma time_field_one:
  assumes "codec_laws cd" and "FormatTime cd t = Inr s" and "field_values name ms = [json_quote s]"
  shows "time_field cd name ms = (t, True)"
proof -
  from codec_lawsD [OF assms(1,2)] have p: "ParseTime cd s = Some t" and q: "quote_body s = s" using quote_body_time by auto
  have "butlast (tl (json_quote s)) = s" by (simp add: json_quote_def q)
  then show ?thesis using assms(3) not_null_quote [of s] p by (simp add: time_field_def)
qed

lemma uint_field_one:
  assumes "field_values name ms = [decimal n]" and "n < 2 ^ w"
  shows "uint_field w name ms = (of_nat n, True)"
proof -
  note d = decimal_parses [of n]
  have "\<not> is_null (decimal n)" using d by (auto simp: is_null_def is_digit_def)
  then show ?thesis using assms d by (simp add: uint_field_def ParseUint_def)
qed

lemma flow_names:
  "map fold_name [''Provider'', ''UserID'', ''Nonce'', ''Verifier'', ''ExpiresAt'', ''DeviceAuthID'', ''UserCode'', ''Interval'']
   = [''provider'', ''userid'', ''nonce'', ''verifier'', ''expiresat'', ''deviceauthid'', ''usercode'', ''interval'']"
  by code_simp

lemma flow_names_utf8: "list_all utf8_valid
  [''Provider'', ''UserID'', ''Nonce'', ''Verifier'', ''ExpiresAt'', ''DeviceAuthID'', ''UserCode'', ''Interval'']"
  by code_simp

lemma utf8_valid_RawURLEncode: "utf8_valid (RawURLEncode s)"
proof -
  have "\<forall>c \<in> set url_alphabet. of_char c < (128 :: nat)" by code_simp
  then show ?thesis using RawURLEncode_alphabet [of s] by (intro utf8_valid_ascii) blast
qed

text \<open>A flow that was stored is read back, provided its texts are UTF-8.\<close>

lemma flow_of_flow_json:
  assumes "codec_laws cd" and "FormatTime cd (lf_ExpiresAt flow) = Inr expires"
    and "list_all utf8_valid [lf_Provider flow, lf_Nonce flow, lf_Verifier flow]"
  shows "flow_of cd (flow_json flow expires) = Some flow"
proof -
  note names = flow_names [simplified]
  let ?ms = "[(''Provider'', json_quote (lf_Provider flow)), (''UserID'', decimal (unat (lf_UserID flow))),
     (''Nonce'', json_quote (lf_Nonce flow)), (''Verifier'', json_quote (lf_Verifier flow)), (''ExpiresAt'', json_quote expires)]"
  have m: "struct_members (flow_json flow expires) = Some ?ms"
    unfolding flow_json_def by (subst struct_members_marshal) (use flow_names_utf8 in simp_all)
  have "string_field ''provider'' ?ms = (lf_Provider flow, True)" and "string_field ''nonce'' ?ms = (lf_Nonce flow, True)"
    and "string_field ''verifier'' ?ms = (lf_Verifier flow, True)"
    using assms(3) by (auto intro!: string_field_one simp: field_values_def names)
  moreover have "uint_field 64 ''userid'' ?ms = (lf_UserID flow, True)"
    using uint_field_one [of "''userid''" ?ms "unat (lf_UserID flow)" 64] unsigned_less [of "lf_UserID flow"]
    by (simp add: field_values_def names)
  moreover have "time_field cd ''expiresat'' ?ms = (lf_ExpiresAt flow, True)"
    by (rule time_field_one [OF assms(1,2)]) (simp add: field_values_def names)
  ultimately show ?thesis unfolding flow_of_def by (simp add: m)
qed

lemma device_of_device_json:
  assumes "codec_laws cd" and "FormatTime cd (dl_ExpiresAt flow) = Inr expires" and "unat (dl_Interval flow) < 2 ^ 32"
    and "list_all utf8_valid [dl_Provider flow, dl_DeviceAuthID flow, dl_UserCode flow]"
  shows "device_of cd (device_json flow expires) = Some flow"
proof -
  note names = flow_names [simplified]
  let ?ms = "[(''Provider'', json_quote (dl_Provider flow)), (''UserID'', decimal (unat (dl_UserID flow))),
     (''DeviceAuthID'', json_quote (dl_DeviceAuthID flow)), (''UserCode'', json_quote (dl_UserCode flow)),
     (''Interval'', decimal (unat (dl_Interval flow))), (''ExpiresAt'', json_quote expires)]"
  have m: "struct_members (device_json flow expires) = Some ?ms"
    unfolding device_json_def by (subst struct_members_marshal) (use flow_names_utf8 in simp_all)
  have "string_field ''provider'' ?ms = (dl_Provider flow, True)" and "string_field ''deviceauthid'' ?ms = (dl_DeviceAuthID flow, True)"
    and "string_field ''usercode'' ?ms = (dl_UserCode flow, True)"
    using assms(4) by (auto intro!: string_field_one simp: field_values_def names)
  moreover have "uint_field 64 ''userid'' ?ms = (dl_UserID flow, True)"
    using uint_field_one [of "''userid''" ?ms "unat (dl_UserID flow)" 64] unsigned_less [of "dl_UserID flow"]
    by (simp add: field_values_def names)
  moreover have "uint_field 32 ''interval'' ?ms = (dl_Interval flow, True)"
    using uint_field_one [of "''interval''" ?ms "unat (dl_Interval flow)" 32] assms(3) by (simp add: field_values_def names)
  moreover have "time_field cd ''expiresat'' ?ms = (dl_ExpiresAt flow, True)"
    by (rule time_field_one [OF assms(1,2)]) (simp add: field_values_def names)
  ultimately show ?thesis unfolding device_of_def by (simp add: m)
qed

section \<open>Stored credentials\<close>

text \<open>A row that holds the tokens of an account for a user, encrypted.\<close>

definition linked_row :: "OauthService \<Rightarrow> Token \<Rightarrow> uint64 \<Rightarrow> bytes \<Rightarrow> bytes \<Rightarrow> OAuthInfo \<Rightarrow> bool" where
  "linked_row s token u account email r \<longleftrightarrow>
     oa_UserID r = u \<and> oa_AccountID r = account \<and> oa_Email r = email \<and> oa_Type r = ''codex'' \<and> \<not> oa_Disabled r
   \<and> oa_Expired r = Expiry token
   \<and> Decrypt (oauthCipher s) (oauthKey s) (oa_AccessToken r) = Inr (AccessToken token)
   \<and> Decrypt (oauthCipher s) (oauthKey s) (oa_RefreshToken r) = Inr (TokenRefresh token)
   \<and> Decrypt (oauthCipher s) (oauthKey s) (oa_IDToken r) = Inr (IdToken token)"

lemma toOauthInfo_InrD:
  assumes "aead_laws (oauthCipher s)"
    and "toOauthInfo s now rnd i u account email (AccessToken token) (TokenRefresh token) (IdToken token) (Expiry token) = Inr m"
  shows "linked_row s token u account email m \<and> oa_LastRefresh m = Some now"
proof -
  from assms(2) obtain a r t where e: "Encrypt (oauthCipher s) (rnd 0) (oauthKey s) (AccessToken token) = Inr a"
    "Encrypt (oauthCipher s) (rnd 1) (oauthKey s) (TokenRefresh token) = Inr r"
    "Encrypt (oauthCipher s) (rnd 2) (oauthKey s) (IdToken token) = Inr t"
    and m: "m = \<lparr>oa_ID = i, oa_UserID = u, oa_AccessToken = a, oa_AccountID = account,
                 oa_Disabled = False, oa_Email = email, oa_Expired = Expiry token, oa_IDToken = t,
                 oa_LastRefresh = Some now, oa_RefreshToken = r, oa_Type = ''codex'', oa_CreatedAt = 0, oa_UpdatedAt = 0\<rparr>"
    by (auto simp: toOauthInfo_def split: sum.splits)
  note dec = Decrypt_Encrypt [OF assms(1)]
  show ?thesis using dec [OF e(1)] dec [OF e(2)] dec [OF e(3)] by (simp add: linked_row_def m)
qed

lemma insert_oauth_InrD:
  assumes "insert_oauth now r d = (Inr m, d')"
  shows "m = r\<lparr>oa_ID := of_nat (oauth_infos_seq d), oa_CreatedAt := now, oa_UpdatedAt := now\<rparr>
    \<and> oauth_infos d' = oauth_infos d @ [m] \<and> oauth_owner_account r \<notin> set (map oauth_owner_account (oauth_infos d))"
  using assms by (auto simp: insert_oauth_def Let_def split: if_splits)

lemma repo_SaveToken_InrD:
  assumes "repo_SaveToken io now r d = (Inr m, d')"
  shows "insert_oauth now r d = (Inr m, d')"
  using assms by (auto simp: repo_SaveToken_def dest!: call_InrD split: if_splits)

text \<open>Tokens are saved only for an identity that the provider has verified.\<close>

lemma svc_SaveToken_InrD:
  assumes "aead_laws (oauthCipher s)" and "svc_SaveToken s now rnd token flow b d = (Inr x, d')"
  shows "lf_UserID flow \<noteq> 0 \<and> token_usable now token \<and> IdToken token \<noteq> [] \<and> (\<exists>verified email account row.
       verifyIDToken (directory s) (IdToken token) (lf_Provider flow) = Inr verified
     \<and> (b \<longrightarrow> vr_Nonce verified = lf_Nonce flow) \<and> IDTokenClaims (vr_ClaimsJson verified) = Some (email, account)
     \<and> TrimSpace account \<noteq> [] \<and> linked_row s token (lf_UserID flow) account email row
     \<and> oauth_infos d' = oauth_infos d @ [row]
     \<and> oauth_owner_account row \<notin> set (map oauth_owner_account (oauth_infos d)))"
proof -
  from assms(2) obtain verified email account io m row where
    g: "lf_UserID flow \<noteq> 0" "token_usable now token" "IdToken token \<noteq> []"
      "verifyIDToken (directory s) (IdToken token) (lf_Provider flow) = Inr verified"
      "b \<longrightarrow> vr_Nonce verified = lf_Nonce flow" "IDTokenClaims (vr_ClaimsJson verified) = Some (email, account)"
      "TrimSpace account \<noteq> []"
    and m: "toOauthInfo s now rnd 0 (lf_UserID flow) account email (AccessToken token) (TokenRefresh token)
        (IdToken token) (Expiry token) = Inr m" and save: "repo_SaveToken io now m d = (Inr row, d')"
    unfolding svc_SaveToken_def
    by (auto dest!: if_ok_InrD split: if_splits sum.splits option.splits prod.splits)
  from insert_oauth_InrD [OF repo_SaveToken_InrD [OF save]] toOauthInfo_InrD [OF assms(1) m]
  have "linked_row s token (lf_UserID flow) account email row \<and> oauth_infos d' = oauth_infos d @ [row]
      \<and> oauth_owner_account row \<notin> set (map oauth_owner_account (oauth_infos d))"
    by (auto simp: linked_row_def oauth_owner_account_def)
  with g show ?thesis by blast
qed

section \<open>A login in a browser\<close>

definition login_started :: "oauth_out \<Rightarrow> bool" where
  "login_started out \<longleftrightarrow> (case out of Redirect status _ _ \<Rightarrow> status = 302 | Doc r \<Rightarrow> reply_status r = 200)"

definition saved :: "oauth_out \<Rightarrow> bool" where
  "saved out \<longleftrightarrow> (case out of Redirect status _ _ \<Rightarrow> status = 303 | Doc r \<Rightarrow> reply_status r = 200)"

lemma out_headers_same [simp]: "login_started (out_headers hs out) = login_started out" "saved (out_headers hs out) = saved out"
  by (cases out; simp add: login_started_def saved_def)+

lemma not_saved [simp]: "\<not> saved (Doc (Error 400 c m))" "\<not> saved (Doc (Error 500 c m))" "\<not> saved (exchange_reply e)"
    "\<not> saved (save_reply e)" "\<not> saved auth_required" "\<not> saved (deviceFlowErrorResponse e)"
  by (simp_all add: saved_def exchange_reply_def save_reply_def auth_required_def deviceFlowErrorResponse_def)

lemma not_started [simp]: "\<not> login_started (Doc (Error 400 c m))" "\<not> login_started (Doc (Error 500 c m))"
    "\<not> login_started (Doc (Error 503 c m))" "\<not> login_started auth_required"
  by (simp_all add: login_started_def auth_required_def)

text \<open>What a login has stored.\<close>

lemma OAuthLoginHandler_started:
  assumes "OAuthLoginHandler s now (Inr r1) (Inr r2) verifier user provider accept st = (out, st1)" and "login_started out"
  shows "\<exists>u expires. user = Some u \<and> u \<noteq> 0 \<and> FormatTime (codec s) (now + flow_ttl) = Inr expires
    \<and> os_db st1 = os_db st \<and> os_redis st1 = (os_redis st)(oidcStateKey (RawURLEncode (fill_bytes 32 r1)) \<mapsto>
        (flow_json \<lparr>lf_Provider = provider, lf_UserID = u, lf_Nonce = RawURLEncode (fill_bytes 32 r2), lf_Verifier = verifier,
            lf_ExpiresAt = now + flow_ttl\<rparr> expires, Some (now + flow_ttl)))"
  using assms
  by (auto simp: OAuthLoginHandler_def getUserid_def randomValue_def StoreFlow_def SetState_def redis_set_def flow_ttl_def
      millisecond_def dest!: call_InrD split: sum.splits prod.splits if_splits)

text \<open>A callback that saved has consumed the state and saved what the provider gave for its code.\<close>

lemma exchange_and_save_saved:
  assumes "exchange_and_save s now rnd c verifier provider flowType flow b accept st = (out, st')" and "saved out"
  shows "\<exists>token d. svc_Exchange s c verifier provider flowType = Inr token \<and> st' = st\<lparr>os_db := d\<rparr>
    \<and> svc_SaveToken s now rnd token flow b (os_db st) = (Inr (), d)"
  using assms by (auto simp: exchange_and_save_def split: sum.splits prod.splits)

lemma PopFlow_InrD:
  assumes "PopFlow s now state r = (Inr flow, r')"
  shows "r' = r(oidcStateKey state := None) \<and> (\<exists>data. redis_get now (oidcStateKey state) r = Some data \<and> flow_of (codec s) data = Some flow)"
  using assms
  by (auto simp: PopFlow_def DeleteState_def redis_getdel_def dest!: call_InrD split: sum.splits prod.splits option.splits)

lemma CallbackHandler_saved:
  assumes "CallbackHandler s now rnd state err c accept st = (out, st')" and "saved out"
  shows "\<exists>data flow token d. redis_get now (oidcStateKey state) (os_redis st) = Some data \<and> flow_of (codec s) data = Some flow
    \<and> now \<le> lf_ExpiresAt flow \<and> lf_Nonce flow \<noteq> [] \<and> err = [] \<and> c \<noteq> []
    \<and> svc_Exchange s c (lf_Verifier flow) (lf_Provider flow) ''browser'' = Inr token
    \<and> svc_SaveToken s now rnd token flow True (os_db st) = (Inr (), d)
    \<and> st' = st\<lparr>os_redis := (os_redis st)(oidcStateKey state := None), os_db := d\<rparr>"
proof -
  from assms obtain out1 where body: "Callback_body s now rnd state err c accept st = (out1, st')" and ok: "saved out1"
    by (auto simp: CallbackHandler_def split: prod.splits)
  from body ok obtain flow rd where pop: "PopFlow s now state (os_redis st) = (Inr flow, rd)"
    and g: "\<not> lf_ExpiresAt flow < now" "lf_Nonce flow \<noteq> []" "err = []" "c \<noteq> []"
    and save: "exchange_and_save s now rnd c (lf_Verifier flow) (lf_Provider flow) ''browser'' flow True accept
        (st\<lparr>os_redis := rd\<rparr>) = (out1, st')"
    by (auto simp: Callback_body_def Let_def split: if_splits sum.splits prod.splits)
  from exchange_and_save_saved [OF save ok] PopFlow_InrD [OF pop] g show ?thesis by auto
qed

text \<open>C39: a login in a browser links the account that the provider has verified to the user who started
  it. When a callback with the state of a login reports success, the login was less than five minutes
  ago, the provider has not denied it, the code was exchanged with the verifier of this login, the
  identity token carries the nonce of this login, and exactly one row has been added: for the user
  who started the login, with the verified account and e-mail address, an account that user had not
  linked, and tokens that decrypt to those of the exchange. The state is used up.\<close>

theorem browser_login_links_verified_account:
  assumes "codec_laws (codec s)" and "aead_laws (oauthCipher s)"
    and "list_all utf8_valid [provider, verifier]"
    and login: "OAuthLoginHandler s now (Inr r1) (Inr r2) verifier user provider accept st = (out, st1)" "login_started out"
    and kept: "redis_get later (oidcStateKey (RawURLEncode (fill_bytes 32 r1))) (os_redis st2) = redis_get later (oidcStateKey (RawURLEncode (fill_bytes 32 r1))) (os_redis st1)"
    and callback: "CallbackHandler s later rnd (RawURLEncode (fill_bytes 32 r1)) err c accept' st2 = (out', st3)" "saved out'"
  shows "later < now + flow_ttl \<and> err = [] \<and> (\<exists>token verified email account row.
       svc_Exchange s c verifier provider ''browser'' = Inr token
     \<and> verifyIDToken (directory s) (IdToken token) provider = Inr verified \<and> vr_Nonce verified = RawURLEncode (fill_bytes 32 r2)
     \<and> IDTokenClaims (vr_ClaimsJson verified) = Some (email, account) \<and> TrimSpace account \<noteq> []
     \<and> oauth_infos (os_db st3) = oauth_infos (os_db st2) @ [row]
     \<and> user = Some (oa_UserID row) \<and> oa_UserID row \<noteq> 0 \<and> linked_row s token (oa_UserID row) account email row
     \<and> oauth_owner_account row \<notin> set (map oauth_owner_account (oauth_infos (os_db st2))))
   \<and> os_redis st3 = (os_redis st2)(oidcStateKey (RawURLEncode (fill_bytes 32 r1)) := None)"
proof -
  let ?k = "oidcStateKey (RawURLEncode (fill_bytes 32 r1))"
  from OAuthLoginHandler_started [OF login] obtain u expires where u: "user = Some u" "u \<noteq> 0"
    and f: "FormatTime (codec s) (now + flow_ttl) = Inr expires"
    and r1: "os_redis st1 = (os_redis st)(?k \<mapsto> (flow_json \<lparr>lf_Provider = provider, lf_UserID = u, lf_Nonce = RawURLEncode (fill_bytes 32 r2),
          lf_Verifier = verifier, lf_ExpiresAt = now + flow_ttl\<rparr> expires, Some (now + flow_ttl)))" by blast
  let ?flow = "\<lparr>lf_Provider = provider, lf_UserID = u, lf_Nonce = RawURLEncode (fill_bytes 32 r2), lf_Verifier = verifier, lf_ExpiresAt = now + flow_ttl\<rparr>"
  from CallbackHandler_saved [OF callback] obtain data flow token d where
    get: "redis_get later ?k (os_redis st2) = Some data" and flow: "flow_of (codec s) data = Some flow"
    and err: "err = []" and ex: "svc_Exchange s c (lf_Verifier flow) (lf_Provider flow) ''browser'' = Inr token"
    and save: "svc_SaveToken s later rnd token flow True (os_db st2) = (Inr (), d)"
    and st3: "st3 = st2\<lparr>os_redis := (os_redis st2)(?k := None), os_db := d\<rparr>" by blast
  from get kept r1 have t: "later < now + flow_ttl" and data: "data = flow_json ?flow expires" by (auto split: if_splits)
  note utf8_valid_RawURLEncode [of "fill_bytes 32 r2"]
  then have "flow_of (codec s) data = Some ?flow"
    unfolding data using assms(1,3) f by (intro flow_of_flow_json) simp_all
  with flow have flow: "flow = ?flow" by simp
  from svc_SaveToken_InrD [OF assms(2) save] obtain verified email account row where
    v: "verifyIDToken (directory s) (IdToken token) provider = Inr verified" "vr_Nonce verified = RawURLEncode (fill_bytes 32 r2)"
      "IDTokenClaims (vr_ClaimsJson verified) = Some (email, account)" "TrimSpace account \<noteq> []"
    and row: "linked_row s token u account email row" "oauth_infos d = oauth_infos (os_db st2) @ [row]"
      "oauth_owner_account row \<notin> set (map oauth_owner_account (oauth_infos (os_db st2)))"
    unfolding flow by auto
  have "oa_UserID row = u" using row(1) by (simp add: linked_row_def)
  with t err ex v row u st3 show ?thesis by (auto simp: flow)
qed

text \<open>A provider whose user has the account \<open>acc\<close>, and a service on it.\<close>

definition toy_codec :: time_codec where
  "toy_codec = \<lparr>FormatTime = (\<lambda>t. if 0 \<le> t then Inr (decimal (nat t)) else Inl (Other ''year outside of range [0,9999]'')),
     ParseTime = (\<lambda>s. Some (int (decimal_value s)))\<rparr>"

lemma toy_codec_ok: "codec_laws toy_codec"
proof -
  have "list_all time_char (decimal n)" for n
    using decimal_parses [of n] by (auto simp: list_all_iff time_char_def)
  then show ?thesis using decimal_parses by (auto simp: codec_laws_def toy_codec_def)
qed

definition toy_claims :: bytes where
  "toy_claims = ''{'' @ [quote_mark] @ ''email'' @ [quote_mark] @ '':'' @ [quote_mark] @ ''a@b'' @ [quote_mark] @ '',''
     @ [quote_mark] @ ''https://api.openai.com/auth'' @ [quote_mark] @ '':{'' @ [quote_mark] @ ''chatgpt_account_id'' @ [quote_mark]
     @ '':'' @ [quote_mark] @ ''acc'' @ [quote_mark] @ ''}}''"

lemma toy_claims_read: "IDTokenClaims toy_claims = Some (''a@b'', ''acc'')"
  by code_simp

definition toy_tokens :: TokenResponse where
  "toy_tokens = \<lparr>tr_AccessToken = ''access'', tr_RefreshToken = ''refresh'', tr_TokenType = ''Bearer'', tr_IdToken = ''identity'',
     tr_ExpiresAt = None\<rparr>"

definition toy_upstream :: upstream_client where
  "toy_upstream = \<lparr>rpc_GetDeviceFlowCode = (\<lambda>_. Inr (Some \<lparr>df_DeviceAuthId = ''dev'', df_UserCode = ''ABCD'',
       df_IntervalSeconds = 5, df_VerificationUrl = ''https://auth.openai.com/codex/device''\<rparr>)),
     rpc_PollDeviceFlow = (\<lambda>_ _ _ _. Inr (Some \<lparr>AuthorizationCode = ''code'', CodeVerifier = ''pkce''\<rparr>)),
     rpc_Verifier = (\<lambda>_ _. Inr (Some \<lparr>vr_Issuer = [], vr_Subject = [], vr_Audience = [], vr_Nonce = RawURLEncode (fill_bytes 32 ''two''),
       vr_ClaimsJson = toy_claims, vr_ExpiresAt = None, vr_IssuedAt = None\<rparr>)),
     rpc_ExchangeCode = (\<lambda>_ _ _ _. Inr (Some toy_tokens)), rpc_RefreshToken = (\<lambda>_ _. Inr (Some toy_tokens))\<rparr>"

definition toy_oauth :: OauthService where
  "toy_oauth = \<lparr>stateRedis = (\<lambda>_. None), deviceRedis = Some (\<lambda>_. None),
     oidcAuth = (\<lambda>p. if p = ''oai'' then Some (Some \<lparr>Provider = None, OauthConfig = Some \<lparr>ClientID = ''app'', ClientSecret = [],
         RedirectURL = ''http://localhost/callback'', AuthURL = ''https://auth'', TokenURL = ''https://token'', DeviceAuthURL = [],
         AuthStyle = InParams, Scopes = OaiScopes\<rparr>, AuthURLParams = OaiAuthURLParams, IDVerifier = None\<rparr>) else None),
     directory = Some toy_upstream, oauthRepository = Some (\<lambda>_. None), oauthKey = replicate 32 (CHR ''k''), oauthCipher = toy_cipher,
     codec = toy_codec, buildAuthCodeURL = (\<lambda>c state _. AuthURL c @ ''?state='' @ state)\<rparr>"

definition toy_nonces :: "nat \<Rightarrow> go_error + bytes" where
  "toy_nonces = (\<lambda>_. Inr (replicate 12 (CHR ''n'')))"

definition toy_owner :: db where
  "toy_owner = empty_db\<lparr>users := [\<lparr>user_ID = 7, user_Username = ''ada'', user_PasswordHash = [], user_RoleCode = ''user'',
     user_IsActive = True, user_CreatedAt = 0, user_UpdatedAt = 0\<rparr>], users_seq := 8\<rparr>"

lemma toy_laws: "codec_laws (codec toy_oauth)" "aead_laws (oauthCipher toy_oauth)"
  using toy_codec_ok toy_cipher_ok by (simp_all add: toy_oauth_def)

lemma toy_encrypts: "Encrypt (oauthCipher toy_oauth) (toy_nonces i) (oauthKey toy_oauth) p
    = Inr (StdEncode (replicate 12 (CHR ''n'') @ p @ replicate 16 pad))"
  by (simp add: Encrypt_def NewCipher_def toy_oauth_def toy_nonces_def toy_cipher_def Let_def NonceSize_def)

lemma StdEncode_storable: "storable (StdEncode s)"
proof -
  have "utf8_valid (StdEncode s)" using StdEncode_chars by (intro utf8_valid_ascii) blast
  then show ?thesis using StdEncode_nonzero by (simp add: storable_def)
qed

definition toy_flow :: LoginFlow where
  "toy_flow = \<lparr>lf_Provider = ''oai'', lf_UserID = 7, lf_Nonce = RawURLEncode (fill_bytes 32 ''two''), lf_Verifier = ''pkce'', lf_ExpiresAt = flow_ttl\<rparr>"

definition toy_started :: oauth_state where
  "toy_started = \<lparr>os_db = toy_owner, os_redis = [oidcStateKey (RawURLEncode (fill_bytes 32 ''one'')) \<mapsto>
     (flow_json toy_flow (decimal (nat flow_ttl)), Some flow_ttl)]\<rparr>"

lemma toy_store_flow:
  "StoreFlow toy_oauth 0 state toy_flow r
     = (Inr (), r(oidcStateKey state \<mapsto> (flow_json toy_flow (decimal (nat flow_ttl)), Some flow_ttl)))"
proof -
  have "FormatTime (codec toy_oauth) (lf_ExpiresAt toy_flow) = Inr (decimal (nat flow_ttl))"
    by (simp add: toy_oauth_def toy_codec_def toy_flow_def flow_ttl_def)
  moreover have "max 1 (flow_ttl div millisecond) * millisecond = flow_ttl" and "flow_ttl \<noteq> 0"
    by (simp_all add: flow_ttl_def millisecond_def)
  moreover have "stateRedis toy_oauth S_Set = None" by (simp add: toy_oauth_def)
  ultimately show ?thesis by (simp add: StoreFlow_def SetState_def redis_set_def)
qed

lemma toy_auth_url:
  "\<exists>x. authFor toy_oauth ''oai'' = Inr x"
  "AuthCodeURL toy_oauth ''oai'' state v n = Inr (''https://auth?state='' @ state)"
  by (simp_all add: authFor_def AuthCodeURL_def toy_oauth_def)

lemma toy_login:
  "OAuthLoginHandler toy_oauth 0 (Inr ''one'') (Inr ''two'') ''pkce'' (Some 7) ''oai'' [] \<lparr>os_db = toy_owner, os_redis = Map.empty\<rparr>
     = (Redirect 302 [] (''https://auth?state='' @ RawURLEncode (fill_bytes 32 ''one'')), toy_started)"
proof -
  obtain x where "authFor toy_oauth ''oai'' = Inr x" using toy_auth_url(1) by blast
  moreover have "randomValue (Inr x) = Inr (RawURLEncode (fill_bytes 32 x))" for x by (simp add: randomValue_def)
  moreover have "getUserid (Some 7) = Inr 7" and "\<not> wants_json []" by (simp_all add: getUserid_def wants_json_def)
  moreover have "\<lparr>lf_Provider = ''oai'', lf_UserID = 7, lf_Nonce = RawURLEncode (fill_bytes 32 ''two''), lf_Verifier = ''pkce'',
      lf_ExpiresAt = 0 + flow_ttl\<rparr> = toy_flow" by (simp only: toy_flow_def add_0)
  ultimately show ?thesis
    by (simp only: OAuthLoginHandler_def sum.case toy_auth_url(2) toy_store_flow prod.case if_False oauth_state.simps
        oauth_state.update_convs toy_started_def)
qed

lemma toy_flow_read: "flow_of toy_codec (flow_json toy_flow (decimal (nat flow_ttl))) = Some toy_flow"
proof (rule flow_of_flow_json [OF toy_codec_ok])
  show "FormatTime toy_codec (lf_ExpiresAt toy_flow) = Inr (decimal (nat flow_ttl))"
    by (simp add: toy_codec_def toy_flow_def flow_ttl_def)
  have "utf8_valid ''oai''" and "utf8_valid ''pkce''" by code_simp+
  then show "list_all utf8_valid [lf_Provider toy_flow, lf_Nonce toy_flow, lf_Verifier toy_flow]"
    using utf8_valid_RawURLEncode by (simp add: toy_flow_def)
qed

lemma toy_exchange: "svc_Exchange toy_oauth c v ''oai'' t = Inr (token_of toy_tokens)"
  by (simp add: svc_Exchange_def authFor_def toy_oauth_def toy_upstream_def dir_Exchange_def toy_tokens_def timestamp_valid_def)

lemma toy_identity: "\<exists>v. verifyIDToken (directory toy_oauth) raw ''oai'' = Inr v \<and> vr_Nonce v = RawURLEncode (fill_bytes 32 ''two'') \<and> vr_ClaimsJson v = toy_claims"
  by (simp add: verifyIDToken_def toy_oauth_def toy_upstream_def dir_Verifier_def)

lemma toy_insert:
  assumes "oa_UserID m = 7" and "oauth_storable m"
  shows "\<exists>r d. repo_SaveToken (\<lambda>_. None) now m toy_owner = (Inr r, d)"
  using assms by (simp add: repo_SaveToken_def insert_oauth_def toy_owner_def empty_db_def Let_def)

lemma toy_save:
  assumes "lf_UserID flow = 7" and "lf_Provider flow = ''oai''" and "b \<longrightarrow> lf_Nonce flow = RawURLEncode (fill_bytes 32 ''two'')"
  shows "\<exists>d. svc_SaveToken toy_oauth now toy_nonces (token_of toy_tokens) flow b toy_owner = (Inr (), d)"
proof -
  let ?t = "token_of toy_tokens" and ?enc = "\<lambda>p. StdEncode (replicate 12 (CHR ''n'') @ p @ replicate 16 pad)"
  let ?m = "\<lparr>oa_ID = 0, oa_UserID = 7, oa_AccessToken = ?enc (AccessToken ?t), oa_AccountID = ''acc'',
      oa_Disabled = False, oa_Email = ''a@b'', oa_Expired = Expiry ?t, oa_IDToken = ?enc (IdToken ?t),
      oa_LastRefresh = Some now, oa_RefreshToken = ?enc (TokenRefresh ?t), oa_Type = ''codex'', oa_CreatedAt = 0, oa_UpdatedAt = 0\<rparr>"
  obtain v where v: "verifyIDToken (directory toy_oauth) (IdToken ?t) ''oai'' = Inr v"
    "vr_Nonce v = RawURLEncode (fill_bytes 32 ''two'')" "vr_ClaimsJson v = toy_claims" using toy_identity by blast
  have t: "TrimSpace ''acc'' \<noteq> []" "TrimSpace ''access'' \<noteq> []" "RawURLEncode (fill_bytes 32 ''two'') \<noteq> []" "storable ''acc''"
    "storable ''a@b''" "storable ''codex''" by code_simp+
  have u: "token_usable now ?t" "IdToken ?t \<noteq> []"
    using t(2) by (simp_all add: token_usable_def token_of_def toy_tokens_def)
  have i: "toOauthInfo toy_oauth now toy_nonces 0 7 ''acc'' ''a@b'' (AccessToken ?t) (TokenRefresh ?t) (IdToken ?t) (Expiry ?t) = Inr ?m"
    by (simp only: toOauthInfo_def toy_encrypts sum.case)
  have "oauth_storable ?m" by (simp add: oauth_storable_def StdEncode_storable t(4-6))
  with toy_insert [of ?m now] obtain r d where d: "repo_SaveToken (\<lambda>_. None) now ?m toy_owner = (Inr r, d)" by auto
  have r: "oauthRepository toy_oauth = Some (\<lambda>_. None)" by (simp add: toy_oauth_def)
  have "b \<longrightarrow> lf_Nonce flow \<noteq> []" and "b \<longrightarrow> vr_Nonce v = lf_Nonce flow" using assms(3) t(3) v(2) by auto
  moreover have "(7 :: uint64) \<noteq> 0" and "''oai'' \<noteq> []" by simp_all
  ultimately have "svc_SaveToken toy_oauth now toy_nonces ?t flow b toy_owner
      = if_ok (repo_SaveToken (\<lambda>_. None) now ?m toy_owner) (\<lambda>_ d. (Inr (), d))"
    using assms(1,2) t(1) u v(1,3) by (auto simp only: svc_SaveToken_def toy_claims_read r i option.case sum.case prod.case if_False if_True simp_thms)
  then show ?thesis using d by simp
qed

text \<open>The callback of that login.\<close>

lemma toy_callback:
  "\<exists>d. CallbackHandler toy_oauth 1 toy_nonces (RawURLEncode (fill_bytes 32 ''one'')) [] ''code'' [] toy_started
     = (out_headers [no_store_header, (''Referrer-Policy'', ''no-referrer'')] (Doc (SuccessWithStatus 200 None ''oauth credentials saved'')),
        \<lparr>os_db = d, os_redis = Map.empty\<rparr>)"
proof -
  let ?k = "oidcStateKey (RawURLEncode (fill_bytes 32 ''one''))"
  have upd: "toy_started\<lparr>os_redis := a, os_db := b\<rparr> = \<lparr>os_db = b, os_redis = a\<rparr>" for a b by (simp add: toy_started_def)
  have "PopFlow toy_oauth 1 (RawURLEncode (fill_bytes 32 ''one'')) (os_redis toy_started) = (Inr toy_flow, Map.empty)"
    using toy_flow_read by (simp add: PopFlow_def DeleteState_def redis_getdel_def toy_started_def toy_oauth_def redis_get_def flow_ttl_def)
  moreover obtain d where "svc_SaveToken toy_oauth 1 toy_nonces (token_of toy_tokens) toy_flow True toy_owner = (Inr (), d)"
    using toy_save [of toy_flow True 1] by (auto simp: toy_flow_def)
  moreover have "RawURLEncode (fill_bytes 32 ''one'') \<noteq> []" and "RawURLEncode (fill_bytes 32 ''two'') \<noteq> []" by code_simp+
  moreover have "os_db toy_started = toy_owner" by (simp add: toy_started_def)
  moreover have "lf_ExpiresAt toy_flow = flow_ttl" "lf_UserID toy_flow = 7" "lf_Nonce toy_flow = RawURLEncode (fill_bytes 32 ''two'')"
    "lf_Provider toy_flow = ''oai''" "\<not> flow_ttl < 1" by (simp_all add: toy_flow_def flow_ttl_def)
  ultimately show ?thesis
    by (auto simp: CallbackHandler_def Callback_body_def Let_def exchange_and_save_def toy_exchange saved_reply_def upd)
qed

theorem browser_login_links_verified_account_witness:
  "\<exists>st3 row. CallbackHandler toy_oauth 1 toy_nonces (RawURLEncode (fill_bytes 32 ''one'')) [] ''code'' [] toy_started
     = (out_headers [no_store_header, (''Referrer-Policy'', ''no-referrer'')] (Doc (SuccessWithStatus 200 None ''oauth credentials saved'')), st3)
   \<and> oauth_infos (os_db st3) = [row] \<and> oa_UserID row = 7 \<and> linked_row toy_oauth (token_of toy_tokens) 7 ''acc'' ''a@b'' row"
proof -
  obtain d where c: "CallbackHandler toy_oauth 1 toy_nonces (RawURLEncode (fill_bytes 32 ''one'')) [] ''code'' [] toy_started
     = (out_headers [no_store_header, (''Referrer-Policy'', ''no-referrer'')] (Doc (SuccessWithStatus 200 None ''oauth credentials saved'')),
        \<lparr>os_db = d, os_redis = Map.empty\<rparr>)" using toy_callback by blast
  have "list_all utf8_valid [''oai'', ''pkce'']" by code_simp
  moreover have "login_started (Redirect 302 [] u)" for u by (simp add: login_started_def)
  moreover have "saved (out_headers hs (Doc (SuccessWithStatus 200 x m)))" for hs x m by (simp only: out_headers_same) (simp add: saved_def)
  ultimately obtain token verified email account row where r: "svc_Exchange toy_oauth ''code'' ''pkce'' ''oai'' ''browser'' = Inr token"
    "verifyIDToken (directory toy_oauth) (IdToken token) ''oai'' = Inr verified"
    "IDTokenClaims (vr_ClaimsJson verified) = Some (email, account)" "oauth_infos d = oauth_infos (os_db toy_started) @ [row]"
    "Some 7 = Some (oa_UserID row)" "linked_row toy_oauth token (oa_UserID row) account email row"
    using browser_login_links_verified_account [OF toy_laws _ toy_login _ refl c] by fastforce
  have "oauth_infos (os_db toy_started) = []" by (simp add: toy_started_def toy_owner_def empty_db_def)
  with r toy_identity [of "IdToken token"] c show ?thesis by (auto simp: toy_exchange toy_claims_read)
qed

section \<open>A login with a device code\<close>

text \<open>
  The entry of a device code as a token that is taken once. Taking it is the script, which several
  completions may race for; everything else leaves the entry alone, or is time passing.
\<close>

definition device_entry :: "store \<Rightarrow> bytes \<Rightarrow> bytes option" where
  "device_entry s authID = redis_get (fst s) (deviceKey authID) (snd s)"

definition device_takes :: "bytes \<Rightarrow> store \<Rightarrow> bytes option \<Rightarrow> store \<Rightarrow> bool" where
  "device_takes authID s r s' \<longleftrightarrow> fst s' = fst s \<and> (\<exists>f raw x.
     call f (compare_delete (fst s) (deviceKey authID) raw) (snd s) = (x, snd s') \<and> r = (if x = Inr 1 then Some raw else None))"

definition device_step :: "bytes \<Rightarrow> store \<Rightarrow> store \<Rightarrow> bool" where
  "device_step authID s s' \<longleftrightarrow>
     (fst s \<le> fst s' \<and> snd s' = snd s)
   \<or> fst s' = fst s \<and> (\<exists>k x. k \<noteq> deviceKey authID \<and> snd s' = (snd s)(k := x))"

lemma compare_delete_keeps: "keeps_or_drops now k r (snd (compare_delete now k raw r))"
  by (simp add: keeps_or_drops_def compare_delete_def)

lemma device_takes_keeps:
  assumes "device_takes authID s r s'"
  shows "device_entry s' authID = device_entry s authID \<or> device_entry s' authID = None"
proof -
  from assms obtain f raw x where now: "fst s' = fst s"
    and c: "call f (compare_delete (fst s) (deviceKey authID) raw) (snd s) = (x, snd s')" by (auto simp: device_takes_def)
  from keeps_or_drops_call [where f = f and op = "compare_delete (fst s) (deviceKey authID) raw", OF compare_delete_keeps, of "snd s"] c
  show ?thesis by (simp add: keeps_or_drops_def device_entry_def now)
qed

lemma device_step_keeps:
  assumes "device_step authID s s'"
  shows "device_entry s' authID = device_entry s authID \<or> device_entry s' authID = None"
  using assms unfolding device_step_def
proof (elim disjE conjE exE)
  assume "fst s \<le> fst s'" and "snd s' = snd s"
  then show ?thesis by (auto simp: device_entry_def redis_get_def split: option.splits)
next
  fix k x
  assume "k \<noteq> deviceKey authID" "fst s' = fst s" "snd s' = (snd s)(k := x)"
  then show ?thesis by (simp add: device_entry_def redis_get_other)
qed

interpretation device: one_shot_kept device_entry device_takes device_step
proof
  fix t s v s'
  assume "device_takes t s (Some v) s'"
  then obtain f where now: "fst s' = fst s" and c: "call f (compare_delete (fst s) (deviceKey t) v) (snd s) = (Inr 1, snd s')"
    by (auto simp: device_takes_def split: if_splits)
  from call_InrD [OF c] have "compare_delete (fst s) (deviceKey t) v (snd s) = (Inr 1, snd s')" by blast
  then have "device_entry s t = Some v" and r: "snd s' = (snd s)(deviceKey t := None)"
    by (auto simp: device_entry_def compare_delete_def split: if_splits)
  then show "device_entry s t = Some v" by blast
  show "device_entry s' t = None" by (simp add: device_entry_def now r)
next
  show "device_takes t s r s' \<Longrightarrow> device_entry s t = None \<Longrightarrow> device_entry s' t = None" for t s r s'
    using device_takes_keeps by metis
  show "device_step t s s' \<Longrightarrow> device_entry s t = None \<Longrightarrow> device_entry s' t = None" for t s s'
    using device_step_keeps by metis
qed (rule device_takes_keeps device_step_keeps, assumption)+

text \<open>Starting another device login, or a login in a browser, is such a step.\<close>

lemma storeDeviceFlow_step:
  assumes "dl_DeviceAuthID flow \<noteq> authID" and "storeDeviceFlow s now flow r = (x, r')"
  shows "device_step authID (now, r) (now, r')"
proof -
  have k: "deviceKey (dl_DeviceAuthID flow) \<noteq> deviceKey authID" using assms(1) by (simp add: deviceKey_def)
  from assms(2) have "r' = r \<or> (\<exists>v ttl. r' = snd (redis_set now (deviceKey (dl_DeviceAuthID flow)) v ttl r))"
    unfolding storeDeviceFlow_def
    by (auto split: option.splits sum.splits) (metis call_snd snd_conv)
  with k show ?thesis by (auto simp: device_step_def redis_set_def)
qed

text \<open>What a device login has stored, and what a completion has taken.\<close>

definition device_answers_ok :: "OauthService \<Rightarrow> bool" where
  "device_answers_ok s \<longleftrightarrow> (\<forall>provider info. svc_GetDeviceFlowCode s provider = Inr info \<longrightarrow>
     unat (df_IntervalSeconds info) < 2 ^ 32 \<and> utf8_valid (df_DeviceAuthId info) \<and> utf8_valid (df_UserCode info))"

lemma LoginDeviceFlow_started:
  assumes "LoginDeviceFlow s now user provider st = (out, st1)" and "login_started out"
  shows "\<exists>u info expires. user = Some u \<and> u \<noteq> 0 \<and> svc_GetDeviceFlowCode s provider = Inr info
    \<and> out = out_headers [no_store_header] (Doc (Success (Some (DeviceData info))))
    \<and> FormatTime (codec s) (now + device_ttl) = Inr expires
    \<and> os_db st1 = os_db st \<and> os_redis st1 = (os_redis st)(deviceKey (df_DeviceAuthId info) \<mapsto>
        (device_json \<lparr>dl_Provider = provider, dl_UserID = u, dl_DeviceAuthID = df_DeviceAuthId info, dl_UserCode = df_UserCode info,
            dl_Interval = df_IntervalSeconds info, dl_ExpiresAt = now + device_ttl\<rparr> expires, Some (now + device_ttl)))"
proof -
  have e: "\<not> login_started (deviceFlowErrorResponse x)" for x
    by (simp add: login_started_def deviceFlowErrorResponse_def)
  from assms e show ?thesis
    by (auto simp: LoginDeviceFlow_def getUserid_def storeDeviceFlow_def redis_set_def device_ttl_def millisecond_def
        simp del: out_headers.simps dest!: call_InrD split: sum.splits prod.splits if_splits option.splits)
qed

lemma popDeviceFlow_InrD:
  assumes "popDeviceFlow s now meanwhile authID provider owner r = (Inr flow, r')"
  shows "\<exists>raw. redis_get now (deviceKey authID) r = Some raw \<and> device_of (codec s) raw = Some flow
    \<and> device_flow_ok flow now authID provider owner \<and> device_takes authID (now, meanwhile r) (Some raw) (now, r')"
proof -
  from assms obtain io raw where "redis_get now (deviceKey authID) r = Some raw" and "device_of (codec s) raw = Some flow"
    and "device_flow_ok flow now authID provider owner"
    and "call (io D_Eval) (compare_delete now (deviceKey authID) raw) (meanwhile r) = (Inr 1, r')"
    by (auto simp: popDeviceFlow_def dest!: query_InrD if_ok_InrD split: option.splits sum.splits if_splits)
  moreover from this(4) have "device_takes authID (now, meanwhile r) (Some raw) (now, r')"
    unfolding device_takes_def by force
  ultimately show ?thesis by blast
qed

lemma CallbackDeviceFlow_saved:
  assumes "CallbackDeviceFlow s now later rnd meanwhile user provider body accept st = (out, st')" and "saved out"
  shows "\<exists>u authID flow rd token d c verifier. user = Some u \<and> bind_poll body = Some authID
    \<and> popDeviceFlow s now meanwhile authID provider u (os_redis st) = (Inr flow, rd)
    \<and> svc_Exchange s c verifier provider ''device'' = Inr token
    \<and> svc_SaveToken s later rnd token \<lparr>lf_Provider = provider, lf_UserID = u, lf_Nonce = [], lf_Verifier = [],
          lf_ExpiresAt = zero_time\<rparr> False (os_db st) = (Inr (), d)
    \<and> os_redis st' = rd \<and> os_db st' = d"
proof -
  note run = assms [unfolded CallbackDeviceFlow_def Let_def]
  obtain u where u: "getUserid user = Inr u" using run by (cases "getUserid user") auto
  obtain authID where b: "bind_poll body = Some authID" using run u by (cases "bind_poll body") (auto simp del: out_headers.simps)
  obtain popped rd where pp: "popDeviceFlow s now meanwhile authID provider u (os_redis st) = (popped, rd)" by (metis prod.collapse)
  obtain flow where flow: "popped = Inr flow" using run u b pp by (cases popped) (auto simp del: out_headers.simps split: if_splits)
  note p = pp [unfolded flow]
  let ?poll = "svc_Poll s (dl_DeviceAuthID flow) (dl_UserCode flow) (dl_Interval flow) (dl_Provider flow)"
  obtain info where i: "?poll = Inr info" using run u b p by (cases ?poll) (auto simp del: out_headers.simps)
  obtain out1 where ok: "saved out1" and e: "exchange_and_save s later rnd (AuthorizationCode info) (CodeVerifier info) provider ''device''
      \<lparr>lf_Provider = provider, lf_UserID = u, lf_Nonce = [], lf_Verifier = [], lf_ExpiresAt = zero_time\<rparr> False accept
      (st\<lparr>os_redis := rd\<rparr>) = (out1, st')"
    using run u b p i by (auto simp del: out_headers.simps split: prod.splits)
  have user: "user = Some u" using u by (auto simp: getUserid_def split: if_splits)
  from exchange_and_save_saved [OF e ok] obtain token d where
    x: "svc_Exchange s (AuthorizationCode info) (CodeVerifier info) provider ''device'' = Inr token"
      "svc_SaveToken s later rnd token \<lparr>lf_Provider = provider, lf_UserID = u, lf_Nonce = [], lf_Verifier = [],
          lf_ExpiresAt = zero_time\<rparr> False (os_db st) = (Inr (), d)" "os_redis st' = rd" "os_db st' = d" by auto
  show ?thesis by (intro exI conjI) (rule user b p x)+
qed

text \<open>C40: a device login is completed at most once, in time, and only by the user who started it.
  When a completion reports success, whatever has happened since the login was started and between
  the two commands that take it, nobody had completed it before: the request came from the user and
  for the provider of the login within its fifteen minutes, one row was added, for that user and an
  account that the provider has verified, and in no later history is the login completed again.\<close>

theorem device_login_completed_once_by_its_user:
  assumes "codec_laws (codec s)" and "aead_laws (oauthCipher s)" and "device_answers_ok s"
    and "utf8_valid provider"
    and login: "LoginDeviceFlow s now user provider st = (Doc r, st1)" "reply_data r = Some (DeviceData info)" "reply_status r = 200"
    and since: "history (device_takes (df_DeviceAuthId info)) (device_step (df_DeviceAuthId info)) (now, os_redis st1) n (later, os_redis st2)"
    and meanwhile: "history (device_takes (df_DeviceAuthId info)) (device_step (df_DeviceAuthId info))
        (later, os_redis st2) m (later, meanwhile (os_redis st2))"
    and complete: "bind_poll body = Some (df_DeviceAuthId info)"
      "CallbackDeviceFlow s later later' rnd meanwhile user' provider' body accept st2 = (out, st3)" "saved out"
  shows "user' = user \<and> provider' = provider \<and> later < now + device_ttl \<and> n = 0 \<and> m = 0
    \<and> (\<exists>token verified email account row c verifier. svc_Exchange s c verifier provider ''device'' = Inr token
        \<and> verifyIDToken (directory s) (IdToken token) provider = Inr verified
        \<and> IDTokenClaims (vr_ClaimsJson verified) = Some (email, account)
        \<and> oauth_infos (os_db st3) = oauth_infos (os_db st2) @ [row]
        \<and> user = Some (oa_UserID row) \<and> linked_row s token (oa_UserID row) account email row)
    \<and> (\<forall>k fin. history (device_takes (df_DeviceAuthId info)) (device_step (df_DeviceAuthId info)) (later, os_redis st3) k fin
        \<longrightarrow> k = 0)"
proof -
  let ?id = "df_DeviceAuthId info"
  have "login_started (Doc r)" using login(3) by (simp add: login_started_def)
  from LoginDeviceFlow_started [OF login(1) this] obtain u info' expires where u: "user = Some u" "u \<noteq> 0"
    and code: "svc_GetDeviceFlowCode s provider = Inr info'" and r: "Doc r = out_headers [no_store_header] (Doc (Success (Some (DeviceData info'))))"
    and f: "FormatTime (codec s) (now + device_ttl) = Inr expires"
    and r1: "os_redis st1 = (os_redis st)(deviceKey (df_DeviceAuthId info') \<mapsto>
        (device_json \<lparr>dl_Provider = provider, dl_UserID = u, dl_DeviceAuthID = df_DeviceAuthId info', dl_UserCode = df_UserCode info',
            dl_Interval = df_IntervalSeconds info', dl_ExpiresAt = now + device_ttl\<rparr> expires, Some (now + device_ttl)))" by blast
  from r login(2) have info: "info' = info" by simp
  let ?flow = "\<lparr>dl_Provider = provider, dl_UserID = u, dl_DeviceAuthID = ?id, dl_UserCode = df_UserCode info,
      dl_Interval = df_IntervalSeconds info, dl_ExpiresAt = now + device_ttl\<rparr>"
  have stored: "device_entry (now, os_redis st1) ?id = Some (device_json ?flow expires)"
    by (simp add: device_entry_def r1 info device_ttl_def)
  from CallbackDeviceFlow_saved [OF complete(2,3)] complete(1) obtain u' flow token d c verifier where u': "user' = Some u'"
    and pop: "popDeviceFlow s later meanwhile ?id provider' u' (os_redis st2) = (Inr flow, os_redis st3)"
    and ex: "svc_Exchange s c verifier provider' ''device'' = Inr token"
    and save: "svc_SaveToken s later' rnd token \<lparr>lf_Provider = provider', lf_UserID = u', lf_Nonce = [], lf_Verifier = [],
          lf_ExpiresAt = zero_time\<rparr> False (os_db st2) = (Inr (), d)" and d: "os_db st3 = d" by auto
  from popDeviceFlow_InrD [OF pop] obtain raw where get: "device_entry (later, os_redis st2) ?id = Some raw"
    and read: "device_of (codec s) raw = Some flow" and ok: "device_flow_ok flow later ?id provider' u'"
    and taken: "device_takes ?id (later, meanwhile (os_redis st2)) (Some raw) (later, os_redis st3)"
    by (auto simp: device_entry_def)
  from device.still_there [OF since get] stored have n: "n = 0" and raw: "raw = device_json ?flow expires" by simp_all
  from device.still_there [OF meanwhile device.take_found [OF taken]] have m: "m = 0" by simp
  have "device_of (codec s) raw = Some ?flow"
    unfolding raw using assms(1,3,4) code f by (intro device_of_device_json) (auto simp: device_answers_ok_def info)
  with read have "flow = ?flow" by simp
  with ok have same: "u' = u" "provider' = provider" "later < now + device_ttl" by (simp_all add: device_flow_ok_def)
  from svc_SaveToken_InrD [OF assms(2) save] obtain verified email account row where
    v: "verifyIDToken (directory s) (IdToken token) provider = Inr verified" "IDTokenClaims (vr_ClaimsJson verified) = Some (email, account)"
    and row: "linked_row s token u account email row" "oauth_infos d = oauth_infos (os_db st2) @ [row]"
    unfolding same by auto
  have "oa_UserID row = u" using row(1) by (simp add: linked_row_def)
  moreover have "k = 0" if "history (device_takes ?id) (device_step ?id) (later, os_redis st3) k fin" for k fin
    using device.taken_at_most_once [OF that] device.take_gone [OF taken] by simp
  ultimately show ?thesis using u u' same n m ex v row d by blast
qed

definition toy_code :: DeviceFlowResponse where
  "toy_code = \<lparr>df_DeviceAuthId = ''dev'', df_UserCode = ''ABCD'', df_IntervalSeconds = 5,
     df_VerificationUrl = ''https://auth.openai.com/codex/device''\<rparr>"

definition toy_device :: DeviceFlow where
  "toy_device = \<lparr>dl_Provider = ''oai'', dl_UserID = 7, dl_DeviceAuthID = ''dev'', dl_UserCode = ''ABCD'', dl_Interval = 5,
     dl_ExpiresAt = device_ttl\<rparr>"

definition toy_device_text :: bytes where
  "toy_device_text = device_json toy_device (decimal (nat device_ttl))"

definition toy_waiting :: oauth_state where
  "toy_waiting = \<lparr>os_db = toy_owner, os_redis = [deviceKey ''dev'' \<mapsto> (toy_device_text, Some device_ttl)]\<rparr>"

definition toy_poll_body :: bytes where
  "toy_poll_body = ''{'' @ [quote_mark] @ ''device_auth_id'' @ [quote_mark] @ '':'' @ [quote_mark] @ ''dev'' @ [quote_mark] @ ''}''"

lemma toy_code_answer: "svc_GetDeviceFlowCode toy_oauth p = (if p = ''oai'' then Inr toy_code else Inl ErrProviderUnavailable)"
proof -
  have "\<not> blank ''dev''" and "\<not> blank ''ABCD''" and "\<not> blank ''https://auth.openai.com/codex/device''" by code_simp+
  then show ?thesis
    by (simp add: svc_GetDeviceFlowCode_def authFor_def toy_oauth_def toy_upstream_def toy_code_def dir_GetDeviceFlowCode_def)
qed

lemma toy_code_ok: "device_answers_ok toy_oauth"
proof -
  have "utf8_valid ''dev''" and "utf8_valid ''ABCD''" by code_simp+
  then show ?thesis by (simp add: device_answers_ok_def toy_code_answer toy_code_def)
qed

lemma toy_device_time: "FormatTime (codec toy_oauth) device_ttl = Inr (decimal (nat device_ttl))"
  by (simp add: toy_oauth_def toy_codec_def device_ttl_def)

lemma toy_device_read: "device_of (codec toy_oauth) toy_device_text = Some toy_device"
  unfolding toy_device_text_def
proof (rule device_of_device_json [OF toy_laws(1)])
  show "FormatTime (codec toy_oauth) (dl_ExpiresAt toy_device) = Inr (decimal (nat device_ttl))"
    using toy_device_time by (simp add: toy_device_def)
  have "utf8_valid ''oai''" and "utf8_valid ''dev''" and "utf8_valid ''ABCD''" by code_simp+
  then show "list_all utf8_valid [dl_Provider toy_device, dl_DeviceAuthID toy_device, dl_UserCode toy_device]"
    by (simp add: toy_device_def)
qed (simp add: toy_device_def)

lemma toy_device_login:
  "LoginDeviceFlow toy_oauth 0 (Some 7) ''oai'' \<lparr>os_db = toy_owner, os_redis = Map.empty\<rparr>
     = (out_headers [no_store_header] (Doc (Success (Some (DeviceData toy_code)))), toy_waiting)"
proof -
  have "deviceRedis toy_oauth = Some (\<lambda>_. None)" by (simp add: toy_oauth_def)
  moreover have "\<lparr>dl_Provider = ''oai'', dl_UserID = 7, dl_DeviceAuthID = df_DeviceAuthId toy_code, dl_UserCode = df_UserCode toy_code,
      dl_Interval = df_IntervalSeconds toy_code, dl_ExpiresAt = 0 + device_ttl\<rparr> = toy_device" by (simp add: toy_device_def toy_code_def)
  moreover have "dl_ExpiresAt toy_device = device_ttl" "dl_DeviceAuthID toy_device = ''dev''" by (simp_all add: toy_device_def)
  moreover have "device_ttl \<noteq> 0" "max 1 (device_ttl div millisecond) * millisecond = device_ttl"
    by (simp_all add: device_ttl_def millisecond_def)
  moreover have "getUserid (Some 7) = Inr 7" by (simp add: getUserid_def)
  ultimately show ?thesis
    by (simp add: LoginDeviceFlow_def toy_code_answer storeDeviceFlow_def toy_device_time redis_set_def toy_waiting_def
        toy_device_text_def del: out_headers.simps)
qed

lemma toy_device_done:
  "\<exists>d. CallbackDeviceFlow toy_oauth 1 2 toy_nonces id (Some 7) ''oai'' toy_poll_body [] toy_waiting
     = (out_headers [no_store_header] (Doc (SuccessWithStatus 200 None ''oauth credentials saved'')), \<lparr>os_db = d, os_redis = Map.empty\<rparr>)"
proof -
  have upd: "toy_waiting\<lparr>os_redis := a, os_db := b\<rparr> = \<lparr>os_db = b, os_redis = a\<rparr>" for a b by (simp add: toy_waiting_def)
  have b: "bind_poll toy_poll_body = Some ''dev''" by code_simp
  have g: "redis_get 1 (deviceKey ''dev'') (os_redis toy_waiting) = Some toy_device_text"
    by (simp add: toy_waiting_def redis_get_def device_ttl_def)
  have "deviceRedis toy_oauth = Some (\<lambda>_. None)" by (simp add: toy_oauth_def)
  moreover have "device_flow_ok toy_device 1 ''dev'' ''oai'' 7" by (simp add: device_flow_ok_def toy_device_def device_ttl_def)
  moreover have "(os_redis toy_waiting)(deviceKey ''dev'' := None) = Map.empty" by (simp add: toy_waiting_def)
  ultimately have pop: "popDeviceFlow toy_oauth 1 id ''dev'' ''oai'' 7 (os_redis toy_waiting) = (Inr toy_device, Map.empty)"
    using g by (simp add: popDeviceFlow_def toy_device_read compare_delete_def)
  have "TrimSpace ''code'' \<noteq> []" and "TrimSpace ''pkce'' \<noteq> []" by code_simp+
  then have poll: "svc_Poll toy_oauth (dl_DeviceAuthID toy_device) (dl_UserCode toy_device) (dl_Interval toy_device) (dl_Provider toy_device)
      = Inr \<lparr>AuthorizationCode = ''code'', CodeVerifier = ''pkce''\<rparr>"
    by (simp add: svc_Poll_def authFor_def toy_oauth_def toy_upstream_def toy_device_def dir_PollDeviceFlow_def)
  have "os_db toy_waiting = toy_owner" by (simp add: toy_waiting_def)
  moreover obtain d where "svc_SaveToken toy_oauth 2 toy_nonces (token_of toy_tokens) \<lparr>lf_Provider = ''oai'', lf_UserID = 7, lf_Nonce = [],
      lf_Verifier = [], lf_ExpiresAt = zero_time\<rparr> False toy_owner = (Inr (), d)"
    using toy_save [of "\<lparr>lf_Provider = ''oai'', lf_UserID = 7, lf_Nonce = [], lf_Verifier = [], lf_ExpiresAt = zero_time\<rparr>" False 2] by auto
  moreover have "getUserid (Some 7) = Inr 7" by (simp add: getUserid_def)
  ultimately show ?thesis
    by (auto simp: CallbackDeviceFlow_def b pop poll exchange_and_save_def toy_exchange saved_reply_def upd)
qed

theorem device_login_completed_once_by_its_user_witness:
  "\<exists>st3 row. CallbackDeviceFlow toy_oauth 1 2 toy_nonces id (Some 7) ''oai'' toy_poll_body [] toy_waiting
     = (out_headers [no_store_header] (Doc (SuccessWithStatus 200 None ''oauth credentials saved'')), st3)
   \<and> oauth_infos (os_db st3) = [row] \<and> oa_UserID row = 7"
proof -
  let ?h = "\<lambda>s. history (device_takes (df_DeviceAuthId toy_code)) (device_step (df_DeviceAuthId toy_code)) s 0 s"
  obtain d where c: "CallbackDeviceFlow toy_oauth 1 2 toy_nonces id (Some 7) ''oai'' toy_poll_body [] toy_waiting
     = (out_headers [no_store_header] (Doc (SuccessWithStatus 200 None ''oauth credentials saved'')), \<lparr>os_db = d, os_redis = Map.empty\<rparr>)"
    using toy_device_done by blast
  have u: "utf8_valid ''oai''" by code_simp
  let ?r = "(Success (Some (DeviceData toy_code)))\<lparr>reply_headers := [no_store_header] @ reply_headers (Success (Some (DeviceData toy_code)))\<rparr>"
  have data: "reply_data ?r = Some (DeviceData toy_code)" "reply_status ?r = 200" by simp_all
  have b: "bind_poll toy_poll_body = Some (df_DeviceAuthId toy_code)" unfolding toy_code_def by code_simp
  have since: "history (device_takes (df_DeviceAuthId toy_code)) (device_step (df_DeviceAuthId toy_code))
      (0, os_redis toy_waiting) 0 (1, os_redis toy_waiting)"
    by (rule history.elsewhere [OF history.start]) (simp add: device_step_def)
  have meanwhile: "?h (1, id (os_redis toy_waiting))" by (rule history.start)
  have ok: "saved (out_headers [no_store_header] (Doc (SuccessWithStatus 200 None ''oauth credentials saved'')))"
    by (simp only: out_headers_same) (simp add: saved_def)
  have "history (device_takes (df_DeviceAuthId toy_code)) (device_step (df_DeviceAuthId toy_code))
      (1, os_redis toy_waiting) 0 (1, id (os_redis toy_waiting))" using meanwhile by simp
  from device_login_completed_once_by_its_user [OF toy_laws toy_code_ok u toy_device_login [unfolded out_headers.simps]
      data since this b c ok]
  obtain row where "oauth_infos d = oauth_infos (os_db toy_waiting) @ [row]" "Some 7 = Some (oa_UserID row)" by auto
  moreover have "oauth_infos (os_db toy_waiting) = []" by (simp add: toy_waiting_def toy_owner_def empty_db_def)
  ultimately show ?thesis using c by auto
qed

section \<open>Refreshing\<close>

text \<open>How a row changes when the provider has given these tokens for it: the access token and its
  times; the refresh token if there is a new one; the identity token if there is a new one, which
  the provider has verified for the same account. Nothing else.\<close>

definition refreshed_row :: "OauthService \<Rightarrow> time \<Rightarrow> Token \<Rightarrow> OAuthInfo \<Rightarrow> OAuthInfo \<Rightarrow> bool" where
  "refreshed_row s now token old new \<longleftrightarrow>
     new = old\<lparr>oa_AccessToken := oa_AccessToken new, oa_RefreshToken := oa_RefreshToken new, oa_IDToken := oa_IDToken new,
       oa_Expired := Expiry token, oa_LastRefresh := Some now, oa_UpdatedAt := now\<rparr>
   \<and> Decrypt (oauthCipher s) (oauthKey s) (oa_AccessToken new) = Inr (AccessToken token)
   \<and> (if TokenRefresh token = [] then oa_RefreshToken new = oa_RefreshToken old
      else Decrypt (oauthCipher s) (oauthKey s) (oa_RefreshToken new) = Inr (TokenRefresh token))
   \<and> (if IdToken token = [] then oa_IDToken new = oa_IDToken old
      else Decrypt (oauthCipher s) (oauthKey s) (oa_IDToken new) = Inr (IdToken token)
        \<and> (\<exists>verified email. verifyIDToken (directory s) (IdToken token) ''oai'' = Inr verified
            \<and> IDTokenClaims (vr_ClaimsJson verified) = Some (email, oa_AccountID old)))"

text \<open>The change of the tables by a refresh: one row of the owner, with tokens that the provider gave
  for its refresh token.\<close>

definition refreshed :: "OauthService \<Rightarrow> time \<Rightarrow> uint64 \<Rightarrow> uint64 \<Rightarrow> db \<Rightarrow> db \<Rightarrow> bool" where
  "refreshed s now owner i d d' \<longleftrightarrow> (\<exists>dir old new plain token. directory s = Some dir
     \<and> old \<in> set (oauth_infos d) \<and> oa_ID old = i \<and> oa_UserID old = owner \<and> oa_Type old = ''codex''
     \<and> Decrypt (oauthCipher s) (oauthKey s) (oa_RefreshToken old) = Inr plain
     \<and> dir_RefreshToken (rpc_RefreshToken dir plain ''oai'') = Inr token \<and> token_usable now token
     \<and> refreshed_row s now token old new
     \<and> d' = d\<lparr>oauth_infos := map (\<lambda>r. if r = old then new else r) (oauth_infos d)\<rparr>)"

lemma refreshTokenCredentials_InrD:
  assumes "aead_laws (oauthCipher s)" and "directory s = Some dir"
    and "refreshTokenCredentials s now rnd dir model = Inr m"
  shows "\<exists>plain token. oa_Type model = ''codex'' \<and> Decrypt (oauthCipher s) (oauthKey s) (oa_RefreshToken model) = Inr plain
    \<and> dir_RefreshToken (rpc_RefreshToken dir plain ''oai'') = Inr token \<and> token_usable now token
    \<and> refreshed_row s now token model (m\<lparr>oa_UpdatedAt := now\<rparr>)"
proof -
  from assms(3) obtain plain token m1 where t: "oa_Type model = ''codex''"
    and p: "Decrypt (oauthCipher s) (oauthKey s) (oa_RefreshToken model) = Inr plain"
    and r: "dir_RefreshToken (rpc_RefreshToken dir plain ''oai'') = Inr token" and u: "token_usable now token"
    and m1: "refreshed_identity s rnd ''oai'' (IdToken token) model = Inr m1"
    and m: "refreshed_secrets s now rnd token m1 = Inr m"
    by (auto simp: refreshTokenCredentials_def refresh_provider_def split: option.splits sum.splits if_splits)
  have dec: "Decrypt (oauthCipher s) (oauthKey s) c = Inr p" if "Encrypt (oauthCipher s) (rnd j) (oauthKey s) p = Inr c" for j p c
    using that by (rule Decrypt_Encrypt [OF assms(1)])
  have i: "m1 = model\<lparr>oa_IDToken := oa_IDToken m1\<rparr> \<and> (if IdToken token = [] then oa_IDToken m1 = oa_IDToken model
      else Decrypt (oauthCipher s) (oauthKey s) (oa_IDToken m1) = Inr (IdToken token)
        \<and> (\<exists>verified email. verifyIDToken (directory s) (IdToken token) ''oai'' = Inr verified
            \<and> IDTokenClaims (vr_ClaimsJson verified) = Some (email, oa_AccountID model)))"
    using m1 by (auto simp: refreshed_identity_def dest!: dec split: if_splits sum.splits option.splits)
  have "m = m1\<lparr>oa_AccessToken := oa_AccessToken m, oa_RefreshToken := oa_RefreshToken m, oa_Expired := Expiry token, oa_LastRefresh := Some now\<rparr>
    \<and> Decrypt (oauthCipher s) (oauthKey s) (oa_AccessToken m) = Inr (AccessToken token)
    \<and> (if TokenRefresh token = [] then oa_RefreshToken m = oa_RefreshToken m1
       else Decrypt (oauthCipher s) (oauthKey s) (oa_RefreshToken m) = Inr (TokenRefresh token))"
    using m by (auto simp: refreshed_secrets_def Let_def dest!: dec split: sum.splits if_splits)
  with i have "refreshed_row s now token model (m\<lparr>oa_UpdatedAt := now\<rparr>)"
    unfolding refreshed_row_def by (cases m; cases m1; cases model; auto split: if_splits)
  with t p r u show ?thesis by blast
qed

lemma svc_RefreshToken_body:
  assumes "db_inv d" and "aead_laws (oauthCipher s)" and "directory s = Some dir"
    and "GetOwnedTokenForUpdate io owner i d = Inr model" and "refreshTokenCredentials s now rnd dir model = Inr m"
    and "UpdateToken io now owner i m d = (Inr (), d')"
  shows "refreshed s now owner i d d'"
proof -
  have mod: "model \<in> set (oauth_infos d)" "oa_ID model = i" "oa_UserID model = owner"
    using assms(4) First_InrD [of oa_ID "owned_oauth owner i" "oauth_infos d"]
    by (auto simp: GetOwnedTokenForUpdate_def owned_oauth_def dest!: query_InrD split: sum.splits)
  have d: "distinct (map oa_ID (oauth_infos d))" using assms(1) by (simp add: db_inv_def oauth_ok_def identity_ok_def)
  then have only: "owned_oauth owner i r \<longleftrightarrow> r = model" if "r \<in> set (oauth_infos d)" for r
    using that mod by (auto simp: owned_oauth_def distinct_map inj_on_def)
  from refreshTokenCredentials_InrD [OF assms(2,3,5)] obtain plain token where
    c: "oa_Type model = ''codex''" "Decrypt (oauthCipher s) (oauthKey s) (oa_RefreshToken model) = Inr plain"
      "dir_RefreshToken (rpc_RefreshToken dir plain ''oai'') = Inr token" "token_usable now token"
    and row: "refreshed_row s now token model (m\<lparr>oa_UpdatedAt := now\<rparr>)" by blast
  let ?new = "m\<lparr>oa_UpdatedAt := now\<rparr>"
  from row have "model\<lparr>oa_AccessToken := oa_AccessToken m, oa_RefreshToken := oa_RefreshToken m, oa_IDToken := oa_IDToken m,
      oa_Expired := oa_Expired m, oa_LastRefresh := oa_LastRefresh m, oa_UpdatedAt := now\<rparr> = ?new"
    unfolding refreshed_row_def by (cases m; cases model; auto)
  then have "d' = d\<lparr>oauth_infos := map (\<lambda>r. if r = model then ?new else r) (oauth_infos d)\<rparr>"
    using assms(6) only
    by (auto simp: UpdateToken_def update_oauth_def update_where_def dest!: if_ok_InrD call_InrD split: if_splits)
  with mod c row assms(3) show ?thesis unfolding refreshed_def by blast
qed

lemma svc_RefreshToken_keeps: "db_inv d \<Longrightarrow> db_inv (snd (svc_RefreshToken s now rnd owner i d))"
  unfolding svc_RefreshToken_def UpdateToken_def
  by (auto split: option.splits intro!: schema.steps update_oauth_keeps)

lemma svc_RefreshToken_cases:
  assumes "aead_laws (oauthCipher s)" and "db_inv d" and "svc_RefreshToken s now rnd owner i d = (res, d')"
  shows "(res = Inr () \<longrightarrow> refreshed s now owner i d d') \<and> (d' = d \<or> refreshed s now owner i d d')
    \<and> (\<forall>e io. res = Inl e \<and> oauthRepository s = Some io \<and> (\<forall>e. io O_Commit \<noteq> Some (Unacked e)) \<longrightarrow> d' = d)
    \<and> (oauthRepository s = None \<longrightarrow> d' = d)"
proof (cases "\<exists>io dir. owner \<noteq> 0 \<and> i \<noteq> 0 \<and> oauthRepository s = Some io \<and> directory s = Some dir")
  case True
  then obtain io dir where io: "oauthRepository s = Some io" and dir: "directory s = Some dir" and z: "owner \<noteq> 0" "i \<noteq> 0" by blast
  define body where "body = (\<lambda>d. case GetOwnedTokenForUpdate io owner i d of Inl e \<Rightarrow> (Inl e, d)
      | Inr model \<Rightarrow> (case refreshTokenCredentials s now rnd dir model of Inl e \<Rightarrow> (Inl e, d)
          | Inr m \<Rightarrow> UpdateToken io now owner i m d))"
  have t: "transaction (io O_Commit) body d = (res, d')" using assms(3) z io dir by (simp add: svc_RefreshToken_def body_def)
  obtain x d1 where b: "body d = (x, d1)" by (metis prod.collapse)
  have "refreshed s now owner i d d1" if "x = Inr ()"
    using b that svc_RefreshToken_body [OF assms(2,1) dir] by (auto simp: body_def split: sum.splits)
  then show ?thesis using t b io
    by (auto simp: transaction_def split: sum.splits option.splits fault.splits)
next
  case False
  then have "res = Inl ErrInvalidRefresh \<or> res = Inl ErrUpstreamUnavailable" and "d' = d"
    using assms(3) by (auto simp: svc_RefreshToken_def split: if_splits option.splits)
  then show ?thesis by auto
qed

lemma saved_refresh [simp]: "\<not> saved (refresh_reply e)" "saved (Doc (Success x))"
  by (simp_all add: saved_def refresh_reply_def)

text \<open>C13: a refresh keeps whose account it is. Whatever the provider answers and whatever fails, it
  changes at most one row, one of the caller's own, and of that row only the tokens and their times,
  which become those the provider gave for the stored refresh token; the tables stay consistent. A
  reply of success means that this has happened, another reply that nothing has, unless the outcome
  of the commit was lost.\<close>

theorem refresh_keeps_whose_account:
  assumes "aead_laws (oauthCipher s)" and "db_inv (os_db st)"
    and "RefreshTokenHandler s now rnd user body st = (out, st')"
  shows "os_redis st' = os_redis st \<and> db_inv (os_db st')
    \<and> (os_db st' = os_db st \<or> (\<exists>u i. user = Some u \<and> bind_id body = Some i \<and> refreshed s now u i (os_db st) (os_db st')))
    \<and> (saved out \<longrightarrow> (\<exists>u i. user = Some u \<and> bind_id body = Some i \<and> refreshed s now u i (os_db st) (os_db st')))
    \<and> (\<not> saved out \<and> (\<forall>io e. oauthRepository s = Some io \<longrightarrow> io O_Commit \<noteq> Some (Unacked e)) \<longrightarrow> os_db st' = os_db st)"
proof (cases "\<exists>u i. user = Some u \<and> u \<noteq> 0 \<and> bind_id body = Some i")
    case True
    then obtain u i where u: "getUserid user = Inr u" "user = Some u" and b: "bind_id body = Some i" by (auto simp: getUserid_def)
    obtain res d where r: "svc_RefreshToken s now rnd u i (os_db st) = (res, d)" by (metis prod.collapse)
    have st': "st' = st\<lparr>os_db := d\<rparr>" and out: "saved out \<longleftrightarrow> (\<exists>x. res = Inr x)"
      using assms(3) u(1) b r
      by (auto simp: RefreshTokenHandler_def simp del: out_headers.simps split: sum.splits)
    note c = svc_RefreshToken_cases [OF assms(1,2) r]
    have inv: "db_inv d" using svc_RefreshToken_keeps [OF assms(2), of s now rnd u i] r by simp
    show ?thesis using c inv u(2) b unfolding st' out by (cases res) auto
  next
    case False
    then have "out = auth_required \<or> out = Doc (Error 400 400 ''invalid refresh request'')" and "st' = st"
      using assms(3) by (auto simp: RefreshTokenHandler_def getUserid_def split: option.splits if_splits)
    then show ?thesis using assms(2) by auto
qed

definition toy_sealed :: "bytes \<Rightarrow> bytes" where
  "toy_sealed p = StdEncode (replicate 12 (CHR ''n'') @ p @ replicate 16 pad)"

definition toy_account :: OAuthInfo where
  "toy_account = \<lparr>oa_ID = 1, oa_UserID = 7, oa_AccessToken = toy_sealed ''old'', oa_AccountID = ''acc'', oa_Disabled = False,
     oa_Email = ''a@b'', oa_Expired = Some 3, oa_IDToken = toy_sealed ''oldid'', oa_LastRefresh = Some 0,
     oa_RefreshToken = toy_sealed ''refresh'', oa_Type = ''codex'', oa_CreatedAt = 0, oa_UpdatedAt = 0\<rparr>"

definition toy_linked :: db where
  "toy_linked = toy_owner\<lparr>oauth_infos := [toy_account], oauth_infos_seq := 2\<rparr>"

definition toy_refresh_body :: bytes where
  "toy_refresh_body = ''{'' @ [quote_mark] @ ''id'' @ [quote_mark] @ '':1}''"

lemma toy_linked_ok: "db_inv toy_linked"
  by (simp add: db_inv_def table_defs toy_linked_def toy_owner_def empty_db_def identity_ok_def toy_account_def)

lemma toy_unseal: "Decrypt (oauthCipher toy_oauth) (oauthKey toy_oauth) (toy_sealed p) = Inr p"
  by (rule Decrypt_Encrypt [OF toy_laws(2) toy_encrypts [folded toy_sealed_def, of 0 p]])

lemma toy_refresh:
  "\<exists>d. svc_RefreshToken toy_oauth 5 toy_nonces 7 1 toy_linked = (Inr (), d)"
proof -
  let ?t = "token_of toy_tokens"
  obtain v where v: "verifyIDToken (directory toy_oauth) (IdToken ?t) ''oai'' = Inr v" "vr_ClaimsJson v = toy_claims"
    using toy_identity by blast
  have t: "TrimSpace ''refresh'' \<noteq> []" "TrimSpace ''access'' \<noteq> []" by code_simp+
  obtain x where x: "authFor toy_oauth ''oai'' = Inr x" using toy_auth_url(1) by blast
  have u: "token_usable 5 ?t" using t(2) by (simp add: token_usable_def token_of_def toy_tokens_def)
  have "dir_RefreshToken (rpc_RefreshToken toy_upstream p ''oai'') = Inr ?t" for p
    using t(2) by (simp add: toy_upstream_def dir_RefreshToken_def toy_tokens_def timestamp_valid_def)
  moreover have "oa_Type toy_account = ''codex''" "oa_RefreshToken toy_account = toy_sealed ''refresh''" "oa_AccountID toy_account = ''acc''"
    by (simp_all add: toy_account_def)
  ultimately have c: "\<exists>m. refreshTokenCredentials toy_oauth 5 toy_nonces toy_upstream toy_account = Inr m"
    using t(1) x u v by (simp add: refreshTokenCredentials_def refresh_provider_def toy_unseal refreshed_identity_def
        toy_claims_read toy_encrypts refreshed_secrets_def Let_def)
  then obtain m where m: "refreshTokenCredentials toy_oauth 5 toy_nonces toy_upstream toy_account = Inr m" by blast
  have "oauth_infos toy_linked = [toy_account]" and "owned_oauth 7 1 toy_account"
    by (simp_all add: toy_linked_def owned_oauth_def toy_account_def)
  then have "GetOwnedTokenForUpdate (\<lambda>_. None) 7 1 toy_linked = Inr toy_account"
    and "\<exists>d. UpdateToken (\<lambda>_. None) 5 7 1 m toy_linked = (Inr (), d)"
    by (simp_all add: GetOwnedTokenForUpdate_def First_def UpdateToken_def update_oauth_def count_where_def)
  moreover have "oauthRepository toy_oauth = Some (\<lambda>_. None)" "directory toy_oauth = Some toy_upstream" by (simp_all add: toy_oauth_def)
  ultimately show ?thesis using m by (auto simp: svc_RefreshToken_def transaction_def)
qed

theorem refresh_keeps_whose_account_witness:
  "\<exists>st'. RefreshTokenHandler toy_oauth 5 toy_nonces (Some 7) toy_refresh_body \<lparr>os_db = toy_linked, os_redis = Map.empty\<rparr>
      = (out_headers [no_store_header] (Doc (Success (Some (MessageData ''refresh success'')))), st')
    \<and> refreshed toy_oauth 5 7 1 toy_linked (os_db st')"
proof -
  obtain d where d: "svc_RefreshToken toy_oauth 5 toy_nonces 7 1 toy_linked = (Inr (), d)" using toy_refresh by blast
  have b: "bind_id toy_refresh_body = Some 1" by code_simp
  have "getUserid (Some 7) = Inr 7" by (simp add: getUserid_def)
  with b d have h: "RefreshTokenHandler toy_oauth 5 toy_nonces (Some 7) toy_refresh_body \<lparr>os_db = toy_linked, os_redis = Map.empty\<rparr>
      = (out_headers [no_store_header] (Doc (Success (Some (MessageData ''refresh success'')))), \<lparr>os_db = d, os_redis = Map.empty\<rparr>)"
    by (simp add: RefreshTokenHandler_def del: out_headers.simps)
  have "db_inv (os_db \<lparr>os_db = toy_linked, os_redis = Map.empty\<rparr>)" using toy_linked_ok by simp
  from refresh_keeps_whose_account [OF toy_laws(2) this h] h b show ?thesis by (auto simp del: out_headers.simps)
qed

end
