(* ===== verification/GoText.thy ===== *)
theory GoText imports GoLib begin

text \<open>
  The parts of the Go library that read texts of a configuration: \<open>strconv.Atoi\<close>, \<open>strconv.ParseBool\<close>,
  \<open>time.ParseDuration\<close>, \<open>net.SplitHostPort\<close>, \<open>strings.ToUpper\<close>. Each is none where Go returns an error.
\<close>

section \<open>Numbers and booleans\<close>

definition take_sign :: "bytes \<Rightarrow> bool \<times> bytes" where
  "take_sign s = (case s of
       [] \<Rightarrow> (False, s)
     | c # r \<Rightarrow> if c = CHR ''-'' then (True, r) else if c = CHR ''+'' then (False, r) else (False, s))"

definition Atoi :: "bytes \<Rightarrow> int option" where
  "Atoi s = (let (neg, t) = take_sign s; n = decimal_value t in
     if t = [] \<or> \<not> list_all is_digit t then None
     else if neg then (if n \<le> 2 ^ 63 then Some (- int n) else None)
     else (if n < 2 ^ 63 then Some (int n) else None))"

definition ParseBool :: "bytes \<Rightarrow> bool option" where
  "ParseBool s =
     (if s \<in> set [''1'', ''t'', ''T'', ''true'', ''TRUE'', ''True''] then Some True
      else if s \<in> set [''0'', ''f'', ''F'', ''false'', ''FALSE'', ''False''] then Some False
      else None)"

section \<open>Durations\<close>

text \<open>
  A duration is a sequence of decimal numbers with a unit. Of a fraction Go computes the nanoseconds
  in floating point: \<open>fractions\<close> is that computation, from the digits after the point and the unit.
\<close>

type_synonym fractions = "bytes \<Rightarrow> nat \<Rightarrow> nat"

definition duration_unit :: "bytes \<Rightarrow> nat option" where
  "duration_unit u =
     (if u = ''ns'' then Some 1
      else if u \<in> set [''us'', [CHR 0xC2, CHR 0xB5, CHR ''s''], [CHR 0xCE, CHR 0xBC, CHR ''s'']] then Some 1000
      else if u = ''ms'' then Some 1000000
      else if u = ''s'' then Some 1000000000
      else if u = ''m'' then Some (60 * 1000000000)
      else if u = ''h'' then Some (3600 * 1000000000)
      else None)"

definition number_char :: "char \<Rightarrow> bool" where
  "number_char c \<longleftrightarrow> c = CHR ''.'' \<or> is_digit c"

text \<open>The first number with its unit, in nanoseconds, and the rest.\<close>

definition duration_item :: "fractions \<Rightarrow> bytes \<Rightarrow> (nat \<times> bytes) option" where
  "duration_item frac s =
     (let whole = takeWhile is_digit s; s1 = dropWhile is_digit s;
          (part, s2) = (if HasPrefix s1 ''.'' then (takeWhile is_digit (tl s1), dropWhile is_digit (tl s1)) else ([], s1));
          u = takeWhile (\<lambda>c. \<not> number_char c) s2 in
      if whole = [] \<and> part = [] \<or> 2 ^ 63 < decimal_value whole then None
      else case duration_unit u of
        None \<Rightarrow> None
      | Some unit \<Rightarrow>
          if 2 ^ 63 div unit < decimal_value whole then None
          else let v = decimal_value whole * unit + (if 0 < decimal_value part then frac part unit else 0) in
            if 2 ^ 63 < v then None else Some (v, drop (length u) s2))"

lemma duration_item_shorter:
  assumes "duration_item frac s = Some (v, r)"
  shows "length r < length s"
proof -
  define s1 where "s1 = dropWhile is_digit s"
  define s2 where "s2 = (if HasPrefix s1 ''.'' then dropWhile is_digit (tl s1) else s1)"
  define u where "u = takeWhile (\<lambda>c. \<not> number_char c) s2"
  have "length s1 \<le> length s" and "length (dropWhile is_digit (tl s1)) \<le> length (tl s1)"
    unfolding s1_def by (rule length_dropWhile_le)+
  then have "length s2 \<le> length s" unfolding s2_def by (cases s1) auto
  moreover from assms have "duration_unit u \<noteq> None" and "r = drop (length u) s2"
    by (auto simp: duration_item_def Let_def s1_def s2_def u_def split: if_splits option.splits)
  moreover from this(1) have "u \<noteq> []" by (auto simp: duration_unit_def)
  moreover have "length u \<le> length s2" unfolding u_def by (rule length_takeWhile_le)
  ultimately show ?thesis by (cases u) auto
qed

text \<open>The sum wraps around in 64 bits before it is compared.\<close>

function duration_items :: "fractions \<Rightarrow> nat \<Rightarrow> bytes \<Rightarrow> nat option" where
  "duration_items frac d s =
     (if s = [] then Some d
      else case duration_item frac s of
        None \<Rightarrow> None
      | Some (v, r) \<Rightarrow>
          if 2 ^ 63 < (d + v) mod 2 ^ 64 then None else duration_items frac ((d + v) mod 2 ^ 64) r)"
  by pat_completeness auto

termination
  by (relation "measure (\<lambda>(frac, d, s). length s)") (auto dest: duration_item_shorter)

declare duration_items.simps [simp del]

definition ParseDuration :: "fractions \<Rightarrow> bytes \<Rightarrow> int option" where
  "ParseDuration frac s = (let (neg, t) = take_sign s in
     if t = ''0'' then Some 0
     else if t = [] then None
     else case duration_items frac 0 t of
       None \<Rightarrow> None
     | Some d \<Rightarrow> if neg then Some (- int d) else if 2 ^ 63 \<le> d then None else Some (int d))"

section \<open>Addresses and names\<close>

definition SplitHostPort :: "bytes \<Rightarrow> (bytes \<times> bytes) option" where
  "SplitHostPort s =
     (if CHR '':'' \<notin> set s then None
      else let port = rev (takeWhile (\<lambda>c. c \<noteq> CHR '':'') (rev s)); i = length s - length port - 1 in
        if HasPrefix s ''['' then
          (let n = length (takeWhile (\<lambda>c. c \<noteq> CHR '']'') s) in
           if n = length s \<or> Suc n \<noteq> i then None
           else if CHR ''['' \<in> set (tl s) \<or> CHR '']'' \<in> set (drop (Suc n) s) then None
           else Some (take (n - 1) (tl s), port))
        else if CHR '':'' \<in> set (take i s) \<or> CHR ''['' \<in> set s \<or> CHR '']'' \<in> set s then None
        else Some (take i s, port))"

text \<open>Text that is not ASCII is mapped by the tables of Unicode, which are a parameter.\<close>

definition ToUpper :: "(bytes \<Rightarrow> bytes) \<Rightarrow> bytes \<Rightarrow> bytes" where
  "ToUpper unicode s = (if list_all (\<lambda>c. of_char c < (128 :: nat)) s then map ascii_upper s else unicode s)"

definition ReplaceByte :: "char \<Rightarrow> char \<Rightarrow> bytes \<Rightarrow> bytes" where
  "ReplaceByte a b s = map (\<lambda>c. if c = a then b else c) s"

section \<open>Reading back what was written\<close>

lemma take_sign_decimal: "take_sign (decimal n @ s) = (False, decimal n @ s)"
proof -
  obtain c r where d: "decimal n = c # r" and c: "is_digit c" using decimal_parses [of n] by (cases "decimal n") auto
  have "c \<noteq> CHR ''-''" and "c \<noteq> CHR ''+''" using c by (auto simp: is_digit_def)
  then show ?thesis by (simp add: take_sign_def d)
qed

lemma Atoi_decimal: "n < 2 ^ 63 \<Longrightarrow> Atoi (decimal n) = Some (int n)"
  using take_sign_decimal [of n "[]"] decimal_parses [of n] by (simp add: Atoi_def)

lemma Atoi_InrD: "Atoi s = Some n \<Longrightarrow> - (2 ^ 63) \<le> n \<and> n < 2 ^ 63"
  by (auto simp: Atoi_def Let_def split: prod.splits if_splits)

lemma ParseDuration_bound: "ParseDuration frac s = Some d \<Longrightarrow> d < 2 ^ 63"
  by (auto simp: ParseDuration_def Let_def split: prod.splits if_splits option.splits)

lemma ParseDuration_ns:
  assumes "0 < n" and "n < 2 ^ 63"
  shows "ParseDuration frac (decimal n @ ''ns'') = Some (int n)"
proof -
  note d = decimal_parses [of n]
  have n: "\<not> is_digit (CHR ''n'')" "\<not> is_digit (CHR ''s'')" by code_simp+
  have t: "takeWhile is_digit (decimal n @ ''ns'') = decimal n" "dropWhile is_digit (decimal n @ ''ns'') = ''ns''"
    using d n by (simp_all add: takeWhile_append dropWhile_append list_all_iff)
  have "takeWhile (\<lambda>c. \<not> number_char c) ''ns'' = ''ns''" using n by (simp add: number_char_def)
  then have "duration_item frac (decimal n @ ''ns'') = Some (n, [])"
    using d t assms by (simp add: duration_item_def HasPrefix_def duration_unit_def Let_def decimal_value_def)
  then have "duration_items frac 0 (decimal n @ ''ns'') = Some n"
    using assms by (simp add: duration_items.simps [of frac 0 "decimal n @ ''ns''"] duration_items.simps [of frac n "[]"])
  moreover have "decimal n @ ''ns'' \<noteq> ''0''" by (cases "decimal n") auto
  ultimately show ?thesis using assms take_sign_decimal [of n "''ns''"] by (simp add: ParseDuration_def)
qed

end
