(* ===== verification/ConfigProps.thy ===== *)
theory ConfigProps imports Config AuthProps begin

text \<open>
  The properties of the configuration, with witnesses: which configurations the API starts with, and
  whom its bootstrap account lets in.
\<close>

section \<open>What is accepted\<close>

definition duration_ok :: "time \<Rightarrow> bool" where
  "duration_ok d \<longleftrightarrow> 0 < d \<and> d < 2 ^ 63"

definition trim_ok :: "bytes \<Rightarrow> bool" where
  "trim_ok s \<longleftrightarrow> TrimSpace s = s"

text \<open>The configurations the API starts with.\<close>

definition wf_config :: "Config \<Rightarrow> bool" where
  "wf_config cfg \<longleftrightarrow>
     list_all trim_ok [cfg_Environment cfg, cfg_HTTPAddress cfg, cfg_DatabaseURL cfg, cfg_Issuer (cfg_JWT cfg),
       cfg_Audience (cfg_JWT cfg), cfg_RedisAddress (cfg_Redis cfg), cfg_BootstrapUsername cfg, cfg_BootstrapRole cfg]
   \<and> list_all duration_ok [cfg_DatabaseConnectTimeout cfg, cfg_OIDCDiscoveryTimeout cfg, cfg_AccessTTL (cfg_JWT cfg),
       cfg_RefreshTTL (cfg_JWT cfg)]
   \<and> 0 \<le> cfg_RedisDB (cfg_Redis cfg) \<and> cfg_RedisDB (cfg_Redis cfg) < 2 ^ 63
   \<and> cfg_Environment cfg \<noteq> [] \<and> SplitHostPort (cfg_HTTPAddress cfg) \<noteq> None \<and> cfg_DatabaseURL cfg \<noteq> []
   \<and> cfg_RedisAddress (cfg_Redis cfg) \<noteq> [] \<and> 32 \<le> length (cfg_Secret (cfg_JWT cfg))
   \<and> cfg_Issuer (cfg_JWT cfg) \<noteq> [] \<and> cfg_Audience (cfg_JWT cfg) \<noteq> [] \<and> cfg_BootstrapRole cfg \<noteq> []
   \<and> (if cfg_BootstrapUsername cfg = [] then cfg_BootstrapPassword cfg = [] else 8 \<le> length (cfg_BootstrapPassword cfg))"

text \<open>A configuration written as an environment.\<close>

definition duration_text :: "time \<Rightarrow> bytes" where
  "duration_text d = decimal (nat d) @ ''ns''"

definition environment_of :: "Config \<Rightarrow> environment" where
  "environment_of cfg = map_of
     [(''APP_ENV'', cfg_Environment cfg), (''HTTP_ADDR'', cfg_HTTPAddress cfg), (''DATABASE_URL'', cfg_DatabaseURL cfg),
      (''DATABASE_CONNECT_TIMEOUT'', duration_text (cfg_DatabaseConnectTimeout cfg)),
      (''OIDC_DISCOVERY_TIMEOUT'', duration_text (cfg_OIDCDiscoveryTimeout cfg)),
      (''JWT_SECRET'', cfg_Secret (cfg_JWT cfg)), (''JWT_ISSUER'', cfg_Issuer (cfg_JWT cfg)),
      (''JWT_AUDIENCE'', cfg_Audience (cfg_JWT cfg)), (''JWT_ACCESS_TTL'', duration_text (cfg_AccessTTL (cfg_JWT cfg))),
      (''JWT_REFRESH_TTL'', duration_text (cfg_RefreshTTL (cfg_JWT cfg))),
      (''REDIS_ADDR'', cfg_RedisAddress (cfg_Redis cfg)), (''REDIS_PASSWORD'', cfg_RedisPassword (cfg_Redis cfg)),
      (''REDIS_DB'', decimal (nat (cfg_RedisDB (cfg_Redis cfg)))),
      (''COOKIE_SECURE'', if cfg_CookieSecure cfg then ''true'' else ''false''),
      (''BOOTSTRAP_ADMIN_USERNAME'', cfg_BootstrapUsername cfg),
      (''BOOTSTRAP_ADMIN_PASSWORD'', cfg_BootstrapPassword cfg), (''BOOTSTRAP_ADMIN_ROLE'', cfg_BootstrapRole cfg)]"

lemma TrimSpace_trim [simp]: "trim_ok (TrimSpace s)"
  by (simp add: trim_ok_def)

lemma positiveDuration_ok: "positiveDuration fr env key fallback = Inr d \<Longrightarrow> duration_ok fallback \<Longrightarrow> duration_ok d"
  by (auto simp: positiveDuration_def duration_ok_def dest: ParseDuration_bound split: option.splits if_splits)

lemma nonNegativeInt_ok: "nonNegativeInt env key 0 = Inr n \<Longrightarrow> 0 \<le> n \<and> n < 2 ^ 63"
  by (auto simp: nonNegativeInt_def dest: Atoi_InrD split: option.splits if_splits)

lemma default_durations:
  "duration_ok defaultDatabaseTimeout" "duration_ok defaultOIDCTimeout" "duration_ok defaultJWTAccessTTL"
  "duration_ok defaultJWTRefreshTTL"
  by (simp_all add: duration_ok_def defaultDatabaseTimeout_def defaultOIDCTimeout_def defaultJWTAccessTTL_def
      defaultJWTRefreshTTL_def time_second_def)

lemma SplitHostPort_Nil [simp]: "SplitHostPort [] = None"
  by (simp add: SplitHostPort_def)

lemma check_config_ok:
  "check_config cfg = Inr () \<longleftrightarrow>
     cfg_Environment cfg \<noteq> [] \<and> SplitHostPort (cfg_HTTPAddress cfg) \<noteq> None \<and> cfg_DatabaseURL cfg \<noteq> []
   \<and> cfg_RedisAddress (cfg_Redis cfg) \<noteq> [] \<and> 32 \<le> length (cfg_Secret (cfg_JWT cfg))
   \<and> cfg_Issuer (cfg_JWT cfg) \<noteq> [] \<and> cfg_Audience (cfg_JWT cfg) \<noteq> [] \<and> cfg_BootstrapRole cfg \<noteq> []
   \<and> (if cfg_BootstrapUsername cfg = [] then cfg_BootstrapPassword cfg = [] else 8 \<le> length (cfg_BootstrapPassword cfg))"
  by (auto simp: check_config_def validateAddress_def split: option.splits)

lemma load_wf:
  assumes "load fr env = Inr cfg"
  shows "wf_config cfg"
proof -
  from assms obtain connect discovery access refresh n secure where
    d: "positiveDuration fr env ''DATABASE_CONNECT_TIMEOUT'' defaultDatabaseTimeout = Inr connect"
      "positiveDuration fr env ''OIDC_DISCOVERY_TIMEOUT'' defaultOIDCTimeout = Inr discovery"
      "positiveDuration fr env ''JWT_ACCESS_TTL'' defaultJWTAccessTTL = Inr access"
      "positiveDuration fr env ''JWT_REFRESH_TTL'' defaultJWTRefreshTTL = Inr refresh"
    and n: "nonNegativeInt env ''REDIS_DB'' 0 = Inr n" and b: "booleanValue env ''COOKIE_SECURE'' False = Inr secure"
    unfolding load_def by (auto split: sum.splits)
  note load = assms [unfolded load_def Let_def d n b sum.case]
  have ok: "check_config cfg = Inr ()" using load by (simp split: sum.splits)
  have parts: "list_all trim_ok [cfg_Environment cfg, cfg_HTTPAddress cfg, cfg_DatabaseURL cfg, cfg_Issuer (cfg_JWT cfg),
       cfg_Audience (cfg_JWT cfg), cfg_RedisAddress (cfg_Redis cfg), cfg_BootstrapUsername cfg, cfg_BootstrapRole cfg]"
    "cfg_DatabaseConnectTimeout cfg = connect" "cfg_OIDCDiscoveryTimeout cfg = discovery"
    "cfg_AccessTTL (cfg_JWT cfg) = access" "cfg_RefreshTTL (cfg_JWT cfg) = refresh" "cfg_RedisDB (cfg_Redis cfg) = n"
    using load by (auto split: sum.splits)
  show ?thesis unfolding wf_config_def
    using ok [unfolded check_config_ok] parts nonNegativeInt_ok [OF n] default_durations
      positiveDuration_ok [OF d(1)] positiveDuration_ok [OF d(2)] positiveDuration_ok [OF d(3)] positiveDuration_ok [OF d(4)]
    by simp
qed

text \<open>The values an environment made of a configuration gives.\<close>

lemma TrimSpace_plain:
  assumes "list_all plain_char s"
  shows "TrimSpace s = s"
proof -
  have z: "space_len t = 0" if "list_all plain_char t" for t
    using that by (cases t) (simp_all add: space_len_plain)
  have "list_all plain_char (last_bytes n s)" for n
    using assms set_drop_subset [of "length s - n" s] unfolding last_bytes_def list_all_iff by blast
  then have "space_len_end s = 0" by (simp add: space_len_end_def z)
  then show ?thesis using z [OF assms] by (simp add: TrimSpace_def TrimLeftSpace.simps [of s] TrimRightSpace.simps [of s])
qed

lemma decimal_text_plain: "list_all plain_char (decimal n)"
  using decimal_plain by (simp add: list_all_iff)

lemma duration_text_read:
  assumes "duration_ok d" and "env key = Some (duration_text d)"
  shows "positiveDuration fr env key fallback = Inr d"
proof -
  have "list_all plain_char ''ns''" by code_simp
  then have "TrimSpace (duration_text d) = duration_text d"
    by (intro TrimSpace_plain) (simp add: duration_text_def decimal_text_plain)
  moreover have "ParseDuration fr (duration_text d) = Some d"
    using assms(1) ParseDuration_ns [of "nat d"] by (simp add: duration_text_def duration_ok_def nat_less_iff)
  ultimately show ?thesis using assms by (simp add: positiveDuration_def duration_ok_def)
qed
lemma number_text_read:
  assumes "0 \<le> n" and "n < 2 ^ 63" and "env key = Some (decimal (nat n))"
  shows "nonNegativeInt env key 0 = Inr n"
  using assms TrimSpace_plain [OF decimal_text_plain, of "nat n"] Atoi_decimal [of "nat n"]
  by (simp add: nonNegativeInt_def)

lemma boolean_text_read:
  assumes "env key = Some (if b then ''true'' else ''false'')"
  shows "booleanValue env key False = Inr b"
proof -
  have "TrimSpace ''true'' = ''true''" and "TrimSpace ''false'' = ''false''" by code_simp+
  then show ?thesis using assms by (simp add: booleanValue_def ParseBool_def)
qed

lemma environment_of_values:
  "environment_of cfg ''APP_ENV'' = Some (cfg_Environment cfg)"
  "environment_of cfg ''HTTP_ADDR'' = Some (cfg_HTTPAddress cfg)"
  "environment_of cfg ''DATABASE_URL'' = Some (cfg_DatabaseURL cfg)"
  "environment_of cfg ''DATABASE_CONNECT_TIMEOUT'' = Some (duration_text (cfg_DatabaseConnectTimeout cfg))"
  "environment_of cfg ''OIDC_DISCOVERY_TIMEOUT'' = Some (duration_text (cfg_OIDCDiscoveryTimeout cfg))"
  "environment_of cfg ''JWT_SECRET'' = Some (cfg_Secret (cfg_JWT cfg))"
  "environment_of cfg ''JWT_ISSUER'' = Some (cfg_Issuer (cfg_JWT cfg))"
  "environment_of cfg ''JWT_AUDIENCE'' = Some (cfg_Audience (cfg_JWT cfg))"
  "environment_of cfg ''JWT_ACCESS_TTL'' = Some (duration_text (cfg_AccessTTL (cfg_JWT cfg)))"
  "environment_of cfg ''JWT_REFRESH_TTL'' = Some (duration_text (cfg_RefreshTTL (cfg_JWT cfg)))"
  "environment_of cfg ''REDIS_ADDR'' = Some (cfg_RedisAddress (cfg_Redis cfg))"
  "environment_of cfg ''REDIS_PASSWORD'' = Some (cfg_RedisPassword (cfg_Redis cfg))"
  "environment_of cfg ''REDIS_DB'' = Some (decimal (nat (cfg_RedisDB (cfg_Redis cfg))))"
  "environment_of cfg ''COOKIE_SECURE'' = Some (if cfg_CookieSecure cfg then ''true'' else ''false'')"
  "environment_of cfg ''BOOTSTRAP_ADMIN_USERNAME'' = Some (cfg_BootstrapUsername cfg)"
  "environment_of cfg ''BOOTSTRAP_ADMIN_PASSWORD'' = Some (cfg_BootstrapPassword cfg)"
  "environment_of cfg ''BOOTSTRAP_ADMIN_ROLE'' = Some (cfg_BootstrapRole cfg)"
  by (simp_all add: environment_of_def)

lemma load_environment_of:
  assumes "wf_config cfg"
  shows "load fr (environment_of cfg) = Inr cfg"
proof -
  let ?env = "environment_of cfg"
  note wf = assms [unfolded wf_config_def]
  have d: "positiveDuration fr ?env ''DATABASE_CONNECT_TIMEOUT'' x = Inr (cfg_DatabaseConnectTimeout cfg)"
    "positiveDuration fr ?env ''OIDC_DISCOVERY_TIMEOUT'' x = Inr (cfg_OIDCDiscoveryTimeout cfg)"
    "positiveDuration fr ?env ''JWT_ACCESS_TTL'' x = Inr (cfg_AccessTTL (cfg_JWT cfg))"
    "positiveDuration fr ?env ''JWT_REFRESH_TTL'' x = Inr (cfg_RefreshTTL (cfg_JWT cfg))" for x
    by (rule duration_text_read; use wf in \<open>simp add: environment_of_values\<close>)+
  have n: "nonNegativeInt ?env ''REDIS_DB'' 0 = Inr (cfg_RedisDB (cfg_Redis cfg))"
    by (rule number_text_read) (use wf in \<open>simp_all add: environment_of_values\<close>)
  have b: "booleanValue ?env ''COOKIE_SECURE'' False = Inr (cfg_CookieSecure cfg)"
    by (rule boolean_text_read) (simp add: environment_of_values)
  have c: "check_config cfg = Inr ()" using wf by (simp add: check_config_ok)
  obtain e h u ct dt j r s bu bp br where cfg: "cfg = \<lparr>cfg_Environment = e, cfg_HTTPAddress = h, cfg_DatabaseURL = u,
      cfg_DatabaseConnectTimeout = ct, cfg_OIDCDiscoveryTimeout = dt, cfg_JWT = j, cfg_Redis = r, cfg_CookieSecure = s,
      cfg_BootstrapUsername = bu, cfg_BootstrapPassword = bp, cfg_BootstrapRole = br\<rparr>" by (cases cfg)
  have "\<lparr>cfg_Environment = trimmed ?env ''APP_ENV'' x1, cfg_HTTPAddress = trimmed ?env ''HTTP_ADDR'' x2,
      cfg_DatabaseURL = trimmed ?env ''DATABASE_URL'' x3, cfg_DatabaseConnectTimeout = cfg_DatabaseConnectTimeout cfg,
      cfg_OIDCDiscoveryTimeout = cfg_OIDCDiscoveryTimeout cfg,
      cfg_JWT = \<lparr>cfg_Secret = valueOrDefault ?env ''JWT_SECRET'' x4, cfg_Issuer = trimmed ?env ''JWT_ISSUER'' x5,
        cfg_Audience = trimmed ?env ''JWT_AUDIENCE'' x6, cfg_AccessTTL = cfg_AccessTTL (cfg_JWT cfg),
        cfg_RefreshTTL = cfg_RefreshTTL (cfg_JWT cfg)\<rparr>,
      cfg_Redis = \<lparr>cfg_RedisAddress = trimmed ?env ''REDIS_ADDR'' x7, cfg_RedisPassword = valueOrDefault ?env ''REDIS_PASSWORD'' x8,
        cfg_RedisDB = cfg_RedisDB (cfg_Redis cfg)\<rparr>,
      cfg_CookieSecure = cfg_CookieSecure cfg, cfg_BootstrapUsername = trimmed ?env ''BOOTSTRAP_ADMIN_USERNAME'' x9,
      cfg_BootstrapPassword = valueOrDefault ?env ''BOOTSTRAP_ADMIN_PASSWORD'' x10,
      cfg_BootstrapRole = trimmed ?env ''BOOTSTRAP_ADMIN_ROLE'' x11\<rparr> = cfg" for x1 x2 x3 x4 x5 x6 x7 x8 x9 x10 x11
    using wf by (cases cfg, cases "cfg_JWT cfg", cases "cfg_Redis cfg")
      (simp add: environment_of_values valueOrDefault_def trim_ok_def)
  then show ?thesis unfolding load_def Let_def d n b sum.case using c by simp
qed

text \<open>C30: the API starts with exactly the well-formed configurations, and each of them can be written
  down again: with the values of a configuration as its environment the API starts with that same
  configuration, and what is loaded from any environment is well-formed, with every timeout and
  lifetime positive and below 292 years, a signing secret of at least 32 bytes, an address to listen
  on, and a bootstrap account with a password of at least 8 bytes or none.\<close>

theorem configuration_round_trip:
  "((\<exists>env. load fr env = Inr cfg) \<longleftrightarrow> wf_config cfg) \<and> (load fr (environment_of cfg) = Inr cfg \<longleftrightarrow> wf_config cfg)"
  using load_wf load_environment_of by blast

section \<open>The bootstrap account\<close>

text \<open>What a successful start leaves when the name of the account was free.\<close>

lemma createBootstrapUser_effect:
  assumes "createBootstrapUser io hash now cfg d = (Inr (), d')" and "cfg_BootstrapUsername cfg \<noteq> []"
    and "cfg_BootstrapUsername cfg \<notin> set (map user_Username (users d))"
  shows "\<exists>m h. users d' = users d @ [m] \<and> hash (cfg_BootstrapPassword cfg) = Inr h
    \<and> m = (new_user (cfg_BootstrapUsername cfg) h (cfg_BootstrapRole cfg))\<lparr>user_ID := of_nat (users_seq d),
        user_RoleCode := (if cfg_BootstrapRole cfg = [] then ''user'' else cfg_BootstrapRole cfg),
        user_CreatedAt := now, user_UpdatedAt := now\<rparr>
    \<and> IsSupportedRole (cfg_BootstrapRole cfg) \<and> storable (cfg_BootstrapUsername cfg)
    \<and> 3 \<le> rune_count (cfg_BootstrapUsername cfg) \<and> rune_count (cfg_BootstrapUsername cfg) \<le> 50"
proof -
  have free: "query f (First user_ID (\<lambda>m. user_Username m = cfg_BootstrapUsername cfg) (users d)) \<noteq> Inr x" for f x
    using assms(3) by (force dest!: query_InrD First_InrD)
  with assms(1,2) show ?thesis
    by (auto simp: createBootstrapUser_def CreateBootstrapUser_def insert_user_def new_user_def Let_def
        dest!: call_InrD split: if_splits sum.splits prod.splits)
qed

lemma createBootstrapUser_keeps: "db_inv d \<Longrightarrow> db_inv (snd (createBootstrapUser io hash now cfg d))"
  using CreateBootstrapUser_keeps by (auto simp: createBootstrapUser_def split: sum.splits)

text \<open>A later start leaves the tables as they are, whatever its hash and its faults: the account is found,
  and where the search fails the insertion does too.\<close>

lemma insert_user_taken: "user_Username r \<in> set (map user_Username (users d)) \<Longrightarrow> snd (insert_user now r d) = d"
  by (simp add: insert_user_def Let_def)

lemma createBootstrapUser_again:
  assumes "cfg_BootstrapUsername cfg \<in> set (map user_Username (users d))"
  shows "snd (createBootstrapUser io hash now cfg d) = d"
proof -
  have "snd (call f (insert_user now (new_user (cfg_BootstrapUsername cfg) h role)) d) = d" for f h role
    using call_snd [of f "insert_user now (new_user (cfg_BootstrapUsername cfg) h role)" d]
      insert_user_taken [of "new_user (cfg_BootstrapUsername cfg) h role" d now] assms
    by (auto simp: new_user_def)
  then show ?thesis
    by (auto simp: createBootstrapUser_def CreateBootstrapUser_def split: sum.splits prod.splits) ((metis snd_conv)+)?
qed

text \<open>The body of a login in the JSON form of the request type.\<close>

definition login_json :: "bytes \<Rightarrow> bytes \<Rightarrow> bytes" where
  "login_json name password = marshal (StructOut [(''username'', StringOut name), (''password'', StringOut password)])"

lemma login_names: "fold_name ''username'' = ''username''" "fold_name ''password'' = ''password''"
  "list_all utf8_valid [''username'', ''password'']"
  by code_simp+

lemma bind_login_json:
  assumes "utf8_valid name" and "utf8_valid password" and "3 \<le> rune_count name" and "rune_count name \<le> 50"
  shows "bind_login (login_json name password) =
    (if 8 \<le> rune_count password \<and> rune_count password \<le> 72 then Some (name, password) else None)"
proof -
  let ?ms = "[(''username'', json_quote name), (''password'', json_quote password)]"
  have "decoder_members (login_json name password) = Some ?ms"
    unfolding login_json_def
    by (rule decoder_members_document, subst struct_members_marshal) (use login_names(3) in simp_all)
  moreover have "string_field ''username'' ?ms = (name, True)" "string_field ''password'' ?ms = (password, True)"
    using assms(1,2) by (auto intro!: string_field_one simp: field_values_def login_names(1,2)[simplified])
  moreover have "name \<noteq> []" using assms(3) by auto
  ultimately show ?thesis using assms(3,4) by (auto simp: bind_login_def)
qed

lemma bind_login_counts: "bind_login body = Some (name, password) \<Longrightarrow> 8 \<le> rune_count password \<and> rune_count password \<le> 72"
  by (auto simp: bind_login_def Let_def split: bind_splits prod.splits if_splits)

text \<open>C18: the administrator of the configuration can log in, exactly when the configured password has 8
  to 72 characters. When the API starts with a configuration that names one and the name is free,
  one row is added, with that name, of 3 to 50 characters, and that role. From then on the login
  with the configured name and password returns an access token that is admitted as that account
  with the permissions seeded for its role, and a refresh cookie; but the check of the
  configuration counts the password's bytes and the login's binding its characters, and with
  fewer than 8 or more than 72 of them no request body carries the password past the binding and
  the answer is 400. A later start, with the same configuration and whatever fails in it, leaves
  the tables as they are.\<close>

theorem bootstrap_admin_can_log_in:
  assumes "auth_laws s direct granted" and "db_inv (st_db st)"
    and "SeedDefaultPolicies (enforcer s) before = (Inr (), seeded)" and "\<And>u. granted before (UserSubject u) = []"
    and "granted (st_policies st) = granted seeded" and "policies_ok direct granted (st_policies st)"
    and "load fr env = Inr cfg" and "cfg_BootstrapUsername cfg \<noteq> []" and "utf8_valid (cfg_BootstrapPassword cfg)"
    and "cfg_BootstrapUsername cfg \<notin> set (map user_Username (users (st_db st)))"
    and "createBootstrapUser io (HashPassword s) start cfg (st_db st) = (Inr (), d)"
    and "userRepository s Q_UserByName = None" and "redisClient s R_Set = None" and "newRefreshToken rnd = Inr t"
    and "body = login_json (cfg_BootstrapUsername cfg) (cfg_BootstrapPassword cfg)"
  shows "\<exists>m. users d = users (st_db st) @ [m] \<and> user_Username m = cfg_BootstrapUsername cfg
    \<and> 3 \<le> rune_count (user_Username m) \<and> rune_count (user_Username m) \<le> 50 \<and> user_RoleCode m = cfg_BootstrapRole cfg
    \<and> (if 8 \<le> rune_count (cfg_BootstrapPassword cfg) \<and> rune_count (cfg_BootstrapPassword cfg) \<le> 72
       then \<exists>access st'. LoginHandler s cookieSecure now rnd body (st\<lparr>st_db := d\<rparr>)
              = ((Success (Some (LoginData access)), [setRefreshCookie s cookieSecure t]), st')
            \<and> admits_as s now access m [PermissionDashboardView]
       else LoginHandler s cookieSecure now rnd body (st\<lparr>st_db := d\<rparr>)
              = ((Error 400 40000 ''invalid request'', []), st\<lparr>st_db := d\<rparr>)
            \<and> (\<forall>other name. bind_login other \<noteq> Some (name, cfg_BootstrapPassword cfg)))
    \<and> snd (createBootstrapUser io' (HashPassword s) later cfg d) = d"
proof -
  let ?st = "st\<lparr>st_db := d\<rparr>" and ?name = "cfg_BootstrapUsername cfg" and ?pw = "cfg_BootstrapPassword cfg"
  from createBootstrapUser_effect [OF assms(11,8,10)] obtain m h where d: "users d = users (st_db st) @ [m]"
    and h: "HashPassword s ?pw = Inr h" and sup: "IsSupportedRole (cfg_BootstrapRole cfg)"
    and m: "user_Username m = ?name" "user_IsActive m" "user_PasswordHash m = h"
    and role: "cfg_BootstrapRole cfg \<noteq> [] \<Longrightarrow> user_RoleCode m = cfg_BootstrapRole cfg"
    and sto: "storable ?name" and n: "3 \<le> rune_count ?name" "rune_count ?name \<le> 50"
    by (auto simp: new_user_def)
  have r: "user_RoleCode m = cfg_BootstrapRole cfg" using role load_wf [OF assms(7)] by (simp add: wf_config_def)
  have inv: "db_inv (st_db ?st)"
    using createBootstrapUser_keeps [OF assms(2), where io = io and hash = "HashPassword s" and now = start and cfg = cfg] assms(11) by simp
  have cb: "casbin_laws (enforcer s) direct granted" and pw: "VerifyPassword s ?pw (user_PasswordHash m)"
    using assms(1) h m(3) by (auto simp: auth_laws_def)
  have mem: "m \<in> set (users (st_db ?st))" by (simp add: d)
  have "TrimSpace ?name = ?name" using load_wf [OF assms(7)] by (simp add: wf_config_def trim_ok_def)
  with m(1) sto have name: "TrimSpace ?name = user_Username m" "utf8_valid (user_Username m)" by (simp_all add: storable_def)
  have "permissions_of granted (st_policies st) (user_ID m) (user_RoleCode m) = [PermissionDashboardView]"
    using seeded_grants [OF cb assms(3)] sup assms(4,5) r by (intro dashboard_permissions) simp_all
  with Login_ok [OF assms(1) _ inv mem m(2) name _ pw assms(12-14), where now = now] assms(6) sup r
  obtain access st' where l: "Login s now rnd ?name ?pw ?st = ((Some (access, t), True, None), st')"
    and adm: "admits_as s now access m [PermissionDashboardView]" by auto
  have b: "bind_login body = (if 8 \<le> rune_count ?pw \<and> rune_count ?pw \<le> 72 then Some (?name, ?pw) else None)"
    using name(2) m(1) unfolding assms(15) by (intro bind_login_json assms(9) n) simp
  have "if 8 \<le> rune_count ?pw \<and> rune_count ?pw \<le> 72
       then \<exists>access st'. LoginHandler s cookieSecure now rnd body ?st
              = ((Success (Some (LoginData access)), [setRefreshCookie s cookieSecure t]), st')
            \<and> admits_as s now access m [PermissionDashboardView]
       else LoginHandler s cookieSecure now rnd body ?st = ((Error 400 40000 ''invalid request'', []), ?st)
            \<and> (\<forall>other name. bind_login other \<noteq> Some (name, ?pw))"
    using b l adm bind_login_counts by (auto simp: LoginHandler_def)
  moreover have "snd (createBootstrapUser io' (HashPassword s) later cfg d) = d"
    by (rule createBootstrapUser_again) (simp add: d m(1))
  ultimately show ?thesis using d m(1) r n by (intro exI [of _ m]) simp
qed

definition toy_config :: Config where
  "toy_config = \<lparr>cfg_Environment = ''test'', cfg_HTTPAddress = '':80'', cfg_DatabaseURL = ''d'',
     cfg_DatabaseConnectTimeout = 1, cfg_OIDCDiscoveryTimeout = 1,
     cfg_JWT = \<lparr>cfg_Secret = replicate 32 CHR ''s'', cfg_Issuer = ''i'', cfg_Audience = ''a'', cfg_AccessTTL = 1, cfg_RefreshTTL = 1\<rparr>,
     cfg_Redis = \<lparr>cfg_RedisAddress = ''r'', cfg_RedisPassword = [], cfg_RedisDB = 0\<rparr>, cfg_CookieSecure = True,
     cfg_BootstrapUsername = ''ada'', cfg_BootstrapPassword = ''lovelace'', cfg_BootstrapRole = ''admin''\<rparr>"

lemma toy_config_ok: "wf_config toy_config"
proof -
  have "TrimSpace ''test'' = ''test''" "TrimSpace '':80'' = '':80''" "TrimSpace ''d'' = ''d''" "TrimSpace ''i'' = ''i''"
    "TrimSpace ''a'' = ''a''" "TrimSpace ''r'' = ''r''" "TrimSpace ''ada'' = ''ada''" "TrimSpace ''admin'' = ''admin''"
    "SplitHostPort '':80'' \<noteq> None" by code_simp+
  then show ?thesis by (simp add: wf_config_def toy_config_def trim_ok_def duration_ok_def)
qed

theorem bootstrap_admin_can_log_in_witness:
  "\<exists>d m access st'. createBootstrapUser (\<lambda>_. None) (HashPassword toy_service) 0 toy_config empty_db = (Inr (), d)
    \<and> users d = [m] \<and> user_RoleCode m = ''admin''
    \<and> LoginHandler toy_service True 5 (Inr ''one'') (login_json ''ada'' ''lovelace'') (toy_start\<lparr>st_db := d\<rparr>)
        = ((Success (Some (LoginData access)), [setRefreshCookie toy_service True (RawURLEncode (fill_bytes 32 ''one''))]), st')
    \<and> admits_as toy_service 5 access m [PermissionDashboardView]"
proof -
  obtain d where d: "createBootstrapUser (\<lambda>_. None) (HashPassword toy_service) 0 toy_config empty_db = (Inr (), d)"
  proof -
    have "IsSupportedRole ''admin''" unfolding IsSupportedRole_def by code_simp
    moreover have "\<exists>d. CreateBootstrapUser (\<lambda>_. None) 0 ''ada'' ''#lovelace'' ''admin'' empty_db = (Inr (), d)"
      by (rule exI, code_simp)
    ultimately show ?thesis using that by (auto simp: createBootstrapUser_def toy_config_def toy_service_def)
  qed
  have n: "cfg_BootstrapUsername toy_config = ''ada''" "cfg_BootstrapPassword toy_config = ''lovelace''"
    "cfg_BootstrapRole toy_config = ''admin''" by (simp_all add: toy_config_def)
  have none: "users empty_db = []" by (simp add: empty_db_def)
  have pw: "utf8_valid (cfg_BootstrapPassword toy_config)" "rune_count (cfg_BootstrapPassword toy_config) = 8"
    unfolding n by code_simp+
  have "\<exists>m. users d = users (st_db toy_start) @ [m] \<and> user_Username m = cfg_BootstrapUsername toy_config
    \<and> 3 \<le> rune_count (user_Username m) \<and> rune_count (user_Username m) \<le> 50 \<and> user_RoleCode m = cfg_BootstrapRole toy_config
    \<and> (if 8 \<le> rune_count (cfg_BootstrapPassword toy_config) \<and> rune_count (cfg_BootstrapPassword toy_config) \<le> 72
       then \<exists>access st'. LoginHandler toy_service True 5 (Inr ''one'') (login_json ''ada'' ''lovelace'') (toy_start\<lparr>st_db := d\<rparr>)
              = ((Success (Some (LoginData access)), [setRefreshCookie toy_service True (RawURLEncode (fill_bytes 32 ''one''))]), st')
            \<and> admits_as toy_service 5 access m [PermissionDashboardView]
       else LoginHandler toy_service True 5 (Inr ''one'') (login_json ''ada'' ''lovelace'') (toy_start\<lparr>st_db := d\<rparr>)
              = ((Error 400 40000 ''invalid request'', []), toy_start\<lparr>st_db := d\<rparr>)
            \<and> (\<forall>other name. bind_login other \<noteq> Some (name, cfg_BootstrapPassword toy_config)))
    \<and> snd (createBootstrapUser (\<lambda>_. None) (HashPassword toy_service) 0 toy_config d) = d"
    by (intro bootstrap_admin_can_log_in [OF toy_service_ok _ _ _ _ _ load_environment_of [OF toy_config_ok], where before = "(\<lambda>_. [], \<lambda>_. [])" and seeded = toy_policies] pw(1))
      (use d in \<open>simp_all add: n none toy_seed toy_policies_ok newRefreshToken_def\<close>)
  with d pw(2) show ?thesis by (simp add: n none) blast
qed

end
