(* ===== verification/Startup.thy ===== *)
theory Startup imports Config Jwt begin

text \<open>
  Starting and stopping: the connections of the API (\<open>cmd/api/instances.go\<close>,
  \<open>internal/database/connect\<close>, \<open>Connect\<close> of \<open>internal/middleware/redis\<close>, \<open>internal/rpc/transport\<close>),
  the enforcer (\<open>NewEnforcer\<close> of \<open>internal/middleware/casbin\<close>), provider discovery (\<open>NewOIDCAuth\<close>),
  the upstream service (\<open>Serve\<close>), the \<open>main\<close> of each program, the two health checks and the gateway.
\<close>

section \<open>What is opened and closed\<close>

datatype handle = DatabasePool | RedisClient | UpstreamConnection

text \<open>Handles in the order in which a start opens them.\<close>

fun handle_rank :: "handle \<Rightarrow> nat" where
  "handle_rank DatabasePool = 0"
| "handle_rank RedisClient = 1"
| "handle_rank UpstreamConnection = 2"

instantiation handle :: linorder
begin

definition less_eq_handle :: "handle \<Rightarrow> handle \<Rightarrow> bool" where
  "less_eq_handle h k \<longleftrightarrow> handle_rank h \<le> handle_rank k"

definition less_handle :: "handle \<Rightarrow> handle \<Rightarrow> bool" where
  "less_handle h k \<longleftrightarrow> handle_rank h < handle_rank k"

instance
proof
  fix h k :: handle
  show "h \<le> k \<Longrightarrow> k \<le> h \<Longrightarrow> h = k" by (cases h; cases k) (simp_all add: less_eq_handle_def)
qed (auto simp: less_eq_handle_def less_handle_def)

end

datatype event = Opened handle | Closed handle

text \<open>What is open after some events; none when a handle is opened twice or closed without being open.\<close>

fun open_after :: "event list \<Rightarrow> handle set \<Rightarrow> handle set option" where
  "open_after [] H = Some H"
| "open_after (Opened h # es) H = (if h \<in> H then None else open_after es (insert h H))"
| "open_after (Closed h # es) H = (if h \<in> H then open_after es (H - {h}) else None)"

lemma open_after_append: "open_after (es @ fs) H = Option.bind (open_after es H) (open_after fs)"
  by (induction es H rule: open_after.induct) auto

text \<open>The process: its events, and the tables and policies that starting changes.\<close>

record 'e process =
  events :: "event list"
  pr_db :: db
  pr_policies :: 'e

definition happens :: "event \<Rightarrow> 'e process \<Rightarrow> 'e process" where
  "happens e w = w\<lparr>events := events w @ [e]\<rparr>"

section \<open>Transport credentials\<close>

record tls_config =
  tc_MinVersion :: nat
  tc_RootCAs :: bytes
  tc_Certificate :: bytes
  tc_ServerName :: bytes
  tc_ClientCAs :: "bytes option"
  tc_RequireClientCert :: bool

datatype transport = Plaintext | MutualTLS tls_config

text \<open>
  Files, certificates and services as the programs find them. The certificates of a pool are the
  text they were read from, a key pair whatever the library makes of its two files. \<open>gorm.Open\<close> opens
  a pool and pings it; when it fails it may have left its pool open, which only it could close.
\<close>

record 'e outside =
  ReadFile :: "bytes \<Rightarrow> go_error + bytes"
  AppendCertsFromPEM :: "bytes \<Rightarrow> bool"
  LoadX509KeyPair :: "bytes \<Rightarrow> bytes \<Rightarrow> go_error + bytes"
  gorm_Open :: "bytes \<Rightarrow> go_error \<times> bool + unit"
  sql_DB :: "go_error option"
  PingDatabase :: "time \<Rightarrow> go_error option"
  PingRedis :: "RedisConfig \<Rightarrow> time \<Rightarrow> go_error option"
  userFaults :: user_faults
  bcryptHash :: "bytes \<Rightarrow> go_error + bytes"
  startTime :: time
  NewAdapterByDB :: "go_error option"
  NewModelFromString :: "go_error option"
  NewSyncedEnforcer :: "bool \<Rightarrow> go_error option"
  casbin_of :: "'e casbin"
  grpc_NewClient :: "bytes \<Rightarrow> transport \<Rightarrow> go_error option"
  GetProviderRPC :: "bytes \<Rightarrow> go_error + ProviderResponse option"
  hostParser :: host_parser
  closeError :: "handle \<Rightarrow> go_error option"

definition loadTLS :: "'e outside \<Rightarrow> GRPCTLSConfig \<Rightarrow> go_error + tls_config" where
  "loadTLS out cfg =
     (case ReadFile out (tls_CAFile cfg) of
        Inl e \<Rightarrow> Inl (Wrap ''read gRPC CA'' e)
      | Inr ca \<Rightarrow>
          if \<not> AppendCertsFromPEM out ca then Inl (Other ''gRPC CA file contains no certificates'')
          else (case LoadX509KeyPair out (tls_CertFile cfg) (tls_KeyFile cfg) of
              Inl e \<Rightarrow> Inl (Wrap ''load gRPC certificate'' e)
            | Inr certificate \<Rightarrow> Inr \<lparr>tc_MinVersion = 0x0303, tc_RootCAs = ca, tc_Certificate = certificate,
                tc_ServerName = [], tc_ClientCAs = None, tc_RequireClientCert = False\<rparr>))"

definition ClientCredentials :: "'e outside \<Rightarrow> GRPCTLSConfig \<Rightarrow> go_error + transport" where
  "ClientCredentials out cfg =
     (if cfg = plaintext then Inr Plaintext
      else case loadTLS out cfg of
        Inl e \<Rightarrow> Inl e
      | Inr tls \<Rightarrow> Inr (MutualTLS (tls\<lparr>tc_ServerName := tls_ServerName cfg\<rparr>)))"

text \<open>A server without credentials (nil) speaks plain text.\<close>

definition ServerCredentials :: "'e outside \<Rightarrow> GRPCTLSConfig \<Rightarrow> go_error + tls_config option" where
  "ServerCredentials out cfg =
     (if cfg = plaintext then Inr None
      else case loadTLS out cfg of
        Inl e \<Rightarrow> Inl e
      | Inr tls \<Rightarrow> Inr (Some (tls\<lparr>tc_ClientCAs := Some (tc_RootCAs tls), tc_RequireClientCert := True\<rparr>)))"

section \<open>Connections\<close>

definition db_Connect :: "'e outside \<Rightarrow> time \<Rightarrow> bytes \<Rightarrow> 'e process \<Rightarrow> (go_error + unit) \<times> 'e process" where
  "db_Connect out timeout url w =
     (case gorm_Open out url of
        Inl (e, pooled) \<Rightarrow> (Inl (Wrap ''open database'' e), if pooled then happens (Opened DatabasePool) w else w)
      | Inr _ \<Rightarrow>
          let w = happens (Opened DatabasePool) w in
          (case sql_DB out of
             Some e \<Rightarrow> (Inl (Wrap ''get database handle'' e), w)
           | None \<Rightarrow> (case PingDatabase out timeout of
                 Some e \<Rightarrow> (Inl (Wrap ''ping database'' e), happens (Closed DatabasePool) w)
               | None \<Rightarrow> (Inr (), w))))"

definition redis_Connect :: "'e outside \<Rightarrow> time \<Rightarrow> RedisConfig \<Rightarrow> 'e process \<Rightarrow> (go_error + unit) \<times> 'e process" where
  "redis_Connect out timeout cfg w =
     (let w = happens (Opened RedisClient) w in
      case PingRedis out cfg timeout of
        Some e \<Rightarrow> (Inl (Wrap ''ping redis'' e), happens (Closed RedisClient) w)
      | None \<Rightarrow> (Inr (), w))"

section \<open>The enforcer\<close>

text \<open>The enforcer is made with an adapter, which keeps the policies in the database, or without one.\<close>

definition newEnforcer :: "'e outside \<Rightarrow> bool \<Rightarrow> go_error + unit" where
  "newEnforcer out adapter =
     (case NewModelFromString out of
        Some e \<Rightarrow> Inl (Wrap ''load embedded Casbin model'' e)
      | None \<Rightarrow> (case NewSyncedEnforcer out adapter of
            Some e \<Rightarrow> Inl (Wrap ''create Casbin enforcer'' e)
          | None \<Rightarrow> Inr ()))"

definition NewEnforcer :: "'e outside \<Rightarrow> 'e process \<Rightarrow> (go_error + unit) \<times> 'e process" where
  "NewEnforcer out w =
     (case NewAdapterByDB out of
        Some e \<Rightarrow> (Inl (Wrap ''create Casbin GORM adapter'' e), w)
      | None \<Rightarrow> (case newEnforcer out True of
            Inl e \<Rightarrow> (Inl e, w)
          | Inr _ \<Rightarrow> (let (r, e) = SeedDefaultPolicies (casbin_of out) (pr_policies w) in (r, w\<lparr>pr_policies := e\<rparr>))))"

text \<open>The enforcer of the tests starts with the policies \<open>e\<close> of an empty one and keeps them in memory.\<close>

definition NewMemoryEnforcer :: "'e outside \<Rightarrow> 'e \<Rightarrow> (go_error + unit) \<times> 'e" where
  "NewMemoryEnforcer out e =
     (case newEnforcer out False of
        Inl err \<Rightarrow> (Inl err, e)
      | Inr _ \<Rightarrow> SeedDefaultPolicies (casbin_of out) e)"

definition NewJWTManager :: "JWTConfig \<Rightarrow> JWTManager" where
  "NewJWTManager c = \<lparr>jm_secret = cfg_Secret c, jm_issuer = cfg_Issuer c, jm_audience = cfg_Audience c,
     jm_ttl = cfg_AccessTTL c, RefreshTTL = cfg_RefreshTTL c\<rparr>"

section \<open>The instances of the API\<close>

record instances =
  sqlDatabase :: bool
  redisConnected :: bool
  upstreamConnection :: bool
  manager :: "JWTManager option"
  providers :: "(bytes \<times> OIDCAuth) list"

definition no_instances :: instances where
  "no_instances = \<lparr>sqlDatabase = False, redisConnected = False, upstreamConnection = False, manager = None, providers = []\<rparr>"

text \<open>\<open>Close\<close>: every handle is closed, whatever the others report; the errors are joined.\<close>

definition close_handle :: "'e outside \<Rightarrow> bool \<Rightarrow> handle \<Rightarrow> bytes \<Rightarrow> go_error list \<times> 'e process \<Rightarrow> go_error list \<times> 'e process" where
  "close_handle out present h name r =
     (if \<not> present then r
      else (fst r @ (case closeError out h of None \<Rightarrow> [] | Some e \<Rightarrow> [Wrap name e]), happens (Closed h) (snd r)))"

definition Close :: "'e outside \<Rightarrow> instances \<Rightarrow> 'e process \<Rightarrow> go_error list \<times> 'e process" where
  "Close out i w =
     close_handle out (sqlDatabase i) DatabasePool ''close database''
       (close_handle out (redisConnected i) RedisClient ''close redis''
         (close_handle out (upstreamConnection i) UpstreamConnection ''close upstream connection'' ([], w)))"

text \<open>The steps of \<open>newApplicationInstances\<close>, on the instances made so far.\<close>

type_synonym 'e starting = "instances \<times> 'e process"

definition connect_database :: "'e outside \<Rightarrow> Config \<Rightarrow> 'e starting \<Rightarrow> (go_error + unit) \<times> 'e starting" where
  "connect_database out cfg = (\<lambda>(i, w).
     case db_Connect out (cfg_DatabaseConnectTimeout cfg) (cfg_DatabaseURL cfg) w of
       (Inl e, w) \<Rightarrow> (Inl (Wrap ''connect database'' e), (i, w))
     | (Inr _, w) \<Rightarrow> (Inr (), (i\<lparr>sqlDatabase := True\<rparr>, w)))"

definition connect_redis :: "'e outside \<Rightarrow> Config \<Rightarrow> 'e starting \<Rightarrow> (go_error + unit) \<times> 'e starting" where
  "connect_redis out cfg = (\<lambda>(i, w).
     case redis_Connect out (cfg_DatabaseConnectTimeout cfg) (cfg_Redis cfg) w of
       (Inl e, w) \<Rightarrow> (Inl (Wrap ''connect redis'' e), (i, w))
     | (Inr _, w) \<Rightarrow> (Inr (), (i\<lparr>redisConnected := True\<rparr>, w)))"

definition bootstrap :: "'e outside \<Rightarrow> Config \<Rightarrow> 'e starting \<Rightarrow> (go_error + unit) \<times> 'e starting" where
  "bootstrap out cfg = (\<lambda>(i, w).
     case createBootstrapUser (userFaults out) (bcryptHash out) (startTime out) cfg (pr_db w) of
       (Inl e, d) \<Rightarrow> (Inl (Wrap ''create bootstrap user'' e), (i, w\<lparr>pr_db := d\<rparr>))
     | (Inr _, d) \<Rightarrow> (Inr (), (i, w\<lparr>pr_db := d\<rparr>)))"

definition authorization :: "'e outside \<Rightarrow> Config \<Rightarrow> 'e starting \<Rightarrow> (go_error + unit) \<times> 'e starting" where
  "authorization out cfg = (\<lambda>(i, w).
     case NewEnforcer out w of
       (Inl e, w) \<Rightarrow> (Inl (Wrap ''initialize Casbin authorization'' e), (i, w))
     | (Inr _, w) \<Rightarrow> (Inr (), (i\<lparr>manager := Some (NewJWTManager (cfg_JWT cfg))\<rparr>, w)))"

definition connect_upstream :: "'e outside \<Rightarrow> UpstreamClientConfig \<Rightarrow> 'e starting \<Rightarrow> (go_error + unit) \<times> 'e starting" where
  "connect_upstream out cfg = (\<lambda>(i, w).
     case ClientCredentials out (uc_TLS cfg) of
       Inl e \<Rightarrow> (Inl (Wrap ''initialize upstream transport'' e), (i, w))
     | Inr credentials \<Rightarrow> (case grpc_NewClient out (uc_Target cfg) credentials of
           Some e \<Rightarrow> (Inl (Wrap ''create upstream gRPC client'' e), (i, w))
         | None \<Rightarrow> (Inr (), (i\<lparr>upstreamConnection := True\<rparr>, happens (Opened UpstreamConnection) w))))"

definition discover :: "'e outside \<Rightarrow> OIDCConfig \<Rightarrow> 'e starting \<Rightarrow> (go_error + unit) \<times> 'e starting" where
  "discover out cfg = (\<lambda>(i, w).
     if \<not> oidc_enabled cfg then (Inr (), (i, w))
     else case NewRemoteOIDCAuth (hostParser out) cfg (Some (GetProviderRPC out)) OaiAuthURLParams OaiScopes of
       Inl e \<Rightarrow> (Inl (Wrap ''initialize OIDC auth for oai'' e), (i, w))
     | Inr auth \<Rightarrow> (Inr (), (i\<lparr>providers := [(''oai'', auth)]\<rparr>, w)))"

definition start_steps :: "'e outside \<Rightarrow> apiConfiguration \<Rightarrow> 'e starting \<Rightarrow> (go_error + unit) \<times> 'e starting" where
  "start_steps out cfg s =
     if_ok (connect_database out (api_runtime cfg) s) (\<lambda>_ s.
     if_ok (connect_redis out (api_runtime cfg) s) (\<lambda>_ s.
     if_ok (bootstrap out (api_runtime cfg) s) (\<lambda>_ s.
     if_ok (authorization out (api_runtime cfg) s) (\<lambda>_ s.
     if_ok (connect_upstream out (api_upstream cfg) s) (\<lambda>_ s.
     discover out (api_oai cfg) s)))))"

definition newApplicationInstances :: "'e outside \<Rightarrow> apiConfiguration \<Rightarrow> 'e process \<Rightarrow> (go_error + instances) \<times> 'e process" where
  "newApplicationInstances out cfg w =
     (case start_steps out cfg (no_instances, w) of
        (Inl e, (i, w)) \<Rightarrow> (Inl e, snd (Close out i w))
      | (Inr _, (i, w)) \<Rightarrow> (Inr i, w))"

section \<open>Provider discovery\<close>

text \<open>
  \<open>oidc.NewProvider\<close> fetches the metadata of an issuer, and \<open>verifier\<close> is the check of an ID token for
  a client. The claims are read as the document they are.
\<close>

definition NewOIDCAuth ::
  "OIDCConfig \<Rightarrow> (bytes \<Rightarrow> go_error + OidcProvider) \<Rightarrow> (OidcProvider \<Rightarrow> bytes \<Rightarrow> bytes \<Rightarrow> go_error + IDToken)
    \<Rightarrow> (bytes \<times> bytes) list \<Rightarrow> bytes list \<Rightarrow> go_error + OIDCAuth" where
  "NewOIDCAuth cfg newProvider verifier params scopes =
     (case newProvider (oc_Issuer cfg) of
        Inl e \<Rightarrow> Inl e
      | Inr p \<Rightarrow> (case document (op_RawClaims p) of
            None \<Rightarrow> Inl (Other ''oidc: claims not set'')
          | Some rawClaims \<Rightarrow>
              (case buildOAuthConfig cfg (op_AuthURL p) (op_TokenURL p) (op_DeviceAuthURL p) rawClaims scopes of
                 Inl e \<Rightarrow> Inl e
               | Inr config \<Rightarrow> Inr \<lparr>Provider = Some p, OauthConfig = Some config, AuthURLParams = params,
                   IDVerifier = Some (verifier p (oc_ClientID cfg))\<rparr>)))"

section \<open>The upstream service\<close>

datatype serving = SERVING | NOT_SERVING

text \<open>The status of the service, by its name; the empty name is the process itself.\<close>

definition serving_status :: "server \<Rightarrow> (bytes \<times> serving) list" where
  "serving_status auths =
     [('''', SERVING),
      (''upstream.UpstreamService'', if provider_config auths ''oai'' \<noteq> None then SERVING else NOT_SERVING)]"

definition ErrServerStopped :: go_error where
  "ErrServerStopped = Other ''grpc: the server has been stopped''"

text \<open>What \<open>Serve\<close> returns for the error of \<open>grpcServer.Serve\<close>: to have been stopped is no error.\<close>

definition serve_error :: "go_error option \<Rightarrow> go_error option" where
  "serve_error err = (case err of
     None \<Rightarrow> None
   | Some e \<Rightarrow> if errors_Is e ErrServerStopped then None else Some e)"

text \<open>
  \<open>Serve\<close>: the error it returns and, once it listens, the credentials and statuses it serves with.
  \<open>run\<close> is \<open>grpcServer.Serve\<close>, which returns when the server is stopped; how the signal stops it is
  the step relation of \<open>Shutdown\<close>.
\<close>

definition Serve ::
  "'e outside \<Rightarrow> (bytes \<Rightarrow> go_error option) \<Rightarrow> (tls_config option \<Rightarrow> (bytes \<times> serving) list \<Rightarrow> go_error option)
    \<Rightarrow> UpstreamServerConfig \<Rightarrow> server \<Rightarrow> go_error option" where
  "Serve out listen run cfg auths =
     (case ServerCredentials out (us_TLS cfg) of
        Inl e \<Rightarrow> Some e
      | Inr credentials \<Rightarrow> (case listen (us_Address cfg) of
            Some e \<Rightarrow> Some e
          | None \<Rightarrow> serve_error (run credentials (serving_status auths))))"

section \<open>The programs\<close>

text \<open>
  \<open>newLogger\<close> checks that the log file can be written before it is used; \<open>makeParent\<close> creates the
  directory of a file, \<open>probe\<close> opens it for appending and closes it again.
\<close>

record log_files =
  makeParent :: "bytes \<Rightarrow> go_error option"
  openProbe :: "bytes \<Rightarrow> go_error option"
  closeProbe :: "bytes \<Rightarrow> go_error option"

text \<open>The rotation of the file, which \<open>lumberjack\<close> does, and the level of the handler.\<close>

record log_settings =
  lj_Filename :: bytes
  lj_MaxSize :: nat
  lj_MaxBackups :: nat
  lj_MaxAge :: nat
  lj_Compress :: bool
  lj_Level :: bytes

definition DefaultFilename :: bytes where
  "DefaultFilename = ''./logs/backend/app.log''"

definition newLogger :: "log_files \<Rightarrow> bytes \<Rightarrow> bool \<Rightarrow> go_error + log_settings" where
  "newLogger fs filename writers =
     (let filename = TrimSpace filename; filename = (if filename = [] then DefaultFilename else filename) in
      if \<not> writers then Inl (Other ''logger output writers must not be nil'')
      else case makeParent fs filename of
        Some e \<Rightarrow> Inl (Wrap ''create log directory'' e)
      | None \<Rightarrow> (case openProbe fs filename of
            Some e \<Rightarrow> Inl (Wrap ''open log file'' e)
          | None \<Rightarrow> (case closeProbe fs filename of
                Some e \<Rightarrow> Inl (Wrap ''close log file probe'' e)
              | None \<Rightarrow> Inr \<lparr>lj_Filename = filename, lj_MaxSize = 100, lj_MaxBackups = 10, lj_MaxAge = 30, lj_Compress = True,
                  lj_Level = ''INFO''\<rparr>)))"

definition NewLogger :: "log_files \<Rightarrow> environment \<Rightarrow> go_error + log_settings" where
  "NewLogger fs lookup = newLogger fs (valueOrDefault lookup ''LOG_FILE'' []) True"

text \<open>
  The API: its exit code, and the process when it ends. \<open>listen\<close> is the server of the framework, which
  runs until it fails or the process is ended by a signal: \<open>main\<close> handles none, so that no deferred
  call runs then and there is no exit code.
\<close>

datatype listening = Returned "go_error option" | Killed

definition run_api ::
  "'e outside \<Rightarrow> log_files \<Rightarrow> fractions \<Rightarrow> (bytes \<Rightarrow> bytes) \<Rightarrow> environment \<Rightarrow> (bytes \<Rightarrow> listening) \<Rightarrow> 'e process
    \<Rightarrow> nat option \<times> 'e process" where
  "run_api out fs fr unicode lookup listen w =
     (case NewLogger fs lookup of
        Inl _ \<Rightarrow> (Some 1, w)
      | Inr _ \<Rightarrow> (case loadAPIConfiguration fr (hostParser out) unicode lookup of
            Inl _ \<Rightarrow> (Some 1, w)
          | Inr configuration \<Rightarrow> (case newApplicationInstances out configuration w of
                (Inl _, w) \<Rightarrow> (Some 1, w)
              | (Inr i, w) \<Rightarrow> (case listen (cfg_HTTPAddress (api_runtime configuration)) of
                    Killed \<Rightarrow> (None, w)
                  | Returned err \<Rightarrow> (Some (if err \<noteq> None then 1 else 0), snd (Close out i w))))))"

text \<open>The upstream service; \<open>discovery\<close> is \<open>oidc.NewProvider\<close> with the verifier it makes.\<close>

definition run_upstream ::
  "'e outside \<Rightarrow> log_files \<Rightarrow> fractions \<Rightarrow> (bytes \<Rightarrow> bytes) \<Rightarrow> environment
    \<Rightarrow> (time \<Rightarrow> bytes \<Rightarrow> go_error + OidcProvider) \<Rightarrow> (OidcProvider \<Rightarrow> bytes \<Rightarrow> bytes \<Rightarrow> go_error + IDToken)
    \<Rightarrow> (bytes \<Rightarrow> go_error option) \<Rightarrow> (tls_config option \<Rightarrow> (bytes \<times> serving) list \<Rightarrow> go_error option) \<Rightarrow> nat" where
  "run_upstream out fs fr unicode lookup discovery verifier listen run =
     (case NewLogger fs lookup of
        Inl _ \<Rightarrow> 1
      | Inr _ \<Rightarrow> (case loadUpstreamServer fr lookup of
            Inl _ \<Rightarrow> 1
          | Inr cfg \<Rightarrow> (case loadOidcConfig (hostParser out) unicode ''oai'' lookup of
                Inl _ \<Rightarrow> 1
              | Inr oaiConfig \<Rightarrow>
                  (case (if oidc_enabled oaiConfig
                         then map_sum id (\<lambda>auth. [(''oai'', auth)])
                           (NewOIDCAuth oaiConfig (discovery (us_DiscoveryTimeout cfg)) verifier OaiAuthURLParams OaiScopes)
                         else Inr []) of
                     Inl _ \<Rightarrow> 1
                   | Inr auths \<Rightarrow> if Serve out listen run cfg auths \<noteq> None then 1 else 0))))"

text \<open>The health check of the upstream service; \<open>status\<close> is what its health service answers.\<close>

definition check_grpc ::
  "'e outside \<Rightarrow> fractions \<Rightarrow> environment \<Rightarrow> (transport \<Rightarrow> go_error + serving) \<Rightarrow> go_error option" where
  "check_grpc out fr lookup status =
     (case loadUpstreamClient fr lookup of
        Inl e \<Rightarrow> Some e
      | Inr cfg \<Rightarrow>
          let cert = valueOrDefault lookup ''UPSTREAM_HEALTHCHECK_TLS_CERT_FILE'' [];
              tls = (if cert \<noteq> [] then (uc_TLS cfg)\<lparr>tls_CertFile := cert,
                         tls_KeyFile := valueOrDefault lookup ''UPSTREAM_HEALTHCHECK_TLS_KEY_FILE'' []\<rparr>
                     else uc_TLS cfg) in
          (case ClientCredentials out tls of
             Inl e \<Rightarrow> Some e
           | Inr credentials \<Rightarrow> (case grpc_NewClient out (uc_Target cfg) credentials of
                 Some e \<Rightarrow> Some e
               | None \<Rightarrow> (case status credentials of
                     Inl e \<Rightarrow> Some e
                   | Inr st \<Rightarrow> if st \<noteq> SERVING then Some (Other ''upstream is not serving'') else None))))"

text \<open>The health check of an HTTP service; \<open>get\<close> is the status of an answer.\<close>

definition defaultHealthcheckURL :: bytes where
  "defaultHealthcheckURL = ''http://127.0.0.1:8080/health/ready''"

definition check_http :: "environment \<Rightarrow> (bytes \<Rightarrow> go_error + nat) \<Rightarrow> nat" where
  "check_http lookup get =
     (let target = valueOrDefault lookup ''HEALTHCHECK_URL'' [];
          target = (if target = [] then defaultHealthcheckURL else target) in
      case get target of Inl _ \<Rightarrow> 1 | Inr st \<Rightarrow> if st \<noteq> 200 then 1 else 0)"

section \<open>The gateway\<close>

text \<open>
  What the gateway does with a request: it answers itself, or passes it on to the API. The router of
  the framework finds a route, or none (404), or redirects to the path with or without a final slash.
\<close>

datatype gateway_action = Answer nat "(bytes \<times> bytes) list" | Moved nat | Proxy

definition gateway_routes :: "((bytes \<times> bytes) \<times> gateway_action) list" where
  "gateway_routes = [((''GET'', ''/health/live''), Answer 200 [(''status'', ''ok'')]), ((''GET'', ''/ping''), Answer 200 [(''message'', ''pong'')])]"

definition newGatewayRouter ::
  "((bytes \<times> bytes) list \<Rightarrow> bytes \<Rightarrow> bytes \<Rightarrow> nat + bytes \<times> bytes) \<Rightarrow> bytes \<Rightarrow> bytes \<Rightarrow> gateway_action" where
  "newGatewayRouter gin method path =
     (case gin (map fst gateway_routes) method path of
        Inl st \<Rightarrow> if st = 404 then Proxy else Moved st
      | Inr r \<Rightarrow> (case map_of gateway_routes r of None \<Rightarrow> Proxy | Some a \<Rightarrow> a))"

definition ErrorHandler :: "nat \<times> (bytes \<times> bytes) list \<times> bytes" where
  "ErrorHandler = (502, [(''Content-Type'', ''application/json; charset=utf-8'')],
     ''{\"code\":50200,\"data\":null,\"message\":\"upstream unavailable\"}'')"

definition run_gateway :: "fractions \<Rightarrow> host_parser \<Rightarrow> environment \<Rightarrow> (bytes \<Rightarrow> URL \<times> deviceFlowTransport \<Rightarrow> go_error option) \<Rightarrow> nat" where
  "run_gateway fr hosts lookup listen =
     (case loadGatewayConfig fr lookup of
        Inl _ \<Rightarrow> 1
      | Inr configuration \<Rightarrow> (case newProxy hosts configuration of
            Inl _ \<Rightarrow> 1
          | Inr proxy \<Rightarrow> if listen (gw_address configuration) proxy \<noteq> None then 1 else 0))"

end
