(* ===== verification/StartupProps.thy ===== *)
theory StartupProps imports Startup ConfigProps begin

text \<open>
  The properties of starting and stopping: what the API leaves open when it ends, and that both
  programs derive the same client of the provider.
\<close>

section \<open>Handles\<close>

text \<open>The instances hold exactly what is open.\<close>

definition held :: "instances \<Rightarrow> handle set" where
  "held i = (if sqlDatabase i then {DatabasePool} else {}) \<union> (if redisConnected i then {RedisClient} else {})
     \<union> (if upstreamConnection i then {UpstreamConnection} else {})"

definition consistent :: "'e starting \<Rightarrow> bool" where
  "consistent s \<longleftrightarrow> open_after (events (snd s)) {} = Some (held (fst s))"

lemma held_simps [simp]: "held (i\<lparr>manager := m\<rparr>) = held i" "held (i\<lparr>providers := p\<rparr>) = held i"
  by (simp_all add: held_def)

lemma happens_simps [simp]:
  "events (happens e w) = events w @ [e]" "pr_db (happens e w) = pr_db w" "pr_policies (happens e w) = pr_policies w"
  by (simp_all add: happens_def)

lemma NewEnforcer_events: "NewEnforcer out w = (r, w') \<Longrightarrow> events w' = events w \<and> pr_db w' = pr_db w"
  by (auto simp: NewEnforcer_def Let_def split: option.splits sum.splits prod.splits)

lemma Close_closes:
  assumes "consistent (i, w)"
  shows "open_after (events (snd (Close out i w))) {} = Some {}"
  using assms
  by (cases "sqlDatabase i"; cases "redisConnected i"; cases "upstreamConnection i")
    (auto simp: consistent_def held_def Close_def close_handle_def open_after_append)

text \<open>\<open>Close\<close> closes what is held once each, in the reverse of the order of a start, whatever fails.\<close>

lemma Close_order: "events (snd (Close out i w)) = events w @ map Closed (rev (sorted_list_of_set (held i)))"
  by (cases "sqlDatabase i"; cases "redisConnected i"; cases "upstreamConnection i")
    (simp_all add: held_def Close_def close_handle_def less_eq_handle_def)

text \<open>\<open>db_Connect\<close> gives up an open pool in two places: \<open>gorm.Open\<close> fails after it has opened it, or the
  handle for closing it cannot be had.\<close>

definition pool_left_open :: "'e outside \<Rightarrow> Config \<Rightarrow> bool" where
  "pool_left_open out cfg \<longleftrightarrow>
     (case gorm_Open out (cfg_DatabaseURL cfg) of Inl (_, pooled) \<Rightarrow> pooled | Inr _ \<Rightarrow> sql_DB out \<noteq> None)"

lemma connect_database_leaks:
  assumes "pool_left_open out cfg" and "connect_database out cfg (i, w) = (r, s')"
  shows "(\<exists>e. r = Inl e) \<and> s' = (i, happens (Opened DatabasePool) w)"
  using assms by (auto simp: pool_left_open_def connect_database_def db_Connect_def Let_def split: sum.splits option.splits)

text \<open>Each step, done before its handle exists, keeps the instances consistent.\<close>

lemma connect_database_step:
  assumes "connect_database out cfg s = (r, s')" and "\<not> pool_left_open out cfg" and "consistent s" and "\<not> sqlDatabase (fst s)"
  shows "consistent s'" and "r = Inr () \<Longrightarrow> fst s' = (fst s)\<lparr>sqlDatabase := True\<rparr>"
    and "pr_db (snd s') = pr_db (snd s)" and "pr_policies (snd s') = pr_policies (snd s)"
  using assms by (cases s, cases s',
    auto simp: connect_database_def db_Connect_def Let_def consistent_def held_def open_after_append pool_left_open_def
      split: option.splits sum.splits if_splits)+

lemma connect_redis_step:
  assumes "connect_redis out cfg s = (r, s')" and "consistent s" and "\<not> redisConnected (fst s)"
  shows "consistent s'" and "r = Inr () \<Longrightarrow> fst s' = (fst s)\<lparr>redisConnected := True\<rparr>"
    and "pr_db (snd s') = pr_db (snd s)" and "pr_policies (snd s') = pr_policies (snd s)"
  using assms by (cases s, cases s',
    auto simp: connect_redis_def redis_Connect_def Let_def consistent_def held_def open_after_append split: option.splits if_splits)+

lemma bootstrap_step:
  assumes "bootstrap out cfg s = (r, s')"
  shows "fst s' = fst s" and "events (snd s') = events (snd s)" and "pr_policies (snd s') = pr_policies (snd s)"
    and "r = Inr () \<Longrightarrow> createBootstrapUser (userFaults out) (bcryptHash out) (startTime out) cfg (pr_db (snd s)) = (Inr (), pr_db (snd s'))"
  using assms by (cases s, cases s', auto simp: bootstrap_def split: sum.splits prod.splits)+

lemma NewEnforcer_seeds:
  "NewEnforcer out w = (Inr x, w') \<Longrightarrow> SeedDefaultPolicies (casbin_of out) (pr_policies w) = (Inr (), pr_policies w')"
  by (auto simp: NewEnforcer_def Let_def split: option.splits sum.splits prod.splits)

text \<open>However an enforcer was made, and whatever policies it found, a supported role may view the dashboard and
  nothing else.\<close>

lemma enforcers_agree:
  assumes "casbin_laws (casbin_of out) direct granted" and "role \<in> set supportedRoles"
  shows "NewEnforcer out w = (Inr x, w') \<Longrightarrow> granted (pr_policies w') (RoleSubject role) = [PermissionDashboardView]"
    and "NewMemoryEnforcer out e = (Inr y, e') \<Longrightarrow> granted e' (RoleSubject role) = [PermissionDashboardView]"
proof -
  have seeded: "granted e' (RoleSubject role) = [PermissionDashboardView]"
    if "SeedDefaultPolicies (casbin_of out) e = (Inr (), e')" for e e'
    using seed_roles_effect [OF assms(1) that [unfolded SeedDefaultPolicies_def]] assms(2) by simp
  show "granted (pr_policies w') (RoleSubject role) = [PermissionDashboardView]" if "NewEnforcer out w = (Inr x, w')"
    using seeded [OF NewEnforcer_seeds [OF that]] .
  show "granted e' (RoleSubject role) = [PermissionDashboardView]" if "NewMemoryEnforcer out e = (Inr y, e')"
    using that by (intro seeded [of e]) (auto simp: NewMemoryEnforcer_def split: sum.splits)
qed

lemma authorization_step:
  assumes "authorization out cfg s = (r, s')"
  shows "events (snd s') = events (snd s)" and "pr_db (snd s') = pr_db (snd s)" and "held (fst s') = held (fst s)"
    and "r = Inr () \<Longrightarrow> fst s' = (fst s)\<lparr>manager := Some (NewJWTManager (cfg_JWT cfg))\<rparr>
      \<and> SeedDefaultPolicies (casbin_of out) (pr_policies (snd s)) = (Inr (), pr_policies (snd s'))"
proof -
  obtain x w1 where e: "NewEnforcer out (snd s) = (x, w1)" by (metis prod.collapse)
  have a: "(r, s') = (case x of Inl e \<Rightarrow> (Inl (Wrap ''initialize Casbin authorization'' e), (fst s, w1))
      | Inr _ \<Rightarrow> (Inr (), ((fst s)\<lparr>manager := Some (NewJWTManager (cfg_JWT cfg))\<rparr>, w1)))"
    using assms e by (cases s; cases x) (auto simp: authorization_def)
  then have w1: "snd s' = w1" by (simp split: sum.splits)
  show "events (snd s') = events (snd s)" and "pr_db (snd s') = pr_db (snd s)" using NewEnforcer_events [OF e] w1 by simp_all
  show "held (fst s') = held (fst s)" using a by (simp split: sum.splits)
  assume "r = Inr ()"
  with a obtain y where x: "x = Inr y" and f: "fst s' = (fst s)\<lparr>manager := Some (NewJWTManager (cfg_JWT cfg))\<rparr>"
    by (cases x) simp_all
  show "fst s' = (fst s)\<lparr>manager := Some (NewJWTManager (cfg_JWT cfg))\<rparr>
      \<and> SeedDefaultPolicies (casbin_of out) (pr_policies (snd s)) = (Inr (), pr_policies (snd s'))"
    using f NewEnforcer_seeds [OF e [unfolded x]] w1 by simp
qed

lemma connect_upstream_step:
  assumes "connect_upstream out cfg s = (r, s')" and "consistent s" and "\<not> upstreamConnection (fst s)"
  shows "consistent s'" and "r = Inr () \<Longrightarrow> fst s' = (fst s)\<lparr>upstreamConnection := True\<rparr>"
    and "pr_db (snd s') = pr_db (snd s)" and "pr_policies (snd s') = pr_policies (snd s)"
  using assms by (cases s, cases s',
    auto simp: connect_upstream_def Let_def consistent_def held_def open_after_append split: option.splits if_splits sum.splits)+

lemma discover_step:
  assumes "discover out cfg s = (r, s')"
  shows "snd s' = snd s" and "held (fst s') = held (fst s)" and "manager (fst s') = manager (fst s)"
    and "sqlDatabase (fst s') = sqlDatabase (fst s)" and "redisConnected (fst s') = redisConnected (fst s)"
    and "upstreamConnection (fst s') = upstreamConnection (fst s)"
  using assms by (cases s, auto simp: discover_def split: sum.splits if_splits)+

text \<open>What the steps have done when they have all succeeded.\<close>

definition started :: "'e outside \<Rightarrow> apiConfiguration \<Rightarrow> 'e process \<Rightarrow> 'e starting \<Rightarrow> bool" where
  "started out cfg w s \<longleftrightarrow> sqlDatabase (fst s) \<and> redisConnected (fst s) \<and> upstreamConnection (fst s)
     \<and> manager (fst s) = Some (NewJWTManager (cfg_JWT (api_runtime cfg)))
     \<and> createBootstrapUser (userFaults out) (bcryptHash out) (startTime out) (api_runtime cfg) (pr_db w) = (Inr (), pr_db (snd s))
     \<and> SeedDefaultPolicies (casbin_of out) (pr_policies w) = (Inr (), pr_policies (snd s))"

lemma if_ok_cases:
  assumes "if_ok r k = (x, s')" and "\<And>e. r = (Inl e, s') \<Longrightarrow> x = Inl e \<Longrightarrow> Q"
    and "\<And>y s. r = (Inr y, s) \<Longrightarrow> k y s = (x, s') \<Longrightarrow> Q"
  shows Q
  using assms by (cases r) (auto simp: if_ok_def split: sum.splits)

lemma database_done:
  assumes "connect_database out cfg (no_instances, w) = (Inr x1, s1)" and "\<not> pool_left_open out cfg" and "events w = []"
  shows "consistent s1 \<and> fst s1 = no_instances\<lparr>sqlDatabase := True\<rparr> \<and> pr_db (snd s1) = pr_db w \<and> pr_policies (snd s1) = pr_policies w"
  using assms connect_database_step [of out cfg "(no_instances, w)"]
  by (simp add: consistent_def held_def no_instances_def)

lemma redis_done:
  assumes "connect_database out cfg (no_instances, w) = (Inr x1, s1)" and "\<not> pool_left_open out cfg" and "events w = []"
    and "connect_redis out cfg s1 = (Inr x2, s2)"
  shows "consistent s2 \<and> fst s2 = no_instances\<lparr>sqlDatabase := True, redisConnected := True\<rparr>
    \<and> pr_db (snd s2) = pr_db w \<and> pr_policies (snd s2) = pr_policies w"
  using database_done [OF assms(1-3)] assms(4) connect_redis_step [of out cfg s1] by (simp add: no_instances_def)

text \<open>The tables and the policies are ready.\<close>

lemma authorization_done:
  assumes "connect_database out cfg (no_instances, w) = (Inr x1, s1)" and "\<not> pool_left_open out cfg" and "events w = []"
    and "connect_redis out cfg s1 = (Inr x2, s2)" and "bootstrap out cfg s2 = (Inr x3, s3)" and "authorization out cfg s3 = (Inr x4, s4)"
  shows "consistent s4 \<and> fst s4 = no_instances\<lparr>sqlDatabase := True, redisConnected := True, manager := Some (NewJWTManager (cfg_JWT cfg))\<rparr>
    \<and> createBootstrapUser (userFaults out) (bcryptHash out) (startTime out) cfg (pr_db w) = (Inr (), pr_db (snd s4))
    \<and> SeedDefaultPolicies (casbin_of out) (pr_policies w) = (Inr (), pr_policies (snd s4))"
  using redis_done [OF assms(1-4)] assms(5,6) bootstrap_step [of out cfg s2] authorization_step [of out cfg s3]
  by (simp add: consistent_def)

lemma start_steps_outcome:
  assumes "start_steps out cfg (no_instances, w) = (r, s')" and "\<not> pool_left_open out (api_runtime cfg)" and "events w = []"
  shows "consistent s' \<and> (r = Inr () \<longrightarrow> started out cfg w s')"
  using assms(1) unfolding start_steps_def
proof (elim if_ok_cases, goal_cases)
  case (1 e)
  then show ?case using connect_database_step(1) [of out "api_runtime cfg" "(no_instances, w)"] assms(2,3)
    by (simp add: consistent_def held_def no_instances_def)
next
  case (2 x1 s1 e)
  then show ?case using database_done [OF 2(1) assms(2,3)] connect_redis_step(1) [of out "api_runtime cfg" s1]
    by (simp add: no_instances_def)
next
  case (3 x1 s1 x2 s2 e)
  then show ?case using redis_done [OF 3(1) assms(2,3) 3(2)] bootstrap_step(1,2) [of out "api_runtime cfg" s2]
    by (simp add: consistent_def)
next
  case (4 x1 s1 x2 s2 x3 s3 e)
  then show ?case using redis_done [OF 4(1) assms(2,3) 4(2)] bootstrap_step(1,2) [of out "api_runtime cfg" s2]
      authorization_step(1,3) [of out "api_runtime cfg" s3] by (simp add: consistent_def)
next
  case (5 x1 s1 x2 s2 x3 s3 x4 s4 e)
  then show ?case using authorization_done [OF 5(1) assms(2,3) 5(2-4)] connect_upstream_step(1) [of out "api_upstream cfg" s4]
    by (simp add: no_instances_def)
next
  case (6 x1 s1 x2 s2 x3 s3 x4 s4 x5 s5)
  then show ?case using authorization_done [OF 6(1) assms(2,3) 6(2-4)] connect_upstream_step [of out "api_upstream cfg" s4]
      discover_step [of out "api_oai cfg" s5 r s'] by (simp add: consistent_def started_def no_instances_def)
qed

section \<open>Starting\<close>

lemma Close_tables: "pr_db (snd (Close out i w)) = pr_db w"
  by (simp add: Close_def close_handle_def)

text \<open>A start of the API that fails leaves nothing open, whatever failed, but for a pool that the opening of
  the database has given up: each connection that was opened has been closed once. A start that
  succeeds has opened the database, Redis and the upstream and holds them; its tables are those the
  bootstrap account leaves, its policies are seeded, and its tokens are signed as configured. Closing
  it closes all three once, whatever errors they report.\<close>

lemma start_outcome:
  assumes "newApplicationInstances out cfg w = (result, w')" and "\<not> pool_left_open out (api_runtime cfg)" and "events w = []"
  shows "(\<forall>e. result = Inl e \<longrightarrow> open_after (events w') {} = Some {})
    \<and> (\<forall>i. result = Inr i \<longrightarrow>
          open_after (events w') {} = Some {DatabasePool, RedisClient, UpstreamConnection}
        \<and> open_after (events (snd (Close out i w'))) {} = Some {} \<and> started out cfg w (i, w'))"
proof -
  obtain r i w1 where steps: "start_steps out cfg (no_instances, w) = (r, (i, w1))" by (metis prod.collapse)
  note o = start_steps_outcome [OF steps assms(2,3)]
  show ?thesis
  proof (cases r)
    case (Inl e)
    then show ?thesis using assms(1) steps o Close_closes by (auto simp: newApplicationInstances_def)
  next
    case (Inr u)
    then have "result = Inr i" and "w' = w1" using assms(1) steps by (simp_all add: newApplicationInstances_def)
    moreover have "held i = {DatabasePool, RedisClient, UpstreamConnection}" and "started out cfg w (i, w1)"
      using o Inr by (auto simp: started_def held_def)
    ultimately show ?thesis using o Close_closes [of i w1 out] by (auto simp: consistent_def)
  qed
qed

lemma start_leaks:
  assumes "pool_left_open out (api_runtime cfg)"
  shows "\<exists>e. newApplicationInstances out cfg w = (Inl e, happens (Opened DatabasePool) w)"
proof -
  obtain r s' where c: "connect_database out (api_runtime cfg) (no_instances, w) = (r, s')" by (metis prod.collapse)
  from connect_database_leaks [OF assms c] obtain e where "r = Inl e" "s' = (no_instances, happens (Opened DatabasePool) w)" by blast
  then have "start_steps out cfg (no_instances, w) = (Inl e, (no_instances, happens (Opened DatabasePool) w))"
    by (simp add: start_steps_def c if_ok_def)
  then show ?thesis by (simp add: newApplicationInstances_def Close_def close_handle_def) (simp add: no_instances_def)
qed

lemma program_end:
  assumes "run_api out fs fr unicode lookup listen w = (status, w')" and "events w = []"
  shows "open_after (events w') {} = Some
      (if status = None then {DatabasePool, RedisClient, UpstreamConnection}
       else if (\<exists>l cfg. NewLogger fs lookup = Inr l \<and> loadAPIConfiguration fr (hostParser out) unicode lookup = Inr cfg
         \<and> pool_left_open out (api_runtime cfg))
       then {DatabasePool} else {})
    \<and> (status = None \<or> status = Some 0 \<longrightarrow> (\<exists>cfg i w1. loadAPIConfiguration fr (hostParser out) unicode lookup = Inr cfg
          \<and> newApplicationInstances out cfg w = (Inr i, w1) \<and> started out cfg w (i, w1)
          \<and> open_after (events w1) {} = Some {DatabasePool, RedisClient, UpstreamConnection}
          \<and> listen (cfg_HTTPAddress (api_runtime cfg)) = (if status = None then Killed else Returned None)))"
proof (cases "(\<exists>e. NewLogger fs lookup = Inl e) \<or> (\<exists>e. loadAPIConfiguration fr (hostParser out) unicode lookup = Inl e)")
  case True
  then show ?thesis using assms by (auto simp: run_api_def split: sum.splits)
next
  case False
  then obtain l cfg where l: "NewLogger fs lookup = Inr l" and cfg: "loadAPIConfiguration fr (hostParser out) unicode lookup = Inr cfg"
    by (metis sum.exhaust)
  obtain r w1 where r: "newApplicationInstances out cfg w = (r, w1)" by (metis prod.collapse)
  show ?thesis
  proof (cases "pool_left_open out (api_runtime cfg)")
    case True
    from start_leaks [OF True, of w] have "status = Some 1" "w' = happens (Opened DatabasePool) w"
      using assms(1) l cfg r by (auto simp: run_api_def)
    then show ?thesis using True l cfg assms(2) by auto
  next
    case False
    note o = start_outcome [OF r False assms(2)]
    show ?thesis
    proof (cases r)
      case (Inl e)
      then have "status = Some 1" "w' = w1" using assms(1) l cfg r by (simp_all add: run_api_def)
      then show ?thesis using o Inl False l cfg by auto
    next
      case (Inr i)
      then show ?thesis using o assms(1) l cfg r False
        by (cases "listen (cfg_HTTPAddress (api_runtime cfg))") (auto simp: run_api_def split: if_splits)
    qed
  qed
qed

text \<open>C19: what the API leaves open when it ends, however far it came. When it returns, with an exit code,
  each connection that was opened has been closed exactly once, with one exception: a pool of the
  database that \<open>gorm.Open\<close> opened before it failed, or whose handle could not be had, is never closed.
  When a signal ends it while it serves, it has no exit code and nothing is closed: it leaves the
  database, Redis and the upstream open, which is what it holds while it serves. It serves only after
  a successful start, with the tables the bootstrap account leaves, its policies seeded and its tokens
  signed as configured, and it returns success only after it has served.\<close>

theorem program_leaves_open:
  assumes "run_api out fs fr unicode lookup listen w = (status, w')" and "events w = []"
  shows "open_after (events w') {} = Some
      (if status = None then {DatabasePool, RedisClient, UpstreamConnection}
       else if (\<exists>l cfg. NewLogger fs lookup = Inr l \<and> loadAPIConfiguration fr (hostParser out) unicode lookup = Inr cfg
         \<and> (case gorm_Open out (cfg_DatabaseURL (api_runtime cfg)) of Inl (_, pooled) \<Rightarrow> pooled | Inr _ \<Rightarrow> sql_DB out \<noteq> None))
       then {DatabasePool} else {})
    \<and> (status = None \<or> status = Some 0 \<longrightarrow> (\<exists>cfg i w1. loadAPIConfiguration fr (hostParser out) unicode lookup = Inr cfg
          \<and> newApplicationInstances out cfg w = (Inr i, w1) \<and> started out cfg w (i, w1)
          \<and> open_after (events w1) {} = Some {DatabasePool, RedisClient, UpstreamConnection}
          \<and> listen (cfg_HTTPAddress (api_runtime cfg)) = (if status = None then Killed else Returned None)))"
  using program_end [OF assms] unfolding pool_left_open_def .

section \<open>Discovery\<close>

text \<open>C31: the API and the upstream service act as the same client of a provider. When the upstream service
  has discovered the provider with a configuration, and the provider's document names the configured
  issuer, the API, which gets the metadata from the upstream service, starts with that configuration
  exactly when the addresses in the metadata are web addresses without user information; its client,
  secret, addresses, scopes and the way it authenticates are then those of the upstream service.\<close>

theorem discovery_agrees:
  assumes "NewOIDCAuth cfg newProvider verifier serverParams scopes = Inr auth" and "newProvider (oc_Issuer cfg) = Inr p"
    and "toProviderResponse p = Some r" and "pr_Issuer r = oc_Issuer cfg" and "TrimSpace (oc_Issuer cfg) \<noteq> []"
  shows "NewRemoteOIDCAuth hosts cfg (Some (\<lambda>issuer. map_sum id Some (GetProvider [(''oai'', auth)] None (Some issuer)))) params scopes
    = (if remote_endpoint_ok hosts (op_AuthURL p) \<and> remote_endpoint_ok hosts (op_TokenURL p)
       then Inr \<lparr>Provider = None, OauthConfig = OauthConfig auth, AuthURLParams = params, IDVerifier = None\<rparr>
       else Inl (Other ''invalid upstream endpoint''))"
proof -
  from assms(1,2) obtain raw config where raw: "document (op_RawClaims p) = Some raw"
    and config: "buildOAuthConfig cfg (op_AuthURL p) (op_TokenURL p) (op_DeviceAuthURL p) raw scopes = Inr config"
    and auth: "Provider auth = Some p" "OauthConfig auth = Some config"
    by (auto simp: NewOIDCAuth_def split: option.splits sum.splits)
  have r: "pr_AuthURL r = op_AuthURL p" "pr_TokenURL r = op_TokenURL p" "pr_DeviceAuthURL r = op_DeviceAuthURL p" "pr_RawClaims r = raw"
    using assms(3) raw by (auto simp: toProviderResponse_def Let_def case_prod_unfold bind_eq_Some_conv split: if_splits)
  have "GetProvider [(''oai'', auth)] None (Some (oc_Issuer cfg)) = Inr r"
    using assms(3-5) auth by (simp add: GetProvider_def)
  then show ?thesis using assms(4) r config auth by (simp add: NewRemoteOIDCAuth_def dir_GetProvider_def)
qed

section \<open>Witnesses\<close>

definition toy_outside :: "go_error option \<Rightarrow> toy_policy outside" where
  "toy_outside redis_error = \<lparr>ReadFile = (\<lambda>_. Inr []), AppendCertsFromPEM = (\<lambda>_. True), LoadX509KeyPair = (\<lambda>_ _. Inr []),
     gorm_Open = (\<lambda>_. Inr ()), sql_DB = None, PingDatabase = (\<lambda>_. None), PingRedis = (\<lambda>_ _. redis_error),
     userFaults = (\<lambda>_. None), bcryptHash = HashPassword toy_service, startTime = 0, NewAdapterByDB = None,
     NewModelFromString = None, NewSyncedEnforcer = (\<lambda>_. None), casbin_of = toy_enforcer, grpc_NewClient = (\<lambda>_ _. None),
     GetProviderRPC = (\<lambda>_. Inl (Status Unavailable [])), hostParser = (\<lambda>scheme h. Some h), closeError = (\<lambda>_. Some ContextCanceled)\<rparr>"

definition toy_api :: apiConfiguration where
  "toy_api = \<lparr>api_runtime = toy_config, api_oai = \<lparr>oc_Provider = ''oai'', oc_Issuer = [], oc_ClientID = [], oc_ClientSecret = [], oc_RedirectURL = []\<rparr>,
     api_upstream = \<lparr>uc_Target = ''localhost:1'', uc_Timeout = 1, uc_TLS = plaintext\<rparr>, api_oauthEncryptionKey = []\<rparr>"

definition toy_process :: "toy_policy process" where
  "toy_process = \<lparr>events = [], pr_db = empty_db, pr_policies = (\<lambda>_. [], \<lambda>_. [])\<rparr>"

definition toy_files :: log_files where
  "toy_files = \<lparr>makeParent = (\<lambda>_. None), openProbe = (\<lambda>_. None), closeProbe = (\<lambda>_. None)\<rparr>"

definition toy_environment :: environment where
  "toy_environment = map_of [(''JWT_SECRET'', replicate 32 CHR ''s'')]"

lemma toy_loads: "\<exists>cfg. loadAPIConfiguration (\<lambda>_ _. 0) (\<lambda>scheme h. Some h) (\<lambda>x. x) toy_environment = Inr cfg \<and> cfg_BootstrapUsername (api_runtime cfg) = []"
proof -
  have "case loadAPIConfiguration (\<lambda>_ _. 0) (\<lambda>scheme h. Some h) (\<lambda>x. x) toy_environment of Inl _ \<Rightarrow> False | Inr cfg \<Rightarrow> cfg_BootstrapUsername (api_runtime cfg) = []"
    by code_simp
  then show ?thesis by (auto split: sum.splits)
qed

lemma toy_logs: "\<exists>name. NewLogger toy_files toy_environment = Inr name"
  by (simp add: NewLogger_def newLogger_def toy_files_def Let_def)

lemma toy_start: "\<exists>e w'. newApplicationInstances (toy_outside (Some ContextDeadlineExceeded)) cfg toy_process = (Inl e, w')
  \<and> events w' = [Opened DatabasePool, Opened RedisClient, Closed RedisClient, Closed DatabasePool]"
  by (simp add: newApplicationInstances_def start_steps_def connect_database_def
      db_Connect_def connect_redis_def redis_Connect_def toy_outside_def if_ok_def Close_def close_handle_def no_instances_def toy_process_def)

theorem program_leaves_open_witness:
  "\<exists>w'. run_api (toy_outside (Some ContextDeadlineExceeded)) toy_files (\<lambda>_ _. 0) (\<lambda>x. x) toy_environment (\<lambda>_. Returned None) toy_process = (Some 1, w')
    \<and> events w' = [Opened DatabasePool, Opened RedisClient, Closed RedisClient, Closed DatabasePool]
    \<and> open_after (events w') {} = Some {}"
proof -
  obtain name cfg where "NewLogger toy_files toy_environment = Inr name"
    and "loadAPIConfiguration (\<lambda>_ _. 0) (hostParser (toy_outside (Some ContextDeadlineExceeded))) (\<lambda>x. x) toy_environment = Inr cfg"
    using toy_logs toy_loads by (auto simp: toy_outside_def)
  moreover from toy_start [of cfg] obtain e w' where "newApplicationInstances (toy_outside (Some ContextDeadlineExceeded)) cfg toy_process = (Inl e, w')"
    and ev: "events w' = [Opened DatabasePool, Opened RedisClient, Closed RedisClient, Closed DatabasePool]" by blast
  ultimately have r: "run_api (toy_outside (Some ContextDeadlineExceeded)) toy_files (\<lambda>_ _. 0) (\<lambda>x. x) toy_environment (\<lambda>_. Returned None) toy_process = (Some 1, w')"
    by (simp add: run_api_def)
  from program_leaves_open [OF r] have "open_after (events w') {} = Some {}"
    by (simp add: toy_outside_def toy_process_def split: if_splits)
  with r ev show ?thesis by blast
qed

definition toy_oai :: OIDCConfig where
  "toy_oai = \<lparr>oc_Provider = ''oai'', oc_Issuer = ''https://i'', oc_ClientID = ''c'', oc_ClientSecret = [], oc_RedirectURL = ''https://r''\<rparr>"

definition toy_provider :: OidcProvider where
  "toy_provider = \<lparr>op_RawClaims = ''{\"issuer\":\"https://i\"}'', op_AuthURL = ''https://i/a'', op_TokenURL = ''https://i/t'',
     op_DeviceAuthURL = [], op_UserInfoURL = []\<rparr>"

theorem discovery_agrees_witness:
  "\<exists>auth remote. NewOIDCAuth toy_oai (\<lambda>_. Inr toy_provider) (\<lambda>_ _ _. Inl ErrInvalidIDToken) [] OaiScopes = Inr auth
    \<and> NewRemoteOIDCAuth (\<lambda>scheme h. Some h) toy_oai (Some (\<lambda>issuer. map_sum id Some (GetProvider [(''oai'', auth)] None (Some issuer)))) [] OaiScopes
        = Inr remote \<and> OauthConfig remote = OauthConfig auth"
proof -
  have "\<exists>auth. NewOIDCAuth toy_oai (\<lambda>_. Inr toy_provider) (\<lambda>_ _ _. Inl ErrInvalidIDToken) [] OaiScopes = Inr auth"
  proof -
    have "document (op_RawClaims toy_provider) \<noteq> None" by code_simp
    then show ?thesis by (auto simp: NewOIDCAuth_def buildOAuthConfig_def auth_style_of_def toy_oai_def)
  qed
  then obtain auth where a: "NewOIDCAuth toy_oai (\<lambda>_. Inr toy_provider) (\<lambda>_ _ _. Inl ErrInvalidIDToken) [] OaiScopes = Inr auth" by blast
  obtain r where r: "toProviderResponse toy_provider = Some r" "pr_Issuer r = oc_Issuer toy_oai"
  proof -
    have "map_option pr_Issuer (toProviderResponse toy_provider) = Some (oc_Issuer toy_oai)" by code_simp
    then show ?thesis using that by auto
  qed
  have "TrimSpace (oc_Issuer toy_oai) \<noteq> []" by code_simp
  moreover have "remote_endpoint_ok (\<lambda>scheme h. Some h) (op_AuthURL toy_provider)" "remote_endpoint_ok (\<lambda>scheme h. Some h) (op_TokenURL toy_provider)"
    by code_simp+
  ultimately show ?thesis using a discovery_agrees [OF a refl r, where hosts = "\<lambda>scheme h. Some h" and params = "[]"]
    by simp
qed

end
