(* ===== verification/Shutdown.thy ===== *)
theory Shutdown imports Startup begin

text \<open>
  Stopping the upstream service: the two goroutines of \<open>Serve\<close> of \<open>internal/upstreamserver\<close>, the timer
  that the second one starts, and the time and calls around them, as a labelled step relation.
\<close>

section \<open>The gRPC server\<close>

text \<open>
  \<open>grpc.Server\<close> and \<open>health.Server\<close> are libraries: the state of the former is the type \<open>'s\<close>, on which
  \<open>gs_Serve\<close> begins to accept or refuses, \<open>gs_GracefulStop\<close> and \<open>gs_Stop\<close> begin to close, \<open>gs_runs\<close>
  relates the states before and after connections and calls have proceeded, \<open>gs_pending\<close> tells whether a
  graceful stop has something to wait for, and \<open>gs_Serve_returns\<close> what a running \<open>Serve\<close> returns, once
  it does.
\<close>

record 's grpc =
  gs_NewServer :: 's
  gs_Serve :: "'s \<Rightarrow> go_error + 's"
  gs_GracefulStop :: "'s \<Rightarrow> 's"
  gs_Stop :: "'s \<Rightarrow> 's"
  gs_runs :: "'s \<Rightarrow> 's \<Rightarrow> bool"
  gs_pending :: "'s \<Rightarrow> bool"
  gs_Serve_returns :: "'s \<Rightarrow> go_error option option"
  hs_Shutdown :: "(bytes \<times> serving) list \<Rightarrow> (bytes \<times> serving) list"

text \<open>
  What their documentation says. \<open>closing\<close> holds from the first \<open>Stop\<close> or \<open>GracefulStop\<close> on: \<open>Serve\<close> then
  refuses with \<open>ErrServerStopped\<close>, or returns nil if it runs, at the latest when nothing is pending, and
  no connection is accepted; before, it returns only errors, of the listener. \<open>Stop\<close> closes every
  connection, and \<open>Shutdown\<close> turns every status to \<open>NOT_SERVING\<close>. A call in flight
  ends because its context is cancelled with its connection: a handler that went on after that would keep
  \<open>GracefulStop\<close> waiting, and is outside these laws.
\<close>

definition closed_down :: "'s grpc \<Rightarrow> ('s \<Rightarrow> bool) \<Rightarrow> 's \<Rightarrow> bool" where
  "closed_down lib closing g \<longleftrightarrow> closing g \<and> \<not> gs_pending lib g"

definition grpc_laws :: "'s grpc \<Rightarrow> ('s \<Rightarrow> bool) \<Rightarrow> bool" where
  "grpc_laws lib closing \<longleftrightarrow>
     \<not> closing (gs_NewServer lib)
     \<and> (\<forall>g. case gs_Serve lib g of Inl e \<Rightarrow> closing g \<and> errors_Is e ErrServerStopped | Inr g' \<Rightarrow> \<not> closing g \<and> \<not> closing g')
     \<and> (\<forall>g. closing (gs_GracefulStop lib g) \<and> (closed_down lib closing g \<longrightarrow> \<not> gs_pending lib (gs_GracefulStop lib g)))
     \<and> (\<forall>g. closed_down lib closing (gs_Stop lib g))
     \<and> (\<forall>g g'. gs_runs lib g g' \<longrightarrow> closing g' = closing g \<and> (closed_down lib closing g \<longrightarrow> \<not> gs_pending lib g'))
     \<and> (\<forall>g err. gs_Serve_returns lib g = Some err \<longrightarrow> (if closing g then err = None else serve_error err \<noteq> None))
     \<and> (\<forall>g. closed_down lib closing g \<longrightarrow> gs_Serve_returns lib g \<noteq> None)
     \<and> (\<forall>hs. map fst (hs_Shutdown lib hs) = map fst hs \<and> (\<forall>h \<in> set (hs_Shutdown lib hs). snd h = NOT_SERVING))"

section \<open>The goroutines\<close>

text \<open>
  Where the goroutine of \<open>Serve\<close> is: before the call of \<open>grpcServer.Serve\<close>, in it, returning with the
  channel \<open>done\<close> still open, or returned.
\<close>

datatype main = Starting | Serving | Returning "go_error option" | Returned "go_error option"

text \<open>Where the other one is: at its \<open>select\<close>, before each of its calls, or at its end.\<close>

datatype watcher = Selecting | ShuttingDown | Arming | Stopping | Draining | Disarming | Ended

datatype timer = Unset | Armed time | Fired time | Disarmed

text \<open>\<open>cancelled_at\<close> is when the context ended, which the first signal does.\<close>

record 's service_process =
  clock :: time
  cancelled_at :: "time option"
  grpc_state :: 's
  statuses :: "(bytes \<times> serving) list"
  main :: main
  watcher :: watcher
  forceStop :: timer

definition serve_start :: "'s grpc \<Rightarrow> time \<Rightarrow> server \<Rightarrow> 's service_process" where
  "serve_start lib t auths =
     \<lparr>clock = t, cancelled_at = None, grpc_state = gs_NewServer lib, statuses = serving_status auths,
      main = Starting, watcher = Selecting, forceStop = Unset\<rparr>"

text \<open>
  \<open>forceStop.Stop()\<close>: a timer that has fired is not undone.
\<close>

fun stop_timer :: "timer \<Rightarrow> timer" where
  "stop_timer (Armed d) = Disarmed"
| "stop_timer t = t"

text \<open>
  Whose step it is. The environment lets time pass, ends the context, and makes connections and calls
  proceed.
\<close>

datatype actor = MainGoroutine | WatcherGoroutine | Timer | Environment

inductive serve_step :: "'s grpc \<Rightarrow> time \<Rightarrow> actor \<Rightarrow> 's service_process \<Rightarrow> 's service_process \<Rightarrow> bool"
  for lib timeout where
  refused: "main s = Starting \<Longrightarrow> gs_Serve lib (grpc_state s) = Inl e \<Longrightarrow>
    serve_step lib timeout MainGoroutine s (s\<lparr>main := Returning (serve_error (Some e))\<rparr>)"
| accepting: "main s = Starting \<Longrightarrow> gs_Serve lib (grpc_state s) = Inr g \<Longrightarrow>
    serve_step lib timeout MainGoroutine s (s\<lparr>grpc_state := g, main := Serving\<rparr>)"
| served: "main s = Serving \<Longrightarrow> gs_Serve_returns lib (grpc_state s) = Some err \<Longrightarrow>
    serve_step lib timeout MainGoroutine s (s\<lparr>main := Returning (serve_error err)\<rparr>)"
| close_done: "main s = Returning r \<Longrightarrow>
    serve_step lib timeout MainGoroutine s (s\<lparr>main := Returned r\<rparr>)"
| see_cancelled: "watcher s = Selecting \<Longrightarrow> cancelled_at s = Some c \<Longrightarrow>
    serve_step lib timeout WatcherGoroutine s (s\<lparr>watcher := ShuttingDown\<rparr>)"
| see_done: "watcher s = Selecting \<Longrightarrow> main s = Returned r \<Longrightarrow>
    serve_step lib timeout WatcherGoroutine s (s\<lparr>watcher := Ended\<rparr>)"
| health_down: "watcher s = ShuttingDown \<Longrightarrow>
    serve_step lib timeout WatcherGoroutine s (s\<lparr>statuses := hs_Shutdown lib (statuses s), watcher := Arming\<rparr>)"
| arm: "watcher s = Arming \<Longrightarrow>
    serve_step lib timeout WatcherGoroutine s (s\<lparr>forceStop := Armed (clock s + timeout), watcher := Stopping\<rparr>)"
| graceful: "watcher s = Stopping \<Longrightarrow>
    serve_step lib timeout WatcherGoroutine s (s\<lparr>grpc_state := gs_GracefulStop lib (grpc_state s), watcher := Draining\<rparr>)"
| drained: "watcher s = Draining \<Longrightarrow> \<not> gs_pending lib (grpc_state s) \<Longrightarrow>
    serve_step lib timeout WatcherGoroutine s (s\<lparr>watcher := Disarming\<rparr>)"
| disarm: "watcher s = Disarming \<Longrightarrow>
    serve_step lib timeout WatcherGoroutine s (s\<lparr>forceStop := stop_timer (forceStop s), watcher := Ended\<rparr>)"
| force: "forceStop s = Armed d \<Longrightarrow> d \<le> clock s \<Longrightarrow>
    serve_step lib timeout Timer s (s\<lparr>grpc_state := gs_Stop lib (grpc_state s), forceStop := Fired d\<rparr>)"
| tick: "clock s \<le> t \<Longrightarrow> serve_step lib timeout Environment s (s\<lparr>clock := t\<rparr>)"
| cancel: "cancelled_at s = None \<Longrightarrow>
    serve_step lib timeout Environment s (s\<lparr>cancelled_at := Some (clock s)\<rparr>)"
| calls: "gs_runs lib (grpc_state s) g \<Longrightarrow>
    serve_step lib timeout Environment s (s\<lparr>grpc_state := g\<rparr>)"

inductive_simps serve_step_iff: "serve_step lib timeout a s s'"

text \<open>A run, with the actors of its steps in their order.\<close>

inductive serve_run :: "'s grpc \<Rightarrow> time \<Rightarrow> 's service_process \<Rightarrow> actor list \<Rightarrow> 's service_process \<Rightarrow> bool"
  for lib timeout s\<^sub>0 where
  begin_run: "serve_run lib timeout s\<^sub>0 [] s\<^sub>0"
| run_step: "serve_run lib timeout s\<^sub>0 actors s \<Longrightarrow> serve_step lib timeout a s s' \<Longrightarrow>
    serve_run lib timeout s\<^sub>0 (actors @ [a]) s'"

end
