(* ===== verification/ShutdownProps.thy ===== *)
theory ShutdownProps imports Shutdown StartupProps begin

text \<open>
  The properties of stopping the upstream service: it ends, by itself, once its context has, and the
  calls in flight have all the time they were promised.
\<close>

section \<open>What holds in every state of a run\<close>

definition all_down :: "'s service_process \<Rightarrow> bool" where
  "all_down s \<longleftrightarrow> (\<forall>h \<in> set (statuses s). snd h = NOT_SERVING)"

text \<open>The timer: it is set between the shutdown of the health service and the graceful stop.\<close>

definition timer_inv :: "'s grpc \<Rightarrow> ('s \<Rightarrow> bool) \<Rightarrow> time \<Rightarrow> 's service_process \<Rightarrow> bool" where
  "timer_inv lib closing timeout s \<longleftrightarrow> (case forceStop s of
       Unset \<Rightarrow> watcher s \<in> {Selecting, ShuttingDown, Arming, Ended} \<and> \<not> closing (grpc_state s)
     | Armed d \<Rightarrow> watcher s \<in> {Stopping, Draining, Disarming}
         \<and> (\<exists>c. cancelled_at s = Some c \<and> c + timeout \<le> d) \<and> d \<le> clock s + timeout
     | Fired d \<Rightarrow> watcher s \<in> {Stopping, Draining, Disarming, Ended}
         \<and> (\<exists>c. cancelled_at s = Some c \<and> c + timeout \<le> d) \<and> d \<le> clock s \<and> closed_down lib closing (grpc_state s)
     | Disarmed \<Rightarrow> watcher s = Ended \<and> closed_down lib closing (grpc_state s))"

definition watcher_inv :: "'s grpc \<Rightarrow> ('s \<Rightarrow> bool) \<Rightarrow> 's service_process \<Rightarrow> bool" where
  "watcher_inv lib closing s \<longleftrightarrow>
     (watcher s = Draining \<longrightarrow> closing (grpc_state s))
     \<and> (watcher s = Disarming \<longrightarrow> closed_down lib closing (grpc_state s))
     \<and> (watcher s = Ended \<and> forceStop s = Unset \<longrightarrow> (\<exists>r. main s = Returned r))
     \<and> (watcher s \<notin> {Selecting, Ended} \<or> forceStop s \<noteq> Unset \<longrightarrow> cancelled_at s \<noteq> None)
     \<and> (watcher s = Arming \<or> forceStop s \<noteq> Unset \<longrightarrow> all_down s)"

fun not_after :: "time option \<Rightarrow> time \<Rightarrow> bool" where
  "not_after None t = True"
| "not_after (Some c) t = (c \<le> t)"

definition serve_inv :: "'s grpc \<Rightarrow> ('s \<Rightarrow> bool) \<Rightarrow> time \<Rightarrow> 's service_process \<Rightarrow> bool" where
  "serve_inv lib closing timeout s \<longleftrightarrow>
     timer_inv lib closing timeout s \<and> watcher_inv lib closing s
     \<and> not_after (cancelled_at s) (clock s)
     \<and> (main s \<in> {Returning None, Returned None} \<longrightarrow> closing (grpc_state s))"

lemma serve_error_None: "serve_error err = None \<longleftrightarrow> (\<forall>e. err = Some e \<longrightarrow> errors_Is e ErrServerStopped)"
  by (auto simp: serve_error_def split: option.splits)

lemma grpc_lawsD:
  assumes "grpc_laws lib closing"
  shows "\<not> closing (gs_NewServer lib)"
    and "gs_Serve lib g = Inl e \<Longrightarrow> closing g \<and> errors_Is e ErrServerStopped"
    and "gs_Serve lib g = Inr g' \<Longrightarrow> \<not> closing g \<and> \<not> closing g'"
    and "closing (gs_GracefulStop lib g)"
    and "closed_down lib closing g \<Longrightarrow> \<not> gs_pending lib (gs_GracefulStop lib g)"
    and "closed_down lib closing (gs_Stop lib g)"
    and "gs_runs lib g g' \<Longrightarrow> closing g' = closing g"
    and "gs_runs lib g g' \<Longrightarrow> closed_down lib closing g \<Longrightarrow> closed_down lib closing g'"
    and "gs_Serve_returns lib g = Some err \<Longrightarrow> closing g \<Longrightarrow> err = None"
    and "gs_Serve_returns lib g = Some err \<Longrightarrow> \<not> closing g \<Longrightarrow> serve_error err \<noteq> None"
    and "closed_down lib closing g \<Longrightarrow> gs_Serve_returns lib g \<noteq> None"
    and "h \<in> set (hs_Shutdown lib hs) \<Longrightarrow> snd h = NOT_SERVING"
proof -
  note l = assms [unfolded grpc_laws_def]
  note l1 = l [THEN conjunct1] and l = l [THEN conjunct2]
  note l2 = l [THEN conjunct1, rule_format, of g] and l = l [THEN conjunct2]
  note l3 = l [THEN conjunct1, rule_format, of g] and l = l [THEN conjunct2]
  note l4 = l [THEN conjunct1, rule_format, of g] and l = l [THEN conjunct2]
  note l5 = l [THEN conjunct1, rule_format, of g g'] and l = l [THEN conjunct2]
  note l6 = l [THEN conjunct1, rule_format, of g err] and l = l [THEN conjunct2]
  note l7 = l [THEN conjunct1, rule_format, of g] and l8 = l [THEN conjunct2, rule_format, of hs]
  show "\<not> closing (gs_NewServer lib)" by (rule l1)
  show "gs_Serve lib g = Inl e \<Longrightarrow> closing g \<and> errors_Is e ErrServerStopped"
    and "gs_Serve lib g = Inr g' \<Longrightarrow> \<not> closing g \<and> \<not> closing g'" using l2 by simp_all
  show "closing (gs_GracefulStop lib g)"
    and "closed_down lib closing g \<Longrightarrow> \<not> gs_pending lib (gs_GracefulStop lib g)" using l3 by simp_all
  show "closed_down lib closing (gs_Stop lib g)" by (rule l4)
  show "gs_runs lib g g' \<Longrightarrow> closing g' = closing g"
    and "gs_runs lib g g' \<Longrightarrow> closed_down lib closing g \<Longrightarrow> closed_down lib closing g'"
    using l5 by (simp_all add: closed_down_def)
  show "gs_Serve_returns lib g = Some err \<Longrightarrow> closing g \<Longrightarrow> err = None"
    and "gs_Serve_returns lib g = Some err \<Longrightarrow> \<not> closing g \<Longrightarrow> serve_error err \<noteq> None" using l6 by simp_all
  show "closed_down lib closing g \<Longrightarrow> gs_Serve_returns lib g \<noteq> None" by (rule l7)
  show "h \<in> set (hs_Shutdown lib hs) \<Longrightarrow> snd h = NOT_SERVING" using l8 by blast
qed

lemmas serve_inv_defs = serve_inv_def timer_inv_def watcher_inv_def all_down_def

lemma serve_inv_start: "grpc_laws lib closing \<Longrightarrow> serve_inv lib closing timeout (serve_start lib t auths)"
  by (simp add: serve_inv_def timer_inv_def watcher_inv_def serve_start_def grpc_lawsD(1))

lemma timer_inv_main [simp]: "timer_inv lib closing timeout (s\<lparr>main := m\<rparr>) = timer_inv lib closing timeout s"
  by (simp add: timer_inv_def split: timer.splits)

lemma serve_inv_step:
  assumes l: "grpc_laws lib closing" and "serve_step lib timeout a s s'" and "serve_inv lib closing timeout s"
  shows "serve_inv lib closing timeout s'"
  using assms(2,3)
proof (cases rule: serve_step.cases)
  case (refused e)
  with assms(3) grpc_lawsD(2) [OF l refused(4)] show ?thesis
    by (auto simp: serve_inv_defs split: timer.splits)
next
  case (accepting g)
  with assms(3) grpc_lawsD(3) [OF l accepting(4)] show ?thesis
    by (auto simp: serve_inv_defs closed_down_def split: timer.splits)
next
  case (served err)
  have "serve_error err = None \<longrightarrow> closing (grpc_state s)" using grpc_lawsD(10) [OF l served(4)] by blast
  with served assms(3) show ?thesis by (simp add: serve_inv_def watcher_inv_def all_down_def)
next
  case (health_down)
  with assms(3) grpc_lawsD(12) [OF l] show ?thesis
    by (auto simp: serve_inv_defs split: timer.splits)
next
  case (graceful)
  with assms(3) grpc_lawsD(4,5) [OF l, of "grpc_state s"] show ?thesis
    by (auto simp: serve_inv_defs closed_down_def split: timer.splits)
next
  case (disarm)
  with assms(3) show ?thesis
    by (auto simp: serve_inv_defs split: timer.splits)
next
  case (force d)
  with assms(3) grpc_lawsD(6) [OF l, of "grpc_state s"] show ?thesis
    by (auto simp: serve_inv_defs closed_down_def split: timer.splits)
next
  case (calls g)
  with assms(3) grpc_lawsD(7,8) [OF l calls(3)] show ?thesis
    by (auto simp: serve_inv_defs split: timer.splits)
next
  case (close_done r)
  with assms(3) show ?thesis
    by (simp add: serve_inv_def watcher_inv_def all_down_def)
next
  case (see_cancelled c)
  with assms(3) show ?thesis
    by (auto simp: serve_inv_defs closed_down_def split: timer.splits)
next
  case (see_done r)
  with assms(3) show ?thesis
    by (auto simp: serve_inv_defs closed_down_def split: timer.splits)
next
  case arm
  with assms(3) show ?thesis
    by (cases "cancelled_at s") (simp_all add: serve_inv_defs split: timer.splits)
next
  case drained
  with assms(3) show ?thesis
    by (auto simp: serve_inv_defs closed_down_def split: timer.splits)
next
  case (tick t)
  with assms(3) show ?thesis
    by (cases "forceStop s"; cases "cancelled_at s") (simp_all add: serve_inv_defs)
next
  case cancel
  with assms(3) show ?thesis
    by (auto simp: serve_inv_defs closed_down_def split: timer.splits)
qed

lemma serve_inv_run:
  assumes "grpc_laws lib closing" and "serve_run lib timeout (serve_start lib t auths) actors s"
  shows "serve_inv lib closing timeout s"
  using assms(2) by induction (auto intro: serve_inv_start serve_inv_step assms(1))

section \<open>The service ends\<close>

text \<open>How many steps of its own the program has left at most.\<close>

fun main_steps :: "main \<Rightarrow> nat" where
  "main_steps Starting = 3"
| "main_steps Serving = 2"
| "main_steps (Returning r) = 1"
| "main_steps (Returned r) = 0"

fun watcher_steps :: "watcher \<Rightarrow> nat" where
  "watcher_steps Selecting = 6"
| "watcher_steps ShuttingDown = 5"
| "watcher_steps Arming = 4"
| "watcher_steps Stopping = 3"
| "watcher_steps Draining = 2"
| "watcher_steps Disarming = 1"
| "watcher_steps Ended = 0"

fun timer_steps :: "timer \<Rightarrow> nat" where
  "timer_steps Unset = 1"
| "timer_steps (Armed d) = 1"
| "timer_steps (Fired d) = 0"
| "timer_steps Disarmed = 0"

definition steps_left :: "'s service_process \<Rightarrow> nat" where
  "steps_left s = main_steps (main s) + watcher_steps (watcher s) + timer_steps (forceStop s)"

lemma stop_timer_steps: "timer_steps (stop_timer t) \<le> timer_steps t"
  by (cases t) simp_all

lemma steps_left_step:
  assumes "serve_step lib timeout a s s'" and "serve_inv lib closing timeout s"
  shows "(if a = Environment then 0 else 1) + steps_left s' \<le> steps_left s"
  using assms stop_timer_steps [of "forceStop s"]
  by (cases rule: serve_step.cases) (auto simp: steps_left_def serve_inv_def timer_inv_def split: timer.splits)

lemma steps_left_run:
  assumes l: "grpc_laws lib closing" and "serve_run lib timeout (serve_start lib t auths) actors s"
  shows "length (filter (\<lambda>a. a \<noteq> Environment) actors) + steps_left s \<le> 10"
  using assms(2)
proof induction
  case (run_step actors s a s')
  then show ?case using steps_left_step [OF run_step(2) serve_inv_run [OF l run_step(1)]] by (auto split: if_splits)
qed (simp add: steps_left_def serve_start_def)

text \<open>When only the environment can move.\<close>

definition at_rest :: "'s grpc \<Rightarrow> time \<Rightarrow> 's service_process \<Rightarrow> bool" where
  "at_rest lib timeout s \<longleftrightarrow> (\<forall>a s'. serve_step lib timeout a s s' \<longrightarrow> a = Environment)"

lemma at_restD: "at_rest lib timeout s \<Longrightarrow> serve_step lib timeout a s s' \<Longrightarrow> a = Environment"
  by (auto simp: at_rest_def)

lemma at_rest_watcher:
  assumes "at_rest lib timeout s" and "cancelled_at s = Some c"
  shows "watcher s = Ended \<or> (watcher s = Draining \<and> gs_pending lib (grpc_state s))"
  using at_restD [OF assms(1) see_cancelled [OF _ assms(2)]] at_restD [OF assms(1) health_down]
    at_restD [OF assms(1) arm] at_restD [OF assms(1) graceful] at_restD [OF assms(1) drained] at_restD [OF assms(1) disarm]
  by (cases "watcher s") auto

lemma at_rest_timer: "at_rest lib timeout s \<Longrightarrow> forceStop s = Armed d \<Longrightarrow> clock s < d"
  using at_restD [OF _ force] by (meson actor.distinct(11) not_le_imp_less)

lemma at_rest_main:
  assumes l: "grpc_laws lib closing" and "at_rest lib timeout s" and "closed_down lib closing (grpc_state s)"
  shows "\<exists>r. main s = Returned r"
proof (cases "main s")
  case Starting
  then show ?thesis
    using at_restD [OF assms(2) refused] at_restD [OF assms(2) accepting] by (cases "gs_Serve lib (grpc_state s)") blast+
next
  case Serving
  then show ?thesis using at_restD [OF assms(2) served] grpc_lawsD(11) [OF l assms(3)] by blast
next
  case (Returning r)
  then show ?thesis using at_restD [OF assms(2) close_done] by blast
qed simp

lemma statuses_names:
  assumes "grpc_laws lib closing" and "serve_run lib timeout (serve_start lib t auths) actors s"
  shows "map fst (statuses s) = map fst (serving_status auths)"
  using assms(2)
proof induction
  case (run_step actors s a s')
  have "map fst (hs_Shutdown lib hs) = map fst hs" for hs using assms(1) by (simp add: grpc_laws_def)
  with run_step(2,3) show ?case by (cases rule: serve_step.cases) simp_all
qed (simp add: serve_start_def)

text \<open>Once the server is being stopped, \<open>Serve\<close> cannot fail any more.\<close>

definition ends_well :: "('s \<Rightarrow> bool) \<Rightarrow> 's service_process \<Rightarrow> bool" where
  "ends_well closing s \<longleftrightarrow> closing (grpc_state s) \<and> main s \<in> {Starting, Serving, Returning None, Returned None}"

lemma ends_well_step:
  assumes l: "grpc_laws lib closing" and "serve_step lib timeout a s s'" and "ends_well closing s"
  shows "ends_well closing s'"
  using assms(2)
proof (cases rule: serve_step.cases)
  case (refused e)
  with assms(3) grpc_lawsD(2) [OF l refused(4)] show ?thesis by (simp add: ends_well_def serve_error_def)
next
  case (accepting g)
  with assms(3) grpc_lawsD(3) [OF l accepting(4)] show ?thesis by (simp add: ends_well_def)
next
  case (served err)
  with assms(3) grpc_lawsD(9) [OF l served(4)] show ?thesis by (simp add: ends_well_def serve_error_def)
next
  case (force d)
  with assms(3) grpc_lawsD(6) [OF l, of "grpc_state s"] show ?thesis by (simp add: ends_well_def closed_down_def)
next
  case (calls g)
  with assms(3) grpc_lawsD(7) [OF l calls(3)] show ?thesis by (simp add: ends_well_def)
qed (use assms(3) grpc_lawsD(4) [OF l] in \<open>auto simp: ends_well_def\<close>)

lemma ends_well_run:
  "serve_run lib timeout s actors s' \<Longrightarrow> grpc_laws lib closing \<Longrightarrow> ends_well closing s \<Longrightarrow> ends_well closing s'"
  by (induction rule: serve_run.induct) (auto intro: ends_well_step)

section \<open>The service stops\<close>

text \<open>C24: the goroutines of \<open>Serve\<close> and the timer take at most ten steps together, and once the context has
  ended nothing but calls in flight can hold them up, and those only until the timer is due, which is
  at most the shutdown timeout away: in every state in which neither goroutine nor the timer
  can move, both goroutines have ended, or the graceful stop still waits and the timer is not due.\<close>

theorem cancelled_service_ends:
  assumes "grpc_laws lib closing" and "serve_run lib timeout (serve_start lib t auths) actors s"
  shows "length (filter (\<lambda>a. a \<noteq> Environment) actors) \<le> 10
    \<and> (cancelled_at s \<noteq> None \<and> at_rest lib timeout s \<longrightarrow>
        (watcher s = Ended \<and> (\<exists>r. main s = Returned r))
        \<or> (\<exists>d. forceStop s = Armed d \<and> clock s < d \<and> d \<le> clock s + timeout
             \<and> watcher s = Draining \<and> gs_pending lib (grpc_state s)))"
proof (intro conjI impI, goal_cases)
  case 1
  show ?case using steps_left_run [OF assms] by simp
next
  case 2
  note i = serve_inv_run [OF assms]
  from 2 obtain c where "cancelled_at s = Some c" by blast
  with at_rest_watcher 2 consider "watcher s = Ended" | "watcher s = Draining" "gs_pending lib (grpc_state s)" by blast
  then show ?case
  proof cases
    case 1
    then have "(\<exists>r. main s = Returned r) \<or> closed_down lib closing (grpc_state s)"
      using i by (auto simp: serve_inv_def timer_inv_def watcher_inv_def split: timer.splits)
    with 1 at_rest_main [OF assms(1)] 2 show ?thesis by blast
  next
    case w: 2
    then obtain d where "forceStop s = Armed d" "d \<le> clock s + timeout"
      using i by (auto simp: serve_inv_def timer_inv_def closed_down_def split: timer.splits)
    with w at_rest_timer 2 show ?thesis by blast
  qed
qed

text \<open>C20: a shutdown is graceful. Before the server refuses calls, every status of its health service is
  \<open>NOT_SERVING\<close>; calls are cut off only when the shutdown timeout has passed since the context ended.
  \<open>Serve\<close> returns nil only when the server has been stopped, and it always does so when the server was
  stopped before it returned, also when the signal came before it began to accept.\<close>

theorem shutdown_is_graceful:
  assumes "grpc_laws lib closing" and "serve_run lib timeout (serve_start lib t auths) actors s"
  shows "(closing (grpc_state s) \<longrightarrow> cancelled_at s \<noteq> None
        \<and> statuses s = map (\<lambda>h. (fst h, NOT_SERVING)) (serving_status auths))
    \<and> (\<forall>d. forceStop s = Fired d \<longrightarrow> (\<exists>c. cancelled_at s = Some c \<and> c + timeout \<le> d \<and> d \<le> clock s))
    \<and> (main s = Returned None \<longrightarrow> closing (grpc_state s))
    \<and> (\<forall>actors' s' r. closing (grpc_state s) \<and> main s \<in> {Starting, Serving}
        \<and> serve_run lib timeout s actors' s' \<and> main s' = Returned r \<longrightarrow> r = None)"
proof (intro conjI allI impI, goal_cases)
  case 1
  then have "forceStop s \<noteq> Unset" using serve_inv_run [OF assms] by (auto simp: serve_inv_def timer_inv_def)
  then show ?case using serve_inv_run [OF assms] by (simp add: serve_inv_def watcher_inv_def)
next
  case 2
  then have "forceStop s \<noteq> Unset" using serve_inv_run [OF assms] by (auto simp: serve_inv_def timer_inv_def)
  then have "\<forall>h \<in> set (statuses s). snd h = NOT_SERVING"
    using serve_inv_run [OF assms] by (simp add: serve_inv_def watcher_inv_def all_down_def)
  then have "map (\<lambda>h. (fst h, NOT_SERVING)) (statuses s) = statuses s" by (intro map_idI) (simp add: prod_eq_iff)
  moreover have "map (\<lambda>h. (fst h, NOT_SERVING)) hs = map (\<lambda>n. (n, NOT_SERVING)) (map fst hs)" for hs :: "(bytes \<times> serving) list"
    by simp
  ultimately show ?case by (metis statuses_names [OF assms])
next
  case (3 d)
  then show ?case using serve_inv_run [OF assms] by (simp add: serve_inv_def timer_inv_def)
next
  case 4
  then show ?case using serve_inv_run [OF assms] by (simp add: serve_inv_def)
next
  case (5 actors' s' r)
  then have "ends_well closing s" by (auto simp: ends_well_def)
  with 5 ends_well_run [OF _ assms(1)] have "ends_well closing s'" by blast
  with 5 show ?case by (simp add: ends_well_def)
qed

text \<open>A server that only counts its calls, and a run in which one call never ends.\<close>

definition sample_grpc :: "(nat \<times> bool) grpc" where
  "sample_grpc = \<lparr>gs_NewServer = (0, False),
     gs_Serve = (\<lambda>g. if snd g then Inl ErrServerStopped else Inr g),
     gs_GracefulStop = (\<lambda>g. (fst g, True)), gs_Stop = (\<lambda>g. (0, True)),
     gs_runs = (\<lambda>g g'. snd g' = snd g \<and> (snd g \<longrightarrow> fst g' \<le> fst g)),
     gs_pending = (\<lambda>g. 0 < fst g),
     gs_Serve_returns = (\<lambda>g. if snd g \<and> fst g = 0 then Some None else None),
     hs_Shutdown = map (\<lambda>h. (fst h, NOT_SERVING))\<rparr>"

lemma sample_grpc_laws: "grpc_laws sample_grpc snd"
  by (simp add: grpc_laws_def sample_grpc_def closed_down_def ErrServerStopped_def serve_error_def)

lemma run_cons:
  assumes "serve_step lib timeout a s s'" and "serve_run lib timeout s' actors s''"
  shows "serve_run lib timeout s (a # actors) s''"
  using assms(2)
proof induction
  case begin_run
  show ?case using run_step [OF serve_run.begin_run assms(1)] by simp
next
  case (run_step actors t b t')
  then show ?case using serve_run.run_step [of lib timeout s "a # actors" t b t'] by simp
qed

definition waiting_run :: "actor list" where
  "waiting_run = [MainGoroutine, Environment, Environment, WatcherGoroutine, WatcherGoroutine, WatcherGoroutine, WatcherGoroutine]"

definition waiting_state :: "(nat \<times> bool) service_process" where
  "waiting_state = \<lparr>clock = 0, cancelled_at = Some 0, grpc_state = (1, True),
     statuses = [([], NOT_SERVING), (''upstream.UpstreamService'', NOT_SERVING)],
     main = Serving, watcher = Draining, forceStop = Armed 5\<rparr>"

lemma sample_waits: "serve_run sample_grpc 5 (serve_start sample_grpc 0 []) waiting_run waiting_state"
  unfolding waiting_run_def serve_start_def
  apply (rule run_cons [OF accepting [where g = "(0, False)"]], simp_all add: sample_grpc_def)
  apply (rule run_cons [OF calls [where g = "(1, False)"]], simp)
  apply (rule run_cons [OF cancel], simp)
  apply (rule run_cons [OF see_cancelled], simp, simp)
  apply (rule run_cons [OF health_down], simp)
  apply (rule run_cons [OF arm], simp)
  apply (rule run_cons [OF graceful], simp)
  apply (simp add: waiting_state_def serving_status_def provider_config_def begin_run)
  done

definition stopped_state :: "(nat \<times> bool) service_process" where
  "stopped_state = waiting_state\<lparr>clock := 7, grpc_state := (0, True), main := Returned None, watcher := Ended, forceStop := Fired 5\<rparr>"

lemma sample_stops:
  "serve_run sample_grpc 5 waiting_state
     [Environment, Timer, MainGoroutine, MainGoroutine, WatcherGoroutine, WatcherGoroutine] stopped_state"
  unfolding waiting_state_def
  apply (rule run_cons [OF tick [where t = 7]], simp)
  apply (rule run_cons [OF force [where d = 5]], simp, simp)
  apply (rule run_cons [OF served [where err = None]], simp, simp add: sample_grpc_def)
  apply (rule run_cons [OF close_done], simp)
  apply (rule run_cons [OF drained], simp, simp add: sample_grpc_def)
  apply (rule run_cons [OF disarm], simp)
  apply (simp add: stopped_state_def waiting_state_def serve_error_def sample_grpc_def begin_run)
  done

lemma run_append:
  "serve_run lib timeout s actors s' \<Longrightarrow> serve_run lib timeout s' actors' s'' \<Longrightarrow> serve_run lib timeout s (actors @ actors') s''"
  by (rotate_tac, induction rule: serve_run.induct) (auto intro: run_step simp flip: append_assoc)

theorem cancelled_service_ends_witness:
  "at_rest sample_grpc 5 waiting_state
    \<and> (\<exists>d. forceStop waiting_state = Armed d \<and> clock waiting_state < d \<and> d \<le> clock waiting_state + 5)"
proof
  show r: "at_rest sample_grpc 5 waiting_state"
    by (auto simp: at_rest_def serve_step_iff waiting_state_def sample_grpc_def)
  show "\<exists>d. forceStop waiting_state = Armed d \<and> clock waiting_state < d \<and> d \<le> clock waiting_state + 5"
    using cancelled_service_ends [OF sample_grpc_laws sample_waits] r by (auto simp: waiting_state_def)
qed

theorem shutdown_is_graceful_witness:
  "main stopped_state = Returned None \<and> (\<exists>c. cancelled_at stopped_state = Some c \<and> c + 5 \<le> clock stopped_state)
    \<and> statuses stopped_state = [([], NOT_SERVING), (''upstream.UpstreamService'', NOT_SERVING)]"
proof -
  have "forceStop stopped_state = Fired 5" "main stopped_state = Returned None" "snd (grpc_state stopped_state)"
    by (simp_all add: stopped_state_def)
  with shutdown_is_graceful [OF sample_grpc_laws run_append [OF sample_waits sample_stops]] show ?thesis
    by (auto simp: serving_status_def provider_config_def)
qed

end
