(* ===== verification/Server.thy ===== *)
theory Server imports GoLib Http "HOL-Library.Word" begin

unbundle bit_operations_syntax

text \<open>
  What is around the handlers: the middleware of \<open>internal/middleware/httpserver\<close>, the writer
  of the log (\<open>internal/logger\<close>), the health routes (\<open>cmd/api/health.go\<close>) and the routes of every
  module with their filters (\<open>routes.go\<close> of each module, \<open>cmd/api/routes.go\<close>).
\<close>

section \<open>Request identifiers\<close>

text \<open>The regular expression \<open>^[A-Za-z0-9._:-]{1,128}$\<close>.\<close>

definition request_id_char :: "char \<Rightarrow> bool" where
  "request_id_char c \<longleftrightarrow>
     (let n = (of_char c :: nat) in 65 \<le> n \<and> n \<le> 90 \<or> 97 \<le> n \<and> n \<le> 122 \<or> 48 \<le> n \<and> n \<le> 57) \<or> c \<in> set ''._:-''"

definition IsValidRequestID :: "bytes \<Rightarrow> bool" where
  "IsValidRequestID v \<longleftrightarrow> 1 \<le> length v \<and> length v \<le> 128 \<and> list_all request_id_char v"

text \<open>\<open>masked c m b\<close> is \<open>(c & m) | b\<close> on a byte.\<close>

definition masked :: "char \<Rightarrow> 8 word \<Rightarrow> 8 word \<Rightarrow> char" where
  "masked c m b = char_of (unat ((of_nat (of_char c) AND m) OR b))"

text \<open>The version and the variant of a random UUID; \<open>v\<close> are 16 bytes.\<close>

definition uuid_bytes :: "bytes \<Rightarrow> bytes" where
  "uuid_bytes v = (v[6 := masked (v ! 6) 0x0F 0x40])[8 := masked (v ! 8) 0x3F 0x80]"

definition newRequestID :: "go_error + bytes \<Rightarrow> go_error + bytes" where
  "newRequestID rnd = (case rnd of
       Inl e \<Rightarrow> Inl (Wrap ''read random bytes'' e)
     | Inr v \<Rightarrow> let v = uuid_bytes (fill_bytes 16 v) in
         Inr (hex_encode (take 4 v) @ ''-'' @ hex_encode (take 2 (drop 4 v)) @ ''-'' @ hex_encode (take 2 (drop 6 v))
           @ ''-'' @ hex_encode (take 2 (drop 8 v)) @ ''-'' @ hex_encode (take 6 (drop 10 v))))"

text \<open>A reply of the framework outside the response contract: a status and the members of an object.\<close>

type_synonym plain = "nat \<times> (bytes \<times> bytes) list"

text \<open>The filter sets the identifier in the response and in the context; \<open>header\<close> is the client's.\<close>

definition RequestID :: "go_error + bytes \<Rightarrow> bytes \<Rightarrow> plain + bytes" where
  "RequestID rnd header =
     (if IsValidRequestID header then Inr header
      else case newRequestID rnd of
        Inl _ \<Rightarrow> Inl (500, [(''message'', ''failed to create request id'')])
      | Inr requestID \<Rightarrow> Inr requestID)"

section \<open>Panics and the access log\<close>

text \<open>A handler returns or panics; a panic is logged and becomes a reply.\<close>

datatype 'a outcome = Returned 'a | Panicked bytes

definition Recovery :: "'a outcome \<Rightarrow> plain + 'a" where
  "Recovery r = (case r of
       Returned x \<Rightarrow> Inr x
     | Panicked _ \<Rightarrow> Inl (500, [(''message'', ''internal server error'')]))"

text \<open>What is logged of a request; a duration is cut to milliseconds, towards zero.\<close>

record access_entry =
  al_bytes :: int
  al_duration_ms :: int
  al_method :: bytes
  al_path :: bytes
  al_request_id :: bytes
  al_status :: nat

definition AccessLog :: "int \<Rightarrow> int \<Rightarrow> bytes \<Rightarrow> bytes \<Rightarrow> bytes \<Rightarrow> int \<Rightarrow> nat \<Rightarrow> access_entry" where
  "AccessLog startedAt finishedAt method path requestID written st =
     \<lparr>al_bytes = written, al_duration_ms = sgn (finishedAt - startedAt) * (\<bar>finishedAt - startedAt\<bar> div 1000000), al_method = method, al_path = path,
      al_request_id = requestID, al_status = st\<rparr>"

section \<open>The writer of the log\<close>

text \<open>
  The console and the file each take some bytes and may fail; a failure of the file is reported on
  the error output, and never to the caller.
\<close>

record dualWriter =
  console :: "bytes \<Rightarrow> nat \<times> go_error option"
  log_file :: "bytes \<Rightarrow> nat \<times> go_error option"

definition dual_Write :: "dualWriter \<Rightarrow> bytes \<Rightarrow> (nat \<times> go_error option) \<times> go_error option" where
  "dual_Write w v =
     (let (written, consoleErr) = console w v;
          consoleErr = (if written \<noteq> length v \<and> consoleErr = None then Some (Other ''short write'') else consoleErr);
          reported = map_option (Wrap ''logger file write failed'') (snd (log_file w v)) in
      (if consoleErr \<noteq> None then (written, consoleErr) else (length v, None), reported))"

section \<open>Health\<close>

definition serviceName :: bytes where
  "serviceName = ''ai-gateway''"

definition health :: "bytes \<Rightarrow> bytes \<Rightarrow> plain" where
  "health environment version =
     (200, [(''environment'', environment), (''service'', serviceName), (''status'', ''ok''), (''version'', version)])"

text \<open>
  \<open>upstream\<close> is what the health service of the upstream answers, whether it is serving, and none when
  there is no connection or no provider.
\<close>

definition ready ::
  "bytes \<Rightarrow> bytes \<Rightarrow> go_error option \<Rightarrow> go_error option \<Rightarrow> (go_error + bool) option \<Rightarrow> plain" where
  "ready environment version pingDatabase pingRedis upstream =
     (let unavailable = (503, [(''status'', ''unavailable'')]) in
      if pingDatabase \<noteq> None then unavailable
      else if pingRedis \<noteq> None then unavailable
      else case upstream of
        None \<Rightarrow> health environment version
      | Some result \<Rightarrow> if result \<noteq> Inr True then unavailable else health environment version)"

section \<open>Routes\<close>

datatype route_filter = RequestIDFilter | RecoveryFilter | AccessLogFilter | JwtRoute | ApikeyRoute

datatype endpoint =
    E_Health | E_Ready | E_Ping
  | E_Login | E_Register | E_Refresh | E_Logout | E_CurrentUser
  | E_CreatApikey | E_ApikeyList | E_UpdateApikey | E_ReplaceAccounts | E_DeleteApikey
  | E_CreatExternal | E_ListExternal | E_UpdateExternal | E_DeleteExternal
  | E_OauthLogin | E_OauthCallback | E_OauthList | E_OauthRefresh | E_OauthDelete | E_LoginDevice | E_CallbackDevice
  | E_ChatClaude | E_ChatResponses | E_ChatOpenAI

text \<open>A group of routes has a prefix and filters; the routes of the group get both.\<close>

record group =
  g_path :: bytes
  g_filters :: "route_filter list"

record route_entry =
  re_method :: bytes
  re_path :: bytes
  re_filters :: "route_filter list"
  re_endpoint :: endpoint

definition Group :: "group \<Rightarrow> bytes \<Rightarrow> route_filter list \<Rightarrow> group" where
  "Group g relative fs = \<lparr>g_path = g_path g @ relative, g_filters = g_filters g @ fs\<rparr>"

definition HandleWith :: "group \<Rightarrow> bytes \<Rightarrow> bytes \<Rightarrow> route_filter list \<Rightarrow> endpoint \<Rightarrow> route_entry" where
  "HandleWith g method relative fs e =
     \<lparr>re_method = method, re_path = g_path g @ relative, re_filters = g_filters g @ fs, re_endpoint = e\<rparr>"

abbreviation Handle :: "group \<Rightarrow> bytes \<Rightarrow> bytes \<Rightarrow> endpoint \<Rightarrow> route_entry" where
  "Handle g method relative e \<equiv> HandleWith g method relative [] e"

definition registerHealthRoutes :: "group \<Rightarrow> route_entry list" where
  "registerHealthRoutes router =
     [Handle router ''GET'' ''/'' E_Health, Handle router ''GET'' ''/api/health'' E_Health,
      Handle router ''GET'' ''/health/live'' E_Health, Handle router ''GET'' ''/health/ready'' E_Ready]"

definition RegisterAuthRoutes :: "group \<Rightarrow> route_entry list" where
  "RegisterAuthRoutes router =
     (let auth = Group router ''/auth'' [] in
      [Handle auth ''POST'' ''/login'' E_Login, Handle auth ''POST'' ''/register'' E_Register,
       Handle auth ''POST'' ''/refresh'' E_Refresh, Handle auth ''POST'' ''/logout'' E_Logout])"

definition RegisterUserRoutes :: "group \<Rightarrow> route_entry list" where
  "RegisterUserRoutes router =
     (let us = Group router ''/users'' [JwtRoute]; auth = Group router ''/auth'' [JwtRoute] in
      [Handle us ''GET'' ''/me'' E_CurrentUser, Handle auth ''GET'' ''/verify'' E_CurrentUser])"

definition RegisterApikeyRoutes :: "group \<Rightarrow> route_entry list" where
  "RegisterApikeyRoutes api =
     (let keys = Group api ''/api-keys'' [JwtRoute] in
      [Handle keys ''POST'' [] E_CreatApikey, Handle keys ''GET'' [] E_ApikeyList,
       Handle keys ''PATCH'' ''/:id'' E_UpdateApikey, Handle keys ''PUT'' ''/:id/accounts'' E_ReplaceAccounts,
       Handle keys ''DELETE'' ''/:id'' E_DeleteApikey])"

definition RegisterRoutes :: "group \<Rightarrow> route_entry list" where
  "RegisterRoutes api =
     (let keys = Group api ''/external-api-keys'' [JwtRoute] in
      [Handle keys ''POST'' [] E_CreatExternal, Handle keys ''GET'' [] E_ListExternal,
       Handle keys ''PUT'' ''/:id'' E_UpdateExternal, Handle keys ''DELETE'' ''/:id'' E_DeleteExternal])"

definition RegisterOauthRoutes :: "group \<Rightarrow> route_entry list" where
  "RegisterOauthRoutes api =
     [HandleWith api ''GET'' ''/login'' [JwtRoute] E_OauthLogin, Handle api ''GET'' ''/callback'' E_OauthCallback,
      HandleWith api ''GET'' ''/list'' [JwtRoute] E_OauthList, HandleWith api ''POST'' ''/refresh'' [JwtRoute] E_OauthRefresh,
      HandleWith api ''POST'' ''/delete'' [JwtRoute] E_OauthDelete, HandleWith api ''POST'' ''/logindevice'' [JwtRoute] E_LoginDevice,
      HandleWith api ''POST'' ''/callbackdevice'' [JwtRoute] E_CallbackDevice]"

definition RegisterChatRoutes :: "group \<Rightarrow> route_entry list" where
  "RegisterChatRoutes api =
     (let api = Group api [] [ApikeyRoute] in
      [Handle api ''POST'' ''/v1/messages'' E_ChatClaude, Handle api ''POST'' ''/v1/responses'' E_ChatResponses,
       Handle api ''POST'' ''/v1/chat/completions'' E_ChatOpenAI])"

text \<open>The filters of the router itself, which also run before it answers that there is no route.\<close>

definition router_filters :: "route_filter list" where
  "router_filters = [RequestIDFilter, RecoveryFilter, AccessLogFilter]"

definition newRouter :: "route_entry list" where
  "newRouter =
     (let router = \<lparr>g_path = [], g_filters = router_filters\<rparr>;
          api = Group router ''/api/v1'' [] in
      registerHealthRoutes router @ [Handle router ''GET'' ''/ping'' E_Ping]
      @ RegisterAuthRoutes api @ RegisterUserRoutes api @ RegisterApikeyRoutes api @ RegisterRoutes api
      @ RegisterOauthRoutes (Group router ''/oauth'' []) @ RegisterChatRoutes (Group router [] []))"

section \<open>Facts\<close>

lemma hex_chars: "n < 16 \<Longrightarrow> request_id_char (hex_digit n)"
proof -
  have "list_all (\<lambda>n. request_id_char (hex_digit n)) [0..<16]" by code_simp
  then show "n < 16 \<Longrightarrow> request_id_char (hex_digit n)" by (simp add: list_all_iff)
qed

lemma hex_encode_chars [simp]: "list_all request_id_char (hex_encode s)"
proof -
  have "(of_char c :: nat) div 16 < 16" for c :: char
    using nat_of_char_less_256 [of c] by (simp add: less_mult_imp_div_less)
  then show ?thesis by (auto simp: hex_encode_def list_all_iff intro!: hex_chars)
qed

lemma request_id_dash [simp]: "request_id_char CHR ''-''"
  by code_simp

text \<open>A new identifier is one that every other service of the system accepts.\<close>

lemma newRequestID_valid:
  assumes "newRequestID (Inr v) = Inr i"
  shows "IsValidRequestID i \<and> length i = 36"
proof -
  have "length (uuid_bytes (fill_bytes 16 v)) = 16" by (simp add: uuid_bytes_def)
  then show ?thesis using assms by (auto simp: newRequestID_def Let_def IsValidRequestID_def)
qed

lemma RequestID_valid:
  assumes "RequestID rnd h = Inr i"
  shows "IsValidRequestID i"
proof (cases "IsValidRequestID h")
  case False
  then obtain v where "rnd = Inr v" and "newRequestID (Inr v) = Inr i"
    using assms by (cases rnd) (auto simp: RequestID_def newRequestID_def Let_def)
  then show ?thesis using newRequestID_valid by blast
qed (use assms in \<open>simp add: RequestID_def\<close>)

lemma dual_Write_complete: "fst (dual_Write w v) = (length v, None) \<longleftrightarrow> console w v = (length v, None)"
  by (auto simp: dual_Write_def Let_def split: prod.splits if_splits)

text \<open>The framework panics when two routes have the same method and path: there are none.\<close>

lemma routes_distinct: "distinct (map (\<lambda>e. (re_method e, re_path e)) newRouter)"
  by code_simp

text \<open>The routes that do not need a token: signing in, the callback of the provider, health and the chat
  routes, which need a key.\<close>

definition open_endpoints :: "endpoint list" where
  "open_endpoints = [E_Health, E_Ready, E_Ping, E_Login, E_Register, E_Refresh, E_Logout, E_OauthCallback]"

definition chat_endpoints :: "endpoint list" where
  "chat_endpoints = [E_ChatClaude, E_ChatResponses, E_ChatOpenAI]"

lemma routes_protected:
  "list_all (\<lambda>e. re_filters e = [RequestIDFilter, RecoveryFilter, AccessLogFilter]
     @ (if re_endpoint e \<in> set open_endpoints then [] else if re_endpoint e \<in> set chat_endpoints then [ApikeyRoute] else [JwtRoute]))
   newRouter"
  by code_simp

end
