(* ===== verification/Services.thy ===== *)
theory Services imports Startup ApiKeyHttp ExternalKeys OAuth Auth begin

text \<open>
  The services of the API, made from its connections and its configuration: the constructors of the
  modules, and the two instances that \<open>modules/apikey\<close> keeps for the whole process, the check of API
  keys and the getter of credentials, which are empty until the start of the API injects them.
\<close>

section \<open>The instances of the process\<close>

text \<open>A repository is the faults of its statements.\<close>

record Apikeycheck =
  check_repository :: "key_faults option"

definition NewCheck :: Apikeycheck where
  "NewCheck = \<lparr>check_repository = None\<rparr>"

definition inject_check :: "key_faults \<Rightarrow> Apikeycheck \<Rightarrow> Apikeycheck" where
  "inject_check repo c = c\<lparr>check_repository := Some repo\<rparr>"

definition ApikeycheckInject :: "key_faults \<Rightarrow> Apikeycheck" where
  "ApikeycheckInject repo = inject_check repo NewCheck"

text \<open>The filter of chat requests with the check of the process.\<close>

definition filter_with :: "Apikeycheck \<Rightarrow> (bytes \<Rightarrow> bytes) \<Rightarrow> time \<Rightarrow> bytes \<Rightarrow> go_error + bytes \<Rightarrow> db \<Rightarrow> ('d, apikey_context) middleware" where
  "filter_with c sha256 now header body d =
     (case check_repository c of
        None \<Rightarrow> ApikeyFilter False (\<lambda>_. None) sha256 now header body d
      | Some repo \<Rightarrow> ApikeyFilter True repo sha256 now header body d)"

record CredentialGetter =
  getter_encryptionKey :: bytes

definition NewCredentialGetter :: CredentialGetter where
  "NewCredentialGetter = \<lparr>getter_encryptionKey = []\<rparr>"

definition inject_key :: "bytes \<Rightarrow> CredentialGetter \<Rightarrow> CredentialGetter" where
  "inject_key key g = g\<lparr>getter_encryptionKey := key\<rparr>"

definition CredentialInject :: "bytes \<Rightarrow> CredentialGetter" where
  "CredentialInject key = inject_key key NewCredentialGetter"

text \<open>What \<open>getCredential\<close> decrypts with.\<close>

definition getter_decrypt :: "aead \<Rightarrow> CredentialGetter \<Rightarrow> bytes \<Rightarrow> bytes option" where
  "getter_decrypt a g c = (case Decrypt a (getter_encryptionKey g) c of Inl _ \<Rightarrow> None | Inr p \<Rightarrow> Some p)"

section \<open>Constructors\<close>

text \<open>
  The last four arguments of \<open>NewAuthService\<close> are the libraries it calls. The hash of a fixed password,
  which a login of an unknown user is compared with so that it takes as long, has no other effect and
  is left out.
\<close>

definition NewAuthService ::
  "user_faults \<Rightarrow> JWTManager \<Rightarrow> session_faults \<Rightarrow> 'e casbin
    \<Rightarrow> jwt_lib \<Rightarrow> (bytes \<Rightarrow> go_error + bytes) \<Rightarrow> (bytes \<Rightarrow> bytes \<Rightarrow> bool) \<Rightarrow> (bytes \<Rightarrow> bytes) \<Rightarrow> 'e AuthService" where
  "NewAuthService repo m redis e lib hash verify sha =
     \<lparr>userRepository = repo, jwtLibrary = lib, jwtManager = m, redisClient = redis, enforcer = e,
      HashPassword = hash, VerifyPassword = verify, sha256Sum = sha\<rparr>"

definition NewExternalService :: "ext_faults \<Rightarrow> bytes \<Rightarrow> aead \<Rightarrow> host_parser \<Rightarrow> (bytes \<Rightarrow> bytes) \<Rightarrow> ExternalService" where
  "NewExternalService repo key a hosts sha =
     \<lparr>repository = repo, encryptionKey = key, cipher = a, urlHosts = hosts, sha256_of = sha\<rparr>"

text \<open>The two arguments for Redis are the faults of the commands of both flows.\<close>

definition NewOauthService ::
  "(state_stmt \<Rightarrow> fault option) \<Rightarrow> (device_stmt \<Rightarrow> fault option) option \<Rightarrow> (bytes \<times> OIDCAuth) list \<Rightarrow> upstream_client option
    \<Rightarrow> oauth_faults option \<Rightarrow> bytes
    \<Rightarrow> aead \<Rightarrow> time_codec \<Rightarrow> (oauth2_config \<Rightarrow> bytes \<Rightarrow> auth_code_option list \<Rightarrow> bytes) \<Rightarrow> OauthService" where
  "NewOauthService redis devices auths dir repo key a tcodec url =
     \<lparr>stateRedis = redis, deviceRedis = devices, oidcAuth = (\<lambda>p. map_option Some (map_of auths p)), directory = dir,
      oauthRepository = repo, oauthKey = key, oauthCipher = a, codec = tcodec, buildAuthCodeURL = url\<rparr>"

end
