(* ===== verification/Api.thy ===== *)
theory Api imports Server Services ChatHandler begin

text \<open>
  The API as a whole: every request is routed, goes through the filters of its route and reaches one
  handler (\<open>cmd/api/routes.go\<close>, \<open>internal/router/routerall.go\<close>); requests follow each other from a
  start of the program on.
\<close>

section \<open>Requests\<close>

record request =
  rq_method :: bytes
  rq_path :: bytes
  rq_query :: "bytes \<Rightarrow> bytes"
  rq_authorization :: bytes
  rq_requestID :: bytes
  rq_accept :: bytes
  rq_refreshCookie :: "bytes option"
  rq_body :: bytes

text \<open>The state requests share: the tables, Redis, and the policies of the enforcer.\<close>

record 'e world =
  w_db :: db
  w_redis :: redis
  w_policies :: 'e

text \<open>
  What a request is served with: the services with their configuration and the outcome of their calls,
  the time, and what \<open>crypto/rand\<close> gives in turn, first for the identifier of the request.
\<close>

record ('e, 'st) service =
  sv_environment :: bytes
  sv_version :: bytes
  sv_pingDatabase :: "go_error option"
  sv_pingRedis :: "go_error option"
  sv_upstreamHealth :: "(go_error + bool) option"
  sv_auth :: "'e AuthService"
  sv_cookieSecure :: bool
  sv_keyFaults :: key_faults
  sv_check :: Apikeycheck
  sv_getter :: CredentialGetter
  sv_parseTime :: "bytes \<Rightarrow> time option option"
  sv_external :: ExternalService
  sv_oauth :: OauthService
  sv_sdk :: "'st sdk"
  sv_chatStream :: "ChatRequest \<Rightarrow> upstream_stream"
  sv_chatUnary :: "ChatRequest \<Rightarrow> go_error + bytes option"
  sv_ctxError :: "go_error option"
  sv_now :: time
  sv_later :: time
  sv_rnd :: "nat \<Rightarrow> go_error + bytes"
  sv_verifier :: bytes
  sv_meanwhile :: "redis \<Rightarrow> redis"

text \<open>What is answered: the reply of a module, or one of the framework.\<close>

datatype api_out =
    AuthOut "auth_data reply" "cookie list"
  | KeyOut key_reply
  | ExternalOut ext_reply
  | OauthOut oauth_out
  | ChatOut chat_out
  | Filtered "unit reply"
  | PlainOut plain
  | PongOut "(bytes \<times> bytes) list reply"
  | Unrouted nat

fun oauth_status :: "oauth_out \<Rightarrow> nat" where
  "oauth_status (Doc r) = reply_status r"
| "oauth_status (Redirect st hs url) = st"

fun chat_status :: "chat_out \<Rightarrow> nat" where
  "chat_status (ChatReply r) = reply_status r"
| "chat_status _ = 200"

fun out_status :: "api_out \<Rightarrow> nat" where
  "out_status (AuthOut r cs) = reply_status r"
| "out_status (KeyOut r) = reply_status r"
| "out_status (ExternalOut r) = reply_status r"
| "out_status (OauthOut out) = oauth_status out"
| "out_status (ChatOut out) = chat_status out"
| "out_status (Filtered r) = reply_status r"
| "out_status (PlainOut p) = fst p"
| "out_status (PongOut r) = reply_status r"
| "out_status (Unrouted st) = st"

section \<open>Filters\<close>

text \<open>The context of a request, with what the filters put into it.\<close>

record request_context =
  cx_requestID :: bytes
  cx_user :: "jwt_context option"
  cx_apikey :: "apikey_context option"

definition start_context :: "request_context" where
  "start_context = \<lparr>cx_requestID = [], cx_user = None, cx_apikey = None\<rparr>"

text \<open>Recovery and the access log pass every request on; no handler of the model panics.\<close>

fun run_filters :: "('e, 'st) service \<Rightarrow> request \<Rightarrow> 'e world \<Rightarrow> route_filter list \<Rightarrow> request_context \<Rightarrow> api_out + request_context" where
  "run_filters s rq w [] cx = Inr cx"
| "run_filters s rq w (f # fs) cx =
     (case f of
        RequestIDFilter \<Rightarrow> (case RequestID (sv_rnd s 0) (rq_requestID rq) of
            Inl p \<Rightarrow> Inl (PlainOut p)
          | Inr i \<Rightarrow> run_filters s rq w fs (cx\<lparr>cx_requestID := i\<rparr>))
      | RecoveryFilter \<Rightarrow> run_filters s rq w fs cx
      | AccessLogFilter \<Rightarrow> run_filters s rq w fs cx
      | JwtRoute \<Rightarrow> (case JwtFilter (jwtLibrary (sv_auth s)) (jwtManager (sv_auth s)) (sv_now s) (rq_authorization rq) of
            Abort r \<Rightarrow> Inl (Filtered r)
          | Next u \<Rightarrow> run_filters s rq w fs (cx\<lparr>cx_user := Some u\<rparr>))
      | ApikeyRoute \<Rightarrow> (case filter_with (sv_check s) (sha256Sum (sv_auth s)) (sv_now s) (rq_authorization rq)
              (Inr (rq_body rq)) (w_db w) of
            Abort r \<Rightarrow> Inl (Filtered r)
          | Next k \<Rightarrow> run_filters s rq w fs (cx\<lparr>cx_apikey := Some k\<rparr>)))"

section \<open>Handlers\<close>

definition on_auth :: "('a \<Rightarrow> api_out) \<Rightarrow> ('e auth_state \<Rightarrow> 'a \<times> 'e auth_state) \<Rightarrow> 'e world \<Rightarrow> api_out \<times> 'e world" where
  "on_auth out h w =
     (let (r, st) = h \<lparr>st_db = w_db w, st_redis = w_redis w, st_policies = w_policies w\<rparr> in
      (out r, w\<lparr>w_db := st_db st, w_redis := st_redis st, w_policies := st_policies st\<rparr>))"

definition on_tables :: "('a \<Rightarrow> api_out) \<Rightarrow> (db \<Rightarrow> 'a \<times> db) \<Rightarrow> 'e world \<Rightarrow> api_out \<times> 'e world" where
  "on_tables out h w = (let (r, d) = h (w_db w) in (out r, w\<lparr>w_db := d\<rparr>))"

definition on_oauth :: "(oauth_state \<Rightarrow> oauth_out \<times> oauth_state) \<Rightarrow> 'e world \<Rightarrow> api_out \<times> 'e world" where
  "on_oauth h w =
     (let (r, st) = h \<lparr>os_db = w_db w, os_redis = w_redis w\<rparr> in
      (OauthOut r, w\<lparr>w_db := os_db st, w_redis := os_redis st\<rparr>))"

definition chat :: "('e, 'st) service \<Rightarrow> request \<Rightarrow> request_context \<Rightarrow> Format \<Rightarrow> api_out" where
  "chat s rq cx client =
     ChatOut (Chat (sv_sdk s) (sv_chatStream s) (sv_chatUnary s) (sv_ctxError s) (getter_decrypt (oauthCipher (sv_oauth s)) (sv_getter s)) (sv_now s)
       (case cx_apikey cx of None \<Rightarrow> [] | Some k \<Rightarrow> ctx_accounts k) (Inr (rq_body rq)) client)"

definition run_endpoint ::
  "('e, 'st) service \<Rightarrow> request \<Rightarrow> bytes \<Rightarrow> request_context \<Rightarrow> endpoint \<Rightarrow> 'e world \<Rightarrow> api_out \<times> 'e world" where
  "run_endpoint s rq param cx e w =
     (let a = sv_auth s; ks = sv_keyFaults s; ex = sv_external s; oa = sv_oauth s; now = sv_now s;
          user = map_option ctx_userID (cx_user cx); body = rq_body rq; accept = rq_accept rq;
          cookie = rq_refreshCookie rq; provider = rq_query rq ''provider'';
          rnd1 = sv_rnd s 1; rnd2 = sv_rnd s 2; rnds = (\<lambda>n. sv_rnd s (Suc n)) in
      case e of
        E_Health \<Rightarrow> (PlainOut (health (sv_environment s) (sv_version s)), w)
      | E_Ready \<Rightarrow> (PlainOut (ready (sv_environment s) (sv_version s) (sv_pingDatabase s) (sv_pingRedis s) (sv_upstreamHealth s)), w)
      | E_Ping \<Rightarrow> (PongOut (Success (Some [(''message'', ''pong'')])), w)
      | E_Login \<Rightarrow> on_auth (\<lambda>(r, cs). AuthOut r cs) (LoginHandler a (sv_cookieSecure s) now rnd1 body) w
      | E_Register \<Rightarrow> on_auth (\<lambda>(r, cs). AuthOut r cs) (RegisterHandler a now body) w
      | E_Refresh \<Rightarrow> on_auth (\<lambda>(r, cs). AuthOut r cs) (RefreshHandler a (sv_cookieSecure s) now rnd1 cookie) w
      | E_Logout \<Rightarrow> on_auth (\<lambda>(r, cs). AuthOut r cs) (LogoutHandler a (sv_cookieSecure s) cookie) w
      | E_CurrentUser \<Rightarrow> on_auth (\<lambda>r. AuthOut r []) (GetCurrentUser a user) w
      | E_CreatApikey \<Rightarrow> on_tables KeyOut (CreatApikeyHandler ks (sha256Sum a) now rnd1 user body) w
      | E_ApikeyList \<Rightarrow> (KeyOut (ApikeyListHandler ks user (w_db w)), w)
      | E_UpdateApikey \<Rightarrow> on_tables KeyOut (UpdateApikeyHandler ks (sv_parseTime s) now user param body) w
      | E_ReplaceAccounts \<Rightarrow> on_tables KeyOut (ReplaceApikeyAccountsHandler ks now user param body) w
      | E_DeleteApikey \<Rightarrow> on_tables KeyOut (DeleteApikeyHandler ks user param) w
      | E_CreatExternal \<Rightarrow> on_tables ExternalOut (CreatExternalApiKey ex now rnd1 user body) w
      | E_ListExternal \<Rightarrow> (ExternalOut (ListHandler ex user (w_db w)), w)
      | E_UpdateExternal \<Rightarrow> on_tables ExternalOut (UpdateExternalApiKey ex now rnd1 user param body) w
      | E_DeleteExternal \<Rightarrow> on_tables ExternalOut (DeleteExternalApiKey ex user param) w
      | E_OauthLogin \<Rightarrow> on_oauth (OAuthLoginHandler oa now rnd1 rnd2 (sv_verifier s) user provider accept) w
      | E_OauthCallback \<Rightarrow> on_oauth (CallbackHandler oa now rnds (rq_query rq ''state'') (rq_query rq ''error'') (rq_query rq ''code'') accept) w
      | E_OauthList \<Rightarrow> (OauthOut (OauthList oa user \<lparr>os_db = w_db w, os_redis = w_redis w\<rparr>), w)
      | E_OauthRefresh \<Rightarrow> on_oauth (RefreshTokenHandler oa now rnds user body) w
      | E_OauthDelete \<Rightarrow> on_oauth (DeleteHandler oa user body) w
      | E_LoginDevice \<Rightarrow> on_oauth (LoginDeviceFlow oa now user provider) w
      | E_CallbackDevice \<Rightarrow> on_oauth (CallbackDeviceFlow oa now (sv_later s) rnds (sv_meanwhile s) user provider body accept) w
      | E_ChatClaude \<Rightarrow> (chat s rq cx FormatClaude, w)
      | E_ChatResponses \<Rightarrow> (chat s rq cx FormatOpenAIResponse, w)
      | E_ChatOpenAI \<Rightarrow> (chat s rq cx FormatOpenAI, w))"

section \<open>The services of a started API\<close>

text \<open>
  What a request is served with when the API has started with a configuration: \<open>s\<close> gives what differs
  from request to request and the libraries, the rest comes from the configuration and the instances.
\<close>

definition new_services :: "apiConfiguration \<Rightarrow> instances \<Rightarrow> ('e, 'st) service \<Rightarrow> ('e, 'st) service" where
  "new_services cfg i s =
     (let a = sv_auth s; ex = sv_external s; oa = sv_oauth s; key = api_oauthEncryptionKey cfg;
          m = (case manager i of None \<Rightarrow> jwtManager a | Some m \<Rightarrow> m) in
      s\<lparr>sv_environment := cfg_Environment (api_runtime cfg),
        sv_auth := NewAuthService (userRepository a) m (redisClient a) (enforcer a)
          (jwtLibrary a) (HashPassword a) (VerifyPassword a) (sha256Sum a),
        sv_cookieSecure := cfg_CookieSecure (api_runtime cfg),
        sv_external := NewExternalService (repository ex) key (cipher ex) (urlHosts ex) (sha256_of ex),
        sv_oauth := NewOauthService (stateRedis oa) (deviceRedis oa) (providers i) (directory oa) (oauthRepository oa) key
          (oauthCipher oa) (codec oa) (buildAuthCodeURL oa),
        sv_check := ApikeycheckInject (sv_keyFaults s),
        sv_getter := CredentialInject key,
        sv_upstreamHealth := (if upstreamConnection i \<and> providers i \<noteq> [] then sv_upstreamHealth s else None)\<rparr>)"

section \<open>Serving\<close>

text \<open>
  The router of the framework finds the route of a method and a path, with the value of the parameter
  \<open>id\<close>, or answers itself: not found, method not allowed, or a redirection to the path with or without
  a final slash; its filters run before the first two. What the code relies on: a route that is found is
  a registered one for the method.
\<close>

type_synonym gin = "route_entry list \<Rightarrow> bytes \<Rightarrow> bytes \<Rightarrow> nat + route_entry \<times> bytes"

definition gin_laws :: "gin \<Rightarrow> bool" where
  "gin_laws g \<longleftrightarrow> (\<forall>routes m p e i. g routes m p = Inr (e, i) \<longrightarrow> e \<in> set routes \<and> re_method e = m)"

definition serve :: "gin \<Rightarrow> ('e, 'st) service \<Rightarrow> request \<Rightarrow> 'e world \<Rightarrow> api_out \<times> 'e world" where
  "serve g s rq w =
     (case g newRouter (rq_method rq) (rq_path rq) of
        Inl st \<Rightarrow> (if st = 404 \<or> st = 405
            then (case run_filters s rq w router_filters start_context of Inl out \<Rightarrow> out | Inr _ \<Rightarrow> Unrouted st)
            else Unrouted st, w)
      | Inr (e, param) \<Rightarrow> (case run_filters s rq w (re_filters e) start_context of
            Inl out \<Rightarrow> (out, w)
          | Inr cx \<Rightarrow> run_endpoint s rq param cx (re_endpoint e) w))"

text \<open>
  The worlds the API reaches from a successful start, whatever its requests are and what happens to
  them; \<open>starts\<close> is what it may be started with, and \<open>served\<close> the services it may be served with.
\<close>

inductive reachable ::
  "gin \<Rightarrow> ('e outside \<Rightarrow> bool) \<Rightarrow> (('e, 'st) service \<Rightarrow> bool) \<Rightarrow> 'e process \<Rightarrow> 'e world \<Rightarrow> bool" for g starts served p where
  start: "starts out \<Longrightarrow> newApplicationInstances out cfg p = (Inr i, p') \<Longrightarrow>
     reachable g starts served p \<lparr>w_db = pr_db p', w_redis = r, w_policies = pr_policies p'\<rparr>"
| step: "reachable g starts served p w \<Longrightarrow> served s \<Longrightarrow> serve g s rq w = (out, w') \<Longrightarrow> reachable g starts served p w'"

end
