(* ===== verification/ApiProps.thy ===== *)
theory ApiProps imports Api StartupProps ExternalProps OAuthProps ApiKeyProps begin

text \<open>
  The properties of the API as a whole: no request breaks the tables, reaches the rows of another user,
  or, without credentials, changes anything but what the endpoint it is routed to is there for.
\<close>

section \<open>Statements on the rows of a user\<close>

lemma insert_external_frame: "ext_UserID r \<noteq> v \<Longrightarrow> rows_of v (snd (insert_external now r d)) = rows_of v d"
  by (auto simp: insert_external_def rows_of_def Let_def)

lemma update_external_frame:
  assumes "u \<noteq> v" and "\<And>k. ext_UserID (f k) = ext_UserID k"
  shows "rows_of v (snd (update_external (\<lambda>k. ext_UserID k = u \<and> ext_ID k = i) f d)) = rows_of v d"
  using assms by (auto simp: update_external_def rows_of_def intro!: filter_update_where)

lemma delete_external_frame:
  "u \<noteq> v \<Longrightarrow> rows_of v (snd (delete_external (\<lambda>k. ext_UserID k = u \<and> ext_ID k = i) d)) = rows_of v d"
  by (auto simp: delete_external_def rows_of_def Let_def intro!: filter_cong)

lemma insert_oauth_frame: "oa_UserID r \<noteq> v \<Longrightarrow> rows_of v (snd (insert_oauth now r d)) = rows_of v d"
  by (auto simp: insert_oauth_def rows_of_def Let_def)

lemma update_oauth_frame:
  assumes "u \<noteq> v" and "\<And>r. oa_UserID (f r) = oa_UserID r"
  shows "rows_of v (snd (update_oauth (owned_oauth u i) f d)) = rows_of v d"
  using assms by (auto simp: update_oauth_def rows_of_def owned_oauth_def intro!: filter_update_where)

text \<open>Rows of another user survive a deletion and what cascades from it.\<close>

lemma filter_kept: "(\<And>a. p a \<Longrightarrow> g a \<noteq> v) \<Longrightarrow> filter (\<lambda>a. g a = v) (filter (\<lambda>a. \<not> p a) xs) = filter (\<lambda>a. g a = v) xs"
  by (induction xs) auto

lemma delete_oauth_frame:
  assumes "u \<noteq> v"
  shows "rows_of v (snd (delete_oauth (owned_oauth u i) d)) = rows_of v d"
proof -
  let ?gone = "map (\<lambda>a. (oa_UserID a, oa_ID a)) (filter (owned_oauth u i) (oauth_infos d))"
  have "filter (\<lambda>a. oa_UserID a = v) (filter (\<lambda>a. \<not> owned_oauth u i a) (oauth_infos d)) = filter (\<lambda>a. oa_UserID a = v) (oauth_infos d)"
    by (rule filter_kept) (use assms in \<open>simp add: owned_oauth_def\<close>)
  moreover have "filter (\<lambda>a. aa_UserID a = v) (filter (\<lambda>a. \<not> (aa_UserID a, aa_OAuthInfoID a) \<in> set ?gone) (api_key_accounts d))
      = filter (\<lambda>a. aa_UserID a = v) (api_key_accounts d)"
    by (rule filter_kept) (use assms in \<open>auto simp: owned_oauth_def\<close>)
  ultimately show ?thesis
    unfolding delete_oauth_def rows_of_def Let_def by (simp del: filter_filter set_map set_filter)
qed

lemma insert_user_snd: "snd (insert_user now r d) = d \<or> (\<exists>us n. snd (insert_user now r d) = d\<lparr>users := us, users_seq := n\<rparr>)"
  unfolding insert_user_def Let_def
  by (simp only: if_distrib [of snd] snd_conv split: if_split) blast

lemma insert_user_frame: "rows_of v (snd (insert_user now r d)) = rows_of v d"
  using insert_user_snd [of now r d] by (auto simp: rows_of_def)

lemmas table_frames = insert_external_frame update_external_frame delete_external_frame insert_oauth_frame
  update_oauth_frame delete_oauth_frame insert_user_frame

section \<open>Services\<close>

lemma ext_Create_keeps: "db_inv d \<Longrightarrow> db_inv (snd (ext_Create s now rnd u req d))"
  unfolding ext_Create_def ext_Add_def by (intro schema.steps statements_keep) simp_all

lemma ext_Update_keeps: "db_inv d \<Longrightarrow> db_inv (snd (svc_Update s now rnd u i req d))"
  unfolding svc_Update_def ext_Update_def
  by (intro schema.steps) (simp_all add: schema.called update_external_keeps)

lemma ext_Delete_keeps: "db_inv d \<Longrightarrow> db_inv (snd (svc_Delete s u i d))"
  unfolding svc_Delete_def ext_Delete_def
  by (intro schema.steps) (simp_all add: schema.called delete_external_keeps)

lemma SaveToken_keeps: "db_inv d \<Longrightarrow> db_inv (snd (svc_SaveToken s now rnd token flow b d))"
  unfolding svc_SaveToken_def repo_SaveToken_def
  by (auto split: sum.splits option.splits intro!: schema.steps insert_oauth_keeps)

lemma deleteOauth_keeps: "db_inv d \<Longrightarrow> db_inv (snd (deleteUserOauth s i u d))"
  unfolding deleteUserOauth_def repo_deleteUserOauth_def
  by (auto split: option.splits intro!: schema.steps delete_oauth_keeps)

lemma ext_Create_frame: "u \<noteq> v \<Longrightarrow> rows_of v (snd (ext_Create s now rnd u req d)) = rows_of v d"
  unfolding ext_Create_def ext_Add_def by (intro frame_steps) (simp_all add: table_frames)

lemma ext_Update_frame: "u \<noteq> v \<Longrightarrow> rows_of v (snd (svc_Update s now rnd u i req d)) = rows_of v d"
  unfolding svc_Update_def ext_Update_def
  by (intro frame_steps) (simp_all add: frame_steps table_frames)

lemma ext_Delete_frame: "u \<noteq> v \<Longrightarrow> rows_of v (snd (svc_Delete s u i d)) = rows_of v d"
  unfolding svc_Delete_def ext_Delete_def
  by (intro frame_steps) (simp_all add: frame_steps table_frames)

lemma toOauthInfo_user: "toOauthInfo s now rnd i u acc em at rt it ex = Inr m \<Longrightarrow> oa_UserID m = u"
  by (auto simp: toOauthInfo_def split: sum.splits)

lemma SaveToken_frame:
  assumes "lf_UserID flow \<noteq> v"
  shows "rows_of v (snd (svc_SaveToken s now rnd token flow b d)) = rows_of v d"
proof -
  have "rows_of v (snd (if_ok (repo_SaveToken io now m d) (\<lambda>_ d. (Inr (), d)))) = rows_of v d" if "oa_UserID m \<noteq> v" for io m
    unfolding repo_SaveToken_def by (intro frame_steps) (use that in \<open>simp_all add: table_frames\<close>)
  then show ?thesis using assms by (auto simp: svc_SaveToken_def dest!: toOauthInfo_user split: sum.splits option.splits)
qed

lemma deleteOauth_frame: "u \<noteq> v \<Longrightarrow> rows_of v (snd (deleteUserOauth s i u d)) = rows_of v d"
  unfolding deleteUserOauth_def repo_deleteUserOauth_def
  by (auto split: option.splits simp: table_frames intro!: frame_steps)

lemma RefreshToken_frame: "u \<noteq> v \<Longrightarrow> rows_of v (snd (svc_RefreshToken s now rnd u i d)) = rows_of v d"
  unfolding svc_RefreshToken_def UpdateToken_def
  by (auto split: option.splits simp: table_frames intro!: frame_steps)

lemma AddUser_frame: "rows_of v (snd (AddUser io now name h r d)) = rows_of v d"
  unfolding AddUser_def by (intro frame_steps) (simp_all add: table_frames)

section \<open>Handlers\<close>

text \<open>A handler leaves the tables to one operation of its service, for the user of the request.\<close>

lemma key_handlers_tables:
  "snd (CreatApikeyHandler io sha256 now rnd user body d) = d \<or> (\<exists>u oa ext. user = Some u
     \<and> snd (CreatApikeyHandler io sha256 now rnd user body d) = snd (CreatApikey io sha256 now rnd u oa ext d))"
  "snd (UpdateApikeyHandler io parse now user param body d) = d \<or> (\<exists>u kid dis ex upd. user = Some u
     \<and> snd (UpdateApikeyHandler io parse now user param body d) = snd (UpdateApikey io now u kid dis ex upd d))"
  "snd (ReplaceApikeyAccountsHandler io now user param body d) = d \<or> (\<exists>u kid oa ext. user = Some u
     \<and> snd (ReplaceApikeyAccountsHandler io now user param body d) = snd (ReplaceApikeyAccounts io now u kid oa ext d))"
  "snd (DeleteApikeyHandler io user param d) = d \<or> (\<exists>u kid. user = Some u
     \<and> snd (DeleteApikeyHandler io user param d) = snd (DeleteApikey io u kid d))"
proof -
  have ids: "user = Some u" if "apikeyRequestIDs user param = Inr (u, kid)" for u kid
    using that by (auto simp: apikeyRequestIDs_def split: option.splits if_splits)
  show "snd (CreatApikeyHandler io sha256 now rnd user body d) = d \<or> (\<exists>u oa ext. user = Some u
     \<and> snd (CreatApikeyHandler io sha256 now rnd user body d) = snd (CreatApikey io sha256 now rnd u oa ext d))"
    by (auto simp: CreatApikeyHandler_def split: option.splits prod.splits sum.splits) ((metis snd_conv)+)?
  show "snd (UpdateApikeyHandler io parse now user param body d) = d \<or> (\<exists>u kid dis ex upd. user = Some u
     \<and> snd (UpdateApikeyHandler io parse now user param body d) = snd (UpdateApikey io now u kid dis ex upd d))"
    by (auto simp: UpdateApikeyHandler_def Let_def dest!: ids split: option.splits prod.splits sum.splits) ((metis snd_conv)+)?
  show "snd (ReplaceApikeyAccountsHandler io now user param body d) = d \<or> (\<exists>u kid oa ext. user = Some u
     \<and> snd (ReplaceApikeyAccountsHandler io now user param body d) = snd (ReplaceApikeyAccounts io now u kid oa ext d))"
    by (auto simp: ReplaceApikeyAccountsHandler_def Let_def dest!: ids split: option.splits prod.splits sum.splits) ((metis snd_conv)+)?
  show "snd (DeleteApikeyHandler io user param d) = d \<or> (\<exists>u kid. user = Some u
     \<and> snd (DeleteApikeyHandler io user param d) = snd (DeleteApikey io u kid d))"
    by (auto simp: DeleteApikeyHandler_def Let_def dest!: ids split: option.splits prod.splits sum.splits) ((metis snd_conv)+)?
qed

lemma external_handlers_tables:
  "snd (CreatExternalApiKey s now rnd user body d) = d \<or> (\<exists>u req. user = Some u
     \<and> snd (CreatExternalApiKey s now rnd user body d) = snd (ext_Create s now rnd u req d))"
  "snd (UpdateExternalApiKey s now rnd user param body d) = d \<or> (\<exists>u i req. user = Some u
     \<and> snd (UpdateExternalApiKey s now rnd user param body d) = snd (svc_Update s now rnd u i req d))"
  "snd (DeleteExternalApiKey s user param d) = d \<or> (\<exists>u i. user = Some u
     \<and> snd (DeleteExternalApiKey s user param d) = snd (svc_Delete s u i d))"
proof -
  have ids: "user = Some u" if "requestIDs user p = Inr (u, i)" for u p i
    using that by (auto simp: requestIDs_def split: option.splits if_splits)
  show "snd (CreatExternalApiKey s now rnd user body d) = d \<or> (\<exists>u req. user = Some u
     \<and> snd (CreatExternalApiKey s now rnd user body d) = snd (ext_Create s now rnd u req d))"
    by (auto simp: CreatExternalApiKey_def dest!: ids split: option.splits prod.splits sum.splits) ((metis snd_conv)+)?
  show "snd (UpdateExternalApiKey s now rnd user param body d) = d \<or> (\<exists>u i req. user = Some u
     \<and> snd (UpdateExternalApiKey s now rnd user param body d) = snd (svc_Update s now rnd u i req d))"
    by (auto simp: UpdateExternalApiKey_def dest!: ids split: option.splits prod.splits sum.splits)
  show "snd (DeleteExternalApiKey s user param d) = d \<or> (\<exists>u i. user = Some u
     \<and> snd (DeleteExternalApiKey s user param d) = snd (svc_Delete s u i d))"
    by (auto simp: DeleteExternalApiKey_def dest!: ids split: option.splits prod.splits sum.splits)
qed

lemma exchange_and_save_tables:
  "os_db (snd (exchange_and_save s now rnd c verifier provider ft flow b accept st)) = os_db st
   \<or> (\<exists>token. os_db (snd (exchange_and_save s now rnd c verifier provider ft flow b accept st))
        = snd (svc_SaveToken s now rnd token flow b (os_db st)))"
  by (auto simp: exchange_and_save_def split: sum.splits prod.splits) ((metis snd_conv)+)?

lemma oauth_handlers_tables:
  "os_db (snd (OAuthLoginHandler s now rnd1 rnd2 verifier user provider accept st)) = os_db st"
  "os_db (snd (LoginDeviceFlow s now user provider st)) = os_db st"
  "os_db (snd (RefreshTokenHandler s now rnd user body st)) = os_db st \<or> (\<exists>u i. user = Some u
     \<and> os_db (snd (RefreshTokenHandler s now rnd user body st)) = snd (svc_RefreshToken s now rnd u i (os_db st)))"
  "os_db (snd (DeleteHandler s user body st)) = os_db st \<or> (\<exists>u i. user = Some u
     \<and> os_db (snd (DeleteHandler s user body st)) = snd (deleteUserOauth s i u (os_db st)))"
proof -
  have ids: "user = Some u" if "getUserid user = Inr u" for u
    using that by (auto simp: getUserid_def split: if_splits)
  show "os_db (snd (OAuthLoginHandler s now rnd1 rnd2 verifier user provider accept st)) = os_db st"
    by (auto simp: OAuthLoginHandler_def split: sum.splits prod.splits)
  show "os_db (snd (LoginDeviceFlow s now user provider st)) = os_db st"
    by (auto simp: LoginDeviceFlow_def split: sum.splits prod.splits)
  show "os_db (snd (RefreshTokenHandler s now rnd user body st)) = os_db st \<or> (\<exists>u i. user = Some u
     \<and> os_db (snd (RefreshTokenHandler s now rnd user body st)) = snd (svc_RefreshToken s now rnd u i (os_db st)))"
    by (auto simp: RefreshTokenHandler_def dest!: ids split: sum.splits prod.splits option.splits) ((metis snd_conv)+)?
  show "os_db (snd (DeleteHandler s user body st)) = os_db st \<or> (\<exists>u i. user = Some u
     \<and> os_db (snd (DeleteHandler s user body st)) = snd (deleteUserOauth s i u (os_db st)))"
    by (auto simp: DeleteHandler_def dest!: ids split: sum.splits prod.splits option.splits) ((metis snd_conv)+)?
qed

lemma CallbackHandler_tables:
  "os_db (snd (CallbackHandler s now rnd state err c accept st)) = os_db st
   \<or> (\<exists>flow token. fst (PopFlow s now state (os_redis st)) = Inr flow
      \<and> os_db (snd (CallbackHandler s now rnd state err c accept st)) = snd (svc_SaveToken s now rnd token flow True (os_db st)))"
proof -
  have "snd (CallbackHandler s now rnd state err c accept st) = snd (Callback_body s now rnd state err c accept st)"
    by (simp add: CallbackHandler_def split: prod.splits)
  moreover obtain p rd where p: "PopFlow s now state (os_redis st) = (p, rd)" by (metis prod.collapse)
  ultimately show ?thesis
    using exchange_and_save_tables [where s = s and now = now and rnd = rnd and c = c and st = "st\<lparr>os_redis := rd\<rparr>" and b = True and accept = accept]
    by (cases p) (simp_all add: Callback_body_def Let_def)
qed

lemma CallbackDeviceFlow_tables:
  "os_db (snd (CallbackDeviceFlow s now later rnd meanwhile user provider body accept st)) = os_db st
   \<or> (\<exists>u flow token. user = Some u \<and> lf_UserID flow = u
      \<and> os_db (snd (CallbackDeviceFlow s now later rnd meanwhile user provider body accept st)) = snd (svc_SaveToken s later rnd token flow False (os_db st)))"
proof -
  have ids: "user = Some u" if "getUserid user = Inr u" for u
    using that by (auto simp: getUserid_def split: if_splits)
  define flow_of where "flow_of u = \<lparr>lf_Provider = provider, lf_UserID = u, lf_Nonce = [], lf_Verifier = [], lf_ExpiresAt = zero_time\<rparr>" for u
  have e: "os_db (snd (exchange_and_save s later rnd c verifier provider ft (flow_of u) False accept (st\<lparr>os_redis := rd\<rparr>))) = os_db st
     \<or> (\<exists>token. os_db (snd (exchange_and_save s later rnd c verifier provider ft (flow_of u) False accept (st\<lparr>os_redis := rd\<rparr>)))
          = snd (svc_SaveToken s later rnd token (flow_of u) False (os_db st)))" for c verifier ft u rd
    using exchange_and_save_tables [of s later rnd c verifier provider ft "flow_of u" False accept "st\<lparr>os_redis := rd\<rparr>"] by simp
  have "os_db (snd (CallbackDeviceFlow s now later rnd meanwhile user provider body accept st)) = os_db st
    \<or> (\<exists>u c verifier rd. user = Some u \<and> os_db (snd (CallbackDeviceFlow s now later rnd meanwhile user provider body accept st))
       = os_db (snd (exchange_and_save s later rnd c verifier provider ''device'' (flow_of u) False accept (st\<lparr>os_redis := rd\<rparr>))))"
    unfolding CallbackDeviceFlow_def flow_of_def
    by (auto simp: Let_def dest!: ids split: sum.splits prod.splits option.splits) ((metis snd_conv)+)?
  then show ?thesis
  proof
    assume "\<exists>u c verifier rd. user = Some u \<and> os_db (snd (CallbackDeviceFlow s now later rnd meanwhile user provider body accept st))
       = os_db (snd (exchange_and_save s later rnd c verifier provider ''device'' (flow_of u) False accept (st\<lparr>os_redis := rd\<rparr>)))"
    then obtain u c verifier rd where u: "user = Some u" and eq: "os_db (snd (CallbackDeviceFlow s now later rnd meanwhile user provider body accept st))
       = os_db (snd (exchange_and_save s later rnd c verifier provider ''device'' (flow_of u) False accept (st\<lparr>os_redis := rd\<rparr>)))" by blast
    have "lf_UserID (flow_of u) = u" by (simp add: flow_of_def)
    then show ?thesis unfolding eq using e [of c verifier "''device''" u rd] u by blast
  qed simp
qed

lemma RegisterHandler_tables:
  "st_db (snd (RegisterHandler s now body st)) = st_db st \<or> (\<exists>name h r.
     (\<exists>password. 8 \<le> length password \<and> HashPassword s password = Inr h) \<and> r = ''user'' \<and>
     st_db (snd (RegisterHandler s now body st)) = snd (AddUser (userRepository s) now name h r (st_db st)))"
proof -
  have "st_db (snd (Register s now r st)) = st_db st \<or> (\<exists>name h r'.
      (\<exists>password. 8 \<le> length password \<and> HashPassword s password = Inr h) \<and> r' = ''user'' \<and> st_db (snd (Register s now r st)) = snd (AddUser (userRepository s) now name h r' (st_db st)))" for r
  proof (cases "HashPassword s (rr_Password r)")
    case (Inr h)
    have "st_db (snd (Register s now r st)) = st_db st
        \<or> st_db (snd (Register s now r st)) = snd (AddUser (userRepository s) now (TrimSpace (rr_Username r)) h ''user'' (st_db st))"
      by (auto simp: Register_def Inr Let_def split: sum.splits prod.splits)
    moreover have "st_db (snd (Register s now r st)) = st_db st" if "\<not> 8 \<le> length (rr_Password r)"
      using that by (simp add: Register_def register_request_ok_def Let_def)
    ultimately show ?thesis using Inr by blast
  qed (simp add: Register_def)
  then show ?thesis
    by (auto simp: RegisterHandler_def Let_def split: option.splits prod.splits) ((metis snd_conv)+)?
qed

lemma LogoutHandler_tables: "st_db (snd (LogoutHandler s sec ck st)) = st_db st" "st_policies (snd (LogoutHandler s sec ck st)) = st_policies st"
  by (auto simp: LogoutHandler_def Logout_def Let_def split: prod.splits)

section \<open>What every request keeps\<close>

text \<open>
  A property of the tables that every operation of the services keeps, for the users it may be called
  for, the services it may be served with, and the hashes of passwords they may store. It is then kept
  by every request, of such a user or of a login flow of one.
\<close>

locale tables_kept =
  fixes P :: "db \<Rightarrow> bool" and may :: "uint64 \<Rightarrow> bool" and ext_served :: "ExternalService \<Rightarrow> bool"
    and oauth_served :: "OauthService \<Rightarrow> bool" and sha_served :: "(bytes \<Rightarrow> bytes) \<Rightarrow> bool" and hashed :: "bytes \<Rightarrow> bool"
  assumes created: "sha_served sha256 \<Longrightarrow> may u \<Longrightarrow> P d \<Longrightarrow> P (snd (CreatApikey io sha256 now rnd u oa ext d))"
    and updated: "may u \<Longrightarrow> P d \<Longrightarrow> P (snd (UpdateApikey io now u kid dis ex upd d))"
    and replaced: "may u \<Longrightarrow> P d \<Longrightarrow> P (snd (ReplaceApikeyAccounts io now u kid oa ext d))"
    and deleted: "may u \<Longrightarrow> P d \<Longrightarrow> P (snd (DeleteApikey io u kid d))"
    and ext_created: "ext_served s \<Longrightarrow> may u \<Longrightarrow> P d \<Longrightarrow> P (snd (ext_Create s now rnd u req d))"
    and ext_updated: "ext_served s \<Longrightarrow> may u \<Longrightarrow> P d \<Longrightarrow> P (snd (svc_Update s now rnd u kid req d))"
    and ext_deleted: "may u \<Longrightarrow> P d \<Longrightarrow> P (snd (svc_Delete s u kid d))"
    and saved: "oauth_served oas \<Longrightarrow> may (lf_UserID flow) \<Longrightarrow> P d \<Longrightarrow> P (snd (svc_SaveToken oas now rnds token flow b d))"
    and refreshed: "oauth_served oas \<Longrightarrow> may u \<Longrightarrow> P d \<Longrightarrow> P (snd (svc_RefreshToken oas now rnds u kid d))"
    and unlinked: "may u \<Longrightarrow> P d \<Longrightarrow> P (snd (deleteUserOauth oas kid u d))"
    and registered: "hashed h \<Longrightarrow> P d \<Longrightarrow> P (snd (AddUser uio now name h r d))"
begin

lemma key_handlers:
  assumes "P d" and "\<And>u. user = Some u \<Longrightarrow> may u" and "sha_served sha256" and "ext_served s"
  shows "P (snd (CreatApikeyHandler io sha256 now rnd user body d))"
    and "P (snd (UpdateApikeyHandler io parse now user param body d))"
    and "P (snd (ReplaceApikeyAccountsHandler io now user param body d))"
    and "P (snd (DeleteApikeyHandler io user param d))"
    and "P (snd (CreatExternalApiKey s now rnd user body d))"
    and "P (snd (UpdateExternalApiKey s now rnd user param body d))"
    and "P (snd (DeleteExternalApiKey s user param d))"
proof -
  show "P (snd (CreatApikeyHandler io sha256 now rnd user body d))"
    using key_handlers_tables(1) [of io sha256 now rnd user body d] assms created by metis
  show "P (snd (UpdateApikeyHandler io parse now user param body d))"
    using key_handlers_tables(2) [of io parse now user param body d] assms updated by metis
  show "P (snd (ReplaceApikeyAccountsHandler io now user param body d))"
    using key_handlers_tables(3) [of io now user param body d] assms replaced by metis
  show "P (snd (DeleteApikeyHandler io user param d))"
    using key_handlers_tables(4) [of io user param d] assms deleted by metis
  show "P (snd (CreatExternalApiKey s now rnd user body d))"
    using external_handlers_tables(1) [of s now rnd user body d] assms ext_created by metis
  show "P (snd (UpdateExternalApiKey s now rnd user param body d))"
    using external_handlers_tables(2) [of s now rnd user param body d] assms ext_updated by metis
  show "P (snd (DeleteExternalApiKey s user param d))"
    using external_handlers_tables(3) [of s user param d] assms ext_deleted by metis
qed

lemma oauth_handlers:
  assumes "P (os_db st)" and "\<And>u. user = Some u \<Longrightarrow> may u" and "oauth_served oas"
  shows "P (os_db (snd (OAuthLoginHandler oas now rnd1 rnd2 verifier user provider accept st)))"
    and "P (os_db (snd (LoginDeviceFlow oas now user provider st)))"
    and "P (os_db (snd (RefreshTokenHandler oas now rnds user body st)))"
    and "P (os_db (snd (DeleteHandler oas user body st)))"
    and "P (os_db (snd (CallbackDeviceFlow oas now later rnds meanwhile user provider body accept st)))"
proof -
  show "P (os_db (snd (OAuthLoginHandler oas now rnd1 rnd2 verifier user provider accept st)))"
    and "P (os_db (snd (LoginDeviceFlow oas now user provider st)))" by (simp_all add: oauth_handlers_tables assms)
  show "P (os_db (snd (RefreshTokenHandler oas now rnds user body st)))"
    using oauth_handlers_tables(3) [of oas now rnds user body st] assms refreshed by metis
  show "P (os_db (snd (DeleteHandler oas user body st)))"
    using oauth_handlers_tables(4) [of oas user body st] assms unlinked by metis
  show "P (os_db (snd (CallbackDeviceFlow oas now later rnds meanwhile user provider body accept st)))"
    using CallbackDeviceFlow_tables [of oas now later rnds meanwhile user provider body accept st] assms saved by metis
qed

lemma callback_handler:
  assumes "P (os_db st)" and "\<And>flow. fst (PopFlow oas now state (os_redis st)) = Inr flow \<Longrightarrow> may (lf_UserID flow)"
    and "oauth_served oas"
  shows "P (os_db (snd (CallbackHandler oas now rnds state err c accept st)))"
  using CallbackHandler_tables [of oas now rnds state err c accept st] assms saved by metis

lemma auth_handlers:
  assumes "P (st_db st)" and "\<And>password h. 8 \<le> length password \<Longrightarrow> HashPassword s password = Inr h \<Longrightarrow> hashed h"
  shows "P (st_db (snd (LoginHandler s sec now rnd body st)))" and "P (st_db (snd (RegisterHandler s now body st)))"
    and "P (st_db (snd (RefreshHandler s sec now rnd ck st)))" and "P (st_db (snd (LogoutHandler s sec ck st)))"
    and "P (st_db (snd (GetCurrentUser s u st)))"
proof -
  show "P (st_db (snd (RegisterHandler s now body st)))"
    using RegisterHandler_tables [of s now body st] assms registered by metis
qed (simp_all add: handlers_keep_db LogoutHandler_tables assms)

lemma endpoints:
  assumes "P (w_db w)" and "\<And>u. map_option ctx_userID (cx_user cx) = Some u \<Longrightarrow> may u"
    and "\<And>flow. e = E_OauthCallback \<Longrightarrow> fst (PopFlow (sv_oauth s) (sv_now s) (rq_query rq ''state'') (w_redis w)) = Inr flow \<Longrightarrow> may (lf_UserID flow)"
    and served: "sha_served (sha256Sum (sv_auth s))" "ext_served (sv_external s)" "oauth_served (sv_oauth s)"
      "\<And>password h. 8 \<le> length password \<Longrightarrow> HashPassword (sv_auth s) password = Inr h \<Longrightarrow> hashed h"
  shows "P (w_db (snd (run_endpoint s rq param cx e w)))"
proof -
  have o: "P (os_db \<lparr>os_db = w_db w, os_redis = w_redis w\<rparr>)" and a: "P (st_db \<lparr>st_db = w_db w, st_redis = w_redis w, st_policies = w_policies w\<rparr>)"
    using assms(1) by simp_all
  have c: "e = E_OauthCallback \<Longrightarrow> P (os_db (snd (CallbackHandler (sv_oauth s) (sv_now s) rnds (rq_query rq ''state'') err c accept
      \<lparr>os_db = w_db w, os_redis = w_redis w\<rparr>)))" for rnds err c accept
    by (rule callback_handler [OF o]) (use assms(3) served in simp_all)
  show ?thesis
    by (cases e)
      (simp_all add: run_endpoint_def Let_def on_auth_def on_tables_def on_oauth_def case_prod_unfold assms(1) c
        key_handlers [OF assms(1,2) served(1,2)] oauth_handlers [OF o assms(2) served(3)] auth_handlers [OF a served(4)])
qed

end

interpretation constraints: tables_kept db_inv "\<lambda>_. True" "\<lambda>_. True" "\<lambda>_. True" "\<lambda>_. True" "\<lambda>_. True"
  by unfold_locales (simp_all add: CreatApikey_keeps UpdateApikey_keeps ReplaceApikeyAccounts_keeps DeleteApikey_keeps
    ext_Create_keeps ext_Update_keeps ext_Delete_keeps SaveToken_keeps svc_RefreshToken_keeps deleteOauth_keeps AddUser_keeps)

interpretation owned: tables_kept "\<lambda>d. rows_of v d = R" "\<lambda>u. u \<noteq> v" "\<lambda>_. True" "\<lambda>_. True" "\<lambda>_. True" "\<lambda>_. True" for v R
  by unfold_locales (simp_all add: CreatApikey_frame UpdateApikey_frame ReplaceApikeyAccounts_frame DeleteApikey_frame
    ext_Create_frame ext_Update_frame ext_Delete_frame SaveToken_frame RefreshToken_frame deleteOauth_frame AddUser_frame)

section \<open>Filters\<close>

text \<open>The user whose access token the request carries.\<close>

definition requester :: "('e, 'st) service \<Rightarrow> request \<Rightarrow> uint64 option" where
  "requester s rq =
     (case (JwtFilter (jwtLibrary (sv_auth s)) (jwtManager (sv_auth s)) (sv_now s) (rq_authorization rq) :: (unit, jwt_context) middleware) of
        Abort _ \<Rightarrow> None
      | Next u \<Rightarrow> Some (ctx_userID u))"

lemma run_filters_user:
  "run_filters s rq w fs cx = Inr cx' \<Longrightarrow> cx_user cx' = cx_user cx \<or> map_option ctx_userID (cx_user cx') = requester s rq"
proof (induction fs arbitrary: cx)
  case (Cons f fs)
  then show ?case
    by (cases f) (fastforce simp: requester_def split: sum.splits middleware.splits)+
qed simp

lemma start_context_user [simp]: "cx_user start_context = None"
  by (simp add: start_context_def)

text \<open>A request that reaches a handler: what the filters have established.\<close>

lemma serve_cases:
  assumes "gin_laws g" and "serve g s rq w = (out, w')"
  obtains st where "out = Unrouted st \<or> run_filters s rq w router_filters start_context = Inl out" and "w' = w"
  | e where "e \<in> set newRouter" and "re_method e = rq_method rq" and "run_filters s rq w (re_filters e) start_context = Inl out" and "w' = w"
  | e cx param where "e \<in> set newRouter" and "re_method e = rq_method rq" and "run_filters s rq w (re_filters e) start_context = Inr cx"
      and "(out, w') = run_endpoint s rq param cx (re_endpoint e) w"
proof (cases "g newRouter (rq_method rq) (rq_path rq)")
  case (Inl st)
  then have "w' = w" and out: "out = (if st = 404 \<or> st = 405
      then (case run_filters s rq w router_filters start_context of Inl out \<Rightarrow> out | Inr _ \<Rightarrow> Unrouted st) else Unrouted st)"
    using assms(2) by (simp_all add: serve_def)
  moreover from out have "out = Unrouted st \<or> run_filters s rq w router_filters start_context = Inl out"
    by (cases "run_filters s rq w router_filters start_context") (simp_all split: if_splits)
  ultimately show ?thesis using that(1) by blast
next
  case (Inr r)
  obtain e param where r: "r = (e, param)" by (cases r)
  have e: "e \<in> set newRouter" "re_method e = rq_method rq"
    using assms(1) [unfolded gin_laws_def, rule_format, OF Inr [unfolded r]] by simp_all
  show ?thesis
  proof (cases "run_filters s rq w (re_filters e) start_context")
    case (Inl out')
    then have "out' = out" and "w' = w" using assms(2) \<open>g newRouter (rq_method rq) (rq_path rq) = Inr r\<close> r by (simp_all add: serve_def)
    then show ?thesis using that(2) [OF e] Inl by blast
  next
    case (Inr cx)
    then have "(out, w') = run_endpoint s rq param cx (re_endpoint e) w"
      using assms(2) \<open>g newRouter (rq_method rq) (rq_path rq) = Inr r\<close> r by (simp add: serve_def)
    then show ?thesis using that(3) [OF e] Inr by blast
  qed
qed

section \<open>Properties\<close>

text \<open>A start changes the tables by its bootstrap account only.\<close>

lemma start_kept:
  assumes "newApplicationInstances out cfg p = (r, p')" and "P (pr_db p)"
    and boot: "\<And>d. P d \<Longrightarrow> P (snd (createBootstrapUser (userFaults out) (bcryptHash out) (startTime out) (api_runtime cfg) d))"
  shows "P (pr_db p')"
proof -
  let ?P = "\<lambda>s. P (pr_db (snd s))"
  have c: "?P (snd (connect_database out c s)) = ?P s" "?P (snd (connect_redis out c s)) = ?P s" for c s
    by (cases s, auto simp: connect_database_def db_Connect_def connect_redis_def redis_Connect_def Let_def split: option.splits sum.splits if_splits)+
  have u: "?P (snd (connect_upstream out c s)) = ?P s" for c s
    by (cases s) (simp add: connect_upstream_def split: option.splits sum.splits)
  have v: "?P (snd (discover out c s)) = ?P s" for c s
    using discover_step(1) [of out c s] by (metis prod.collapse)
  have a: "?P (snd (authorization out c s)) = ?P s" for c s
    using authorization_step(2) [of out c s] by (metis prod.collapse)
  have b: "?P s \<Longrightarrow> ?P (snd (bootstrap out (api_runtime cfg) s))" for s
  proof -
    have "pr_db (snd (snd (bootstrap out c s))) = snd (createBootstrapUser (userFaults out) (bcryptHash out) (startTime out) c (pr_db (snd s)))" for c
      by (cases s) (simp add: bootstrap_def split: sum.splits prod.splits)
    then show "?P s \<Longrightarrow> ?P (snd (bootstrap out (api_runtime cfg) s))" by (simp add: boot)
  qed
  have "?P (snd (start_steps out cfg (no_instances, p)))"
    unfolding start_steps_def
    by (intro kept.sequenced [where inv = ?P]; simp only: a b c u v snd_conv assms(2))
  then show ?thesis using assms(1) Close_tables [of out]
    by (auto simp: newApplicationInstances_def split: sum.splits prod.splits)
qed

lemma start_keeps:
  assumes "newApplicationInstances out cfg p = (r, p')" and "db_inv (pr_db p)"
  shows "db_inv (pr_db p')"
  using start_kept [where P = db_inv, OF assms] createBootstrapUser_keeps by blast

text \<open>In every state the API reaches from a start on consistent tables, by any requests in any order
  and with any failures of the services behind it, the tables satisfy all keys, unique constraints,
  checks and references of the schema.\<close>

lemma reachable_tables_consistent:
  assumes "reachable g starts served p w" and "gin_laws g" and "db_inv (pr_db p)"
  shows "db_inv (w_db w)"
  using assms(1)
proof (induction rule: reachable.induct)
  case (start out cfg i p' r)
  then show ?case using start_keeps assms(3) by simp
next
  case (step w s rq out w')
  from assms(2) step(3) show ?case
  proof (cases rule: serve_cases)
    case (3 e cx param)
    then have "w' = snd (run_endpoint s rq param cx (re_endpoint e) w)" by (metis snd_conv)
    then show ?thesis using constraints.endpoints step.IH by simp
  qed (use step.IH in simp_all)
qed

text \<open>C2: a request reaches only the rows of its own user. The API keys, their bindings, the linked
  accounts and the external keys of a user change only in a request with an access token of that
  user, or in the callback of a login that the user has started.\<close>

theorem requests_keep_others_rows:
  assumes "gin_laws g" and "serve g s rq w = (out, w')" and "requester s rq \<noteq> Some v"
    and "\<And>flow. fst (PopFlow (sv_oauth s) (sv_now s) (rq_query rq ''state'') (w_redis w)) = Inr flow \<Longrightarrow> lf_UserID flow \<noteq> v"
  shows "rows_of v (w_db w') = rows_of v (w_db w)"
  using assms(1,2)
proof (cases rule: serve_cases)
  case (3 e cx param)
  then have w': "w' = snd (run_endpoint s rq param cx (re_endpoint e) w)" by (metis snd_conv)
  have "map_option ctx_userID (cx_user cx) = None \<or> map_option ctx_userID (cx_user cx) = requester s rq"
    using run_filters_user [OF 3(3)] by auto
  then have "rows_of v (w_db (snd (run_endpoint s rq param cx (re_endpoint e) w))) = rows_of v (w_db w)"
    by (intro owned.endpoints [OF refl]) (use assms(3,4) in auto)
  then show ?thesis by (simp add: w')
qed simp_all

text \<open>The filters of a route, from its endpoint.\<close>

lemma route_filters:
  assumes "e \<in> set newRouter"
  shows "re_filters e = [RequestIDFilter, RecoveryFilter, AccessLogFilter]
     @ (if re_endpoint e \<in> set open_endpoints then [] else if re_endpoint e \<in> set chat_endpoints then [ApikeyRoute] else [JwtRoute])"
  using routes_protected assms unfolding list_all_iff by blast

lemma JwtFilter_status: "JwtFilter lib m now auth = Abort r \<Longrightarrow> reply_status r = 401"
  by (auto simp: JwtFilter_def Let_def split: if_splits sum.splits option.splits)

lemma request_id_refused: "RequestID rnd h = Inl p \<Longrightarrow> (\<exists>e. rnd = Inl e) \<and> fst p = 500"
  by (auto simp: RequestID_def newRequestID_def Let_def split: if_splits sum.splits)

text \<open>Without a token the filters of a protected route answer themselves.\<close>

lemma jwt_route_refuses:
  assumes "requester s rq = None"
  shows "\<exists>out. run_filters s rq w [RequestIDFilter, RecoveryFilter, AccessLogFilter, JwtRoute] cx = Inl out
    \<and> (out_status out = 401 \<or> (\<exists>e. sv_rnd s 0 = Inl e) \<and> out_status out = 500)"
proof -
  obtain r where r: "(JwtFilter (jwtLibrary (sv_auth s)) (jwtManager (sv_auth s)) (sv_now s) (rq_authorization rq) :: (unit, jwt_context) middleware) = Abort r"
    using assms by (auto simp: requester_def split: middleware.splits)
  show ?thesis
  proof (cases "RequestID (sv_rnd s 0) (rq_requestID rq)")
    case (Inl p)
    then show ?thesis using request_id_refused [OF Inl] by simp
  next
    case (Inr i)
    then show ?thesis using r JwtFilter_status [OF r] by simp
  qed
qed

lemma endpoint_open:
  assumes "run_endpoint s rq param cx e w = (out, w')"
  shows "e \<in> {E_Health, E_Ready, E_Ping} \<union> set chat_endpoints \<Longrightarrow> w' = w"
    and "e \<in> {E_Login, E_Refresh, E_Logout} \<Longrightarrow> w_db w' = w_db w"
    and "e = E_OauthCallback \<Longrightarrow> w_policies w' = w_policies w"
proof -
  show "e \<in> {E_Health, E_Ready, E_Ping} \<union> set chat_endpoints \<Longrightarrow> w' = w"
    using assms by (cases e) (simp_all add: run_endpoint_def Let_def chat_endpoints_def)
  show "e \<in> {E_Login, E_Refresh, E_Logout} \<Longrightarrow> w_db w' = w_db w"
    using assms by (cases e) (auto simp: run_endpoint_def Let_def on_auth_def case_prod_unfold handlers_keep_db LogoutHandler_tables)
  show "e = E_OauthCallback \<Longrightarrow> w_policies w' = w_policies w"
    using assms by (auto simp: run_endpoint_def Let_def on_oauth_def case_prod_unfold)
qed

lemma RegisterHandler_adds:
  assumes "st_db (snd (RegisterHandler s now body st)) = d"
  shows "\<exists>us n. d = (st_db st)\<lparr>users := us, users_seq := n\<rparr>" and "st_redis (snd (RegisterHandler s now body st)) = st_redis st"
proof -
  have same: "st_db st = (st_db st)\<lparr>users := users (st_db st), users_seq := users_seq (st_db st)\<rparr>" by simp
  have "snd (AddUser (userRepository s) now name h r (st_db st)) = st_db st
      \<or> (\<exists>us n. snd (AddUser (userRepository s) now name h r (st_db st)) = (st_db st)\<lparr>users := us, users_seq := n\<rparr>)" for name h r
    unfolding AddUser_def using call_snd insert_user_snd by metis
  then show "\<exists>us n. d = (st_db st)\<lparr>users := us, users_seq := n\<rparr>"
    using RegisterHandler_tables [of s now body st] assms same by metis
  show "st_redis (snd (RegisterHandler s now body st)) = st_redis st"
    by (auto simp: RegisterHandler_def Register_def Let_def split: option.splits sum.splits prod.splits)
qed

lemma endpoint_register:
  assumes "run_endpoint s rq param cx E_Register w = (out, w')"
  shows "w_redis w' = w_redis w \<and> w_db w' = (w_db w)\<lparr>users := users (w_db w'), users_seq := users_seq (w_db w')\<rparr>"
proof -
  let ?st = "\<lparr>st_db = w_db w, st_redis = w_redis w, st_policies = w_policies w\<rparr>"
  have w': "w_db w' = st_db (snd (RegisterHandler (sv_auth s) (sv_now s) (rq_body rq) ?st))"
    "w_redis w' = st_redis (snd (RegisterHandler (sv_auth s) (sv_now s) (rq_body rq) ?st))"
    using assms by (auto simp: run_endpoint_def Let_def on_auth_def case_prod_unfold)
  from RegisterHandler_adds [OF refl, of "sv_auth s" "sv_now s" "rq_body rq" ?st] obtain us n
    where "w_db w' = (w_db w)\<lparr>users := us, users_seq := n\<rparr>" and "w_redis w' = w_redis w" unfolding w' [symmetric] by auto
  then show ?thesis by simp
qed

lemma PopFlow_redis: "k \<noteq> oidcStateKey state \<Longrightarrow> snd (PopFlow s now state r) k = r k"
proof -
  have g: "snd (redis_getdel now key r) = r \<or> snd (redis_getdel now key r) = r(key := None)" for key
    by (auto simp: redis_getdel_def split: option.splits)
  assume "k \<noteq> oidcStateKey state"
  then have "snd (call f (redis_getdel now (oidcStateKey state)) r) k = r k" for f
    using call_snd [of f "redis_getdel now (oidcStateKey state)" r] g [of "oidcStateKey state"] by (auto simp: fun_upd_def)
  then show ?thesis
    by (auto simp: PopFlow_def DeleteState_def split: option.splits sum.splits prod.splits) ((metis snd_conv)+)?
qed

lemma SaveToken_users: "users (snd (svc_SaveToken s now rnd token flow b d)) = users d"
proof -
  have "users (snd (insert_oauth now m d)) = users d" for m by (simp add: insert_oauth_def Let_def)
  then have "users (snd (repo_SaveToken io now m d)) = users d" for io m
    using call_snd [of "io O_Insert" "\<lambda>d. if oauth_storable m then insert_oauth now m d else (Inl text_error, d)" d]
    by (auto simp: repo_SaveToken_def split: if_splits)
  then have "users (snd (if_ok (repo_SaveToken io now m d) (\<lambda>_ d. (Inr (), d)))) = users d" for io m
    by (cases "repo_SaveToken io now m d") (auto simp: if_ok_def split: sum.splits, (metis snd_conv)+)
  then show ?thesis by (auto simp: svc_SaveToken_def split: sum.splits option.splits)
qed

lemma Callback_redis: "os_redis (snd (CallbackHandler s now rnd state err c accept st)) = snd (PopFlow s now state (os_redis st))
    \<or> os_redis (snd (CallbackHandler s now rnd state err c accept st)) = os_redis st"
proof -
  have "snd (CallbackHandler s now rnd state err c accept st) = snd (Callback_body s now rnd state err c accept st)"
    by (simp add: CallbackHandler_def split: prod.splits)
  moreover have "os_redis (snd (exchange_and_save s now rnd c verifier provider ft flow b accept st')) = os_redis st'" for verifier provider ft flow b st'
    by (auto simp: exchange_and_save_def split: sum.splits prod.splits)
  ultimately show ?thesis by (auto simp: Callback_body_def Let_def split: prod.splits sum.splits)
qed

lemma endpoint_callback:
  assumes "run_endpoint s rq param cx E_OauthCallback w = (out, w')"
  shows "w_policies w' = w_policies w" and "k \<noteq> oidcStateKey (rq_query rq ''state'') \<Longrightarrow> w_redis w' k = w_redis w k"
    and "users (w_db w') = users (w_db w)"
    and "w_db w' = w_db w \<or> (\<exists>flow. fst (PopFlow (sv_oauth s) (sv_now s) (rq_query rq ''state'') (w_redis w)) = Inr flow
      \<and> (\<forall>v. v \<noteq> lf_UserID flow \<longrightarrow> rows_of v (w_db w') = rows_of v (w_db w)))"
proof -
  let ?st = "\<lparr>os_db = w_db w, os_redis = w_redis w\<rparr>"
  let ?h = "snd (CallbackHandler (sv_oauth s) (sv_now s) (\<lambda>n. sv_rnd s (Suc n)) (rq_query rq ''state'') (rq_query rq ''error'')
      (rq_query rq ''code'') (rq_accept rq) ?st)"
  have w': "w' = w\<lparr>w_db := os_db ?h, w_redis := os_redis ?h\<rparr>"
    using assms by (auto simp: run_endpoint_def Let_def on_oauth_def case_prod_unfold)
  note t = CallbackHandler_tables [of "sv_oauth s" "sv_now s" "\<lambda>n. sv_rnd s (Suc n)" "rq_query rq ''state''" "rq_query rq ''error''"
      "rq_query rq ''code''" "rq_accept rq" ?st, simplified]
  show "w_policies w' = w_policies w" by (simp add: w')
  show "k \<noteq> oidcStateKey (rq_query rq ''state'') \<Longrightarrow> w_redis w' k = w_redis w k"
    using Callback_redis [of "sv_oauth s" "sv_now s" "\<lambda>n. sv_rnd s (Suc n)" "rq_query rq ''state''" "rq_query rq ''error''"
      "rq_query rq ''code''" "rq_accept rq" ?st] PopFlow_redis by (auto simp: w')
  show "users (w_db w') = users (w_db w)" using t SaveToken_users by (auto simp: w')
  show "w_db w' = w_db w \<or> (\<exists>flow. fst (PopFlow (sv_oauth s) (sv_now s) (rq_query rq ''state'') (w_redis w)) = Inr flow
      \<and> (\<forall>v. v \<noteq> lf_UserID flow \<longrightarrow> rows_of v (w_db w') = rows_of v (w_db w)))"
    using t SaveToken_frame by (auto simp: w')
qed

text \<open>C21: without an access token a request changes nothing but what the endpoint it is routed to is
  there for. A login, a refresh and a logout leave the tables alone; a registration changes only the
  table of users, and Redis not at all; the callback of a provider changes neither policies nor users,
  no entry of Redis but that of its state, and only the rows of the user who started the login of
  that state. A request for anything else, health and chat included, changes nothing at all, and on
  the endpoints that are neither health, signing in, the callback nor chat it is answered with 401,
  or with 500 when no identifier can be made for the request; so is nothing changed by a request
  without a route.\<close>

theorem changes_need_credentials:
  assumes "gin_laws g" and "serve g s rq w = (out, w')" and "requester s rq = None"
  shows "case g newRouter (rq_method rq) (rq_path rq) of
      Inl _ \<Rightarrow> w' = w
    | Inr (e, _) \<Rightarrow>
        (case re_endpoint e of
           E_Login \<Rightarrow> w_db w' = w_db w
         | E_Refresh \<Rightarrow> w_db w' = w_db w
         | E_Logout \<Rightarrow> w_db w' = w_db w
         | E_Register \<Rightarrow> w_redis w' = w_redis w
             \<and> w_db w' = (w_db w)\<lparr>users := users (w_db w'), users_seq := users_seq (w_db w')\<rparr>
         | E_OauthCallback \<Rightarrow> w_policies w' = w_policies w \<and> users (w_db w') = users (w_db w)
             \<and> (\<forall>k. k = oidcStateKey (rq_query rq ''state'') \<or> w_redis w' k = w_redis w k)
             \<and> (w_db w' = w_db w \<or> (\<exists>flow. fst (PopFlow (sv_oauth s) (sv_now s) (rq_query rq ''state'') (w_redis w)) = Inr flow
                  \<and> (\<forall>v. v = lf_UserID flow \<or> rows_of v (w_db w') = rows_of v (w_db w))))
         | _ \<Rightarrow> w' = w
             \<and> (re_endpoint e \<in> set open_endpoints \<union> set chat_endpoints
                \<or> out_status out = 401 \<or> (\<exists>e. sv_rnd s 0 = Inl e) \<and> out_status out = 500))"
proof (cases "g newRouter (rq_method rq) (rq_path rq)")
  case (Inl st)
  then show ?thesis using assms(2) by (simp add: serve_def)
next
  case (Inr r)
  obtain e i where r: "r = (e, i)" by (cases r)
  have e: "e \<in> set newRouter" using assms(1) Inr r unfolding gin_laws_def by metis
  consider "w' = w" "re_endpoint e \<notin> set open_endpoints \<union> set chat_endpoints"
      "out_status out = 401 \<or> (\<exists>e. sv_rnd s 0 = Inl e) \<and> out_status out = 500"
    | "w' = w" "re_endpoint e \<in> set open_endpoints \<union> set chat_endpoints"
    | cx where "re_endpoint e \<in> set open_endpoints \<union> set chat_endpoints" "run_endpoint s rq i cx (re_endpoint e) w = (out, w')"
  proof (cases "re_endpoint e \<in> set open_endpoints \<union> set chat_endpoints")
    case True
    then show ?thesis using that(2,3) assms(2) Inr r by (auto simp: serve_def split: sum.splits)
  next
    case False
    then have "re_filters e = [RequestIDFilter, RecoveryFilter, AccessLogFilter, JwtRoute]" using route_filters [OF e] by simp
    with jwt_route_refuses [OF assms(3), of w start_context] assms(2) Inr r
    have "w' = w" "out_status out = 401 \<or> (\<exists>e. sv_rnd s 0 = Inl e) \<and> out_status out = 500" by (auto simp: serve_def)
    with False show ?thesis using that(1) by blast
  qed
  then show ?thesis
  proof cases
    case 1
    then show ?thesis by (cases "re_endpoint e") (simp_all add: Inr r open_endpoints_def)
  next
    case 2
    then show ?thesis by (cases "re_endpoint e") (simp_all add: Inr r)
  next
    case (3 cx)
    note o = endpoint_open [OF 3(2)]
    show ?thesis
    proof (cases "re_endpoint e")
      case E_OauthCallback
      then show ?thesis using endpoint_callback [OF 3(2) [unfolded E_OauthCallback]] by (auto simp: Inr r)
    next
      case E_Register
      then show ?thesis using endpoint_register [OF 3(2) [unfolded E_Register]] by (simp add: Inr r)
    qed (use 3(1) o in \<open>auto simp: Inr r open_endpoints_def chat_endpoints_def\<close>)
  qed
qed

section \<open>Witnesses\<close>

definition toy_gin :: gin where
  "toy_gin routes m p = (case find (\<lambda>e. re_method e = m \<and> re_path e = p) routes of None \<Rightarrow> Inl 404 | Some e \<Rightarrow> Inr (e, []))"

lemma toy_gin_ok: "gin_laws toy_gin"
  unfolding gin_laws_def toy_gin_def
proof (intro allI impI)
  fix routes m p e i
  assume "(case find (\<lambda>e. re_method e = m \<and> re_path e = p) routes of None \<Rightarrow> Inl 404 | Some e \<Rightarrow> Inr (e, [])) = Inr (e, i :: bytes)"
  then have "find (\<lambda>e. re_method e = m \<and> re_path e = p) routes = Some e" by (simp split: option.splits)
  then show "e \<in> set routes \<and> re_method e = m" by (auto simp: find_Some_iff)
qed

definition toy_sv :: "(toy_policy, unit) service" where
  "toy_sv = \<lparr>sv_environment = ''test'', sv_version = ''1'', sv_pingDatabase = None, sv_pingRedis = None, sv_upstreamHealth = None,
     sv_auth = toy_service, sv_cookieSecure = True, sv_keyFaults = (\<lambda>_. None), sv_check = ApikeycheckInject (\<lambda>_. None),
     sv_getter = CredentialInject (replicate 32 CHR ''k''), sv_parseTime = (\<lambda>_. None), sv_external = toy_external,
     sv_oauth = toy_oauth, sv_sdk = \<lparr>sdk_request = \<lambda>_ _ _ raw _. raw, sdk_stream = \<lambda>_ _ _ _ _ raw s. ([raw], s),
       sdk_non_stream = \<lambda>_ _ _ _ _ raw. raw\<rparr>, sv_chatStream = (\<lambda>_. Inl ContextCanceled), sv_chatUnary = (\<lambda>_. Inl ContextCanceled),
     sv_ctxError = None, sv_now = 5, sv_later = 6, sv_rnd = (\<lambda>_. Inr (replicate 32 CHR ''x'')), sv_verifier = ''v'', sv_meanwhile = (\<lambda>r. r)\<rparr>"

definition toy_request :: "bytes \<Rightarrow> request" where
  "toy_request auth = \<lparr>rq_method = ''POST'', rq_path = ''/api/v1/api-keys'', rq_query = (\<lambda>_. []), rq_authorization = auth,
     rq_requestID = ''r-1'', rq_accept = [], rq_refreshCookie = None, rq_body = ''{\"oauth_info\":[2]}''\<rparr>"

definition toy_world :: "toy_policy world" where
  "toy_world = \<lparr>w_db = sample_db, w_redis = Map.empty, w_policies = toy_policies\<rparr>"

lemma toy_token: "\<exists>tok. requester toy_sv (toy_request (''Bearer '' @ tok)) = Some 2"
proof -
  let ?m = "jwtManager toy_service"
  obtain tok where tok: "GenerateTokenWithPermissions toy_jwt ?m 5 2 ''bob'' [''user''] [] = Inr tok"
    using toy_jwt_up unfolding signer_up_def GenerateTokenWithPermissions_def by blast
  have "list_all utf8_valid (''bob'' # jm_issuer ?m # jm_audience ?m # [''user''] @ [])"
    unfolding toy_service_def by code_simp
  from JwtFilter_issued [OF toy_jwt_ok tok this, of 5]
  have "JwtFilter toy_jwt ?m 5 (''Bearer '' @ tok) =
      (Next \<lparr>ctx_userID = 2, ctx_username = ''bob'', ctx_role = [''user''], ctx_permissions = []\<rparr> :: (unit, jwt_context) middleware)"
    by (simp add: toy_service_def second_def)
  then have "requester toy_sv (toy_request (''Bearer '' @ tok)) = Some 2"
    by (simp add: requester_def toy_sv_def toy_request_def toy_service_def)
  then show ?thesis ..
qed

lemma toy_no_flow: "fst (PopFlow (sv_oauth toy_sv) (sv_now toy_sv) state (w_redis toy_world)) \<noteq> Inr flow"
  by (auto simp: PopFlow_def DeleteState_def toy_sv_def toy_world_def toy_oauth_def redis_getdel_def redis_get_def redis_del_def Let_def split: option.splits)

theorem requests_keep_others_rows_witness:
  "\<exists>tok. requester toy_sv (toy_request (''Bearer '' @ tok)) = Some 2
    \<and> rows_of 1 (w_db (snd (serve toy_gin toy_sv (toy_request (''Bearer '' @ tok)) toy_world))) = rows_of 1 (w_db toy_world)"
proof -
  obtain tok where tok: "requester toy_sv (toy_request (''Bearer '' @ tok)) = Some 2" using toy_token by blast
  have "rows_of 1 (w_db (snd (serve toy_gin toy_sv (toy_request (''Bearer '' @ tok)) toy_world))) = rows_of 1 (w_db toy_world)"
  proof (rule requests_keep_others_rows [OF toy_gin_ok prod.collapse [symmetric]])
    show "requester toy_sv (toy_request (''Bearer '' @ tok)) \<noteq> Some 1" unfolding tok by simp
  qed (simp add: toy_no_flow)
  with tok show ?thesis by blast
qed

theorem changes_need_credentials_witness:
  "snd (serve toy_gin toy_sv (toy_request []) toy_world) = toy_world \<and> out_status (fst (serve toy_gin toy_sv (toy_request []) toy_world)) = 401"
proof -
  have none: "requester toy_sv (toy_request []) = None"
  proof -
    have "Fields [] = []" by code_simp
    then show ?thesis by (simp add: requester_def toy_request_def JwtFilter_def Let_def)
  qed
  obtain e where e: "toy_gin newRouter (rq_method (toy_request [])) (rq_path (toy_request [])) = Inr (e, [])"
    and pr: "re_endpoint e = E_CreatApikey"
  proof -
    have "case toy_gin newRouter (rq_method (toy_request [])) (rq_path (toy_request [])) of Inl _ \<Rightarrow> False
        | Inr (e, i) \<Rightarrow> i = [] \<and> re_endpoint e = E_CreatApikey" by code_simp
    then show ?thesis using that by (auto split: sum.splits)
  qed
  from changes_need_credentials [OF toy_gin_ok prod.collapse [symmetric] none, of toy_world] e pr
  show ?thesis by (simp add: toy_sv_def open_endpoints_def chat_endpoints_def)
qed

end
