(* ===== verification/Secrets.thy ===== *)
theory Secrets imports ApiProps begin

text \<open>
  What the rows hold of secrets. PostgreSQL checks keys and references; that no password, key or token
  is ever stored as it is, is up to the code: every handler that writes a row, and the bootstrap of
  the start, must seal or hash what it writes. The invariant on every row, statement by statement and
  operation by operation, and for every state the API reaches.
\<close>

section \<open>Rows\<close>

text \<open>The password of an account is kept as a hash of the password function.\<close>

definition user_sealed :: "(bytes \<Rightarrow> go_error + bytes) \<Rightarrow> User \<Rightarrow> bool" where
  "user_sealed hash u \<longleftrightarrow> (\<exists>password. hash password = Inr (user_PasswordHash u))"

text \<open>Of an API key only its hash and the twelve characters that are shown are kept.\<close>

definition key_sealed :: "(bytes \<Rightarrow> bytes) \<Rightarrow> ApikeyInfo \<Rightarrow> bool" where
  "key_sealed sha256 k \<longleftrightarrow> (\<exists>secret raw. raw = ''sk-'' @ RawURLEncode (fill_bytes 32 secret)
     \<and> key_KeyHash k = key_hash sha256 raw \<and> key_KeyPrefix k = take 12 raw)"

text \<open>The three tokens of a linked account are sealed under the key of the service.\<close>

definition account_sealed :: "aead \<Rightarrow> bytes \<Rightarrow> OAuthInfo \<Rightarrow> bool" where
  "account_sealed gcm key a \<longleftrightarrow> oa_Type a = ''codex'' \<and> TrimSpace (oa_AccountID a) \<noteq> []
     \<and> (\<exists>access refresh identity. Decrypt gcm key (oa_AccessToken a) = Inr access \<and> TrimSpace access \<noteq> []
          \<and> Decrypt gcm key (oa_RefreshToken a) = Inr refresh
          \<and> Decrypt gcm key (oa_IDToken a) = Inr identity \<and> identity \<noteq> [])"

text \<open>An external key is sealed, found by its hash, and has an endpoint and suffixes that were checked.\<close>

definition external_sealed :: "aead \<Rightarrow> bytes \<Rightarrow> host_parser \<Rightarrow> (bytes \<Rightarrow> bytes) \<Rightarrow> ExternalApikey \<Rightarrow> bool" where
  "external_sealed gcm key hosts sha256 k \<longleftrightarrow>
     (\<exists>plain. Decrypt gcm key (ext_Ciphertext k) = Inr plain \<and> TrimSpace plain \<noteq> [] \<and> ext_KeyHash k = keyHash sha256 plain)
     \<and> (\<exists>endpoint. valid_endpoint hosts endpoint \<and> ext_Endpoint k = TrimRightSet endpoint [slash])
     \<and> list_all (valid_suffix hosts) [ChatCompletions (ext_Suffix k), Responses (ext_Suffix k), Messages (ext_Suffix k)]"

record sealing =
  sl_cipher :: aead
  sl_key :: bytes
  sl_hosts :: host_parser
  sl_sha256 :: "bytes \<Rightarrow> bytes"
  sl_hash :: "bytes \<Rightarrow> go_error + bytes"

definition secrets_sealed :: "sealing \<Rightarrow> db \<Rightarrow> bool" where
  "secrets_sealed c d \<longleftrightarrow>
     list_all (user_sealed (sl_hash c)) (users d)
   \<and> list_all (key_sealed (sl_sha256 c)) (api_keys d)
   \<and> list_all (account_sealed (sl_cipher c) (sl_key c)) (oauth_infos d)
   \<and> list_all (external_sealed (sl_cipher c) (sl_key c) (sl_hosts c) (sl_sha256 c)) (external_api_keys d)"

text \<open>None of these looks at identifiers, owners or times.\<close>

lemma sealed_fields [simp]:
  "user_sealed hash (user_ID_update f1 u) = user_sealed hash u"
  "user_sealed hash (user_RoleCode_update f2 u) = user_sealed hash u"
  "user_sealed hash (user_IsActive_update f3 u) = user_sealed hash u"
  "user_sealed hash (user_CreatedAt_update f4 u) = user_sealed hash u"
  "user_sealed hash (user_UpdatedAt_update f5 u) = user_sealed hash u"
  "key_sealed sha256 (key_ID_update f6 k) = key_sealed sha256 k"
  "key_sealed sha256 (key_CreatedAt_update f7 k) = key_sealed sha256 k"
  "key_sealed sha256 (key_UpdatedAt_update f8 k) = key_sealed sha256 k"
  "account_sealed gcm key (oa_ID_update f9 a) = account_sealed gcm key a"
  "account_sealed gcm key (oa_CreatedAt_update f10 a) = account_sealed gcm key a"
  "account_sealed gcm key (oa_UpdatedAt_update f11 a) = account_sealed gcm key a"
  "external_sealed gcm key hosts sha256 (ext_UserID_update f12 x) = external_sealed gcm key hosts sha256 x"
  "external_sealed gcm key hosts sha256 (ext_ID_update f13 x) = external_sealed gcm key hosts sha256 x"
  "external_sealed gcm key hosts sha256 (ext_CreatedAt_update f14 x) = external_sealed gcm key hosts sha256 x"
  "external_sealed gcm key hosts sha256 (ext_UpdatedAt_update f15 x) = external_sealed gcm key hosts sha256 x"
  by (simp_all add: user_sealed_def key_sealed_def account_sealed_def external_sealed_def)

section \<open>Statements\<close>

interpretation sealed: kept "secrets_sealed c" for c .

lemma list_all_update_where:
  assumes "list_all P rows" and "\<And>r. P r \<Longrightarrow> P (f r)"
  shows "list_all P (update_where p f rows)"
  using assms by (auto simp: update_where_def list_all_iff)

lemma list_all_filtered: "list_all P xs \<Longrightarrow> list_all P (filter q xs)"
  by (auto simp: list_all_iff)

lemma insert_user_sealed:
  "user_sealed (sl_hash c) u \<Longrightarrow> secrets_sealed c d \<Longrightarrow> secrets_sealed c (snd (insert_user now u d))"
  by (auto simp: insert_user_def secrets_sealed_def Let_def)

lemma insert_key_sealed:
  "key_sealed (sl_sha256 c) k \<Longrightarrow> secrets_sealed c d \<Longrightarrow> secrets_sealed c (snd (insert_key now k d))"
  by (auto simp: insert_key_def secrets_sealed_def Let_def)

lemma insert_oauth_sealed:
  "account_sealed (sl_cipher c) (sl_key c) a \<Longrightarrow> secrets_sealed c d \<Longrightarrow> secrets_sealed c (snd (insert_oauth now a d))"
  by (auto simp: insert_oauth_def secrets_sealed_def Let_def)

lemma insert_external_sealed:
  "external_sealed (sl_cipher c) (sl_key c) (sl_hosts c) (sl_sha256 c) x \<Longrightarrow> secrets_sealed c d
    \<Longrightarrow> secrets_sealed c (snd (insert_external now x d))"
  by (auto simp: insert_external_def secrets_sealed_def Let_def)

lemma other_statements_sealed:
  assumes "secrets_sealed c d"
  shows "secrets_sealed c (snd (insert_accounts now rs d))" and "secrets_sealed c (snd (insert_external_keys now xs d))"
    and "secrets_sealed c (snd (delete_accounts p1 d))" and "secrets_sealed c (snd (delete_external_keys p2 d))"
    and "secrets_sealed c (snd (delete_keys p3 d))" and "secrets_sealed c (snd (delete_oauth p4 d))"
    and "secrets_sealed c (snd (delete_external p5 d))"
  using assms
  by (auto simp: secrets_sealed_def insert_accounts_def insert_external_keys_def delete_accounts_def delete_external_keys_def
      delete_keys_def delete_oauth_def delete_external_def Let_def intro: list_all_filtered)

lemma update_keys_sealed:
  assumes "secrets_sealed c d" and "\<And>k. key_KeyHash (f k) = key_KeyHash k" and "\<And>k. key_KeyPrefix (f k) = key_KeyPrefix k"
  shows "secrets_sealed c (snd (update_keys p f d))"
  using assms by (auto simp: secrets_sealed_def update_keys_def key_sealed_def intro!: list_all_update_where)

lemma update_oauth_sealed:
  assumes "secrets_sealed c d" and "\<And>a. account_sealed (sl_cipher c) (sl_key c) a \<Longrightarrow> account_sealed (sl_cipher c) (sl_key c) (f a)"
  shows "secrets_sealed c (snd (update_oauth p f d))"
  using assms by (auto simp: secrets_sealed_def update_oauth_def intro!: list_all_update_where)

lemma update_external_sealed:
  assumes "secrets_sealed c d"
    and "\<And>x. external_sealed (sl_cipher c) (sl_key c) (sl_hosts c) (sl_sha256 c) (f x)"
  shows "secrets_sealed c (snd (update_external p f d))"
  using assms by (auto simp: secrets_sealed_def update_external_def intro!: list_all_update_where)

lemmas statements_seal = insert_user_sealed insert_key_sealed insert_oauth_sealed insert_external_sealed
  other_statements_sealed update_keys_sealed update_external_sealed

section \<open>API keys\<close>

lemma replace_accounts_sealed: "secrets_sealed c d \<Longrightarrow> secrets_sealed c (snd (replace_accounts io now u kid ids d))"
  unfolding replace_accounts_def by (intro sealed.steps statements_seal)

lemma replace_external_sealed: "secrets_sealed c d \<Longrightarrow> secrets_sealed c (snd (replace_external io now u kid ids d))"
  unfolding replace_external_def by (intro sealed.steps statements_seal)

lemma ReplaceApikeyAccounts_sealed:
  "secrets_sealed c d \<Longrightarrow> secrets_sealed c (snd (ReplaceApikeyAccounts io now u kid oa ext d))"
proof -
  have "secrets_sealed c (snd (replace_body io now u kid ids exts d))" if "secrets_sealed c d" for ids exts d
    unfolding replace_body_def
    by (intro sealed.steps statements_seal replace_accounts_sealed replace_external_sealed) (use that in simp_all)
  then show "secrets_sealed c d \<Longrightarrow> ?thesis"
    unfolding ReplaceApikeyAccounts_def repo_ReplaceApikeyAccounts_def
    by (intro sealed.steps) (simp_all add: sealed.steps)
qed

lemma UpdateApikey_sealed: "secrets_sealed c d \<Longrightarrow> secrets_sealed c (snd (UpdateApikey io now u kid dis ex upd d))"
  unfolding UpdateApikey_def repo_UpdateApikey_def by (intro sealed.steps statements_seal) simp_all

lemma DeleteApikey_sealed: "secrets_sealed c d \<Longrightarrow> secrets_sealed c (snd (DeleteApikey io u kid d))"
  unfolding DeleteApikey_def repo_DeleteApikey_def by (intro sealed.steps statements_seal)

lemma generated_key_sealed:
  "generateApikey sha256 rnd = Inr (raw, h) \<Longrightarrow> key_sealed sha256 ((toApikeyinfo h u)\<lparr>key_KeyPrefix := take 12 raw\<rparr>)"
  by (erule generateApikey_InrD) (auto simp: key_sealed_def toApikeyinfo_def)

lemma CreatApikey_sealed:
  assumes "secrets_sealed c d"
  shows "secrets_sealed c (snd (CreatApikey io (sl_sha256 c) now rnd u oa ext d))"
proof -
  have "secrets_sealed c (snd (save_body io now k accs exts d))" if "key_sealed (sl_sha256 c) k" "secrets_sealed c d" for k accs exts d
    unfolding save_body_def by (intro sealed.steps statements_seal that)
  then have "secrets_sealed c (snd (SaveApikey io now k accs exts d))" if "key_sealed (sl_sha256 c) k" for k accs exts
    unfolding SaveApikey_def using that assms by (simp add: sealed.committed)
  then show ?thesis
    unfolding CreatApikey_def using assms generated_key_sealed by (intro sealed.steps) simp_all
qed

section \<open>External keys\<close>

lemma prepare_sealed:
  assumes "prepare s rnd req = Inr x" and "aead_laws (cipher s)"
  shows "external_sealed (cipher s) (encryptionKey s) (urlHosts s) (sha256_of s) x"
proof -
  note p = prepare_InrD [OF assms(1)]
  have "TrimSpace (req_ExternalApikey req) \<noteq> []" using assms(1) by (auto simp: prepare_def Let_def split: if_splits)
  then show ?thesis
    unfolding external_sealed_def using Decrypt_Encrypt [OF assms(2) p(1)] p(2-6) by blast
qed

lemma ext_Create_sealed:
  assumes "secrets_sealed c d" and "aead_laws (sl_cipher c)" and "cipher s = sl_cipher c" "encryptionKey s = sl_key c"
    "urlHosts s = sl_hosts c" "sha256_of s = sl_sha256 c"
  shows "secrets_sealed c (snd (ext_Create s now rnd u req d))"
  unfolding ext_Create_def ext_Add_def
  by (intro sealed.steps statements_seal assms(1))
    (use prepare_sealed [of s rnd req] assms(2-6) in \<open>auto simp: external_sealed_def\<close>)

lemma ext_Update_sealed:
  assumes "secrets_sealed c d" and "aead_laws (sl_cipher c)" and "cipher s = sl_cipher c" "encryptionKey s = sl_key c"
    "urlHosts s = sl_hosts c" "sha256_of s = sl_sha256 c"
  shows "secrets_sealed c (snd (svc_Update s now rnd u i req d))"
proof -
  have "secrets_sealed c (snd (ext_Update (repository s) now u i x d))" if "prepare s rnd req = Inr x" for x
    unfolding ext_Update_def some_row_def
    by (intro sealed.steps update_external_sealed assms(1))
      (use prepare_sealed [OF that] assms(2-6) in \<open>auto simp: external_sealed_def\<close>)
  then show ?thesis unfolding svc_Update_def using assms(1) by (intro sealed.steps) simp_all
qed

lemma ext_Delete_sealed: "secrets_sealed c d \<Longrightarrow> secrets_sealed c (snd (svc_Delete s u i d))"
  unfolding svc_Delete_def ext_Delete_def some_row_def by (intro sealed.steps statements_seal)

section \<open>Linked accounts\<close>

lemma SaveToken_sealed:
  assumes "secrets_sealed c d" and "aead_laws (sl_cipher c)" and "oauthCipher s = sl_cipher c" "oauthKey s = sl_key c"
  shows "secrets_sealed c (snd (svc_SaveToken s now rnd token flow b d))"
proof -
  have "secrets_sealed c (snd (if_ok (repo_SaveToken io now m d) (\<lambda>_ d. (Inr (), d))))"
    if "toOauthInfo s now rnd 0 u account email (AccessToken token) (TokenRefresh token) (IdToken token) (Expiry token) = Inr m"
      "TrimSpace account \<noteq> []" "token_usable now token" "IdToken token \<noteq> []" for io m u account email
  proof -
    have "linked_row s token u account email m" using toOauthInfo_InrD [OF _ that(1)] assms(2,3) by simp
    then have "account_sealed (sl_cipher c) (sl_key c) m"
      using that(2-4) assms(3,4) by (auto simp: linked_row_def account_sealed_def token_usable_def)
    then show ?thesis unfolding repo_SaveToken_def by (intro sealed.steps statements_seal assms(1))
  qed
  then show ?thesis using assms(1) by (auto simp: svc_SaveToken_def split: sum.splits option.splits)
qed

lemma refreshed_sealed:
  assumes "refreshTokenCredentials s now rnd dir model = Inr m" and "account_sealed (oauthCipher s) (oauthKey s) model"
    and "aead_laws (oauthCipher s)" and "directory s = Some dir"
  shows "account_sealed (oauthCipher s) (oauthKey s) m"
proof -
  from refreshTokenCredentials_InrD [OF assms(3,4,1)] obtain token
    where u: "token_usable now token" and r: "refreshed_row s now token model (m\<lparr>oa_UpdatedAt := now\<rparr>)" by blast
  have eq: "account_sealed (oauthCipher s) (oauthKey s) (m\<lparr>oa_UpdatedAt := now\<rparr>) = account_sealed (oauthCipher s) (oauthKey s) m"
    by (simp add: account_sealed_def)
  from r u assms(2) show ?thesis unfolding eq [symmetric]
    by (cases m; cases model) (auto simp: refreshed_row_def account_sealed_def token_usable_def split: if_splits)
qed

lemma RefreshToken_sealed:
  assumes "secrets_sealed c d" and "aead_laws (sl_cipher c)" and "oauthCipher s = sl_cipher c" "oauthKey s = sl_key c"
  shows "secrets_sealed c (snd (svc_RefreshToken s now rnd u i d))"
proof -
  have "secrets_sealed c (snd (UpdateToken io now u i m d))"
    if "GetOwnedTokenForUpdate io u i d = Inr model" "refreshTokenCredentials s now rnd dir model = Inr m" "directory s = Some dir" for io dir model m
  proof -
    have "model \<in> set (oauth_infos d)"
      using that(1) First_InrD [of oa_ID "owned_oauth u i" "oauth_infos d"]
      by (auto simp: GetOwnedTokenForUpdate_def dest!: query_InrD split: sum.splits)
    then have "account_sealed (sl_cipher c) (sl_key c) model" using assms(1) by (auto simp: secrets_sealed_def list_all_iff)
    then have "account_sealed (sl_cipher c) (sl_key c) m"
      using refreshed_sealed [OF that(2)] that(3) assms(2-4) by simp
    then show ?thesis unfolding UpdateToken_def
      by (intro sealed.steps update_oauth_sealed assms(1)) (auto simp: account_sealed_def)
  qed
  then show ?thesis
    unfolding svc_RefreshToken_def using assms(1)
    by (auto split: option.splits intro!: sealed.steps)
qed

lemma deleteOauth_sealed: "secrets_sealed c d \<Longrightarrow> secrets_sealed c (snd (deleteUserOauth s i u d))"
  unfolding deleteUserOauth_def repo_deleteUserOauth_def
  by (auto split: option.splits intro!: sealed.steps other_statements_sealed)

section \<open>Accounts\<close>

lemma AddUser_sealed:
  assumes "sl_hash c password = Inr h" and "secrets_sealed c d"
  shows "secrets_sealed c (snd (AddUser io now name h r d))"
  unfolding AddUser_def
  by (intro sealed.steps statements_seal assms(2)) (use assms(1) in \<open>auto simp: user_sealed_def new_user_def\<close>)


section \<open>Every state\<close>

interpretation sealing: tables_kept "secrets_sealed c" "\<lambda>_. True"
    "\<lambda>s. aead_laws (sl_cipher c) \<and> cipher s = sl_cipher c \<and> encryptionKey s = sl_key c \<and> urlHosts s = sl_hosts c \<and> sha256_of s = sl_sha256 c"
    "\<lambda>s. aead_laws (sl_cipher c) \<and> oauthCipher s = sl_cipher c \<and> oauthKey s = sl_key c"
    "\<lambda>f. f = sl_sha256 c" "\<lambda>h. \<exists>password. sl_hash c password = Inr h" for c
  by unfold_locales
    (auto intro: CreatApikey_sealed UpdateApikey_sealed ReplaceApikeyAccounts_sealed DeleteApikey_sealed ext_Create_sealed
      ext_Update_sealed ext_Delete_sealed SaveToken_sealed RefreshToken_sealed deleteOauth_sealed AddUser_sealed)




section \<open>Witness\<close>



end
