(* ===== verification/EndToEnd.thy ===== *)
theory EndToEnd imports ApiProps ChatProps begin

text \<open>
  A property across all components, with its witness: the account that a user has linked in a browser
  answers the chat requests made with an API key of that user.
\<close>

section \<open>From a request to its handler\<close>

lemma run_filters_answers:
  "run_filters s rq w fs cx = Inl out \<Longrightarrow> (\<exists>p. out = PlainOut p) \<or> (\<exists>r. out = Filtered r)"
proof (induction fs arbitrary: cx)
  case (Cons f fs)
  then show ?case by (cases f) (auto split: sum.splits middleware.splits)
qed simp

text \<open>A reply of a module comes from the handler of the route.\<close>

lemma serve_handled:
  assumes "g newRouter (rq_method rq) (rq_path rq) = Inr (e, p)" and "serve g s rq w = (out, w')"
    and "\<And>q. out \<noteq> PlainOut q" and "\<And>r. out \<noteq> Filtered r"
  obtains cx where "run_filters s rq w (re_filters e) start_context = Inr cx" and "run_endpoint s rq p cx (re_endpoint e) w = (out, w')"
proof (cases "run_filters s rq w (re_filters e) start_context")
  case (Inl out')
  with assms(1,2) have "out' = out" by (simp add: serve_def)
  with run_filters_answers [OF Inl] assms(3,4) show ?thesis by blast
next
  case (Inr cx)
  with assms(1,2) show ?thesis by (intro that [OF Inr]) (simp add: serve_def)
qed

lemma new_services_simps [simp]:
  "oauthCipher (sv_oauth (new_services cfg i s)) = oauthCipher (sv_oauth s)"
  "oauthKey (sv_oauth (new_services cfg i s)) = api_oauthEncryptionKey cfg"
  "codec (sv_oauth (new_services cfg i s)) = codec (sv_oauth s)"
  "sv_getter (new_services cfg i s) = CredentialInject (api_oauthEncryptionKey cfg)"
  "sv_check (new_services cfg i s) = ApikeycheckInject (sv_keyFaults s)"
  "sha256Sum (sv_auth (new_services cfg i s)) = sha256Sum (sv_auth s)"
  "sv_now (new_services cfg i s) = sv_now s" "sv_rnd (new_services cfg i s) = sv_rnd s"
  "sv_keyFaults (new_services cfg i s) = sv_keyFaults s" "sv_sdk (new_services cfg i s) = sv_sdk s"
  "sv_chatStream (new_services cfg i s) = sv_chatStream s" "sv_chatUnary (new_services cfg i s) = sv_chatUnary s"
  "sv_ctxError (new_services cfg i s) = sv_ctxError s"
  by (simp_all add: new_services_def Let_def NewOauthService_def NewAuthService_def)

text \<open>A callback of a login that saved has added the account of the exchange for the user of the login.\<close>

lemma callback_links:
  assumes "g newRouter (rq_method rq) (rq_path rq) = Inr (e, p)" and "re_endpoint e = E_OauthCallback"
    and "serve g s rq w = (OauthOut out, w')" and "saved out"
    and "aead_laws (oauthCipher (sv_oauth s))"
  obtains data flow token account email row where
    "redis_get (sv_now s) (oidcStateKey (rq_query rq ''state'')) (w_redis w) = Some data" "flow_of (codec (sv_oauth s)) data = Some flow"
    "svc_Exchange (sv_oauth s) (rq_query rq ''code'') (lf_Verifier flow) (lf_Provider flow) ''browser'' = Inr token"
    "token_usable (sv_now s) token"
    "oauth_infos (w_db w') = oauth_infos (w_db w) @ [row]" "linked_row (sv_oauth s) token (lf_UserID flow) account email row"
proof -
  obtain cx where r: "run_endpoint s rq p cx (re_endpoint e) w = (OauthOut out, w')"
    by (rule serve_handled [OF assms(1,3)]) simp_all
  then obtain st where h: "CallbackHandler (sv_oauth s) (sv_now s) (\<lambda>n. sv_rnd s (Suc n)) (rq_query rq ''state'') (rq_query rq ''error'')
      (rq_query rq ''code'') (rq_accept rq) \<lparr>os_db = w_db w, os_redis = w_redis w\<rparr> = (out, st)" and w': "w_db w' = os_db st"
    using assms(2) by (auto simp: run_endpoint_def Let_def on_oauth_def split: prod.splits)
  from CallbackHandler_saved [OF h assms(4)] obtain data flow token d where
    a: "redis_get (sv_now s) (oidcStateKey (rq_query rq ''state'')) (w_redis w) = Some data" "flow_of (codec (sv_oauth s)) data = Some flow"
      "svc_Exchange (sv_oauth s) (rq_query rq ''code'') (lf_Verifier flow) (lf_Provider flow) ''browser'' = Inr token"
    and save: "svc_SaveToken (sv_oauth s) (sv_now s) (\<lambda>n. sv_rnd s (Suc n)) token flow True (w_db w) = (Inr (), d)"
    and "os_db st = d" by auto
  with svc_SaveToken_InrD [OF assms(5) save] w' show ?thesis using that a by metis
qed

text \<open>A key was created for the user of the request.\<close>

lemma creation_served:
  assumes "g newRouter (rq_method rq) (rq_path rq) = Inr (e, p)" and "re_endpoint e = E_CreatApikey"
    and "serve g s rq w = (KeyOut r, w')" and "reply_data r = Some (ApiKeyData raw)"
  obtains u req where "requester s rq = Some u" "bind_creat (rq_body rq) = Some req"
    "CreatApikey (sv_keyFaults s) (sha256Sum (sv_auth s)) (sv_now s) (sv_rnd s 1) u (cr_OAuthInfo req) (cr_ExternalApiKeyIDs req) (w_db w)
      = (Inr raw, w_db w')"
proof -
  obtain cx where f: "run_filters s rq w (re_filters e) start_context = Inr cx"
    and run: "run_endpoint s rq p cx (re_endpoint e) w = (KeyOut r, w')"
    by (rule serve_handled [OF assms(1,3)]) simp_all
  have u: "map_option ctx_userID (cx_user cx) = None \<or> map_option ctx_userID (cx_user cx) = requester s rq"
    using run_filters_user [OF f] by auto
  from run obtain d where h: "CreatApikeyHandler (sv_keyFaults s) (sha256Sum (sv_auth s)) (sv_now s) (sv_rnd s 1)
      (map_option ctx_userID (cx_user cx)) (rq_body rq) (w_db w) = (r, d)" and d: "w_db w' = d"
    using assms(2) by (auto simp: run_endpoint_def Let_def on_tables_def split: prod.splits)
  from h assms(4) obtain uid req where "map_option ctx_userID (cx_user cx) = Some uid" "bind_creat (rq_body rq) = Some req"
    "CreatApikey (sv_keyFaults s) (sha256Sum (sv_auth s)) (sv_now s) (sv_rnd s 1) uid (cr_OAuthInfo req) (cr_ExternalApiKeyIDs req) (w_db w)
      = (Inr raw, d)"
    by (auto simp: CreatApikeyHandler_def split: option.splits sum.splits prod.splits if_splits)
  with u d show ?thesis by (intro that) auto
qed

text \<open>The format of the client, from the chat route.\<close>

fun client_format :: "endpoint \<Rightarrow> Format option" where
  "client_format E_ChatClaude = Some FormatClaude"
| "client_format E_ChatResponses = Some FormatOpenAIResponse"
| "client_format E_ChatOpenAI = Some FormatOpenAI"
| "client_format _ = None"

lemma client_formatD:
  assumes "client_format e = Some f"
  shows "e \<in> set chat_endpoints" and "f \<in> {FormatClaude, FormatOpenAIResponse, FormatOpenAI}"
    and "run_endpoint s rq p cx e w = (chat s rq cx f, w)"
  using assms by (cases e; simp add: chat_endpoints_def run_endpoint_def Let_def)+

lemma chat_filters:
  assumes "sv_check s = ApikeycheckInject no_faults" and "IsValidRequestID (rq_requestID rq)"
    and "Fields (rq_authorization rq) = [scheme, raw]" and "EqualFold scheme ''Bearer''" and "request_model (rq_body rq) = Some model"
    and "checkOauth True no_faults (sha256Sum (sv_auth s)) (sv_now s) raw model (w_db w) = Inr accs"
  shows "run_filters s rq w [RequestIDFilter, RecoveryFilter, AccessLogFilter, ApikeyRoute] start_context
    = Inr \<lparr>cx_requestID = rq_requestID rq, cx_user = None, cx_apikey = Some \<lparr>ctx_apikey = raw, ctx_accounts = accs\<rparr>\<rparr>"
  using assms(3-6)
  by (simp add: assms(1,2) RequestID_def start_context_def filter_with_def ApikeycheckInject_def inject_check_def ApikeyFilter_def)

lemma chat_served:
  assumes "gin_laws g" and "g newRouter (rq_method rq) (rq_path rq) = Inr (e, p)" and "client_format (re_endpoint e) = Some f"
    and "sv_check s = ApikeycheckInject no_faults" and "sv_ctxError s = None" and "IsValidRequestID (rq_requestID rq)"
    and "Fields (rq_authorization rq) = [scheme, raw]" and "EqualFold scheme ''Bearer''"
    and "bind_chat (rq_body rq) = Some (model, True)" and "model \<in> set codex_models"
    and "checkOauth True no_faults (sha256Sum (sv_auth s)) (sv_now s) raw model (w_db w) = Inr accs"
    and "getCredential None (getter_decrypt (oauthCipher (sv_oauth s)) (sv_getter s)) (sv_now s) accs = Inr c"
  shows "serve g s rq w = (ChatOut (case sv_chatStream s (codex_request (sv_sdk s) f model (rq_body rq) (cred_Secret c)) of
         Inl e \<Rightarrow> stream_out f [] (Some e)
       | Inr (chunks, ending) \<Rightarrow> stream_out f
          (chunk_events (sv_sdk s) f FormatCodex model (rq_body rq) (TranslateRequest (sv_sdk s) f FormatCodex model (rq_body rq) True) None chunks
           @ (if ending = None \<and> f = FormatOpenAI then [done_event] else [])) ending), w)"
proof -
  have "e \<in> set newRouter" using assms(1,2) unfolding gin_laws_def by metis
  moreover have "re_endpoint e \<in> set chat_endpoints" by (rule client_formatD(1) [OF assms(3)])
  moreover have "set chat_endpoints \<inter> set open_endpoints = {}" by (simp add: chat_endpoints_def open_endpoints_def)
  ultimately have fs: "re_filters e = [RequestIDFilter, RecoveryFilter, AccessLogFilter, ApikeyRoute]"
    using route_filters by auto
  note r = chat_filters [OF assms(4,6-8) bind_chat_model [OF assms(9)] assms(11)]
  have "serve g s rq w = (chat s rq \<lparr>cx_requestID = rq_requestID rq, cx_user = None,
      cx_apikey = Some \<lparr>ctx_apikey = raw, ctx_accounts = accs\<rparr>\<rparr> f, w)"
    by (simp only: serve_def assms(2) fs r client_formatD(3) [OF assms(3)] sum.case prod.case)
  then show ?thesis
    using Chat_stream [OF assms(9,10) client_formatD(2) [OF assms(3)] assms(12), of "sv_sdk s" "sv_chatStream s" "sv_chatUnary s"] assms(5)
    by (simp add: chat_def)
qed

section \<open>The account of a key\<close>

text \<open>A key made for one account is checked with that account alone.\<close>

lemma key_of_one_account:
  assumes "db_inv d" and "CreatApikey io sha256 now rnd u [oa_ID a] ext d = (Inr raw, d')" and "model \<in> set codex_models"
    and "a \<in> set (oauth_infos d)" and "\<not> oa_Disabled a" and "oa_Type a = ''codex''"
  obtains accs where "checkOauth True no_faults sha256 later raw model d' = Inr accs" "accs \<noteq> []" "hd accs = item_of a" "oa_UserID a = u"
proof -
  from CreatApikey_effect [OF assms(2)] have "(u, oa_ID a) \<in> set (oauth_refs d)" by auto
  then obtain b where "b \<in> set (oauth_infos d)" "oa_UserID b = u" "oa_ID b = oa_ID a" by (auto)
  moreover have ids: "x = y" if "x \<in> set (oauth_infos d)" "y \<in> set (oauth_infos d)" "oa_ID x = oa_ID y" for x y
    using assms(1) that unfolding db_inv_def oauth_ok_def identity_ok_def by (metis inj_onD distinct_map)
  ultimately have u: "oa_UserID a = u" using assms(4) by metis
  with new_key_checked [OF assms(1-3), of later] assms(4-6) obtain accs where
    c: "checkOauth True no_faults sha256 later raw model d' = Inr accs"
    and "set accs = item_of ` {x \<in> set (oauth_infos d). oa_UserID x = u \<and> oa_ID x \<in> set [oa_ID a] \<and> \<not> oa_Disabled x \<and> oa_Type x = ''codex''}"
    by auto
  moreover have "{x \<in> set (oauth_infos d). oa_UserID x = u \<and> oa_ID x \<in> set [oa_ID a] \<and> \<not> oa_Disabled x \<and> oa_Type x = ''codex''} = {a}"
    using ids assms(4-6) u by auto
  ultimately have "set accs = {item_of a}" by simp
  then have "accs \<noteq> [] \<and> hd accs = item_of a" by (cases accs) auto
  with c u that show ?thesis by blast
qed

text \<open>C4: the account that a user links pays for the chat requests made with the user's API keys, whatever
  the processes are that serve the three requests, as long as they have one configuration. When a
  callback reports that it has linked an account, and a key for this account has been created, then the
  key was created for the user who started the login; and a chat request with this key, in any of the
  three formats and for any supported model, sends one request to the upstream service, with the access
  token that the provider gave in exchange for the code of the callback, until that token expires; the
  client gets what comes back, and the tables stay as they are.\<close>

theorem linked_account_serves_chat:
  assumes "gin_laws g" and "db_inv (w_db w1)" and "aead_laws (oauthCipher (sv_oauth s1))"
    and same: "oauthCipher (sv_oauth s3) = oauthCipher (sv_oauth s1)" "sha256Sum (sv_auth s3) = sha256Sum (sv_auth s2)"
    and linked: "g newRouter (rq_method rq1) (rq_path rq1) = Inr (e1, p1)" "re_endpoint e1 = E_OauthCallback"
      "serve g (new_services cfg i1 s1) rq1 w1 = (OauthOut out, w2)" "saved out"
    and account: "row = last (oauth_infos (w_db w2))" "cr_OAuthInfo req = [oa_ID row]" "bind_creat (rq_body rq2) = Some req"
    and created: "g newRouter (rq_method rq2) (rq_path rq2) = Inr (e2, p2)" "re_endpoint e2 = E_CreatApikey"
      "serve g (new_services cfg i2 s2) rq2 w2 = (KeyOut r, w3)" "reply_data r = Some (ApiKeyData raw)"
    and request: "g newRouter (rq_method rq3) (rq_path rq3) = Inr (e3, p3)" "client_format (re_endpoint e3) = Some f"
      "IsValidRequestID (rq_requestID rq3)" "Fields (rq_authorization rq3) = [scheme, raw]" "EqualFold scheme ''Bearer''"
      "bind_chat (rq_body rq3) = Some (model, True)" "model \<in> set codex_models"
    and up: "sv_keyFaults s3 = no_faults" "sv_ctxError s3 = None"
    and fresh: "\<not> expired_at (oa_Expired row) (sv_now s3)"
  shows "\<exists>data flow token. redis_get (sv_now s1) (oidcStateKey (rq_query rq1 ''state'')) (w_redis w1) = Some data
    \<and> flow_of (codec (sv_oauth s1)) data = Some flow \<and> requester (new_services cfg i2 s2) rq2 = Some (lf_UserID flow)
    \<and> svc_Exchange (sv_oauth (new_services cfg i1 s1)) (rq_query rq1 ''code'') (lf_Verifier flow) (lf_Provider flow) ''browser'' = Inr token
    \<and> serve g (new_services cfg i3 s3) rq3 w3 =
        (ChatOut (case sv_chatStream s3 (codex_request (sv_sdk s3) f model (rq_body rq3) (AccessToken token)) of
           Inl e \<Rightarrow> stream_out f [] (Some e)
         | Inr (chunks, ending) \<Rightarrow> stream_out f
            (chunk_events (sv_sdk s3) f FormatCodex model (rq_body rq3)
               (TranslateRequest (sv_sdk s3) f FormatCodex model (rq_body rq3) True) None chunks
             @ (if ending = None \<and> f = FormatOpenAI then [done_event] else [])) ending), w3)"
proof -
  let ?s1 = "new_services cfg i1 s1" and ?s2 = "new_services cfg i2 s2" and ?s3 = "new_services cfg i3 s3"
  obtain data flow token acc email row' where
    login: "redis_get (sv_now s1) (oidcStateKey (rq_query rq1 ''state'')) (w_redis w1) = Some data" "flow_of (codec (sv_oauth s1)) data = Some flow"
      "svc_Exchange (sv_oauth ?s1) (rq_query rq1 ''code'') (lf_Verifier flow) (lf_Provider flow) ''browser'' = Inr token"
      "token_usable (sv_now s1) token"
    and row: "oauth_infos (w_db w2) = oauth_infos (w_db w1) @ [row']" "linked_row (sv_oauth ?s1) token (lf_UserID flow) acc email row'"
    by (rule callback_links [OF linked]) (use assms(3) in simp_all)
  have row': "row' = row" using row(1) account(1) by simp
  have l: "oa_UserID row = lf_UserID flow" "\<not> oa_Disabled row" "oa_Type row = ''codex''"
      "getter_decrypt (oauthCipher (sv_oauth ?s3)) (sv_getter ?s3) (oa_AccessToken row) = Some (AccessToken token)"
    using row(2) same(1) unfolding row'
    by (simp_all add: linked_row_def getter_decrypt_def CredentialInject_def inject_key_def)
  have inv: "db_inv (w_db w2)"
  proof -
    obtain cx where "run_endpoint ?s1 rq1 p1 cx (re_endpoint e1) w1 = (OauthOut out, w2)"
      by (rule serve_handled [OF linked(1,3)]) simp_all
    then show ?thesis using constraints.endpoints [of w1 cx "re_endpoint e1" ?s1 rq1 p1] assms(2) by simp
  qed
  obtain u where u: "requester ?s2 rq2 = Some u"
    and c: "CreatApikey (sv_keyFaults s2) (sha256Sum (sv_auth s2)) (sv_now s2) (sv_rnd s2 1) u [oa_ID row] (cr_ExternalApiKeyIDs req) (w_db w2)
      = (Inr raw, w_db w3)"
    by (rule creation_served [OF created]) (use account(2,3) in simp)
  have "row \<in> set (oauth_infos (w_db w2))" using row(1) row' by simp
  then obtain accs where accs: "checkOauth True no_faults (sha256Sum (sv_auth s2)) (sv_now s3) raw model (w_db w3) = Inr accs" "accs \<noteq> []"
      "hd accs = item_of row" "oa_UserID row = u"
    by (rule key_of_one_account [OF inv c request(7) _ l(2,3)])
  have "getCredential None (getter_decrypt (oauthCipher (sv_oauth ?s3)) (sv_getter ?s3)) (sv_now ?s3) accs
      = Inr \<lparr>cred_Mode = ''access_token'', cred_Secret = AccessToken token\<rparr>"
    using accs(2,3) l(2-4) fresh login(4) by (cases accs) (simp_all add: getCredential_def token_usable_def)
  from chat_served [OF assms(1) request(1,2) _ _ request(3-7) _ this, unfolded new_services_simps] up accs(1) same(2)
  have "serve g ?s3 rq3 w3 =
        (ChatOut (case sv_chatStream s3 (codex_request (sv_sdk s3) f model (rq_body rq3) (AccessToken token)) of
           Inl e \<Rightarrow> stream_out f [] (Some e)
         | Inr (chunks, ending) \<Rightarrow> stream_out f
            (chunk_events (sv_sdk s3) f FormatCodex model (rq_body rq3)
               (TranslateRequest (sv_sdk s3) f FormatCodex model (rq_body rq3) True) None chunks
             @ (if ending = None \<and> f = FormatOpenAI then [done_event] else [])) ending), w3)" by simp
  with login u l(1) accs(4) show ?thesis by auto
qed

section \<open>Witness\<close>

definition toy_auth :: OIDCAuth where
  "toy_auth = \<lparr>Provider = None, OauthConfig = Some \<lparr>ClientID = ''app'', ClientSecret = [],
     RedirectURL = ''http://localhost/callback'', AuthURL = ''https://auth'', TokenURL = ''https://token'', DeviceAuthURL = [],
     AuthStyle = InParams, Scopes = OaiScopes\<rparr>, AuthURLParams = OaiAuthURLParams, IDVerifier = None\<rparr>"

definition toy_instances :: instances where
  "toy_instances = no_instances\<lparr>providers := [(''oai'', toy_auth)]\<rparr>"

definition toy_cfg :: apiConfiguration where
  "toy_cfg = toy_api\<lparr>api_oauthEncryptionKey := replicate 32 CHR ''k''\<rparr>"

definition link_service :: "(toy_policy, unit) service" where
  "link_service = toy_sv\<lparr>sv_now := 1, sv_rnd := toy_nonces\<rparr>"

definition key_service :: "(toy_policy, unit) service" where
  "key_service = toy_sv\<lparr>sv_auth := toy_service\<lparr>sha256Sum := sample_sha\<rparr>, sv_rnd := (\<lambda>_. Inr sample_secret)\<rparr>"

definition chat_service :: "(toy_policy, unit) service" where
  "chat_service = key_service\<lparr>sv_chatStream := (\<lambda>r. if chat_Secret r = ''access'' then Inr ([''data: a''], None) else Inl ContextCanceled)\<rparr>"

definition link_request :: request where
  "link_request = \<lparr>rq_method = ''GET'', rq_path = ''/oauth/callback'', rq_query = (\<lambda>k. if k = ''state'' then RawURLEncode (fill_bytes 32 ''one'')
       else if k = ''code'' then ''code'' else []), rq_authorization = [], rq_requestID = ''r-1'', rq_accept = [], rq_refreshCookie = None,
     rq_body = []\<rparr>"

definition key_request :: "bytes \<Rightarrow> request" where
  "key_request token = (toy_request (''Bearer '' @ token))\<lparr>rq_body := ''{\"oauth_info\":[1]}''\<rparr>"

definition chat_message :: request where
  "chat_message = (toy_request sample_auth)\<lparr>rq_path := ''/v1/chat/completions'', rq_body := sample_body\<rparr>"

definition link_world :: "toy_policy world" where
  "link_world = \<lparr>w_db = toy_owner, w_redis = os_redis toy_started, w_policies = toy_policies\<rparr>"

lemma toy_oauth_made: "sv_oauth s = toy_oauth \<Longrightarrow> sv_oauth (new_services toy_cfg toy_instances s) = toy_oauth"
  by (simp add: new_services_def Let_def NewOauthService_def)
    (simp add: toy_oauth_def toy_cfg_def toy_instances_def toy_auth_def fun_eq_iff)

lemma toy_services: "sv_oauth link_service = toy_oauth" "sv_oauth key_service = toy_oauth" "sv_oauth chat_service = toy_oauth"
  by (simp_all add: link_service_def key_service_def chat_service_def toy_sv_def)

lemma toy_routes:
  "case toy_gin newRouter ''GET'' ''/oauth/callback'' of Inl _ \<Rightarrow> False
   | Inr (e, i) \<Rightarrow> re_endpoint e = E_OauthCallback \<and> re_filters e = [RequestIDFilter, RecoveryFilter, AccessLogFilter]"
  "case toy_gin newRouter ''POST'' ''/api/v1/api-keys'' of Inl _ \<Rightarrow> False
   | Inr (e, i) \<Rightarrow> re_endpoint e = E_CreatApikey \<and> re_filters e = [RequestIDFilter, RecoveryFilter, AccessLogFilter, JwtRoute]"
  "case toy_gin newRouter ''POST'' ''/v1/chat/completions'' of Inl _ \<Rightarrow> False | Inr (e, i) \<Rightarrow> re_endpoint e = E_ChatOpenAI"
  by code_simp+

text \<open>The callback.\<close>

lemma toy_link:
  "\<exists>e i out d. toy_gin newRouter (rq_method link_request) (rq_path link_request) = Inr (e, i) \<and> re_endpoint e = E_OauthCallback
    \<and> serve toy_gin (new_services toy_cfg toy_instances link_service) link_request link_world
        = (OauthOut out, link_world\<lparr>w_db := d, w_redis := Map.empty\<rparr>) \<and> saved out
    \<and> CallbackHandler toy_oauth 1 toy_nonces (RawURLEncode (fill_bytes 32 ''one'')) [] ''code'' [] toy_started = (out, \<lparr>os_db = d, os_redis = Map.empty\<rparr>)"
proof -
  let ?out = "out_headers [no_store_header, (''Referrer-Policy'', ''no-referrer'')] (Doc (SuccessWithStatus 200 None ''oauth credentials saved''))"
  obtain e i where e: "toy_gin newRouter (rq_method link_request) (rq_path link_request) = Inr (e, i)"
    "re_endpoint e = E_OauthCallback" "re_filters e = [RequestIDFilter, RecoveryFilter, AccessLogFilter]"
    using toy_routes(1) by (auto simp: link_request_def split: sum.splits)
  obtain d where d: "CallbackHandler toy_oauth 1 toy_nonces (RawURLEncode (fill_bytes 32 ''one'')) [] ''code'' [] toy_started
      = (?out, \<lparr>os_db = d, os_redis = Map.empty\<rparr>)" using toy_callback by blast
  have st: "\<lparr>os_db = w_db link_world, os_redis = w_redis link_world\<rparr> = toy_started"
    by (simp add: link_world_def toy_started_def)
  have q: "rq_query link_request ''state'' = RawURLEncode (fill_bytes 32 ''one'')" "rq_query link_request ''error'' = []" "rq_query link_request ''code'' = ''code''"
      "rq_accept link_request = []" by (simp_all add: link_request_def)
  have n: "sv_now link_service = 1" "(\<lambda>n. sv_rnd link_service (Suc n)) = toy_nonces"
    by (simp_all add: link_service_def toy_nonces_def)
  have "IsValidRequestID (rq_requestID link_request)" by code_simp
  then have "run_filters s link_request w (re_filters e) start_context = Inr (start_context\<lparr>cx_requestID := rq_requestID link_request\<rparr>)"
    for s :: "(toy_policy, unit) service" and w by (simp add: e(3) RequestID_def)
  then have "serve toy_gin (new_services toy_cfg toy_instances link_service) link_request link_world
      = on_oauth (CallbackHandler toy_oauth 1 toy_nonces (RawURLEncode (fill_bytes 32 ''one'')) [] ''code'' []) link_world"
    by (simp add: serve_def e(1,2) run_endpoint_def Let_def toy_oauth_made [OF toy_services(1)] q n)
  then have "serve toy_gin (new_services toy_cfg toy_instances link_service) link_request link_world
      = (OauthOut ?out, link_world\<lparr>w_db := d, w_redis := Map.empty\<rparr>)"
    unfolding on_oauth_def st d by simp
  moreover have "saved ?out" by (simp only: out_headers_same) (simp add: saved_def)
  ultimately show ?thesis using e(1,2) d by blast
qed

text \<open>The tables after it: one account, the first, of the user 7.\<close>

lemma svc_SaveToken_inserts:
  assumes "svc_SaveToken s now rnd token flow b d = (Inr x, d')"
  shows "\<exists>m row. insert_oauth now m d = (Inr row, d')"
proof -
  from assms obtain io m row where "repo_SaveToken io now m d = (Inr row, d')"
    unfolding svc_SaveToken_def by (auto dest!: if_ok_InrD split: if_splits sum.splits option.splits prod.splits)
  then show ?thesis using repo_SaveToken_InrD by blast
qed

lemma toy_linked_tables:
  assumes "CallbackHandler toy_oauth 1 toy_nonces (RawURLEncode (fill_bytes 32 ''one'')) [] ''code'' [] toy_started = (out, \<lparr>os_db = d, os_redis = Map.empty\<rparr>)"
    and "saved out"
  shows "\<exists>row. d = toy_owner\<lparr>oauth_infos := [row], oauth_infos_seq := 2\<rparr> \<and> oa_ID row = 1 \<and> oa_UserID row = 7 \<and> oa_Expired row = None"
proof -
  have owner: "os_db toy_started = toy_owner" "users toy_owner = [\<lparr>user_ID = 7, user_Username = ''ada'', user_PasswordHash = [],
      user_RoleCode = ''user'', user_IsActive = True, user_CreatedAt = 0, user_UpdatedAt = 0\<rparr>]" "oauth_infos_seq toy_owner = 1"
    "oauth_infos toy_owner = []" by (simp_all add: toy_started_def toy_owner_def empty_db_def)
  from CallbackHandler_saved [OF assms] obtain flow token da where
    ex: "svc_Exchange toy_oauth ''code'' (lf_Verifier flow) (lf_Provider flow) ''browser'' = Inr token"
    and "svc_SaveToken toy_oauth 1 toy_nonces token flow True toy_owner = (Inr (), da)"
    and eq: "\<lparr>os_db = d, os_redis = Map.empty\<rparr> = toy_started\<lparr>os_redis := (os_redis toy_started)(oidcStateKey (RawURLEncode (fill_bytes 32 ''one'')) := None), os_db := da\<rparr>"
    unfolding owner(1) by blast
  moreover from arg_cong [OF eq, of os_db] have "da = d" by simp
  ultimately have save: "svc_SaveToken toy_oauth 1 toy_nonces token flow True toy_owner = (Inr (), d)" by simp
  from svc_SaveToken_inserts [OF save] obtain m row where "insert_oauth 1 m toy_owner = (Inr row, d)" by blast
  then have "d = toy_owner\<lparr>oauth_infos := [row], oauth_infos_seq := 2\<rparr> \<and> oa_ID row = 1 \<and> oa_UserID row = 7"
    by (auto simp: insert_oauth_def owner Let_def split: if_splits)
  moreover from svc_SaveToken_InrD [OF toy_laws(2) save] obtain row' account email where
    "oauth_infos d = oauth_infos toy_owner @ [row']" "linked_row toy_oauth token (lf_UserID flow) account email row'" by blast
  moreover have "Expiry token = None"
  proof -
    have "lf_Provider flow = ''oai''" using ex by (auto simp: svc_Exchange_def authFor_def toy_oauth_def split: if_splits)
    then show ?thesis using ex by (auto simp: toy_exchange token_of_def toy_tokens_def)
  qed
  ultimately show ?thesis by (auto simp: linked_row_def owner)
qed

lemma toy_key_user: "\<exists>token. requester (new_services toy_cfg toy_instances key_service) (key_request token) = Some 7"
proof -
  let ?m = "jwtManager toy_service"
  obtain tok where tok: "GenerateTokenWithPermissions toy_jwt ?m 5 7 ''ada'' [''user''] [] = Inr tok"
    using toy_jwt_up unfolding signer_up_def GenerateTokenWithPermissions_def by blast
  have "list_all utf8_valid (''ada'' # jm_issuer ?m # jm_audience ?m # [''user''] @ [])"
    unfolding toy_service_def by code_simp
  from JwtFilter_issued [OF toy_jwt_ok tok this, of 5]
  have "JwtFilter toy_jwt ?m 5 (''Bearer '' @ tok) =
      (Next \<lparr>ctx_userID = 7, ctx_username = ''ada'', ctx_role = [''user''], ctx_permissions = []\<rparr> :: (unit, jwt_context) middleware)"
    by (simp add: toy_service_def second_def)
  then have "requester (new_services toy_cfg toy_instances key_service) (key_request tok) = Some 7"
    by (simp add: requester_def new_services_def Let_def NewAuthService_def key_service_def toy_sv_def key_request_def toy_request_def
        toy_service_def toy_instances_def no_instances_def)
  then show ?thesis ..
qed

text \<open>The creation of a key for that account.\<close>

lemma toy_key:
  assumes "requester (new_services toy_cfg toy_instances key_service) (key_request token) = Some 7"
    and "w_db w = toy_owner\<lparr>oauth_infos := [row], oauth_infos_seq := 2\<rparr>" and "oa_ID row = 1" and "oa_UserID row = 7" and "db_inv (w_db w)"
  shows "\<exists>e i w'. toy_gin newRouter (rq_method (key_request token)) (rq_path (key_request token)) = Inr (e, i) \<and> re_endpoint e = E_CreatApikey
    \<and> serve toy_gin (new_services toy_cfg toy_instances key_service) (key_request token) w
        = (KeyOut (no_store (SuccessWithStatus 201 (Some (ApiKeyData sample_raw)) ''success'')), w')"
proof -
  let ?s = "new_services toy_cfg toy_instances key_service" and ?rq = "key_request token"
  obtain e i where e: "toy_gin newRouter (rq_method ?rq) (rq_path ?rq) = Inr (e, i)" "re_endpoint e = E_CreatApikey"
      "re_filters e = [RequestIDFilter, RecoveryFilter, AccessLogFilter, JwtRoute]"
    using toy_routes(2) by (auto simp: key_request_def toy_request_def split: sum.splits)
  have id: "IsValidRequestID (rq_requestID ?rq)" unfolding key_request_def toy_request_def by simp code_simp
  obtain c where c: "(JwtFilter (jwtLibrary (sv_auth ?s)) (jwtManager (sv_auth ?s)) (sv_now ?s) (rq_authorization ?rq) :: (unit, jwt_context) middleware)
      = Next c" "ctx_userID c = 7"
    using assms(1) by (auto simp: requester_def split: middleware.splits)
  have f: "run_filters ?s ?rq w (re_filters e) start_context = Inr (start_context\<lparr>cx_requestID := rq_requestID ?rq, cx_user := Some c\<rparr>)"
    using id c(1) by (simp add: e(3) RequestID_def del: new_services_simps)
  have raw: "sample_raw = ''sk-'' @ RawURLEncode (fill_bytes 32 sample_secret)"
    by (simp add: sample_raw_def sample_secret_def)
  have d: "api_keys_seq (w_db w) = 1" "user_refs (w_db w) = [7]" "oauth_refs (w_db w) = [(7, 1)]" "api_keys (w_db w) = []"
    using assms(2-4) by (simp_all add: toy_owner_def empty_db_def)
  have "length (sample_sha sample_raw) = 32" by code_simp
  with CreatApikey_ok [OF assms(5) _ _ _ _ _ raw, of 7 "[1]" "[]" sample_sha 5] d
  obtain d' where k: "CreatApikey no_faults sample_sha 5 (Inr sample_secret) 7 [1] [] (w_db w) = (Inr sample_raw, d')" by simp
  have b: "case bind_creat ''{\"oauth_info\":[1]}'' of None \<Rightarrow> False | Some r \<Rightarrow> cr_OAuthInfo r = [1] \<and> cr_ExternalApiKeyIDs r = []"
    by code_simp
  have v: "sv_keyFaults ?s = no_faults" "sha256Sum (sv_auth ?s) = sample_sha" "sv_now ?s = 5" "sv_rnd ?s (Suc 0) = Inr sample_secret"
      "rq_body ?rq = ''{\"oauth_info\":[1]}''"
    by (simp_all add: key_service_def toy_sv_def key_request_def no_faults_def fun_eq_iff)
  have "serve toy_gin ?s ?rq w = on_tables KeyOut (CreatApikeyHandler no_faults sample_sha 5 (Inr sample_secret) (Some 7) (rq_body ?rq)) w"
    using f by (simp add: serve_def e(1,2) run_endpoint_def Let_def v(1-4) c(2) del: new_services_simps)
  also have "\<dots> = (KeyOut (no_store (SuccessWithStatus 201 (Some (ApiKeyData sample_raw)) ''success'')), w\<lparr>w_db := d'\<rparr>)"
    using b k by (auto simp: on_tables_def CreatApikeyHandler_def v(5) split: option.splits)
  finally show ?thesis using e(1,2) by blast
qed

theorem linked_account_serves_chat_witness:
  "\<exists>token w2 w3 out. serve toy_gin (new_services toy_cfg toy_instances link_service) link_request link_world = (OauthOut out, w2)
    \<and> fst (serve toy_gin (new_services toy_cfg toy_instances key_service) (key_request token) w2)
        = KeyOut (no_store (SuccessWithStatus 201 (Some (ApiKeyData sample_raw)) ''success''))
    \<and> snd (serve toy_gin (new_services toy_cfg toy_instances key_service) (key_request token) w2) = w3
    \<and> serve toy_gin (new_services toy_cfg toy_instances chat_service) chat_message w3
        = (ChatOut (EventStream [''data: data: a'' @ blank_line, done_event]), w3)"
proof -
  obtain e1 i1 out d where l: "toy_gin newRouter (rq_method link_request) (rq_path link_request) = Inr (e1, i1)" "re_endpoint e1 = E_OauthCallback"
      "serve toy_gin (new_services toy_cfg toy_instances link_service) link_request link_world
        = (OauthOut out, link_world\<lparr>w_db := d, w_redis := Map.empty\<rparr>)" "saved out"
    and cb: "CallbackHandler toy_oauth 1 toy_nonces (RawURLEncode (fill_bytes 32 ''one'')) [] ''code'' [] toy_started = (out, \<lparr>os_db = d, os_redis = Map.empty\<rparr>)"
    using toy_link by blast
  let ?w2 = "link_world\<lparr>w_db := d, w_redis := Map.empty\<rparr>"
  obtain row where d: "d = toy_owner\<lparr>oauth_infos := [row], oauth_infos_seq := 2\<rparr>" "oa_ID row = 1" "oa_UserID row = 7" "oa_Expired row = None"
    using toy_linked_tables [OF cb l(4)] by blast
  obtain token where u: "requester (new_services toy_cfg toy_instances key_service) (key_request token) = Some 7" using toy_key_user by blast
  have inv1: "db_inv toy_owner" by (simp add: db_inv_def table_defs toy_owner_def empty_db_def identity_ok_def)
  have inv: "db_inv (w_db ?w2)"
    using d(2,3) by (simp add: d(1)) (simp add: db_inv_def table_defs toy_owner_def empty_db_def identity_ok_def)
  have w2: "w_db ?w2 = toy_owner\<lparr>oauth_infos := [row], oauth_infos_seq := 2\<rparr>" by (simp add: d(1))
  obtain e2 i2 w3 where k: "toy_gin newRouter (rq_method (key_request token)) (rq_path (key_request token)) = Inr (e2, i2)" "re_endpoint e2 = E_CreatApikey"
      "serve toy_gin (new_services toy_cfg toy_instances key_service) (key_request token) ?w2
        = (KeyOut (no_store (SuccessWithStatus 201 (Some (ApiKeyData sample_raw)) ''success'')), w3)"
    using toy_key [OF u w2 d(2,3) inv] by blast
  obtain req where req: "bind_creat (rq_body (key_request token)) = Some req" "cr_OAuthInfo req = [1]"
  proof -
    have "case bind_creat ''{\"oauth_info\":[1]}'' of None \<Rightarrow> False | Some r \<Rightarrow> cr_OAuthInfo r = [1]" by code_simp
    then show ?thesis using that by (auto simp: key_request_def split: option.splits)
  qed
  obtain e3 i3 where r: "toy_gin newRouter (rq_method chat_message) (rq_path chat_message) = Inr (e3, i3)" "re_endpoint e3 = E_ChatOpenAI"
    using toy_routes(3) by (auto simp: chat_message_def toy_request_def split: sum.splits)
  have h: "Fields (rq_authorization chat_message) = [''Bearer'', sample_raw]" "EqualFold ''Bearer'' ''Bearer''"
      "IsValidRequestID (rq_requestID chat_message)" "bind_chat (rq_body chat_message) = Some (''gpt-5.5'', True)" by code_simp+
  have v: "sv_oauth chat_service = sv_oauth link_service" "sha256Sum (sv_auth chat_service) = sha256Sum (sv_auth key_service)"
      "sv_keyFaults chat_service = no_faults" "sv_ctxError chat_service = None" "(\<lambda>n. sv_rnd link_service (Suc n)) = toy_nonces"
    by (simp_all add: toy_services chat_service_def key_service_def toy_sv_def no_faults_def fun_eq_iff link_service_def toy_nonces_def)
  have "aead_laws (oauthCipher (sv_oauth link_service))"
    using toy_laws(2) by (simp add: toy_services)
  from linked_account_serves_chat [OF toy_gin_ok _ this _ v(2) l refl _ req(1) k(1-3) _ r(1) _ h(3,1,2,4) _ v(3,4), of FormatOpenAI toy_instances]
  obtain data flow tok where a: "redis_get (sv_now link_service) (oidcStateKey (rq_query link_request ''state'')) (w_redis link_world) = Some data"
      "flow_of (codec (sv_oauth link_service)) data = Some flow"
      "svc_Exchange toy_oauth (rq_query link_request ''code'') (lf_Verifier flow) (lf_Provider flow) ''browser'' = Inr tok"
    and out: "serve toy_gin (new_services toy_cfg toy_instances chat_service) chat_message w3 =
        (ChatOut (case sv_chatStream chat_service (codex_request (sv_sdk chat_service) FormatOpenAI ''gpt-5.5'' (rq_body chat_message) (AccessToken tok)) of
           Inl e \<Rightarrow> stream_out FormatOpenAI [] (Some e)
         | Inr (chunks, ending) \<Rightarrow> stream_out FormatOpenAI
            (chunk_events (sv_sdk chat_service) FormatOpenAI FormatCodex ''gpt-5.5'' (rq_body chat_message)
               (TranslateRequest (sv_sdk chat_service) FormatOpenAI FormatCodex ''gpt-5.5'' (rq_body chat_message) True) None chunks
             @ (if ending = None \<and> FormatOpenAI = FormatOpenAI then [done_event] else [])) ending), w3)"
    using inv1 d(2,4) req(2) r(2) v(1) by (auto simp: link_world_def d(1) codex_models_def toy_oauth_made toy_services expired_at_def)
  have "lf_Provider flow = ''oai''" using a(3) by (auto simp: svc_Exchange_def authFor_def toy_oauth_def split: if_splits)
  then have "AccessToken tok = ''access''" using a(3) by (auto simp: toy_exchange token_of_def toy_tokens_def)
  then have "serve toy_gin (new_services toy_cfg toy_instances chat_service) chat_message w3
      = (ChatOut (EventStream [''data: data: a'' @ blank_line, done_event]), w3)"
    unfolding out by (simp add: chat_service_def key_service_def toy_sv_def codex_request_def TranslateStream_def frame_event_def blank_line_def
        stream_out_def done_event_def newline_def)
  then show ?thesis using l(3) k(3) by (intro exI [of _ token] exI [of _ ?w2] exI [of _ w3] exI [of _ out] conjI) simp_all
qed

end
