(* ===== verification/KeyRace.thy ===== *)
theory KeyRace imports ApiKeyProps begin

text \<open>
  Creating a key while other requests run: \<open>CreatApikey\<close> of \<open>internal/modules/apikey\<close> counts the accounts and
  the external keys of the user in two queries and saves the key in a transaction of its own, so that
  accounts can come and go between the three.
\<close>

section \<open>The creation with its interleaving\<close>

text \<open>The checks before the second query; the result are the accounts without duplicates.\<close>

definition creat_start :: "key_faults \<Rightarrow> uint64 \<Rightarrow> uint64 list \<Rightarrow> uint64 list \<Rightarrow> db \<Rightarrow> go_error + uint64 list" where
  "creat_start io userid oauthinfos externalKeyIDs d =
     (if userid = 0 \<or> max_bigint < userid \<or> (oauthinfos = [] \<and> externalKeyIDs = [])
      then Inl ErrInvalidAccounts
      else case dedup_ids oauthinfos of Inl e \<Rightarrow> Inl e | Inr ids \<Rightarrow>
      (case (if ids = [] then Inr () else svc_checkOauth io userid ids d) of
         Inl e \<Rightarrow> Inl e | Inr _ \<Rightarrow> Inr ids))"

text \<open>What \<open>CreatApikey\<close> does once its checks have passed.\<close>

definition creat_save ::
  "key_faults \<Rightarrow> (bytes \<Rightarrow> bytes) \<Rightarrow> time \<Rightarrow> go_error + bytes \<Rightarrow> uint64 \<Rightarrow> uint64 list \<Rightarrow> uint64 list
    \<Rightarrow> db \<Rightarrow> (go_error + bytes) \<times> db" where
  "creat_save io sha256 now rnd userid ids externalIDs d =
     (case generateApikey sha256 rnd of
        Inl e \<Rightarrow> (Inl e, d)
      | Inr (apikeyraw, apikeyhash) \<Rightarrow>
          if_ok (SaveApikey io now
              ((toApikeyinfo apikeyhash userid)\<lparr>key_KeyPrefix := take 12 apikeyraw\<rparr>)
              (toApikeyaccounts userid ids)
              (map (\<lambda>x. \<lparr>ek_UserID = userid, ek_ApiKeyID = 0, ek_ExternalApiKeyID = x,
                         ek_CreatedAt = 0\<rparr>) externalIDs) d)
            (\<lambda>_ d. (Inr apikeyraw, d)))"

text \<open>
  \<open>CreatApikey\<close> with what other requests do to the tables: \<open>first\<close> after the accounts have been counted,
  \<open>second\<close> after the external keys have been. The result is what the tables are when it returns.
\<close>

definition CreatApikey_racing ::
  "(db \<Rightarrow> db) \<Rightarrow> (db \<Rightarrow> db) \<Rightarrow> key_faults \<Rightarrow> (bytes \<Rightarrow> bytes) \<Rightarrow> time \<Rightarrow> go_error + bytes \<Rightarrow> uint64 \<Rightarrow> uint64 list
    \<Rightarrow> uint64 list \<Rightarrow> db \<Rightarrow> (go_error + bytes) \<times> db" where
  "CreatApikey_racing first second io sha256 now rnd userid oauthinfos externalKeyIDs d =
     (case creat_start io userid oauthinfos externalKeyIDs d of
        Inl e \<Rightarrow> (Inl e, d)
      | Inr ids \<Rightarrow>
          (let d = first d in
           case dedup_ids externalKeyIDs of
             Inl e \<Rightarrow> (Inl e, d)
           | Inr externalIDs \<Rightarrow>
               (case check_external io userid externalIDs d of
                  Inl e \<Rightarrow> (Inl e, d)
                | Inr _ \<Rightarrow> creat_save io sha256 now rnd userid ids externalIDs (second d))))"

text \<open>Without others it is the creation.\<close>

lemma CreatApikey_alone: "CreatApikey_racing id id = CreatApikey"
  by (intro ext) (simp add: CreatApikey_racing_def CreatApikey_def creat_targets_def creat_start_def creat_save_def Let_def
    split: sum.splits)

lemma CreatApikey_targets:
  "CreatApikey io sha256 now rnd u oa ext d = (case creat_targets io u oa ext d of
     Inl e \<Rightarrow> (Inl e, d) | Inr (ids, exts) \<Rightarrow> creat_save io sha256 now rnd u ids exts d)"
  by (simp add: CreatApikey_def creat_save_def split: sum.splits prod.splits)

section \<open>Checking again\<close>

text \<open>Identifiers that were counted once are counted again where the user still has all of them.\<close>

lemma accounts_checked_again:
  assumes "svc_checkOauth io u ids d = Inr ()" and "db_inv s" and "distinct ids"
    and "\<forall>x \<in> set ids. (u, x) \<in> set (oauth_refs s)"
  shows "svc_checkOauth io u ids s = Inr ()"
  using assms owned_accounts_counted [OF assms(2,3), of u]
  by (auto simp: svc_checkOauth_def CountOwnedAccounts_def query_def split: if_splits sum.splits option.splits fault.splits)

lemma external_checked_again:
  assumes "check_external io u exts d = Inr ()" and "db_inv s" and "distinct exts"
    and "\<forall>x \<in> set exts. (u, x) \<in> set (external_refs s)"
  shows "check_external io u exts s = Inr ()"
  using assms owned_external_counted [OF assms(2,3), of u]
  by (auto simp: check_external_def CountOwnedExternalKeys_def query_def split: if_splits sum.splits option.splits fault.splits)

text \<open>Saving a key needs what it is bound to, whatever was checked before.\<close>

lemma creat_save_refs:
  assumes "creat_save io sha256 now rnd u ids exts d = (r, d')"
  shows "(\<forall>x \<in> set ids. (u, x) \<in> set (oauth_refs d)) \<and> (\<forall>x \<in> set exts. (u, x) \<in> set (external_refs d))
    \<or> (isl r \<and> d' = d)"
proof (cases "generateApikey sha256 rnd")
  case (Inl e)
  with assms show ?thesis by (auto simp: creat_save_def isl_def)
next
  case (Inr rh)
  then obtain raw h where g: "generateApikey sha256 rnd = Inr (raw, h)" by (cases rh) simp
  then have h: "h = key_hash sha256 raw" by (auto elim: generateApikey_InrD)
  let ?body = "save_body io now ((toApikeyinfo h u)\<lparr>key_KeyPrefix := take 12 raw\<rparr>) (toApikeyaccounts u ids)
    (map (\<lambda>x. \<lparr>ek_UserID = u, ek_ApiKeyID = 0, ek_ExternalApiKeyID = x, ek_CreatedAt = 0\<rparr>) exts)"
  show ?thesis
  proof (cases "fst (?body d)")
    case (Inl e)
    then have "transaction (io Q_Commit) ?body d = (Inl e, d)" by (cases "?body d") (simp add: transaction_def)
    with assms g show ?thesis
      by (auto simp: creat_save_def SaveApikey_def fk_as_accounts_def if_ok_def isl_def split: if_splits)
  next
    case (Inr x)
    then have "?body d = (Inr x, snd (?body d))" by (simp add: prod_eq_iff)
    from save_body_InrD(2,3) [OF this [unfolded h]] show ?thesis by blast
  qed
qed

text \<open>A creation that reaches its end: at that moment the checks pass again, or it is refused.\<close>

lemma creat_save_atomic:
  assumes "u \<noteq> 0" and "u \<le> max_bigint" and "oa \<noteq> [] \<or> ext \<noteq> []" and ids: "dedup_ids oa = Inr ids" and exts: "dedup_ids ext = Inr exts"
    and a: "ids \<noteq> [] \<Longrightarrow> svc_checkOauth io u ids d = Inr ()" and e: "check_external io u exts d1 = Inr ()" and "db_inv s"
    and save: "creat_save io sha256 now rnd u ids exts s = (r, d')"
  shows "d' = snd (CreatApikey io sha256 now rnd u oa ext s)
    \<and> (r = fst (CreatApikey io sha256 now rnd u oa ext s) \<or> isl r \<and> isl (fst (CreatApikey io sha256 now rnd u oa ext s)))"
proof (cases "creat_targets io u oa ext s")
  case (Inr t)
  then have "t = (ids, exts)" using creat_targets_InrD(4,5) [of io u oa ext s "fst t" "snd t"] ids exts by (simp add: prod_eq_iff)
  with Inr save show ?thesis by (simp add: CreatApikey_targets)
next
  case (Inl err)
  have dist: "distinct ids" "distinct exts" using ids exts by (auto simp: dedup_ids_eq split: if_splits)
  have "\<not> ((\<forall>x \<in> set ids. (u, x) \<in> set (oauth_refs s)) \<and> (\<forall>x \<in> set exts. (u, x) \<in> set (external_refs s)))"
  proof
    assume refs: "(\<forall>x \<in> set ids. (u, x) \<in> set (oauth_refs s)) \<and> (\<forall>x \<in> set exts. (u, x) \<in> set (external_refs s))"
    have "ids \<noteq> [] \<Longrightarrow> svc_checkOauth io u ids s = Inr ()"
      using accounts_checked_again [OF a \<open>db_inv s\<close> dist(1)] refs by blast
    moreover have "check_external io u exts s = Inr ()"
      using external_checked_again [OF e \<open>db_inv s\<close> dist(2)] refs by blast
    ultimately have "creat_targets io u oa ext s = Inr (ids, exts)"
      using assms(1-3) leD [OF assms(2)] by (auto simp: creat_targets_def ids exts)
    with Inl show False by simp
  qed
  with creat_save_refs [OF save] have "isl r \<and> d' = s" by blast
  with Inl show ?thesis by (simp add: CreatApikey_targets)
qed

text \<open>C9: although a creation checks what it binds a key to in two queries and saves the key in a transaction
  of its own, it is atomic whatever other requests do in between: there is one moment during it at which
  the creation, run alone, does the same. It leaves the same tables and returns the same, up to which
  error it is that refuses. In particular an account deleted between its check and the insertion is never bound.\<close>

theorem creation_is_atomic:
  assumes "db_inv (second (first d))"
    and "CreatApikey_racing first second io sha256 now rnd u oa ext d = (r, d')"
  shows "\<exists>s \<in> {d, first d, second (first d)}. d' = snd (CreatApikey io sha256 now rnd u oa ext s)
    \<and> (r = fst (CreatApikey io sha256 now rnd u oa ext s) \<or> isl r \<and> isl (fst (CreatApikey io sha256 now rnd u oa ext s)))"
proof -
  let ?same = "\<lambda>s. d' = snd (CreatApikey io sha256 now rnd u oa ext s)
    \<and> (r = fst (CreatApikey io sha256 now rnd u oa ext s) \<or> isl r \<and> isl (fst (CreatApikey io sha256 now rnd u oa ext s)))"
  note run = assms(2) [unfolded CreatApikey_racing_def Let_def]
  have refused: "?same s" if "isl (creat_targets io u oa ext s)" and "isl r" and "d' = s" for s
    using that by (cases "creat_targets io u oa ext s") (simp_all add: CreatApikey_targets)
  show ?thesis
  proof (cases "creat_start io u oa ext d")
    case (Inl e)
    then have "?same d" using run by (intro refused) (auto simp: creat_start_def creat_targets_def split: if_splits sum.splits)
    then show ?thesis by blast
  next
    case start: (Inr ids)
    show ?thesis
    proof (cases "dedup_ids ext")
      case (Inl e)
      then have "?same (first d)" using start run
        by (intro refused) (auto simp: creat_start_def creat_targets_def isl_def split: if_splits sum.splits)
      then show ?thesis by blast
    next
      case exts: (Inr exts)
      show ?thesis
      proof (cases "check_external io u exts (first d)")
        case (Inl e)
        then have "?same (first d)" using start exts run
          by (intro refused) (auto simp: creat_start_def creat_targets_def isl_def split: if_splits sum.splits)
        then show ?thesis by blast
      next
        case (Inr x)
        have "?same (second (first d))"
          by (rule creat_save_atomic [where ids = ids and exts = exts and d = d and ?d1.0 = "first d"])
            (use start exts Inr run assms(1) in \<open>auto simp: creat_start_def split: if_splits sum.splits\<close>)
        then show ?thesis by blast
      qed
    qed
  qed
qed

text \<open>An account that is deleted after it has been counted.\<close>

definition unlink_third :: "db \<Rightarrow> db" where
  "unlink_third d = snd (delete_oauth (\<lambda>a. oa_ID a = 3) d)"

theorem creation_is_atomic_witness:
  "fst (CreatApikey_racing id unlink_third no_faults sample_sha 5 (Inr sample_secret) 1 [3, 1, 3] [1] sample_db) = Inl ErrInvalidAccounts
   \<and> snd (CreatApikey_racing id unlink_third no_faults sample_sha 5 (Inr sample_secret) 1 [3, 1, 3] [1] sample_db) = unlink_third sample_db
   \<and> (\<exists>s \<in> {sample_db, unlink_third sample_db}.
        unlink_third sample_db = snd (CreatApikey no_faults sample_sha 5 (Inr sample_secret) 1 [3, 1, 3] [1] s))"
proof -
  have r: "CreatApikey_racing id unlink_third no_faults sample_sha 5 (Inr sample_secret) 1 [3, 1, 3] [1] sample_db
      = (Inl ErrInvalidAccounts, unlink_third sample_db)" by code_simp
  have "db_inv (unlink_third (id sample_db))" using sample_inv by (simp add: unlink_third_def delete_oauth_keeps)
  from creation_is_atomic [OF this r] r show ?thesis by auto
qed

end
