(* ===== verification/Spec2Isabelle.thy ===== *)
theory Spec2Isabelle imports KeyHttpProps SessionProps UpstreamProps ChatProps AuthProps ExternalProps OAuthProps ConfigProps
  StartupProps ShutdownProps ApiProps Secrets EndToEnd KeyRace begin

text \<open>
  A verification development for the Go backend of erent, a gateway for accounts of AI providers.
  All files named below are under \<open>backend/\<close>; most are under \<open>backend/internal/\<close>.

  \<^bold>\<open>The program.\<close> Three processes. The API (\<open>cmd/api\<close>) keeps users, linked provider accounts, external keys
  and API keys in PostgreSQL, sessions and login states in Redis, and the policies of its roles in
  Casbin. It talks over gRPC to the upstream service (\<open>cmd/upstream\<close>), the only process that talks to
  providers: it exchanges and refreshes tokens, runs the device flow and sends chat requests. The gateway
  (\<open>cmd/gateway\<close>) is an optional reverse proxy before the API. A request to the API is routed, passes the
  filters of its route (request identifier, access token or API key), and reaches one handler; handlers
  bind the JSON body, call a service, and turn its errors into replies; services call repositories and
  the client of the upstream service (\<open>directory/upstream\<close>).

  \<^bold>\<open>Shared.\<close> \<open>Prelude\<close>: machine integers (\<open>uint64\<close> is a 64 bit word), times in nanoseconds, Go errors with
  wrapping and \<open>errors.Is\<close>, gRPC statuses, calls that fail or lose their reply, transactions, and the
  locales \<open>kept\<close> (an invariant under calls and transactions) and \<open>registry\<close>. \<open>GoLib\<close>, \<open>GoText\<close>, \<open>GoUrl\<close>,
  \<open>Json\<close>, \<open>JsonRoundtrip\<close>, \<open>HttpClient\<close>, \<open>Http\<close>: the functions of Go's library the sources use, written
  out on byte strings, and the response contract (\<open>dto/response\<close>). \<open>Tables\<close>: the tables of \<open>migrations/\<close>
  with their keys, unique indexes and references as \<open>db_inv\<close>, and the SQL statements as updates of them.

  \<^bold>\<open>Theories and sources.\<close>
  \<^item> \<open>ApiKeys\<close>, \<open>ApiKeyFacts\<close>, \<open>ApiKeyAuth\<close>, \<open>ApiKeyHttp\<close>: \<open>modules/apikey\<close>. The repository and service with every
    statement and transaction, the checklist of models, the check of a key, the choice of a credential,
    the filter and the handlers. \<open>KeyRace\<close> is the creation of a key with other requests between its statements.
  \<^item> \<open>Users\<close>, \<open>Access\<close>, \<open>Jwt\<close>, \<open>Sessions\<close>, \<open>Auth\<close>: \<open>modules/user\<close>, \<open>middleware/casbin\<close>, \<open>middleware/jwt\<close>,
    \<open>middleware/redis\<close>, \<open>modules/auth\<close>. Accounts, roles and permissions, access tokens, refresh tokens
    with the rotation script of Redis, and signing in.
  \<^item> \<open>Crypto\<close>, \<open>ExternalKeys\<close>: \<open>security/encryption.go\<close>, \<open>config/oauth.go\<close>, \<open>modules/external_apikey\<close>.
  \<^item> \<open>OAuth\<close>: \<open>modules/oauth\<close> with \<open>oidc\<close> and \<open>openai\<close>. The login in a browser, the device flow, refresh, list
    and delete, and the client of a provider from its metadata.
  \<^item> \<open>UpstreamServer\<close>, \<open>UpstreamOAuth\<close>, \<open>Directory\<close>: \<open>upstreamserver\<close> (chat, streams, exchange, refresh,
    provider metadata, ID tokens, device flow) and \<open>directory/upstream\<close>, its client.
  \<^item> \<open>Translator\<close>, \<open>ChatRoutes\<close>, \<open>ChatService\<close>, \<open>ChatHandler\<close>: \<open>modules/translator\<close>, \<open>modules/chat\<close>. Routing,
    translation, framing of events, aggregation of a stream, the handler, and its two goroutines as the
    step relation \<open>relay_step\<close>.
  \<^item> \<open>Config\<close>: \<open>config\<close>, \<open>cmd/api/config.go\<close>, \<open>cmd/api/bootstrap.go\<close>, the configuration of \<open>cmd/gateway\<close>.
  \<^item> \<open>Startup\<close>: \<open>cmd/api/instances.go\<close>, \<open>cmd/api/main.go\<close>, \<open>database/connect\<close>, \<open>rpc/transport\<close>, \<open>cmd/upstream\<close>,
    \<open>cmd/gateway\<close>, both health checks, the checks of \<open>logger\<close>.
  \<^item> \<open>Shutdown\<close>: the two goroutines of \<open>Serve\<close> of \<open>upstreamserver\<close> and the timer that ends a graceful stop, as the
    step relation \<open>serve_step\<close>, in which time, signals and calls are steps of the environment.
  \<^item> \<open>Server\<close>: \<open>middleware/httpserver\<close>, \<open>cmd/api/health.go\<close>, \<open>cmd/api/routes.go\<close> and the routes of each module.
  \<^item> \<open>Services\<close>: the constructors of the services and the two instances \<open>modules/apikey\<close> keeps for the process.
  \<^item> \<open>Api\<close>: the services of a started API (\<open>new_services\<close>), the whole API, a request from its route to its reply (\<open>serve\<close>), and the states it reaches from
    a successful start (\<open>reachable\<close>).

  \<^bold>\<open>What is shown.\<close> The properties are in the theories named \<open>...Props\<close>, each after a text that states it.
  \<open>ApiProps\<close>: no request changes the rows of another user, and without credentials each endpoint changes only
  what it is there for; every reachable state satisfies the constraints of the tables. \<open>Secrets\<close>: in every
  reachable state no password, key or token is stored as it is. \<open>ApiKeyProps\<close>, \<open>KeyHttpProps\<close>: what each
  operation on keys does, that a failure changes nothing, who is admitted, what is listed. \<open>KeyRace\<close>: a creation
  is atomic although its checks and its insertion are not one transaction. \<open>AuthProps\<close>,
  \<open>SessionProps\<close>: who can log in, that a session follows the role in the table, that refresh tokens are
  redeemed once in any history. \<open>ExternalProps\<close>, \<open>OAuthProps\<close>: stored keys are recovered, a browser login
  and a device login store the verified account for the user who started them, a refresh keeps whose
  account it is. \<open>UpstreamProps\<close>: when a stream is complete, how the poll loop ends, and server and client
  together against a specification, for the exchange of a code and for a device code, each with a table
  of the errors the API gets (the calls of chats are the ones whose gRPC errors reach it unchanged).
  \<open>ChatProps\<close>: a chat request from the filter to the client's bytes, and the two goroutines under every
  interleaving, both of which return also when the client leaves.
  \<open>EndToEnd\<close>: across all parts, the account linked by a callback answers the chat requests made with a key
  created for it. \<open>ConfigProps\<close>, \<open>StartupProps\<close>: which configurations are accepted, with which
  passwords the bootstrap account can log in, and what the API leaves open, however it ends. \<open>ShutdownProps\<close>: on a signal the upstream service ends,
  held up by calls in flight only, and by those for no longer than its timeout, and it ends gracefully.

  \<^bold>\<open>Parameters.\<close> Code that is not in the repository is an argument: SHA-256, bcrypt, the AEAD, the JWT
  library, Casbin, gin's matching of paths, the SDK that converts between formats, the drivers of
  PostgreSQL and Redis, the HTTP answers of providers, random bytes and the clock. What a property relies
  on is a named predicate (\<open>aead_laws\<close>, \<open>jwt_laws\<close>, \<open>casbin_laws\<close>, \<open>auth_laws\<close>, \<open>codec_laws\<close>, \<open>host_laws\<close>,
  \<open>gin_laws\<close>, \<open>grpc_laws\<close>), and each has an instance in a witness. Statements of the database fail, lose their reply or
  fail to commit as a fault function says, so properties hold for every pattern of failures.

  \<^bold>\<open>Bounds.\<close> The poll loop of the device flow makes at most 901 attempts, the interval being at least one
  second and the flow lasting 15 minutes; \<open>poll_device_flow_outcome\<close> shows that this is enough. JSON
  documents nest at most 10000 deep, as in \<open>encoding/json\<close>; scanners have their input as a measure or its
  length as fuel. Random bytes are a source from which each buffer takes as many as it has (\<open>fill_bytes\<close>):
  32 for keys, session tokens and states, 12 for nonces, 16 for request identifiers. A shutdown takes at most ten steps of the program, which the state itself bounds. Machine integers wrap where the code can reach the bound; lengths and counters of Go's
  \<open>int\<close> that are bounded by a string in memory are natural numbers.

  \<^bold>\<open>Not modelled.\<close> Generated gRPC code, the SQL of the migrations (only its constraints), the frontend, the
  helper of database tests, the rotation and JSON encoding of the log, the standard library's reverse
  proxy, and fractions in \<open>time.ParseDuration\<close> (a
  parameter, since they are rounded in floating point). Requests to the API are served one after the
  other, except where the code is about concurrency: the goroutines of a chat stream and of a shutdown, the
  creation of a key, and the sessions, whose steps interleave with those of any other request. Constructors of repositories and handlers,
  which only wrap their argument, have no definition.
\<close>

end
